(* ===== verification/Prelude.thy ===== *)
theory Prelude
  imports Main "HOL-Library.List_Lexorder" "HOL-Library.Char_ord"
begin

text \<open>
  What every theory of the development shares: the JavaScript values and library functions the
  source uses (nullish values, trimming, case conversion, \<open>Set\<close> as an insertion-ordered list),
  the HTTP errors as a datatype, and the error-and-state monad in which the services are written,
  with the collection \<open>run\<close> of equations that execute a monadic program symbolically.
  Strings are ASCII text: one \<open>char\<close> is one UTF-16 code unit of the source.
\<close>

named_theorems run \<open>symbolic execution of monadic programs\<close>
named_theorems frame \<open>what an operation leaves unchanged\<close>
named_theorems inv \<open>invariant preservation\<close>

section \<open>JavaScript values\<close>

text \<open>
  An optional DTO field is absent (\<open>undefined\<close>), \<open>null\<close> (class-validator's \<open>IsOptional\<close> lets it
  through) or a value. Where the code only uses \<open>??\<close> or truthiness the two empty cases collapse
  and an \<open>option\<close> is used instead.
\<close>

datatype 'a js = Undefined | Null | Val 'a

fun js_option :: "'a js \<Rightarrow> 'a option" where
  "js_option (Val v) = Some v"
| "js_option _ = None"

text \<open>\<open>a ?? b\<close>\<close>

definition coalesce :: "'a option \<Rightarrow> 'a \<Rightarrow> 'a" where
  "coalesce a b = (case a of None \<Rightarrow> b | Some v \<Rightarrow> v)"

lemma coalesce_simps [simp]:
  "coalesce None b = b" "coalesce (Some v) b = v"
  by (simp_all add: coalesce_def)

text \<open>Truthiness of an optional string: \<open>undefined\<close>, \<open>null\<close> and the empty string are falsy.\<close>

definition truthy :: "string option \<Rightarrow> string option" where
  "truthy a = (case a of None \<Rightarrow> None | Some v \<Rightarrow> if v = [] then None else Some v)"

lemma truthy_simps [simp]:
  "truthy None = None" "truthy (Some []) = None" "truthy (Some (c # cs)) = Some (c # cs)"
  by (simp_all add: truthy_def)

lemma truthy_Some_iff: "truthy a = Some v \<longleftrightarrow> a = Some v \<and> v \<noteq> []"
  by (auto simp: truthy_def split: option.splits if_splits)

lemma truthy_None_iff: "truthy a = None \<longleftrightarrow> a = None \<or> a = Some []"
  by (auto simp: truthy_def split: option.splits if_splits)

subsection \<open>String functions\<close>

text \<open>\<open>String.prototype.trim\<close>: tab, line feed, vertical tab, form feed, carriage return, space.\<close>

definition is_space :: "char \<Rightarrow> bool" where
  "is_space c \<longleftrightarrow> of_char c \<in> {9, 10, 11, 12, 13, 32 :: nat}"

definition trim :: "string \<Rightarrow> string" where
  "trim s = rev (dropWhile is_space (rev (dropWhile is_space s)))"

definition lower_char :: "char \<Rightarrow> char" where
  "lower_char c = (let n = of_char c :: nat in if 65 \<le> n \<and> n \<le> 90 then char_of (n + 32) else c)"

definition upper_char :: "char \<Rightarrow> char" where
  "upper_char c = (let n = of_char c :: nat in if 97 \<le> n \<and> n \<le> 122 then char_of (n - 32) else c)"

definition toLowerCase :: "string \<Rightarrow> string" where
  "toLowerCase s = map lower_char s"

definition toUpperCase :: "string \<Rightarrow> string" where
  "toUpperCase s = map upper_char s"

text \<open>\<open>split(sep)\<close> on a one-character separator and \<open>join(sep)\<close>.\<close>

fun split_on :: "char \<Rightarrow> string \<Rightarrow> string list" where
  "split_on sep [] = [[]]"
| "split_on sep (c # cs) =
     (if c = sep then [] # split_on sep cs
      else (case split_on sep cs of [] \<Rightarrow> [[c]] | w # ws \<Rightarrow> (c # w) # ws))"

fun join :: "string \<Rightarrow> string list \<Rightarrow> string" where
  "join sep [] = []"
| "join sep [w] = w"
| "join sep (w # v # ws) = w @ sep @ join sep (v # ws)"

lemma split_on_nonempty [simp]: "split_on sep s \<noteq> []"
  by (induction s) (auto split: list.splits)

lemma split_on_no_sep: "sep \<notin> set s \<Longrightarrow> split_on sep s = [s]"
  by (induction s) auto

lemma split_on_append:
  "sep \<notin> set a \<Longrightarrow> split_on sep (a @ sep # b) = a # split_on sep b"
  by (induction a) auto

lemma lower_char_idem [simp]: "lower_char (lower_char c) = lower_char c"
  by (simp add: lower_char_def Let_def)

lemma toLowerCase_idem [simp]: "toLowerCase (toLowerCase s) = toLowerCase s"
  by (simp add: toLowerCase_def)

lemma hd_dropWhile_not: "dropWhile P xs \<noteq> [] \<Longrightarrow> \<not> P (hd (dropWhile P xs))"
  by (induction xs) auto

lemma dropWhile_idem: "(xs = [] \<or> \<not> P (hd xs)) \<Longrightarrow> dropWhile P xs = xs"
  by (cases xs) auto

lemma hd_drop_suffix:
  assumes "rev (dropWhile P (rev xs)) \<noteq> []"
  shows "hd (rev (dropWhile P (rev xs))) = hd xs"
proof -
  have "rev (dropWhile P (rev xs)) @ rev (takeWhile P (rev xs)) = xs"
    by (metis rev_append rev_rev_ident takeWhile_dropWhile_id)
  then show ?thesis using assms by (metis hd_append2)
qed

lemma trim_idem [simp]: "trim (trim s) = trim s"
proof -
  let ?l = "dropWhile is_space s" and ?t = "rev (dropWhile is_space (rev (dropWhile is_space s)))"
  have "?t = [] \<or> \<not> is_space (hd ?t)"
    using hd_dropWhile_not [of is_space s] hd_drop_suffix [of is_space ?l]
    by (metis dropWhile.simps(1) rev.simps(1))
  then have step: "dropWhile is_space ?t = ?t" by (rule dropWhile_idem)
  have idem: "dropWhile is_space (dropWhile is_space xs) = dropWhile is_space xs" for xs
    by (rule dropWhile_idem) (use hd_dropWhile_not [of is_space xs] in blast)
  show ?thesis
    unfolding trim_def by (simp add: step idem)
qed

subsection \<open>\<open>Set\<close> as a list in insertion order\<close>

fun uniq :: "'a list \<Rightarrow> 'a list" where
  "uniq [] = []"
| "uniq (x # xs) = x # filter (\<lambda>y. y \<noteq> x) (uniq xs)"

definition set_add :: "'a \<Rightarrow> 'a list \<Rightarrow> 'a list" where
  "set_add x s = (if x \<in> set s then s else s @ [x])"

definition set_delete :: "'a \<Rightarrow> 'a list \<Rightarrow> 'a list" where
  "set_delete x s = filter (\<lambda>y. y \<noteq> x) s"

lemma set_uniq [simp]: "set (uniq xs) = set xs"
  by (induction xs) auto

lemma distinct_uniq [simp]: "distinct (uniq xs)"
  by (induction xs) auto

lemma uniq_id: "distinct xs \<Longrightarrow> uniq xs = xs"
  by (induction xs) (auto simp: filter_id_conv)

lemma set_set_add [simp]: "set (set_add x s) = insert x (set s)"
  by (auto simp: set_add_def)

lemma distinct_set_add [simp]: "distinct s \<Longrightarrow> distinct (set_add x s)"
  by (auto simp: set_add_def)

lemma set_set_delete [simp]: "set (set_delete x s) = set s - {x}"
  by (auto simp: set_delete_def)

lemma distinct_set_delete [simp]: "distinct s \<Longrightarrow> distinct (set_delete x s)"
  by (auto simp: set_delete_def)

lemma uniq_Nil_iff [simp]: "uniq xs = [] \<longleftrightarrow> xs = []"
  by (cases xs) auto

section \<open>Errors\<close>

text \<open>
  The exceptions the source throws, with the message it passes: the NestJS HTTP exceptions, the
  known request errors of the database client by their code, and any other JavaScript error.
\<close>

datatype error =
    BadRequest string
  | Unauthorized string
  | Forbidden string
  | NotFound string
  | Conflict string
  | NotImplemented string
  | PrismaKnown string
  | JsError string

section \<open>The monad\<close>

text \<open>
  A service method is an action: it takes the state, returns a result or throws, and leaves a new
  state. A throw does not undo what was done before it; only a database transaction does.
\<close>

type_synonym ('s, 'a) act = "'s \<Rightarrow> (error + 'a) \<times> 's"

definition ret :: "'a \<Rightarrow> ('s, 'a) act" where
  "ret v = (\<lambda>s. (Inr v, s))"

definition throw :: "error \<Rightarrow> ('s, 'a) act" where
  "throw e = (\<lambda>s. (Inl e, s))"

definition bind :: "('s, 'a) act \<Rightarrow> ('a \<Rightarrow> ('s, 'b) act) \<Rightarrow> ('s, 'b) act" where
  "bind m k = (\<lambda>s. case m s of (Inl e, s1) \<Rightarrow> (Inl e, s1) | (Inr v, s1) \<Rightarrow> k v s1)"

definition gets :: "('s \<Rightarrow> 'a) \<Rightarrow> ('s, 'a) act" where
  "gets f = (\<lambda>s. (Inr (f s), s))"

definition modify :: "('s \<Rightarrow> 's) \<Rightarrow> ('s, unit) act" where
  "modify f = (\<lambda>s. (Inr (), f s))"

text \<open>\<open>if (!b) throw e\<close> and \<open>if (!found) throw e\<close> for an optional value.\<close>

definition require :: "bool \<Rightarrow> error \<Rightarrow> ('s, unit) act" where
  "require b e = (if b then ret () else throw e)"

definition some_or :: "'a option \<Rightarrow> error \<Rightarrow> ('s, 'a) act" where
  "some_or v e = (case v of None \<Rightarrow> throw e | Some r \<Rightarrow> ret r)"

text \<open>\<open>try { m } catch (e) { throw h(e) }\<close>\<close>

definition catch_map :: "(error \<Rightarrow> error) \<Rightarrow> ('s, 'a) act \<Rightarrow> ('s, 'a) act" where
  "catch_map h m = (\<lambda>s. case m s of (Inl e, s1) \<Rightarrow> (Inl (h e), s1) | (Inr v, s1) \<Rightarrow> (Inr v, s1))"

text \<open>\<open>for (const x of xs) { out.push(await f(x)) }\<close>\<close>

primrec for_each :: "'a list \<Rightarrow> ('a \<Rightarrow> ('s, 'b) act) \<Rightarrow> ('s, 'b list) act" where
  "for_each [] f = ret []"
| "for_each (a # as) f = bind (f a) (\<lambda>b. bind (for_each as f) (\<lambda>bs. ret (b # bs)))"

lemma ret_run [run]: "ret v s = (Inr v, s)"
  by (simp add: ret_def)

lemma throw_run [run]: "throw e s = (Inl e, s)"
  by (simp add: throw_def)

lemma gets_run [run]: "gets f s = (Inr (f s), s)"
  by (simp add: gets_def)

lemma modify_run [run]: "modify f s = (Inr (), f s)"
  by (simp add: modify_def)

lemma require_run [run]: "require b e s = (if b then (Inr (), s) else (Inl e, s))"
  by (simp add: require_def run)

lemma some_or_run [run]:
  "some_or v e s = (case v of None \<Rightarrow> (Inl e, s) | Some r \<Rightarrow> (Inr r, s))"
  by (simp add: some_or_def run split: option.splits)

lemma bind_ret [run]: "bind (ret v) k s = k v s"
  by (simp add: bind_def ret_def)

lemma bind_throw [run]: "bind (throw e) k s = (Inl e, s)"
  by (simp add: bind_def throw_def)

lemma bind_gets [run]: "bind (gets f) k s = k (f s) s"
  by (simp add: bind_def gets_def)

lemma bind_modify [run]: "bind (modify f) k s = k () (f s)"
  by (simp add: bind_def modify_def)

lemma bind_require [run]: "bind (require b e) k s = (if b then k () s else (Inl e, s))"
  by (simp add: require_def run)

lemma bind_some_or [run]:
  "bind (some_or v e) k s = (case v of None \<Rightarrow> (Inl e, s) | Some r \<Rightarrow> k r s)"
  by (simp add: some_or_def run split: option.splits)

lemma bind_bind [run]: "bind (bind m f) k s = bind m (\<lambda>v. bind (f v) k) s"
  by (simp add: bind_def split: prod.splits sum.splits)

lemma bind_if [run]:
  "bind (if b then m1 else m2) k s = (if b then bind m1 k s else bind m2 k s)"
  by simp

lemma bind_case_option [run]:
  "bind (case v of None \<Rightarrow> m1 | Some r \<Rightarrow> m2 r) k s =
     (case v of None \<Rightarrow> bind m1 k s | Some r \<Rightarrow> bind (m2 r) k s)"
  by (simp split: option.splits)

text \<open>The general equation for a step that is not unfolded.\<close>

lemma bind_app:
  "bind m k s = (case m s of (Inl e, s1) \<Rightarrow> (Inl e, s1) | (Inr v, s1) \<Rightarrow> k v s1)"
  by (simp add: bind_def)

lemma bind_Inr_iff:
  "bind m k s = (Inr r, t) \<longleftrightarrow> (\<exists>v s1. m s = (Inr v, s1) \<and> k v s1 = (Inr r, t))"
  by (auto simp: bind_def split: prod.splits sum.splits)

subsection \<open>Invariants of actions\<close>

text \<open>
  \<open>keeps I m\<close>: the action \<open>m\<close> preserves the state predicate \<open>I\<close>, whether it returns or throws.
  The rules below follow the structure of an action, so an operation whose writes all keep \<open>I\<close>
  keeps it too.
\<close>

definition keeps :: "('s \<Rightarrow> bool) \<Rightarrow> ('s, 'a) act \<Rightarrow> bool" where
  "keeps I m \<longleftrightarrow> (\<forall>s. I s \<longrightarrow> I (snd (m s)))"

lemma keepsI: "(\<And>s. I s \<Longrightarrow> I (snd (m s))) \<Longrightarrow> keeps I m"
  by (simp add: keeps_def)

lemma keepsD: "keeps I m \<Longrightarrow> I s \<Longrightarrow> I (snd (m s))"
  by (simp add: keeps_def)

lemma keeps_ret [inv]: "keeps I (ret v)"
  by (simp add: keeps_def run)

lemma keeps_throw [inv]: "keeps I (throw e)"
  by (simp add: keeps_def run)

lemma keeps_gets [inv]: "keeps I (gets f)"
  by (simp add: keeps_def run)

lemma keeps_require [inv]: "keeps I (require b e)"
  by (simp add: keeps_def run)

lemma keeps_some_or [inv]: "keeps I (some_or v e)"
  by (simp add: keeps_def run split: option.splits)

lemma keeps_bind [inv]:
  assumes "keeps I m" and "\<And>v. keeps I (k v)"
  shows "keeps I (bind m k)"
proof (rule keepsI)
  fix s assume "I s"
  then have "I (snd (m s))" using assms(1) by (rule keepsD [rotated])
  then show "I (snd (bind m k s))"
    using assms(2) by (fastforce simp: bind_def keeps_def split: prod.splits sum.splits)
qed

lemma keeps_if [inv]: "keeps I m1 \<Longrightarrow> keeps I m2 \<Longrightarrow> keeps I (if b then m1 else m2)"
  by simp

lemma keeps_case_option [inv]:
  "keeps I m1 \<Longrightarrow> (\<And>r. keeps I (m2 r)) \<Longrightarrow> keeps I (case v of None \<Rightarrow> m1 | Some r \<Rightarrow> m2 r)"
  by (simp split: option.splits)

lemma keeps_catch_map [inv]: "keeps I m \<Longrightarrow> keeps I (catch_map h m)"
  by (force simp: keeps_def catch_map_def split: prod.splits sum.splits)

lemma keeps_modify: "(\<And>s. I s \<Longrightarrow> I (f s)) \<Longrightarrow> keeps I (modify f)"
  by (simp add: keeps_def run)

lemma keeps_for_each [inv]: "(\<And>a. keeps I (f a)) \<Longrightarrow> keeps I (for_each as f)"
  by (induction as) (auto intro!: inv)

section \<open>Lists and options\<close>

lemma find_Some_iff: "List.find P xs = Some v \<Longrightarrow> v \<in> set xs \<and> P v"
  by (induction xs) (auto split: if_splits)

lemma find_None_iff: "List.find P xs = None \<longleftrightarrow> (\<forall>v \<in> set xs. \<not> P v)"
  by (induction xs) auto

lemma find_not_None: "v \<in> set xs \<Longrightarrow> P v \<Longrightarrow> List.find P xs \<noteq> None"
  by (induction xs) auto

lemma in_concat_map: "y \<in> set (concat (map f xs)) \<longleftrightarrow> (\<exists>x \<in> set xs. y \<in> set (f x))"
  by simp

lemma find_append:
  "List.find P (xs @ ys) = (case List.find P xs of None \<Rightarrow> List.find P ys | Some v \<Rightarrow> Some v)"
  by (induction xs) auto

lemma find_unique:
  assumes "distinct (map f xs)" and "v \<in> set xs"
  shows "List.find (\<lambda>r. f r = f v) xs = Some v"
  using assms by (induction xs) (auto simp: image_iff)

lemma distinct_map_eq: "distinct (map f xs) \<Longrightarrow> a \<in> set xs \<Longrightarrow> b \<in> set xs \<Longrightarrow> f a = f b \<Longrightarrow> a = b"
  by (induction xs) (auto simp: image_iff)

end
