(* ===== verification/Schema.thy ===== *)
theory Schema
  imports Prelude Complex_Main
begin

text \<open>
  The data model of \<open>prisma/schema.prisma\<close>: its enums as datatypes, each model as a record of its
  scalar columns (a nullable column is an \<open>option\<close>), and the database as one list of rows per
  model. A list is in storage order; the order is a parameter of every state, so a fact proved
  about every state holds whatever order the database returns unsorted rows in. Dates are
  milliseconds since the epoch, decimals are rationals. A column is named by its model's prefix
  (\<open>usr_\<close> for User, \<open>bld_\<close> for Building, \<open>occ_\<close> for Occupancy and so on) and the schema's name.
\<close>

type_synonym id = string
type_synonym date = int

section \<open>Enums\<close>

datatype OrgBusinessType = BIZ_OWNER | PROPERTY_MANAGEMENT | FACILITY_MANAGEMENT | DEVELOPER
datatype MaintenancePayer = PAYER_OWNER | PAYER_TENANT
datatype KitchenType = KITCHEN_OPEN | KITCHEN_CLOSED
datatype FurnishedStatus = UNFURNISHED | SEMI_FURNISHED | FULLY_FURNISHED
datatype PaymentFrequency = MONTHLY | QUARTERLY | SEMI_ANNUAL
datatype UnitSizeUnit = SQ_FT | SQ_M
datatype BuildingAssignmentType = MANAGER | STAFF | BUILDING_ADMIN
datatype OccupancyStatus = ACTIVE | ENDED
datatype RequestStatus = OPEN | ASSIGNED | IN_PROGRESS | COMPLETED | CANCELED
datatype RequestPriority = LOW | NORMAL | HIGH
datatype RequestType = CLEANING | ELECTRICAL | MAINTENANCE | PLUMBING_AC_HEATING | OTHER
datatype NotificationType =
  REQUEST_CREATED | REQUEST_ASSIGNED | REQUEST_STATUS_CHANGED | REQUEST_COMMENTED | REQUEST_CANCELED
datatype PermissionEffect = ALLOW | DENY

text \<open>The value of an enum member, as the API prints it.\<close>

fun status_str :: "RequestStatus \<Rightarrow> string" where
  "status_str OPEN = ''OPEN''"
| "status_str ASSIGNED = ''ASSIGNED''"
| "status_str IN_PROGRESS = ''IN_PROGRESS''"
| "status_str COMPLETED = ''COMPLETED''"
| "status_str CANCELED = ''CANCELED''"

section \<open>JSON values (the \<open>Json\<close> column)\<close>

datatype json =
    JNull
  | JBool bool
  | JNum rat
  | JStr string
  | JArr "json list"
  | JObj "(string \<times> json) list"

section \<open>Models\<close>

record user =
  usr_id :: id
  usr_email :: string
  usr_passwordHash :: string
  usr_refreshTokenHash :: "string option"
  usr_name :: "string option"
  usr_avatarUrl :: "string option"
  usr_phone :: "string option"
  usr_orgId :: "id option"
  usr_mustChangePassword :: bool
  usr_isActive :: bool
  usr_createdAt :: date
  usr_updatedAt :: date

record org =
  org_id :: id
  org_name :: string
  org_logoUrl :: "string option"
  org_businessName :: "string option"
  org_businessType :: "OrgBusinessType option"
  org_tradeLicenseNumber :: "string option"
  org_vatRegistrationNumber :: "string option"
  org_registeredOfficeAddress :: "string option"
  org_city :: "string option"
  org_officePhoneNumber :: "string option"
  org_businessEmailAddress :: "string option"
  org_website :: "string option"
  org_ownerName :: "string option"
  org_createdAt :: date
  org_updatedAt :: date

record building =
  bld_id :: id
  bld_orgId :: id
  bld_name :: string
  bld_city :: string
  bld_emirate :: "string option"
  bld_country :: string
  bld_timezone :: string
  bld_floors :: "int option"
  bld_unitsCount :: "int option"
  bld_createdAt :: date
  bld_updatedAt :: date

record unit_row =
  unt_id :: id
  unt_buildingId :: id
  unt_label :: string
  unt_unitTypeId :: "id option"
  unt_ownerId :: "id option"
  unt_floor :: "int option"
  unt_notes :: "string option"
  unt_maintenancePayer :: "MaintenancePayer option"
  unt_unitSize :: "rat option"
  unt_unitSizeUnit :: "UnitSizeUnit option"
  unt_bedrooms :: "int option"
  unt_bathrooms :: "int option"
  unt_balcony :: "bool option"
  unt_kitchenType :: "KitchenType option"
  unt_furnishedStatus :: "FurnishedStatus option"
  unt_rentAnnual :: "rat option"
  unt_paymentFrequency :: "PaymentFrequency option"
  unt_securityDepositAmount :: "rat option"
  unt_serviceChargePerUnit :: "rat option"
  unt_vatApplicable :: "bool option"
  unt_electricityMeterNumber :: "string option"
  unt_waterMeterNumber :: "string option"
  unt_gasMeterNumber :: "string option"
  unt_createdAt :: date
  unt_updatedAt :: date

record amenity =
  amn_id :: id
  amn_buildingId :: id
  amn_name :: string
  amn_isActive :: bool
  amn_isDefault :: bool
  amn_createdAt :: date
  amn_updatedAt :: date

record unit_amenity =
  una_unitId :: id
  una_amenityId :: id
  una_createdAt :: date

record unit_type =
  utp_id :: id
  utp_orgId :: id
  utp_name :: string
  utp_isActive :: bool
  utp_createdAt :: date
  utp_updatedAt :: date

record owner =
  own_id :: id
  own_orgId :: id
  own_name :: string
  own_email :: "string option"
  own_phone :: "string option"
  own_address :: "string option"
  own_createdAt :: date
  own_updatedAt :: date

record assignment =
  asg_id :: id
  asg_buildingId :: id
  asg_userId :: id
  asg_type :: BuildingAssignmentType
  asg_createdAt :: date
  asg_updatedAt :: date

record occupancy =
  occ_id :: id
  occ_buildingId :: id
  occ_unitId :: id
  occ_residentUserId :: id
  occ_status :: OccupancyStatus
  occ_startAt :: date
  occ_endAt :: "date option"
  occ_createdAt :: date
  occ_updatedAt :: date

record request =
  req_id :: id
  req_orgId :: id
  req_buildingId :: id
  req_unitId :: "id option"
  req_createdByUserId :: id
  req_title :: string
  req_description :: "string option"
  req_status :: RequestStatus
  req_type :: "RequestType option"
  req_priority :: "RequestPriority option"
  req_assignedToUserId :: "id option"
  req_assignedAt :: "date option"
  req_completedAt :: "date option"
  req_canceledAt :: "date option"
  req_createdAt :: date
  req_updatedAt :: date

record request_comment =
  cmt_id :: id
  cmt_requestId :: id
  cmt_orgId :: id
  cmt_authorUserId :: id
  cmt_message :: string
  cmt_createdAt :: date

record attachment =
  att_id :: id
  att_requestId :: id
  att_orgId :: id
  att_uploadedByUserId :: id
  att_fileName :: string
  att_mimeType :: string
  att_sizeBytes :: int
  att_url :: string
  att_createdAt :: date

record notification =
  ntf_id :: id
  ntf_orgId :: id
  ntf_recipientUserId :: id
  ntf_type :: NotificationType
  ntf_title :: string
  ntf_body :: "string option"
  ntf_data :: json
  ntf_readAt :: "date option"
  ntf_dismissedAt :: "date option"
  ntf_createdAt :: date

record role =
  rol_id :: id
  rol_key :: string
  rol_name :: string
  rol_description :: "string option"
  rol_isSystem :: bool
  rol_createdAt :: date
  rol_updatedAt :: date

record permission =
  prm_id :: id
  prm_key :: string
  prm_name :: string
  prm_description :: "string option"
  prm_createdAt :: date
  prm_updatedAt :: date

record role_permission =
  rpm_roleId :: id
  rpm_permissionId :: id

record user_role =
  uro_userId :: id
  uro_roleId :: id

record user_permission =
  upm_userId :: id
  upm_permissionId :: id
  upm_effect :: PermissionEffect

text \<open>The database: one table per model.\<close>

record db =
  users :: "user list"
  orgs :: "org list"
  buildings :: "building list"
  units :: "unit_row list"
  amenities :: "amenity list"
  unitAmenities :: "unit_amenity list"
  unitTypes :: "unit_type list"
  owners :: "owner list"
  assignments :: "assignment list"
  occupancies :: "occupancy list"
  requests :: "request list"
  request_comments :: "request_comment list"
  attachments :: "attachment list"
  notifications :: "notification list"
  roles :: "role list"
  permissions :: "permission list"
  rolePermissions :: "role_permission list"
  userRoles :: "user_role list"
  userPermissions :: "user_permission list"

definition empty_db :: db where
  "empty_db = \<lparr>users = [], orgs = [], buildings = [], units = [], amenities = [], unitAmenities = [],
     unitTypes = [], owners = [], assignments = [], occupancies = [], requests = [],
     request_comments = [], attachments = [], notifications = [], roles = [], permissions = [],
     rolePermissions = [], userRoles = [], userPermissions = []\<rparr>"

section \<open>Queries and writes on a table\<close>

text \<open>
  \<open>findFirst\<close>/\<open>findUnique\<close> give the first matching row, \<open>findMany\<close> the matching rows in storage
  order, \<open>orderBy: desc\<close> sorts them stably by a decreasing key, \<open>count\<close> counts them. \<open>update\<close> and
  \<open>updateMany\<close> rewrite the matching rows, \<open>deleteMany\<close> drops them, and \<open>createMany\<close> with
  \<open>skipDuplicates\<close> appends the rows whose unique key is not there yet.
\<close>

definition findFirst :: "('r \<Rightarrow> bool) \<Rightarrow> 'r list \<Rightarrow> 'r option" where
  "findFirst p t = List.find p t"

definition findMany :: "('r \<Rightarrow> bool) \<Rightarrow> 'r list \<Rightarrow> 'r list" where
  "findMany p t = filter p t"

definition order_desc :: "('r \<Rightarrow> int) \<Rightarrow> 'r list \<Rightarrow> 'r list" where
  "order_desc k t = sort_key (\<lambda>r. - k r) t"

definition order_asc :: "('r \<Rightarrow> 'k :: linorder) \<Rightarrow> 'r list \<Rightarrow> 'r list" where
  "order_asc k t = sort_key k t"

definition countMany :: "('r \<Rightarrow> bool) \<Rightarrow> 'r list \<Rightarrow> nat" where
  "countMany p t = length (filter p t)"

definition updateMany :: "('r \<Rightarrow> bool) \<Rightarrow> ('r \<Rightarrow> 'r) \<Rightarrow> 'r list \<Rightarrow> 'r list" where
  "updateMany p f t = map (\<lambda>r. if p r then f r else r) t"

definition deleteMany :: "('r \<Rightarrow> bool) \<Rightarrow> 'r list \<Rightarrow> 'r list" where
  "deleteMany p t = filter (\<lambda>r. \<not> p r) t"

definition insert_skip :: "('r \<Rightarrow> 'k) \<Rightarrow> 'r \<Rightarrow> 'r list \<Rightarrow> 'r list" where
  "insert_skip k r t = (if k r \<in> k ` set t then t else t @ [r])"

primrec createMany_skip :: "('r \<Rightarrow> 'k) \<Rightarrow> 'r list \<Rightarrow> 'r list \<Rightarrow> 'r list" where
  "createMany_skip k [] t = t"
| "createMany_skip k (r # rs) t = createMany_skip k rs (insert_skip k r t)"

lemma findFirst_SomeD: "findFirst p t = Some r \<Longrightarrow> r \<in> set t \<and> p r"
  by (simp add: findFirst_def find_Some_iff)

lemma findFirst_None_iff: "findFirst p t = None \<longleftrightarrow> (\<forall>r \<in> set t. \<not> p r)"
  by (simp add: findFirst_def find_None_iff)

lemma findFirst_unique: "distinct (map f t) \<Longrightarrow> r \<in> set t \<Longrightarrow> findFirst (\<lambda>q. f q = f r) t = Some r"
  by (simp add: findFirst_def find_unique)

lemma findFirst_None_key: "findFirst (\<lambda>r. k r = i) t = None \<longleftrightarrow> i \<notin> k ` set t"
  by (auto simp: findFirst_None_iff)

lemma set_findMany [simp]: "set (findMany p t) = {r \<in> set t. p r}"
  by (simp add: findMany_def)

lemma set_order_desc [simp]: "set (order_desc k t) = set t"
  by (simp add: order_desc_def)

lemma set_order_asc [simp]: "set (order_asc k t) = set t"
  by (simp add: order_asc_def)

lemma set_updateMany: "set (updateMany p f t) = (\<lambda>r. if p r then f r else r) ` set t"
  by (simp add: updateMany_def)

lemma map_updateMany: "(\<And>r. k (f r) = k r) \<Longrightarrow> map k (updateMany p f t) = map k t"
  by (simp add: updateMany_def)

lemma length_updateMany [simp]: "length (updateMany p f t) = length t"
  by (simp add: updateMany_def)

lemma set_deleteMany [simp]: "set (deleteMany p t) = {r \<in> set t. \<not> p r}"
  by (auto simp: deleteMany_def)

lemma insert_skip_keys [simp]: "k ` set (insert_skip k r t) = insert (k r) (k ` set t)"
  by (auto simp: insert_skip_def)

lemma createMany_skip_keys [simp]:
  "k ` set (createMany_skip k rs t) = k ` set rs \<union> k ` set t"
  by (induction rs arbitrary: t) auto

lemma insert_skip_distinct: "distinct (map k t) \<Longrightarrow> distinct (map k (insert_skip k r t))"
  by (auto simp: insert_skip_def)

lemma createMany_skip_distinct:
  "distinct (map k t) \<Longrightarrow> distinct (map k (createMany_skip k rs t))"
  by (induction rs arbitrary: t) (auto intro: insert_skip_distinct)

lemma createMany_skip_subset: "set (createMany_skip k rs t) \<subseteq> set rs \<union> set t"
proof (induction rs arbitrary: t)
  case (Cons r rs)
  have "set (insert_skip k r t) \<subseteq> insert r (set t)" by (auto simp: insert_skip_def)
  with Cons [of "insert_skip k r t"] show ?case by auto
qed simp

lemma createMany_skip_keeps: "set t \<subseteq> set (createMany_skip k rs t)"
proof (induction rs arbitrary: t)
  case (Cons r rs)
  have "set t \<subseteq> set (insert_skip k r t)" by (auto simp: insert_skip_def)
  with Cons [of "insert_skip k r t"] show ?case by auto
qed simp

lemma createMany_skip_absorb: "k ` set rs \<subseteq> k ` set t \<Longrightarrow> createMany_skip k rs t = t"
  by (induction rs arbitrary: t) (auto simp: insert_skip_def)

text \<open>A row of the result is an old one, or the first of its key among the new ones.\<close>

lemma createMany_skip_mem:
  "r \<in> set (createMany_skip k rs t) \<longleftrightarrow>
     r \<in> set t \<or> k r \<notin> k ` set t \<and> findFirst (\<lambda>q. k q = k r) rs = Some r"
  by (induction rs arbitrary: t) (auto simp: findFirst_def insert_skip_def)

end
