(* ===== verification/State.thy ===== *)
theory State
  imports Schema
begin

text \<open>
  The state a request runs in and the outside world. The state holds the database, the queue of
  events emitted and not yet handled (\<open>EventEmitter2\<close>), the messages sent to WebSocket rooms,
  whether the WebSocket server is set, and a counter of the values drawn from the outside. What the source takes from packages it does not
  contain is a field of \<open>ext\<close>, an argument of the definitions that use it: generated ids, the
  clock, random bytes, argon2, JSON web tokens, the token extractor of passport-jwt, the engine's
  reading of a date that is no ISO string, the printing of decimals, and the e-mail and URL tests
  of class-validator.
\<close>

section \<open>Events (\<open>maintenance-requests.events.ts\<close>)\<close>

record request_snapshot =
  snp_id :: id
  snp_orgId :: id
  snp_buildingId :: id
  snp_unitId :: "id option"
  snp_title :: string
  snp_status :: "RequestStatus option"
  snp_createdByUserId :: id
  snp_assignedToUserId :: "id option"
  snp_unit :: "(id \<times> string) option"

record event_payload =
  evp_request :: request_snapshot
  evp_actorUserId :: id
  evp_actorIsResident :: "bool option"
  evp_comment :: "(id \<times> string) option"

datatype event_name = EV_CREATED | EV_ASSIGNED | EV_STATUS_CHANGED | EV_COMMENTED | EV_CANCELED

section \<open>Messages to WebSocket rooms\<close>

record notification_response =
  nrs_id :: id
  nrs_type :: NotificationType
  nrs_title :: string
  nrs_body :: "string option"
  nrs_data :: json
  nrs_readAt :: "date option"
  nrs_dismissedAt :: "date option"
  nrs_createdAt :: date

datatype ws_payload =
    WsNew notification_response
  | WsRead id date
  | WsReadAll date
  | WsDismiss id date
  | WsUndismiss id

section \<open>The outside world\<close>

text \<open>
  A JWT payload: \<open>sub\<close>, and \<open>orgId\<close>, which may be absent, \<open>null\<close> or a string.
\<close>

record jwt_payload =
  jwt_sub :: id
  jwt_email :: "string option"
  jwt_orgId :: "id js"

record ext =
  x_uuid :: "nat \<Rightarrow> id"
  x_clock :: "nat \<Rightarrow> date"
  x_randomBytes :: "nat \<Rightarrow> nat \<Rightarrow> nat list"
  x_hash :: "nat \<Rightarrow> string \<Rightarrow> string"
  x_verify :: "string \<Rightarrow> string \<Rightarrow> bool"
  x_sign :: "nat \<Rightarrow> string \<Rightarrow> int \<Rightarrow> jwt_payload \<Rightarrow> string"
  x_jwtVerify :: "nat \<Rightarrow> string \<Rightarrow> string \<Rightarrow> jwt_payload option"
  x_extractJwt :: "string option \<Rightarrow> string option"
  x_parseDate :: "string \<Rightarrow> date option"
  x_decimal :: "rat \<Rightarrow> string"
  x_numeric :: "rat \<Rightarrow> rat option"
  x_isEmail :: "string \<Rightarrow> bool"
  x_isUrl :: "string \<Rightarrow> bool"

text \<open>The authenticated user a guard attaches to a request (\<open>request-context.ts\<close>).\<close>

record auth_user =
  aut_sub :: id
  aut_email :: "string option"
  aut_orgId :: "id option"

section \<open>The state\<close>

record st =
  st_db :: db
  st_tick :: nat
  st_events :: "(event_name \<times> event_payload) list"
  st_sent :: "(string \<times> ws_payload) list"
  st_server :: bool

type_synonym 'a op = "(st, 'a) act"

definition get_db :: "db op" where
  "get_db = gets st_db"

definition query :: "(db \<Rightarrow> 'a) \<Rightarrow> 'a op" where
  "query f = gets (\<lambda>s. f (st_db s))"

definition write_db :: "(db \<Rightarrow> db) \<Rightarrow> unit op" where
  "write_db f = modify (\<lambda>s. s\<lparr>st_db := f (st_db s)\<rparr>)"

text \<open>One draw from the outside: a fresh index for \<open>x_uuid\<close>, \<open>x_clock\<close>, \<open>x_hash\<close> and the others.\<close>

definition draw :: "nat op" where
  "draw = (\<lambda>s. (Inr (st_tick s), s\<lparr>st_tick := Suc (st_tick s)\<rparr>))"

text \<open>
  \<open>prisma.$transaction\<close>: all writes of the body or none. A throw restores the database and is
  thrown again; draws, events and messages are not part of it.
\<close>

definition transaction :: "'a op \<Rightarrow> 'a op" where
  "transaction m = (\<lambda>s. case m s of
       (Inl e, s1) \<Rightarrow> (Inl e, s1\<lparr>st_db := st_db s\<rparr>)
     | (Inr v, s1) \<Rightarrow> (Inr v, s1))"

definition emit :: "event_name \<Rightarrow> event_payload \<Rightarrow> unit op" where
  "emit n p = modify (\<lambda>s. s\<lparr>st_events := st_events s @ [(n, p)]\<rparr>)"

definition send_ws :: "string \<Rightarrow> ws_payload \<Rightarrow> unit op" where
  "send_ws room p = modify (\<lambda>s. s\<lparr>st_sent := st_sent s @ [(room, p)]\<rparr>)"

text \<open>A foreign key that must be there, and a unique key that must not be taken.\<close>

definition foreign_key :: "bool \<Rightarrow> unit op" where
  "foreign_key ok = require ok (PrismaKnown ''P2003'')"

definition unique_key :: "bool \<Rightarrow> unit op" where
  "unique_key ok = require ok (PrismaKnown ''P2002'')"

text \<open>
  The id and the time of a row about to be created. The id column is a primary key: an id already
  taken is a unique violation too.
\<close>

definition new_row :: "ext \<Rightarrow> (db \<Rightarrow> id list) \<Rightarrow> (id \<times> date) op" where
  "new_row x ids =
     bind draw (\<lambda>t.
     bind get_db (\<lambda>d.
     bind (unique_key (x_uuid x t \<notin> set (ids d))) (\<lambda>_.
     ret (x_uuid x t, x_clock x t))))"

text \<open>The \<open>catch\<close> blocks that turn a unique violation into a conflict and rethrow the rest.\<close>

definition on_duplicate :: "string \<Rightarrow> 'a op \<Rightarrow> 'a op" where
  "on_duplicate msg = catch_map (\<lambda>e. if e = PrismaKnown ''P2002'' then Conflict msg else e)"

subsection \<open>Execution\<close>

lemma get_db_run [run]: "get_db s = (Inr (st_db s), s)" "bind get_db k s = k (st_db s) s"
  by (simp_all add: get_db_def run)

lemma query_run [run]: "query f s = (Inr (f (st_db s)), s)" "bind (query f) k s = k (f (st_db s)) s"
  by (simp_all add: query_def run)

lemma write_db_run [run]:
  "write_db f s = (Inr (), s\<lparr>st_db := f (st_db s)\<rparr>)"
  "bind (write_db f) k' s = k' () (s\<lparr>st_db := f (st_db s)\<rparr>)"
  by (simp_all add: write_db_def run)

lemma draw_run [run]:
  "draw s = (Inr (st_tick s), s\<lparr>st_tick := Suc (st_tick s)\<rparr>)"
  "bind draw k' s = k' (st_tick s) (s\<lparr>st_tick := Suc (st_tick s)\<rparr>)"
  by (simp_all add: draw_def bind_def)

lemma emit_run [run]:
  "emit n p s = (Inr (), s\<lparr>st_events := st_events s @ [(n, p)]\<rparr>)"
  "bind (emit n p) k' s = k' () (s\<lparr>st_events := st_events s @ [(n, p)]\<rparr>)"
  by (simp_all add: emit_def run)

lemma send_ws_run [run]:
  "send_ws r w s = (Inr (), s\<lparr>st_sent := st_sent s @ [(r, w)]\<rparr>)"
  "bind (send_ws r w) k' s = k' () (s\<lparr>st_sent := st_sent s @ [(r, w)]\<rparr>)"
  by (simp_all add: send_ws_def run)

lemma foreign_key_run [run]:
  "foreign_key b s = (if b then (Inr (), s) else (Inl (PrismaKnown ''P2003''), s))"
  "bind (foreign_key b) k' s = (if b then k' () s else (Inl (PrismaKnown ''P2003''), s))"
  by (simp_all add: foreign_key_def run)

lemma unique_key_run [run]:
  "unique_key b s = (if b then (Inr (), s) else (Inl (PrismaKnown ''P2002''), s))"
  "bind (unique_key b) k' s = (if b then k' () s else (Inl (PrismaKnown ''P2002''), s))"
  by (simp_all add: unique_key_def run)

lemma new_row_run [run]:
  "bind (new_row x ids) k' s =
     (let s1 = s\<lparr>st_tick := Suc (st_tick s)\<rparr> in
      if x_uuid x (st_tick s) \<in> set (ids (st_db s)) then (Inl (PrismaKnown ''P2002''), s1)
      else k' (x_uuid x (st_tick s), x_clock x (st_tick s)) s1)"
  by (simp add: new_row_def run Let_def)

lemma transaction_app:
  "transaction m s = (case m s of
       (Inl e, s1) \<Rightarrow> (Inl e, s1\<lparr>st_db := st_db s\<rparr>)
     | (Inr v, s1) \<Rightarrow> (Inr v, s1))"
  by (simp add: transaction_def)

text \<open>A transaction that throws leaves the database as it was.\<close>

lemma transaction_error_db: "transaction m s = (Inl e, t) \<Longrightarrow> st_db t = st_db s"
  by (auto simp: transaction_def split: prod.splits sum.splits)

lemma transaction_InrD: "transaction m s = (Inr v, t) \<Longrightarrow> m s = (Inr v, t)"
  by (auto simp: transaction_def split: prod.splits sum.splits)

lemma bind_transaction_Inr:
  "bind (transaction m) k s = (Inr r, t) \<longleftrightarrow> (\<exists>v s1. m s = (Inr v, s1) \<and> k v s1 = (Inr r, t))"
  by (auto simp: bind_def transaction_def split: prod.splits sum.splits)

lemma transaction_Inr_iff: "transaction m s = (Inr v, t) \<longleftrightarrow> m s = (Inr v, t)"
  by (auto simp: transaction_def split: prod.splits sum.splits)

subsection \<open>Invariants of the database\<close>

text \<open>
  \<open>db_keeps I m\<close>: the action keeps the database predicate \<open>I\<close>. A rule for each primitive, so that
  a proof about a service is reduced to its writes.
\<close>

definition db_keeps :: "(db \<Rightarrow> bool) \<Rightarrow> 'a op \<Rightarrow> bool" where
  "db_keeps I m \<longleftrightarrow> keeps (\<lambda>s. I (st_db s)) m"

lemma db_keepsI: "(\<And>s. I (st_db s) \<Longrightarrow> I (st_db (snd (m s)))) \<Longrightarrow> db_keeps I m"
  by (simp add: db_keeps_def keeps_def)

lemma db_keepsD: "db_keeps I m \<Longrightarrow> I (st_db s) \<Longrightarrow> I (st_db (snd (m s)))"
  by (simp add: db_keeps_def keeps_def)

lemma db_keeps_ret [inv]: "db_keeps I (ret v)"
  and db_keeps_throw [inv]: "db_keeps I (throw e)"
  and db_keeps_gets [inv]: "db_keeps I (gets f)"
  and db_keeps_require [inv]: "db_keeps I (require b e)"
  and db_keeps_some_or [inv]: "db_keeps I (some_or w e)"
  by (simp_all add: db_keeps_def inv)

lemma db_keeps_bind [inv]: "db_keeps I m \<Longrightarrow> (\<And>v. db_keeps I (k v)) \<Longrightarrow> db_keeps I (bind m k)"
  by (simp add: db_keeps_def inv)

lemma db_keeps_if [inv]: "db_keeps I m1 \<Longrightarrow> db_keeps I m2 \<Longrightarrow> db_keeps I (if b then m1 else m2)"
  by simp

lemma db_keeps_case_option [inv]:
  "db_keeps I m1 \<Longrightarrow> (\<And>r. db_keeps I (m2 r)) \<Longrightarrow>
     db_keeps I (case v of None \<Rightarrow> m1 | Some r \<Rightarrow> m2 r)"
  by (simp split: option.splits)

lemma db_keeps_case_prod [inv]: "(\<And>a b. db_keeps I (f a b)) \<Longrightarrow> db_keeps I (case p of (a, b) \<Rightarrow> f a b)"
  by (simp split: prod.splits)

lemma db_keeps_Let [inv]: "(\<And>v. db_keeps I (f v)) \<Longrightarrow> db_keeps I (let v = a in f v)"
  by (simp add: Let_def)

lemma db_keeps_catch_map [inv]: "db_keeps I m \<Longrightarrow> db_keeps I (catch_map h m)"
  by (simp add: db_keeps_def inv)

lemma db_keeps_for_each [inv]: "(\<And>a. db_keeps I (f a)) \<Longrightarrow> db_keeps I (for_each as f)"
  by (simp add: db_keeps_def inv)

lemma db_keeps_query [inv]: "db_keeps I (query f)"
  and db_keeps_get_db [inv]: "db_keeps I get_db"
  and db_keeps_draw [inv]: "db_keeps I draw"
  and db_keeps_emit [inv]: "db_keeps I (emit n p)"
  and db_keeps_send_ws [inv]: "db_keeps I (send_ws r w)"
  and db_keeps_foreign_key [inv]: "db_keeps I (foreign_key b)"
  and db_keeps_unique_key [inv]: "db_keeps I (unique_key b)"
  by (auto simp: db_keeps_def keeps_def run)

lemma db_keeps_new_row [inv]: "db_keeps I (new_row x ids)"
  by (simp add: new_row_def inv)

lemma db_keeps_on_duplicate [inv]: "db_keeps I m \<Longrightarrow> db_keeps I (on_duplicate msg m)"
  by (simp add: on_duplicate_def inv)

lemma db_keeps_write: "(\<And>d. I d \<Longrightarrow> I (f d)) \<Longrightarrow> db_keeps I (write_db f)"
  by (auto simp: db_keeps_def keeps_def run)

lemma db_keeps_transaction [inv]: "db_keeps I m \<Longrightarrow> db_keeps I (transaction m)"
  by (force simp: db_keeps_def keeps_def transaction_def split: prod.splits sum.splits)

subsection \<open>Failing without a trace\<close>

text \<open>
  \<open>readonly m\<close>: the action never changes the database. \<open>atomic m\<close>: when it throws, the database is
  as it was. \<open>nothrow m\<close>: it returns.
\<close>

definition readonly :: "'a op \<Rightarrow> bool" where
  "readonly m \<longleftrightarrow> (\<forall>d. db_keeps (\<lambda>d1. d1 = d) m)"

definition atomic :: "'a op \<Rightarrow> bool" where
  "atomic m \<longleftrightarrow> (\<forall>s e t. m s = (Inl e, t) \<longrightarrow> st_db t = st_db s)"

definition nothrow :: "'a op \<Rightarrow> bool" where
  "nothrow m \<longleftrightarrow> (\<forall>s e t. m s \<noteq> (Inl e, t))"

lemma readonlyI: "(\<And>d. db_keeps (\<lambda>d1. d1 = d) m) \<Longrightarrow> readonly m"
  by (simp add: readonly_def)

lemma readonlyD: "readonly m \<Longrightarrow> m s = (r, t) \<Longrightarrow> st_db t = st_db s"
  unfolding readonly_def db_keeps_def keeps_def by (metis snd_conv)

lemma atomicD: "atomic m \<Longrightarrow> m s = (Inl e, t) \<Longrightarrow> st_db t = st_db s"
  by (simp add: atomic_def)

lemma readonly_leaves [frame]:
  "readonly (ret v)" "readonly (throw e)" "readonly (require b e)" "readonly (some_or w e)"
  "readonly (query f)" "readonly get_db" "readonly draw" "readonly (emit n p)" "readonly (send_ws r m)"
  "readonly (foreign_key b)" "readonly (unique_key b)" "readonly (new_row x ids)"
  by (rule readonlyI, intro inv)+

lemma readonly_bind [frame]: "readonly m \<Longrightarrow> (\<And>v. readonly (k v)) \<Longrightarrow> readonly (bind m k)"
  by (simp add: readonly_def inv)

lemma readonly_if [frame]: "readonly m1 \<Longrightarrow> readonly m2 \<Longrightarrow> readonly (if b then m1 else m2)"
  by simp

lemma readonly_case_option [frame]:
  "readonly m1 \<Longrightarrow> (\<And>r. readonly (m2 r)) \<Longrightarrow> readonly (case v of None \<Rightarrow> m1 | Some r \<Rightarrow> m2 r)"
  by (simp split: option.splits)

lemma readonly_case_prod [frame]: "(\<And>a b. readonly (f a b)) \<Longrightarrow> readonly (case p of (a, b) \<Rightarrow> f a b)"
  by (simp split: prod.splits)

lemma readonly_Let [frame]: "(\<And>v. readonly (f v)) \<Longrightarrow> readonly (let v = a in f v)"
  by (simp add: Let_def)

lemma atomic_readonly: "readonly m \<Longrightarrow> atomic m"
  by (auto simp: atomic_def dest: readonlyD)

lemma atomic_transaction [frame]: "atomic (transaction m)"
  by (simp add: atomic_def transaction_error_db)

lemma atomic_leaves [frame]:
  "atomic (ret v)" "atomic (throw e)" "atomic (write_db f)"
  by (simp_all add: atomic_def run)

lemma atomic_bind [frame]: "readonly m \<Longrightarrow> (\<And>v. atomic (k v)) \<Longrightarrow> atomic (bind m k)"
  unfolding atomic_def bind_app
  by (auto split: prod.splits sum.splits dest: readonlyD)

lemma atomic_last: "atomic m \<Longrightarrow> (\<And>v. nothrow (k v)) \<Longrightarrow> atomic (bind m k)"
  unfolding atomic_def nothrow_def bind_app by (auto split: prod.splits sum.splits)

lemma atomic_if [frame]: "atomic m1 \<Longrightarrow> atomic m2 \<Longrightarrow> atomic (if b then m1 else m2)"
  by simp

lemma atomic_case_option [frame]:
  "atomic m1 \<Longrightarrow> (\<And>r. atomic (m2 r)) \<Longrightarrow> atomic (case v of None \<Rightarrow> m1 | Some r \<Rightarrow> m2 r)"
  by (simp split: option.splits)

lemma atomic_case_prod [frame]: "(\<And>a b. atomic (f a b)) \<Longrightarrow> atomic (case p of (a, b) \<Rightarrow> f a b)"
  by (simp split: prod.splits)

lemma atomic_Let [frame]: "(\<And>v. atomic (f v)) \<Longrightarrow> atomic (let v = a in f v)"
  by (simp add: Let_def)

lemma atomic_on_duplicate [frame]: "atomic m \<Longrightarrow> atomic (on_duplicate msg m)"
  by (auto simp: atomic_def on_duplicate_def catch_map_def split: prod.splits sum.splits)

lemma nothrow_leaves [frame]:
  "nothrow (ret v)" "nothrow (write_db f)" "nothrow draw" "nothrow (query g)" "nothrow (emit n p)"
  "nothrow (send_ws r w)" "nothrow get_db"
  by (simp_all add: nothrow_def run)

lemma nothrow_bind [frame]: "nothrow m \<Longrightarrow> (\<And>v. nothrow (k v)) \<Longrightarrow> nothrow (bind m k)"
  unfolding nothrow_def bind_app by (auto split: prod.splits sum.splits)

lemma nothrow_if [frame]: "nothrow m1 \<Longrightarrow> nothrow m2 \<Longrightarrow> nothrow (if b then m1 else m2)"
  by simp

lemma nothrow_Let [frame]: "(\<And>v. nothrow (f v)) \<Longrightarrow> nothrow (let v = a in f v)"
  by (simp add: Let_def)

lemma atomic_write_ret [frame]: "(\<And>v. nothrow (k v)) \<Longrightarrow> atomic (bind (write_db f) k)"
  by (rule atomic_last) (intro frame)

lemma atomic_transaction_ret [frame]: "(\<And>v. nothrow (k v)) \<Longrightarrow> atomic (bind (transaction m) k)"
  by (rule atomic_last) (intro frame)

section \<open>Rows by id\<close>

definition findUser :: "db \<Rightarrow> id \<Rightarrow> user option" where
  "findUser d i = findFirst (\<lambda>u. usr_id u = i) (users d)"

definition findOrg :: "db \<Rightarrow> id \<Rightarrow> org option" where
  "findOrg d i = findFirst (\<lambda>u. org_id u = i) (orgs d)"

definition findUnit :: "db \<Rightarrow> id \<Rightarrow> unit_row option" where
  "findUnit d i = findFirst (\<lambda>u. unt_id u = i) (units d)"

definition findBuilding :: "db \<Rightarrow> id \<Rightarrow> building option" where
  "findBuilding d i = findFirst (\<lambda>b. bld_id b = i) (buildings d)"

definition findRole :: "db \<Rightarrow> id \<Rightarrow> role option" where
  "findRole d i = findFirst (\<lambda>r. rol_id r = i) (roles d)"

definition findRoleByKey :: "db \<Rightarrow> string \<Rightarrow> role option" where
  "findRoleByKey d k = findFirst (\<lambda>r. rol_key r = k) (roles d)"

definition findPermission :: "db \<Rightarrow> id \<Rightarrow> permission option" where
  "findPermission d i = findFirst (\<lambda>p. prm_id p = i) (permissions d)"

lemma findUser_SomeD: "findUser d i = Some u \<Longrightarrow> u \<in> set (users d) \<and> usr_id u = i"
  unfolding findUser_def by (drule findFirst_SomeD) simp

lemma findBuilding_SomeD: "findBuilding d i = Some b \<Longrightarrow> b \<in> set (buildings d) \<and> bld_id b = i"
  unfolding findBuilding_def by (drule findFirst_SomeD) simp

lemma findUnit_SomeD: "findUnit d i = Some b \<Longrightarrow> b \<in> set (units d) \<and> unt_id b = i"
  unfolding findUnit_def by (drule findFirst_SomeD) simp

lemma findRoleByKey_SomeD: "findRoleByKey d k = Some r \<Longrightarrow> r \<in> set (roles d) \<and> rol_key r = k"
  unfolding findRoleByKey_def by (drule findFirst_SomeD) simp

lemma find_by_id_None:
  "findUser d i = None \<longleftrightarrow> i \<notin> usr_id ` set (users d)"
  "findOrg d i = None \<longleftrightarrow> i \<notin> org_id ` set (orgs d)"
  "findUnit d i = None \<longleftrightarrow> i \<notin> unt_id ` set (units d)"
  "findBuilding d i = None \<longleftrightarrow> i \<notin> bld_id ` set (buildings d)"
  "findRole d i = None \<longleftrightarrow> i \<notin> rol_id ` set (roles d)"
  "findRoleByKey d i = None \<longleftrightarrow> i \<notin> rol_key ` set (roles d)"
  "findPermission d i = None \<longleftrightarrow> i \<notin> prm_id ` set (permissions d)"
  by (simp_all add: findUser_def findOrg_def findUnit_def findBuilding_def findRole_def
      findRoleByKey_def findPermission_def findFirst_None_key)

section \<open>Org scope (\<open>org-scope.ts\<close>)\<close>

text \<open>
  \<open>assertOrgScope(user)\<close>, the caller's org or 403, and the \<open>user?.sub\<close> check of the services.
\<close>

definition assertOrgScope :: "auth_user option \<Rightarrow> id op" where
  "assertOrgScope u =
     some_or (truthy (case u of None \<Rightarrow> None | Some a \<Rightarrow> aut_orgId a)) (Forbidden ''Org scope required'')"

definition requireSub :: "auth_user option \<Rightarrow> id op" where
  "requireSub u =
     some_or (truthy (map_option aut_sub u)) (Unauthorized ''Unauthorized'')"

text \<open>The org and the user id an action runs under, when the two checks pass.\<close>

definition scope_of :: "auth_user option \<Rightarrow> id option" where
  "scope_of u = truthy (case u of None \<Rightarrow> None | Some a \<Rightarrow> aut_orgId a)"

definition sub_of :: "auth_user option \<Rightarrow> id option" where
  "sub_of u = truthy (map_option aut_sub u)"

lemma assertOrgScope_run [run]:
  "assertOrgScope u s = (case scope_of u of None \<Rightarrow> (Inl (Forbidden ''Org scope required''), s) | Some v \<Rightarrow> (Inr v, s))"
  "bind (assertOrgScope u) k s = (case scope_of u of None \<Rightarrow> (Inl (Forbidden ''Org scope required''), s) | Some v \<Rightarrow> k v s)"
  by (simp_all add: assertOrgScope_def scope_of_def run)

lemma requireSub_run [run]:
  "requireSub u s = (case sub_of u of None \<Rightarrow> (Inl (Unauthorized ''Unauthorized''), s) | Some v \<Rightarrow> (Inr v, s))"
  "bind (requireSub u) k s = (case sub_of u of None \<Rightarrow> (Inl (Unauthorized ''Unauthorized''), s) | Some v \<Rightarrow> k v s)"
  by (simp_all add: requireSub_def sub_of_def run)

lemma readonly_scope [frame]: "readonly (assertOrgScope u)" "readonly (requireSub u)"
  by (simp_all add: assertOrgScope_def requireSub_def frame)

lemma db_keeps_assertOrgScope [inv]: "db_keeps I (assertOrgScope u)"
  and db_keeps_requireSub [inv]: "db_keeps I (requireSub u)"
  by (simp_all add: assertOrgScope_def requireSub_def inv)

end
