(* ===== verification/AccessControl.thy ===== *)
theory AccessControl
  imports State
begin

text \<open>
  The access-control module: the permission repository, the effective permissions of a user
  (\<open>access-control.service.ts\<close>), the roles service, the user-access service and the response
  objects. The component promises that a user's effective permissions are those of the user's
  roles, plus the ALLOW overrides, minus the DENY overrides; the locale \<open>permission_source\<close> is the
  form in which the guards rely on it.
\<close>

section \<open>Repository (\<open>access-control.repo.ts\<close>)\<close>

datatype update_mode = ADD | REPLACE

text \<open>A role with its permissions: the \<open>include\<close> of \<open>rolePermissions.permission\<close>.\<close>

definition role_permissions :: "db \<Rightarrow> id \<Rightarrow> permission list" where
  "role_permissions d roleId =
     concat (map (\<lambda>rp. findMany (\<lambda>p. prm_id p = rpm_permissionId rp) (permissions d))
       (findMany (\<lambda>rp. rpm_roleId rp = roleId) (rolePermissions d)))"

definition listPermissions :: "db \<Rightarrow> permission list" where
  "listPermissions d = order_asc prm_key (permissions d)"

definition listRolesWithPermissions :: "db \<Rightarrow> (role \<times> permission list) list" where
  "listRolesWithPermissions d =
     map (\<lambda>r. (r, role_permissions d (rol_id r))) (order_asc rol_key (roles d))"

definition findRoleWithPermissionsById :: "db \<Rightarrow> id \<Rightarrow> (role \<times> permission list) option" where
  "findRoleWithPermissionsById d roleId =
     map_option (\<lambda>r. (r, role_permissions d (rol_id r))) (findRole d roleId)"

definition createRole :: "ext \<Rightarrow> string \<Rightarrow> string \<Rightarrow> string option \<Rightarrow> bool \<Rightarrow> role op" where
  "createRole x key name description isSystem =
     bind (new_row x (\<lambda>d. map rol_id (roles d))) (\<lambda>(i, now).
     bind get_db (\<lambda>d.
     bind (unique_key (findRoleByKey d key = None)) (\<lambda>_.
     let r = \<lparr>rol_id = i, rol_key = key, rol_name = name, rol_description = description,
              rol_isSystem = isSystem, rol_createdAt = now, rol_updatedAt = now\<rparr> in
     bind (write_db (\<lambda>d. d\<lparr>roles := roles d @ [r]\<rparr>)) (\<lambda>_. ret r))))"

definition findPermissionsByKeys :: "db \<Rightarrow> string list \<Rightarrow> permission list" where
  "findPermissionsByKeys d keys =
     (if keys = [] then [] else findMany (\<lambda>p. prm_key p \<in> set keys) (permissions d))"

definition findRolesByIds :: "db \<Rightarrow> id list \<Rightarrow> role list" where
  "findRolesByIds d ids =
     (if ids = [] then [] else findMany (\<lambda>r. rol_id r \<in> set ids) (roles d))"

definition role_permission_key :: "role_permission \<Rightarrow> id \<times> id" where
  "role_permission_key rp = (rpm_roleId rp, rpm_permissionId rp)"

definition user_role_key :: "user_role \<Rightarrow> id \<times> id" where
  "user_role_key ur = (uro_userId ur, uro_roleId ur)"

definition user_permission_key :: "user_permission \<Rightarrow> id \<times> id" where
  "user_permission_key up = (upm_userId up, upm_permissionId up)"

definition createRolePermissions :: "id \<Rightarrow> id list \<Rightarrow> unit op" where
  "createRolePermissions roleId permissionIds =
     bind get_db (\<lambda>d.
     bind (foreign_key (findRole d roleId \<noteq> None \<and> (\<forall>p \<in> set permissionIds. findPermission d p \<noteq> None))) (\<lambda>_.
     write_db (\<lambda>d. d\<lparr>rolePermissions := createMany_skip role_permission_key
       (map (\<lambda>p. \<lparr>rpm_roleId = roleId, rpm_permissionId = p\<rparr>) permissionIds) (rolePermissions d)\<rparr>)))"

definition replaceRolePermissions :: "id \<Rightarrow> id list \<Rightarrow> unit op" where
  "replaceRolePermissions roleId permissionIds = transaction (
     bind (write_db (\<lambda>d. d\<lparr>rolePermissions := deleteMany (\<lambda>rp. rpm_roleId rp = roleId) (rolePermissions d)\<rparr>)) (\<lambda>_.
     if permissionIds = [] then ret () else createRolePermissions roleId permissionIds))"

definition addRolePermissions :: "id \<Rightarrow> id list \<Rightarrow> unit op" where
  "addRolePermissions roleId permissionIds =
     (if permissionIds = [] then ret () else createRolePermissions roleId permissionIds)"

definition createUserRoles :: "id \<Rightarrow> id list \<Rightarrow> unit op" where
  "createUserRoles userId roleIds =
     bind get_db (\<lambda>d.
     bind (foreign_key (findUser d userId \<noteq> None \<and> (\<forall>r \<in> set roleIds. findRole d r \<noteq> None))) (\<lambda>_.
     write_db (\<lambda>d. d\<lparr>userRoles := createMany_skip user_role_key
       (map (\<lambda>r. \<lparr>uro_userId = userId, uro_roleId = r\<rparr>) roleIds) (userRoles d)\<rparr>)))"

definition replaceUserRoles :: "id \<Rightarrow> id list \<Rightarrow> unit op" where
  "replaceUserRoles userId roleIds = transaction (
     bind (write_db (\<lambda>d. d\<lparr>userRoles := deleteMany (\<lambda>ur. uro_userId ur = userId) (userRoles d)\<rparr>)) (\<lambda>_.
     if roleIds = [] then ret () else createUserRoles userId roleIds))"

definition addUserRoles :: "id \<Rightarrow> id list \<Rightarrow> unit op" where
  "addUserRoles userId roleIds = (if roleIds = [] then ret () else createUserRoles userId roleIds)"

definition createUserPermissions :: "id \<Rightarrow> (id \<times> PermissionEffect) list \<Rightarrow> unit op" where
  "createUserPermissions userId overrides =
     bind get_db (\<lambda>d.
     bind (foreign_key (findUser d userId \<noteq> None \<and> (\<forall>ov \<in> set overrides. findPermission d (fst ov) \<noteq> None))) (\<lambda>_.
     write_db (\<lambda>d. d\<lparr>userPermissions := createMany_skip user_permission_key
       (map (\<lambda>ov. \<lparr>upm_userId = userId, upm_permissionId = fst ov, upm_effect = snd ov\<rparr>) overrides)
       (userPermissions d)\<rparr>)))"

definition replaceUserPermissions :: "id \<Rightarrow> (id \<times> PermissionEffect) list \<Rightarrow> unit op" where
  "replaceUserPermissions userId overrides = transaction (
     bind (write_db (\<lambda>d. d\<lparr>userPermissions := deleteMany (\<lambda>up. upm_userId up = userId) (userPermissions d)\<rparr>)) (\<lambda>_.
     if overrides = [] then ret () else createUserPermissions userId overrides))"

definition rolePermissionKeys :: "db \<Rightarrow> id \<Rightarrow> string list" where
  "rolePermissionKeys d userId =
     concat (map (\<lambda>ur. concat (map (\<lambda>r. map prm_key (role_permissions d (rol_id r)))
         (findMany (\<lambda>r. rol_id r = uro_roleId ur) (roles d))))
       (findMany (\<lambda>ur. uro_userId ur = userId) (userRoles d)))"

definition userOverrides :: "db \<Rightarrow> id \<Rightarrow> (string \<times> PermissionEffect) list" where
  "userOverrides d userId =
     concat (map (\<lambda>up. map (\<lambda>p. (prm_key p, upm_effect up))
         (findMany (\<lambda>p. prm_id p = upm_permissionId up) (permissions d)))
       (findMany (\<lambda>up. upm_userId up = userId) (userPermissions d)))"

definition getUserAccess :: "db \<Rightarrow> id \<Rightarrow> string list \<times> (string \<times> PermissionEffect) list" where
  "getUserAccess d userId = (rolePermissionKeys d userId, userOverrides d userId)"

section \<open>Effective permissions (\<open>access-control.service.ts\<close>)\<close>

text \<open>The loop over the overrides, on a \<open>Set\<close> kept in insertion order.\<close>

fun apply_overrides :: "(string \<times> PermissionEffect) list \<Rightarrow> string list \<Rightarrow> string list" where
  "apply_overrides [] effective = effective"
| "apply_overrides ((key, ALLOW) # os) effective = apply_overrides os (set_add key effective)"
| "apply_overrides ((key, DENY) # os) effective = apply_overrides os (set_delete key effective)"

definition getUserEffectivePermissions :: "db \<Rightarrow> id \<Rightarrow> string list" where
  "getUserEffectivePermissions d userId =
     (case getUserAccess d userId of (keys, overrides) \<Rightarrow> apply_overrides overrides (uniq keys))"

section \<open>Permissions service, roles service and their responses\<close>

record permission_response =
  prs_id :: id
  prs_key :: string
  prs_name :: string
  prs_description :: "string option"
  prs_createdAt :: date
  prs_updatedAt :: date

definition toPermissionResponse :: "permission \<Rightarrow> permission_response" where
  "toPermissionResponse p = \<lparr>prs_id = prm_id p, prs_key = prm_key p, prs_name = prm_name p,
     prs_description = prm_description p, prs_createdAt = prm_createdAt p, prs_updatedAt = prm_updatedAt p\<rparr>"

record role_response =
  rrs_id :: id
  rrs_key :: string
  rrs_name :: string
  rrs_description :: "string option"
  rrs_isSystem :: bool
  rrs_createdAt :: date
  rrs_updatedAt :: date
  rrs_permissions :: "string list"

definition toRoleResponse :: "role \<times> permission list \<Rightarrow> role_response" where
  "toRoleResponse rp = (case rp of (r, ps) \<Rightarrow> \<lparr>rrs_id = rol_id r, rrs_key = rol_key r, rrs_name = rol_name r,
     rrs_description = rol_description r, rrs_isSystem = rol_isSystem r, rrs_createdAt = rol_createdAt r,
     rrs_updatedAt = rol_updatedAt r, rrs_permissions = map prm_key ps\<rparr>)"

record create_role_dto =
  crd_key :: string
  crd_name :: string
  crd_description :: "string option"

definition permissions_list :: "permission_response list op" where
  "permissions_list = bind (query listPermissions) (\<lambda>ps. ret (map toPermissionResponse ps))"

definition roles_list :: "role_response list op" where
  "roles_list = bind (query listRolesWithPermissions) (\<lambda>rs. ret (map toRoleResponse rs))"

definition roles_create :: "ext \<Rightarrow> create_role_dto \<Rightarrow> role_response op" where
  "roles_create x dto =
     bind (createRole x (crd_key dto) (crd_name dto) (crd_description dto) False) (\<lambda>r.
     ret (toRoleResponse (r, [])))"

definition missing_keys :: "string list \<Rightarrow> permission list \<Rightarrow> string list" where
  "missing_keys keys ps = filter (\<lambda>k. findFirst (\<lambda>p. prm_key p = k) ps = None) keys"

definition setRolePermissions ::
  "id \<Rightarrow> string list \<Rightarrow> update_mode option \<Rightarrow> role_response op" where
  "setRolePermissions roleId permissionKeys mode =
     bind (query (\<lambda>d. findRoleWithPermissionsById d roleId)) (\<lambda>found.
     bind (some_or found (NotFound ''Role not found'')) (\<lambda>existingRole.
     bind (query (\<lambda>d. findPermissionsByKeys d permissionKeys)) (\<lambda>ps.
     let permissionIds = map prm_id ps; missing = missing_keys permissionKeys ps in
     bind (require (missing = []) (BadRequest (''Unknown permission keys: '' @ join '', '' missing))) (\<lambda>_.
     bind (if mode = Some ADD then addRolePermissions roleId permissionIds
           else replaceRolePermissions roleId permissionIds) (\<lambda>_.
     bind (query (\<lambda>d. findRoleWithPermissionsById d roleId)) (\<lambda>r.
     ret (case r of Some r1 \<Rightarrow> toRoleResponse r1 | None \<Rightarrow> toRoleResponse existingRole)))))))"

section \<open>User access (\<open>user-access.service.ts\<close>)\<close>

definition assignRoles :: "id \<Rightarrow> id list \<Rightarrow> update_mode option \<Rightarrow> unit op" where
  "assignRoles userId roleIds mode =
     bind (query (\<lambda>d. findRolesByIds d roleIds)) (\<lambda>rs.
     let missing = filter (\<lambda>i. findFirst (\<lambda>r. rol_id r = i) rs = None) roleIds in
     bind (require (missing = []) (BadRequest (''Unknown role ids: '' @ join '', '' missing))) (\<lambda>_.
     if mode = Some ADD then addUserRoles userId roleIds else replaceUserRoles userId roleIds))"

text \<open>\<open>new Map(entries)\<close>: the last entry of a key is the one \<open>get\<close> returns.\<close>

definition permissionIdByKey :: "permission list \<Rightarrow> string \<Rightarrow> id option" where
  "permissionIdByKey ps = map_of (rev (map (\<lambda>p. (prm_key p, prm_id p)) ps))"

definition mapped_overrides ::
  "permission list \<Rightarrow> (string \<times> PermissionEffect) list \<Rightarrow> (id \<times> PermissionEffect) list" where
  "mapped_overrides ps overrides =
     List.map_filter (\<lambda>(k, e). map_option (\<lambda>i. (i, e)) (truthy (permissionIdByKey ps k))) overrides"

definition setPermissionOverrides :: "id \<Rightarrow> (string \<times> PermissionEffect) list \<Rightarrow> unit op" where
  "setPermissionOverrides userId overrides =
     (let permissionKeys = map fst overrides in
     bind (query (\<lambda>d. findPermissionsByKeys d permissionKeys)) (\<lambda>ps.
     let missing = missing_keys permissionKeys ps in
     bind (require (missing = []) (BadRequest (''Unknown permission keys: '' @ join '', '' missing))) (\<lambda>_.
     replaceUserPermissions userId (mapped_overrides ps overrides))))"

section \<open>Well-formed access tables\<close>

text \<open>
  The keys of \<open>schema.prisma\<close> for the access tables: primary and unique keys, and foreign keys.
\<close>

definition acl_ok :: "db \<Rightarrow> bool" where
  "acl_ok d \<longleftrightarrow>
     distinct (map prm_id (permissions d)) \<and> distinct (map prm_key (permissions d)) \<and>
     [] \<notin> prm_id ` set (permissions d) \<and>
     distinct (map rol_id (roles d)) \<and> distinct (map rol_key (roles d)) \<and>
     distinct (map role_permission_key (rolePermissions d)) \<and>
     distinct (map user_role_key (userRoles d)) \<and>
     distinct (map user_permission_key (userPermissions d)) \<and>
     (\<forall>rp \<in> set (rolePermissions d). rpm_roleId rp \<in> rol_id ` set (roles d) \<and> rpm_permissionId rp \<in> prm_id ` set (permissions d)) \<and>
     (\<forall>ur \<in> set (userRoles d). uro_userId ur \<in> usr_id ` set (users d) \<and> uro_roleId ur \<in> rol_id ` set (roles d)) \<and>
     (\<forall>up \<in> set (userPermissions d). upm_userId up \<in> usr_id ` set (users d) \<and> upm_permissionId up \<in> prm_id ` set (permissions d))"

lemma acl_ok_permissionD:
  assumes "acl_ok d" "p \<in> set (permissions d)" "q \<in> set (permissions d)"
  shows "prm_key p = prm_key q \<longleftrightarrow> p = q" "prm_id p = prm_id q \<longleftrightarrow> p = q" "prm_id p \<noteq> []"
proof -
  have "distinct (map prm_id (permissions d))" "distinct (map prm_key (permissions d))"
    using assms(1) by (simp_all add: acl_ok_def)
  then show "prm_key p = prm_key q \<longleftrightarrow> p = q" "prm_id p = prm_id q \<longleftrightarrow> p = q"
    using assms(2,3) by (metis distinct_map_eq)+
  show "prm_id p \<noteq> []" using assms(1,2) by (force simp: acl_ok_def)
qed

text \<open>What a role, an ALLOW or a DENY says of a user and a permission key.\<close>

definition role_grants :: "db \<Rightarrow> id \<Rightarrow> string \<Rightarrow> bool" where
  "role_grants d u k \<longleftrightarrow>
     (\<exists>ur \<in> set (userRoles d). \<exists>rp \<in> set (rolePermissions d). \<exists>p \<in> set (permissions d).
        uro_userId ur = u \<and> rpm_roleId rp = uro_roleId ur \<and> rpm_permissionId rp = prm_id p \<and> prm_key p = k
        \<and> uro_roleId ur \<in> rol_id ` set (roles d))"

definition overridden :: "db \<Rightarrow> id \<Rightarrow> PermissionEffect \<Rightarrow> string \<Rightarrow> bool" where
  "overridden d u e k \<longleftrightarrow>
     (\<exists>up \<in> set (userPermissions d). \<exists>p \<in> set (permissions d).
        upm_userId up = u \<and> upm_effect up = e \<and> upm_permissionId up = prm_id p \<and> prm_key p = k)"

lemma apply_overrides_set:
  "k \<in> set (apply_overrides os b) \<longleftrightarrow>
     (case map_of (rev os) k of None \<Rightarrow> k \<in> set b | Some e \<Rightarrow> e = ALLOW)"
proof (induction os b rule: apply_overrides.induct)
  case (1 b)
  then show ?case by simp
next
  case (2 key os b)
  then show ?case by (auto simp: map_add_def split: option.splits)
next
  case (3 key os b)
  then show ?case by (auto simp: map_add_def split: option.splits)
qed

lemma map_of_rev_unique:
  "(\<And>e f. (k, e) \<in> set os \<Longrightarrow> (k, f) \<in> set os \<Longrightarrow> e = f) \<Longrightarrow> map_of (rev os) k = Some e \<longleftrightarrow> (k, e) \<in> set os"
  by (metis map_of_SomeD map_of_eq_None_iff not_None_eq set_rev weak_map_of_SomeI)

lemma set_role_permissions:
  "p \<in> set (role_permissions d i) \<longleftrightarrow>
     p \<in> set (permissions d) \<and> (\<exists>rp \<in> set (rolePermissions d). rpm_roleId rp = i \<and> rpm_permissionId rp = prm_id p)"
  by (auto simp: role_permissions_def)

lemma set_rolePermissionKeys: "k \<in> set (rolePermissionKeys d u) \<longleftrightarrow> role_grants d u k"
proof
  assume "k \<in> set (rolePermissionKeys d u)"
  then obtain ur r p where "ur \<in> set (userRoles d)" "uro_userId ur = u" "r \<in> set (roles d)"
      "rol_id r = uro_roleId ur" "p \<in> set (role_permissions d (rol_id r))" "prm_key p = k"
    by (auto simp: rolePermissionKeys_def)
  then show "role_grants d u k"
    unfolding role_grants_def set_role_permissions by (metis imageI)
next
  assume "role_grants d u k"
  then obtain ur rp p r where "ur \<in> set (userRoles d)" "rp \<in> set (rolePermissions d)" "p \<in> set (permissions d)"
      "uro_userId ur = u" "rpm_roleId rp = uro_roleId ur" "rpm_permissionId rp = prm_id p" "prm_key p = k"
      "r \<in> set (roles d)" "rol_id r = uro_roleId ur"
    by (auto simp: role_grants_def)
  moreover from this have "p \<in> set (role_permissions d (rol_id r))"
    unfolding set_role_permissions by metis
  ultimately show "k \<in> set (rolePermissionKeys d u)"
    by (force simp: rolePermissionKeys_def)
qed

lemma set_userOverrides: "(k, e) \<in> set (userOverrides d u) \<longleftrightarrow> overridden d u e k"
proof
  assume "(k, e) \<in> set (userOverrides d u)"
  then obtain up p where "up \<in> set (userPermissions d)" "p \<in> set (permissions d)" "upm_userId up = u"
      "upm_effect up = e" "upm_permissionId up = prm_id p" "prm_key p = k"
    by (auto simp: userOverrides_def)
  then show "overridden d u e k" unfolding overridden_def by metis
next
  assume "overridden d u e k"
  then obtain up p where "up \<in> set (userPermissions d)" "p \<in> set (permissions d)" "upm_userId up = u"
      "upm_effect up = e" "upm_permissionId up = prm_id p" "prm_key p = k"
    unfolding overridden_def by metis
  then show "(k, e) \<in> set (userOverrides d u)" by (force simp: userOverrides_def)
qed

lemma overridden_unique:
  assumes "acl_ok d" "overridden d u e k" "overridden d u f k"
  shows "e = f"
proof -
  obtain a p b q where *: "a \<in> set (userPermissions d)" "b \<in> set (userPermissions d)"
      "p \<in> set (permissions d)" "q \<in> set (permissions d)"
      "upm_userId a = u" "upm_userId b = u" "upm_effect a = e" "upm_effect b = f"
      "upm_permissionId a = prm_id p" "upm_permissionId b = prm_id q" "prm_key p = k" "prm_key q = k"
    using assms(2,3) unfolding overridden_def by blast
  have "p = q" using * assms(1) by (auto simp: acl_ok_def intro: distinct_map_eq)
  then have "a = b" using * assms(1)
    by (auto simp: acl_ok_def user_permission_key_def intro!: distinct_map_eq [of user_permission_key])
  then show ?thesis using * by simp
qed

lemma effective_iff:
  assumes "acl_ok d"
  shows "k \<in> set (getUserEffectivePermissions d u) \<longleftrightarrow>
     (role_grants d u k \<or> overridden d u ALLOW k) \<and> \<not> overridden d u DENY k"
proof -
  have u: "map_of (rev (userOverrides d u)) k = Some e \<longleftrightarrow> overridden d u e k" for e
    using map_of_rev_unique [of k "userOverrides d u"] overridden_unique [OF assms]
    by (metis set_userOverrides)
  have eff: "k \<in> set (getUserEffectivePermissions d u) \<longleftrightarrow>
      (case map_of (rev (userOverrides d u)) k of None \<Rightarrow> role_grants d u k | Some e \<Rightarrow> e = ALLOW)"
    unfolding set_rolePermissionKeys [symmetric]
    by (simp add: getUserEffectivePermissions_def getUserAccess_def apply_overrides_set split: option.splits)
  show ?thesis
  proof (cases "map_of (rev (userOverrides d u)) k")
    case None
    then have "\<not> overridden d u e k" for e using u by (metis option.distinct(1))
    with None eff show ?thesis by simp
  next
    case (Some e)
    then have "overridden d u f k \<longleftrightarrow> f = e" for f using u by (metis option.inject)
    with Some eff show ?thesis by (cases e) auto
  qed
qed

section \<open>Every write keeps the access tables well formed\<close>

lemma deleteMany_distinct: "distinct (map k t) \<Longrightarrow> distinct (map k (deleteMany p t))"
  by (auto simp: deleteMany_def distinct_map intro: inj_on_subset)

lemma acl_ok_delete:
  "acl_ok d \<Longrightarrow> acl_ok (d\<lparr>rolePermissions := deleteMany p (rolePermissions d)\<rparr>)"
  "acl_ok d \<Longrightarrow> acl_ok (d\<lparr>userRoles := deleteMany q (userRoles d)\<rparr>)"
  "acl_ok d \<Longrightarrow> acl_ok (d\<lparr>userPermissions := deleteMany r (userPermissions d)\<rparr>)"
  by (auto simp: acl_ok_def deleteMany_distinct)

lemma acl_ok_create_rolePermissions:
  assumes "acl_ok d" "\<And>rp. rp \<in> set rps \<Longrightarrow>
      rpm_roleId rp \<in> rol_id ` set (roles d) \<and> rpm_permissionId rp \<in> prm_id ` set (permissions d)"
  shows "acl_ok (d\<lparr>rolePermissions := createMany_skip role_permission_key rps (rolePermissions d)\<rparr>)"
  using assms createMany_skip_subset [of role_permission_key rps "rolePermissions d"]
  by (auto simp: acl_ok_def createMany_skip_distinct)

lemma acl_ok_create_userRoles:
  assumes "acl_ok d" "\<And>ur. ur \<in> set urs \<Longrightarrow>
      uro_userId ur \<in> usr_id ` set (users d) \<and> uro_roleId ur \<in> rol_id ` set (roles d)"
  shows "acl_ok (d\<lparr>userRoles := createMany_skip user_role_key urs (userRoles d)\<rparr>)"
  using assms createMany_skip_subset [of user_role_key urs "userRoles d"]
  by (auto simp: acl_ok_def createMany_skip_distinct)

lemma acl_ok_create_userPermissions:
  assumes "acl_ok d" "\<And>up. up \<in> set ups \<Longrightarrow>
      upm_userId up \<in> usr_id ` set (users d) \<and> upm_permissionId up \<in> prm_id ` set (permissions d)"
  shows "acl_ok (d\<lparr>userPermissions := createMany_skip user_permission_key ups (userPermissions d)\<rparr>)"
  using assms createMany_skip_subset [of user_permission_key ups "userPermissions d"]
  by (auto simp: acl_ok_def createMany_skip_distinct)

lemma acl_keeps_createRole: "db_keeps acl_ok (createRole x k n desc b)"
  by (rule db_keepsI) (auto simp: createRole_def run find_by_id_None Let_def acl_ok_def split: if_splits)

lemma acl_keeps_createRolePermissions: "db_keeps acl_ok (createRolePermissions r ps)"
  unfolding createRolePermissions_def
  by (rule db_keepsI) (auto simp: run find_by_id_None intro!: acl_ok_create_rolePermissions)

lemma acl_keeps_createUserRoles: "db_keeps acl_ok (createUserRoles u rs)"
  unfolding createUserRoles_def
  by (rule db_keepsI) (auto simp: run find_by_id_None intro!: acl_ok_create_userRoles)

lemma acl_keeps_replaceRolePermissions: "db_keeps acl_ok (replaceRolePermissions r ps)"
  unfolding replaceRolePermissions_def
  by (intro inv db_keeps_write acl_ok_delete acl_keeps_createRolePermissions)

lemma acl_keeps_addRolePermissions: "db_keeps acl_ok (addRolePermissions r ps)"
  unfolding addRolePermissions_def by (intro inv acl_keeps_createRolePermissions)

lemma acl_keeps_replaceUserRoles: "db_keeps acl_ok (replaceUserRoles u rs)"
  unfolding replaceUserRoles_def
  by (intro inv db_keeps_write acl_ok_delete acl_keeps_createUserRoles)

lemma acl_keeps_addUserRoles: "db_keeps acl_ok (addUserRoles u rs)"
  unfolding addUserRoles_def by (intro inv acl_keeps_createUserRoles)

lemma acl_keeps_createUserPermissions: "db_keeps acl_ok (createUserPermissions u os)"
  unfolding createUserPermissions_def
  by (rule db_keepsI) (fastforce simp: run find_by_id_None intro!: acl_ok_create_userPermissions)

lemma acl_keeps_replaceUserPermissions: "db_keeps acl_ok (replaceUserPermissions u os)"
  unfolding replaceUserPermissions_def
  by (intro inv db_keeps_write acl_ok_delete acl_keeps_createUserPermissions)

lemmas acl_keeps [inv] = acl_keeps_createRole acl_keeps_addRolePermissions acl_keeps_replaceRolePermissions
  acl_keeps_addUserRoles acl_keeps_replaceUserRoles acl_keeps_replaceUserPermissions

lemma acl_keeps_service [inv]:
  "db_keeps acl_ok (roles_create x dto)"
  "db_keeps acl_ok (setRolePermissions r ks m)"
  "db_keeps acl_ok (assignRoles u rs m)"
  "db_keeps acl_ok (setPermissionOverrides u os)"
  unfolding roles_create_def setRolePermissions_def assignRoles_def setPermissionOverrides_def Let_def
  by (intro inv)+

section \<open>What the writes do\<close>

lemma findPermissionsByKeys_set:
  "set (findPermissionsByKeys d ks) = {p \<in> set (permissions d). prm_key p \<in> set ks}"
  by (auto simp: findPermissionsByKeys_def)

lemma missing_keys_Nil:
  "missing_keys ks (findPermissionsByKeys d ks) = [] \<longleftrightarrow> set ks \<subseteq> prm_key ` set (permissions d)"
  by (auto simp: missing_keys_def filter_empty_conv findPermissionsByKeys_set findFirst_None_key image_iff
      simp del: not_None_eq)

lemma permissionIdByKey_eq:
  assumes "acl_ok d" "p \<in> set (permissions d)" "prm_key p \<in> set ks"
  shows "permissionIdByKey (findPermissionsByKeys d ks) (prm_key p) = Some (prm_id p)"
proof -
  let ?ps = "findPermissionsByKeys d ks"
  have "(prm_key p, e) \<in> set (map (\<lambda>p. (prm_key p, prm_id p)) ?ps) \<longleftrightarrow> e = prm_id p" for e
    using assms(2,3) acl_ok_permissionD(1) [OF assms(1)] by (auto simp: findPermissionsByKeys_set)
  then show ?thesis
    unfolding permissionIdByKey_def
    using map_of_rev_unique [of "prm_key p" "map (\<lambda>p. (prm_key p, prm_id p)) ?ps" "prm_id p"] by metis
qed

lemma mapped_overrides_eq:
  assumes "acl_ok d" "set (map fst os) \<subseteq> prm_key ` set (permissions d)" "set (map fst os) \<subseteq> set ks"
  shows "mapped_overrides (findPermissionsByKeys d ks) os =
      map (\<lambda>(k, e). (the (permissionIdByKey (findPermissionsByKeys d ks) k), e)) os"
  using assms(2,3)
proof (induction os)
  case (Cons o1 os)
  obtain k e where o1: "o1 = (k, e)" by (cases o1)
  with Cons.prems obtain p where p: "p \<in> set (permissions d)" "prm_key p = k" "k \<in> set ks" by auto
  then have "permissionIdByKey (findPermissionsByKeys d ks) k = Some (prm_id p)"
    using permissionIdByKey_eq [OF assms(1)] by blast
  moreover have "prm_id p \<noteq> []" using acl_ok_permissionD(3) [OF assms(1) p(1) p(1)] .
  ultimately show ?case
    using Cons o1 by (auto simp: mapped_overrides_def List.map_filter_def truthy_def)
qed (simp add: mapped_overrides_def List.map_filter_def)

lemma replaceUserPermissions_run:
  "replaceUserPermissions u os s = (Inr (), t) \<Longrightarrow>
     st_db t = (st_db s)\<lparr>userPermissions := createMany_skip user_permission_key
       (map (\<lambda>ov. \<lparr>upm_userId = u, upm_permissionId = fst ov, upm_effect = snd ov\<rparr>) os)
       (deleteMany (\<lambda>up. upm_userId up = u) (userPermissions (st_db s)))\<rparr>"
  unfolding replaceUserPermissions_def createUserPermissions_def
  by (drule transaction_InrD) (auto simp: run split: if_splits)

lemma setPermissionOverrides_run:
  assumes "acl_ok (st_db s)" "setPermissionOverrides u os s = (Inr (), t)"
  defines "ids \<equiv> \<lambda>k. the (permissionIdByKey (findPermissionsByKeys (st_db s) (map fst os)) k)"
  shows "set (map fst os) \<subseteq> prm_key ` set (permissions (st_db s))"
    and "st_db t = (st_db s)\<lparr>userPermissions := createMany_skip user_permission_key
       (map (\<lambda>ov. \<lparr>upm_userId = u, upm_permissionId = ids (fst ov), upm_effect = snd ov\<rparr>) os)
       (deleteMany (\<lambda>up. upm_userId up = u) (userPermissions (st_db s)))\<rparr>"
proof -
  let ?m = "mapped_overrides (findPermissionsByKeys (st_db s) (map fst os)) os"
  show sub: "set (map fst os) \<subseteq> prm_key ` set (permissions (st_db s))"
    using assms(2) unfolding setPermissionOverrides_def
    by (simp add: run Let_def missing_keys_Nil split: if_splits)
  have "replaceUserPermissions u ?m s = (Inr (), t)"
    using assms(2) sub unfolding setPermissionOverrides_def
    by (simp add: run Let_def missing_keys_Nil)
  from replaceUserPermissions_run [OF this]
  show "st_db t = (st_db s)\<lparr>userPermissions := createMany_skip user_permission_key
       (map (\<lambda>ov. \<lparr>upm_userId = u, upm_permissionId = ids (fst ov), upm_effect = snd ov\<rparr>) os)
       (deleteMany (\<lambda>up. upm_userId up = u) (userPermissions (st_db s)))\<rparr>"
    unfolding mapped_overrides_eq [OF assms(1) sub subset_refl] ids_def by (simp add: comp_def split_def)
qed

lemma overridden_after:
  assumes "acl_ok (st_db s)" "setPermissionOverrides u os s = (Inr (), t)"
  shows "overridden (st_db t) u e k \<longleftrightarrow> map_of os k = Some e"
proof -
  let ?d = "st_db s"
  define ids where "ids = (\<lambda>k. the (permissionIdByKey (findPermissionsByKeys ?d (map fst os)) k))"
  let ?row = "\<lambda>ov. \<lparr>upm_userId = u, upm_permissionId = ids (fst ov), upm_effect = snd ov\<rparr>"
  have r: "set (map fst os) \<subseteq> prm_key ` set (permissions ?d)"
    "st_db t = ?d\<lparr>userPermissions := createMany_skip user_permission_key (map ?row os)
       (deleteMany (\<lambda>up. upm_userId up = u) (userPermissions ?d))\<rparr>"
    using setPermissionOverrides_run [OF assms] by (simp_all add: ids_def)
  have ids: "ids (prm_key p) = prm_id p" if "p \<in> set (permissions ?d)" "prm_key p \<in> set (map fst os)" for p
    using permissionIdByKey_eq [OF assms(1) that] by (simp add: ids_def)
  have inj: "ids a = ids b \<longleftrightarrow> a = b" if ab: "a \<in> set (map fst os)" "b \<in> set (map fst os)" for a b
  proof
    assume eq: "ids a = ids b"
    obtain p where p: "p \<in> set (permissions ?d)" "a = prm_key p"
      using subsetD [OF r(1) ab(1)] by (rule imageE)
    obtain q where q: "q \<in> set (permissions ?d)" "b = prm_key q"
      using subsetD [OF r(1) ab(2)] by (rule imageE)
    note pq = p(1) q(1) p(2) q(2)
    have "ids (prm_key p) = prm_id p" "ids (prm_key q) = prm_id q"
      using ids [OF p(1)] ids [OF q(1)] ab p(2) q(2) by simp_all
    then have "prm_id p = prm_id q" using eq p(2) q(2) by simp
    then show "a = b" using pq acl_ok_permissionD(2) [OF assms(1) pq(1,2)] by simp
  qed simp
  have first: "findFirst (\<lambda>q. user_permission_key q = (u, ids k)) (map ?row xs) = map_option (\<lambda>e. ?row (k, e)) (map_of xs k)"
    if "k \<in> set (map fst os)" "set (map fst xs) \<subseteq> set (map fst os)" for xs k
    using that(2) by (induction xs) (auto simp: findFirst_def user_permission_key_def inj [OF _ that(1)] split: if_splits)
  show ?thesis
  proof
    assume "overridden (st_db t) u e k"
    then obtain up p where *: "up \<in> set (userPermissions (st_db t))" "p \<in> set (permissions ?d)"
        "upm_userId up = u" "upm_effect up = e" "upm_permissionId up = prm_id p" "prm_key p = k"
      using r(2) by (auto simp: overridden_def)
    have "up \<in> set (createMany_skip user_permission_key (map ?row os)
        (deleteMany (\<lambda>up. upm_userId up = u) (userPermissions ?d)))"
      using *(1) r(2) by simp
    then have f: "findFirst (\<lambda>q. user_permission_key q = (u, prm_id p)) (map ?row os) = Some up"
      unfolding createMany_skip_mem using *(3,5) by (simp add: user_permission_key_def)
    then obtain k2 where k2: "k2 \<in> set (map fst os)" "prm_id p = ids k2"
      by (force dest!: findFirst_SomeD simp: user_permission_key_def)
    then obtain p2 where p2: "p2 \<in> set (permissions ?d)" "prm_key p2 = k2"
      using subsetD [OF r(1) k2(1)] by (auto elim: imageE)
    then have "p2 = p" using ids k2 acl_ok_permissionD(2) [OF assms(1) p2(1) *(2)] by metis
    then have "k2 = k" using * \<open>prm_key p2 = k2\<close> by simp
    then have "map_option (\<lambda>e. ?row (k, e)) (map_of os k) = Some up"
      using f first [of k os] k2 by simp
    then show "map_of os k = Some e" using *(4) by (cases "map_of os k") auto
  next
    assume m: "map_of os k = Some e"
    then have k: "k \<in> set (map fst os)" by (force dest: map_of_SomeD)
    then obtain p where p: "p \<in> set (permissions ?d)" "prm_key p = k"
      using subsetD [OF r(1) k] by (auto elim: imageE)
    then have "ids k = prm_id p" using ids k by metis
    then have "\<lparr>upm_userId = u, upm_permissionId = prm_id p, upm_effect = e\<rparr> \<in> set (userPermissions (st_db t))"
      using first [of k os] k m r(2) by (auto simp: createMany_skip_mem user_permission_key_def)
    then show "overridden (st_db t) u e k"
      unfolding overridden_def using p r(2) by force
  qed
qed

lemma role_grants_after_overrides:
  assumes "acl_ok (st_db s)" "setPermissionOverrides u os s = (Inr (), t)"
  shows "role_grants (st_db t) v k = role_grants (st_db s) v k"
  unfolding role_grants_def setPermissionOverrides_run(2) [OF assms] by simp

lemma assignRoles_error:
  "assignRoles u rs m s = (Inl e, t) \<Longrightarrow> st_db t = st_db s"
  unfolding assignRoles_def addUserRoles_def createUserRoles_def replaceUserRoles_def
  by (auto simp: run Let_def transaction_def split: if_splits)

lemma assignRoles_run:
  "assignRoles u rs m s = (Inr (), t) \<Longrightarrow>
     st_db t = (st_db s)\<lparr>userRoles := createMany_skip user_role_key
       (map (\<lambda>r. \<lparr>uro_userId = u, uro_roleId = r\<rparr>) rs)
       (if m = Some ADD then userRoles (st_db s)
        else deleteMany (\<lambda>ur. uro_userId ur = u) (userRoles (st_db s)))\<rparr>"
  unfolding assignRoles_def addUserRoles_def replaceUserRoles_def createUserRoles_def
  by (auto simp: run Let_def transaction_def split: if_splits)

lemma assignRoles_userRoles:
  assumes "assignRoles u rs m s = (Inr (), t)"
  shows "user_role_key ` set (userRoles (st_db t)) =
      Pair u ` set rs \<union> (if m = Some ADD then user_role_key ` set (userRoles (st_db s))
        else user_role_key ` {ur \<in> set (userRoles (st_db s)). uro_userId ur \<noteq> u})"
proof -
  have "user_role_key \<lparr>uro_userId = u, uro_roleId = r\<rparr> = (u, r)" for r by (simp add: user_role_key_def)
  then show ?thesis by (simp add: assignRoles_run [OF assms] image_image)
qed

lemma setRolePermissions_error:
  "setRolePermissions r ks m s = (Inl e, t) \<Longrightarrow> st_db t = st_db s"
  unfolding setRolePermissions_def addRolePermissions_def createRolePermissions_def replaceRolePermissions_def
  by (auto simp: run Let_def transaction_def bind_app split: if_splits option.splits)

section \<open>The contract of the component\<close>

text \<open>
  What a client may rely on: in a well-formed database a key is effective for a user iff it is
  granted (by a role or an override) and not denied by an override.
\<close>

locale permission_source =
  fixes effective :: "'d \<Rightarrow> id \<Rightarrow> string list"
    and ok :: "'d \<Rightarrow> bool"
    and granted :: "'d \<Rightarrow> id \<Rightarrow> string \<Rightarrow> bool"
    and denied :: "'d \<Rightarrow> id \<Rightarrow> string \<Rightarrow> bool"
  assumes effective_law: "ok d \<Longrightarrow> k \<in> set (effective d u) \<longleftrightarrow> granted d u k \<and> \<not> denied d u k"
begin

lemma has_all: "ok d \<Longrightarrow> list_all (\<lambda>k. k \<in> set (effective d u)) ks \<longleftrightarrow>
    (\<forall>k \<in> set ks. granted d u k \<and> \<not> denied d u k)"
  by (auto simp: list_all_iff effective_law)

lemma denied_fails: "ok d \<Longrightarrow> denied d u k \<Longrightarrow> k \<in> set ks \<Longrightarrow>
    \<not> list_all (\<lambda>k. k \<in> set (effective d u)) ks"
  by (auto simp: has_all)

lemma has_all_mono:
  "ok d \<Longrightarrow> set js \<subseteq> set ks \<Longrightarrow> list_all (\<lambda>k. k \<in> set (effective d u)) ks \<Longrightarrow>
     list_all (\<lambda>k. k \<in> set (effective d u)) js"
  by (auto simp: has_all)

end

definition key_granted :: "db \<Rightarrow> id \<Rightarrow> string \<Rightarrow> bool" where
  "key_granted d u k \<longleftrightarrow> role_grants d u k \<or> overridden d u ALLOW k"

definition key_denied :: "db \<Rightarrow> id \<Rightarrow> string \<Rightarrow> bool" where
  "key_denied d u k \<longleftrightarrow> overridden d u DENY k"

interpretation ac: permission_source getUserEffectivePermissions acl_ok key_granted key_denied
  by unfold_locales (simp add: effective_iff key_granted_def key_denied_def)

end
