(* ===== verification/Codec.thy ===== *)
theory Codec
  imports Prelude
begin

text \<open>
  What the source uses of \<open>Buffer\<close>: the \<open>base64\<close> and \<open>base64url\<close> encodings of bytes, and the
  lenient \<open>base64\<close> decoder, which accepts both alphabets and ignores every other character. A byte
  of 128 or more is no ASCII text: decoding a buffer that holds one as UTF-8 gives a character
  outside ASCII, here always \<open>replacement\<close>.
\<close>

section \<open>Sextets\<close>

fun to_sextets :: "nat list \<Rightarrow> nat list" where
  "to_sextets [] = []"
| "to_sextets [a] = [a div 4, (a mod 4) * 16]"
| "to_sextets [a, b] = [a div 4, (a mod 4) * 16 + b div 16, (b mod 16) * 4]"
| "to_sextets (a # b # c # r) =
     a div 4 # ((a mod 4) * 16 + b div 16) # ((b mod 16) * 4 + c div 64) # c mod 64 # to_sextets r"

fun of_sextets :: "nat list \<Rightarrow> nat list" where
  "of_sextets [] = []"
| "of_sextets [p] = []"
| "of_sextets [p, q] = [p * 4 + q div 16]"
| "of_sextets [p, q, r] = [p * 4 + q div 16, (q mod 16) * 16 + r div 4]"
| "of_sextets (p # q # r # s # t) =
     (p * 4 + q div 16) # ((q mod 16) * 16 + r div 4) # ((r mod 4) * 64 + s) # of_sextets t"

lemma of_to_sextets: "\<forall>a \<in> set bs. a < 256 \<Longrightarrow> of_sextets (to_sextets bs) = bs"
  by (induction bs rule: to_sextets.induct) (auto simp: div_mult_mod_eq [symmetric])

lemma to_sextets_bound: "\<forall>a \<in> set bs. a < 256 \<Longrightarrow> s \<in> set (to_sextets bs) \<Longrightarrow> s < 64"
  by (induction bs rule: to_sextets.induct) auto

section \<open>The alphabets\<close>

definition base64_char :: "nat \<Rightarrow> char" where
  "base64_char i =
     (if i < 26 then char_of (65 + i) else if i < 52 then char_of (71 + i)
      else if i < 62 then char_of (i - 4) else if i = 62 then CHR ''+'' else CHR ''/'')"

definition base64url_char :: "nat \<Rightarrow> char" where
  "base64url_char i = (if i = 62 then CHR ''-'' else if i = 63 then CHR ''_'' else base64_char i)"

definition base64_index :: "char \<Rightarrow> nat option" where
  "base64_index c =
     (let n = of_char c :: nat in
      if 65 \<le> n \<and> n \<le> 90 then Some (n - 65)
      else if 97 \<le> n \<and> n \<le> 122 then Some (n - 71)
      else if 48 \<le> n \<and> n \<le> 57 then Some (n + 4)
      else if c = CHR ''+'' \<or> c = CHR ''-'' then Some 62
      else if c = CHR ''/'' \<or> c = CHR ''_'' then Some 63
      else None)"

lemma base64_index_char: "i < 64 \<Longrightarrow> base64_index (base64_char i) = Some i"
proof -
  assume "i < 64"
  then consider "i < 26" | "26 \<le> i" "i < 52" | "52 \<le> i" "i < 62" | "i = 62" | "i = 63" by linarith
  then show ?thesis
    by cases (auto simp: base64_index_def base64_char_def Let_def)
qed

lemma base64_index_url: "i < 64 \<Longrightarrow> base64_index (base64url_char i) = Some i"
  by (cases "i = 62 \<or> i = 63")
    (auto simp: base64url_char_def base64_index_char, simp_all add: base64_index_def Let_def)

section \<open>Encoding and decoding\<close>

definition base64_padding :: "nat \<Rightarrow> string" where
  "base64_padding n = (if n mod 3 = 1 then ''=='' else if n mod 3 = 2 then ''='' else [])"

definition base64_encode :: "nat list \<Rightarrow> string" where
  "base64_encode bs = map base64_char (to_sextets bs) @ base64_padding (length bs)"

definition base64url_encode :: "nat list \<Rightarrow> string" where
  "base64url_encode bs = map base64url_char (to_sextets bs)"

definition base64_decode :: "string \<Rightarrow> nat list" where
  "base64_decode s = of_sextets (List.map_filter base64_index s)"

definition utf8_bytes :: "string \<Rightarrow> nat list" where
  "utf8_bytes s = map of_char s"

definition replacement :: char where
  "replacement = CHR 0xFF"

definition utf8_text :: "nat list \<Rightarrow> string" where
  "utf8_text bs = map (\<lambda>n. if n < 128 then char_of n else replacement) bs"

lemma map_filter_inverse:
  "(\<And>i. i \<in> set is \<Longrightarrow> f (g i) = Some i) \<Longrightarrow> List.map_filter f (map g is) = is"
  by (induction "is") (simp_all add: List.map_filter_def)

lemma map_filter_append: "List.map_filter f (xs @ ys) = List.map_filter f xs @ List.map_filter f ys"
  by (simp add: List.map_filter_def)

lemma base64_decode_encode:
  assumes "\<forall>a \<in> set bs. a < 256"
  shows "base64_decode (base64_encode bs) = bs"
proof -
  have "List.map_filter base64_index (map base64_char (to_sextets bs)) = to_sextets bs"
    using assms by (intro map_filter_inverse base64_index_char to_sextets_bound)
  moreover have "List.map_filter base64_index (base64_padding n) = []" for n
    by (simp add: base64_padding_def List.map_filter_def base64_index_def)
  ultimately show ?thesis
    using assms by (simp add: base64_decode_def base64_encode_def map_filter_append of_to_sextets)
qed

lemma base64url_decode_encode:
  assumes "\<forall>a \<in> set bs. a < 256"
  shows "base64_decode (base64url_encode bs) = bs"
proof -
  have "List.map_filter base64_index (map base64url_char (to_sextets bs)) = to_sextets bs"
    using assms by (intro map_filter_inverse base64_index_url to_sextets_bound)
  then show ?thesis
    using assms by (simp add: base64_decode_def base64url_encode_def of_to_sextets)
qed

lemma utf8_text_bytes: "\<forall>c \<in> set s. of_char c < (128 :: nat) \<Longrightarrow> utf8_text (utf8_bytes s) = s"
  by (induction s) (simp_all add: utf8_text_def utf8_bytes_def)

lemma utf8_bytes_bound: "a \<in> set (utf8_bytes s) \<Longrightarrow> a < 256"
  by (auto simp: utf8_bytes_def)

lemma base64_text_roundtrip:
  assumes "\<forall>c \<in> set s. of_char c < (128 :: nat)"
  shows "utf8_text (base64_decode (base64_encode (utf8_bytes s))) = s"
proof -
  have "base64_decode (base64_encode (utf8_bytes s)) = utf8_bytes s"
    by (rule base64_decode_encode) (auto intro: utf8_bytes_bound)
  then show ?thesis using assms by (simp add: utf8_text_bytes)
qed

section \<open>The contract of a codec\<close>

text \<open>What a client of an encoding relies on: valid values come back as they were sent.\<close>

locale codec =
  fixes enc :: "'a \<Rightarrow> 'b" and dec :: "'b \<Rightarrow> 'a option" and valid :: "'a \<Rightarrow> bool"
  assumes dec_enc: "valid a \<Longrightarrow> dec (enc a) = Some a"
begin

lemma enc_inj: "valid a \<Longrightarrow> valid b \<Longrightarrow> enc a = enc b \<Longrightarrow> a = b"
  using dec_enc by (metis option.inject)

lemma enc_eq_iff: "valid a \<Longrightarrow> valid b \<Longrightarrow> enc a = enc b \<longleftrightarrow> a = b"
  using enc_inj by blast

end

definition bytes_ok :: "nat list \<Rightarrow> bool" where
  "bytes_ok bs \<longleftrightarrow> (\<forall>a \<in> set bs. a < 256)"

interpretation b64: codec base64_encode "\<lambda>s. Some (base64_decode s)" bytes_ok
  by unfold_locales (simp add: bytes_ok_def base64_decode_encode)

interpretation b64url: codec base64url_encode "\<lambda>s. Some (base64_decode s)" bytes_ok
  by unfold_locales (simp add: bytes_ok_def base64url_decode_encode)

end
