(* ===== verification/Users.thy ===== *)
theory Users
  imports AccessControl Codec
begin

text \<open>
  The users module: the user response, the repository, \<open>users.service.ts\<close>, and the writes to the
  user table that the auth, platform, residents and provisioning services share. Emails are unique
  and a user's org exists; both are constraints of the schema.
\<close>

section \<open>Responses and input objects\<close>

record user_response =
  urs_id :: id
  urs_email :: string
  urs_name :: "string option"
  urs_avatarUrl :: "string option"
  urs_phone :: "string option"
  urs_isActive :: bool
  urs_orgId :: "id option"
  urs_mustChangePassword :: bool
  urs_createdAt :: date
  urs_updatedAt :: date
  urs_role :: "string option"
  urs_roleKeys :: "string list option"

definition toUserResponse :: "user \<Rightarrow> string list option \<Rightarrow> string option \<Rightarrow> user_response" where
  "toUserResponse u roleKeys rl = \<lparr>urs_id = usr_id u, urs_email = usr_email u, urs_name = usr_name u,
     urs_avatarUrl = usr_avatarUrl u, urs_phone = usr_phone u, urs_isActive = usr_isActive u,
     urs_orgId = usr_orgId u, urs_mustChangePassword = usr_mustChangePassword u,
     urs_createdAt = usr_createdAt u, urs_updatedAt = usr_updatedAt u, urs_role = rl, urs_roleKeys = roleKeys\<rparr>"

record user_building_assignment_response =
  uba_buildingId :: id
  uba_buildingName :: string
  uba_type :: BuildingAssignmentType

record create_org_user_dto =
  cou_name :: string
  cou_email :: string
  cou_password :: "string option"
  cou_roleKeys :: "string list option"

record create_org_user_response =
  cor_userId :: id
  cor_email :: string
  cor_tempPassword :: "string option"
  cor_mustChangePassword :: bool

record update_user_profile_dto =
  uup_name :: "string js"
  uup_avatarUrl :: "string js"
  uup_phone :: "string js"

section \<open>The user table\<close>

definition findUserByEmail :: "db \<Rightarrow> string \<Rightarrow> user option" where
  "findUserByEmail d email = findFirst (\<lambda>u. usr_email u = email) (users d)"

text \<open>\<open>user.create\<close>, with the defaults of the schema.\<close>

definition user_create ::
  "ext \<Rightarrow> string \<Rightarrow> string option \<Rightarrow> string option \<Rightarrow> string \<Rightarrow> id option \<Rightarrow> bool \<Rightarrow> bool \<Rightarrow> user op" where
  "user_create x email name phone passwordHash orgId isActive mustChangePassword =
     bind (new_row x (\<lambda>d. map usr_id (users d))) (\<lambda>(i, now).
     bind get_db (\<lambda>d.
     bind (unique_key (findUserByEmail d email = None)) (\<lambda>_.
     bind (foreign_key (case orgId of None \<Rightarrow> True | Some o1 \<Rightarrow> findOrg d o1 \<noteq> None)) (\<lambda>_.
     let u = \<lparr>usr_id = i, usr_email = email, usr_passwordHash = passwordHash, usr_refreshTokenHash = None,
              usr_name = name, usr_avatarUrl = None, usr_phone = phone, usr_orgId = orgId,
              usr_mustChangePassword = mustChangePassword, usr_isActive = isActive,
              usr_createdAt = now, usr_updatedAt = now\<rparr> in
     bind (write_db (\<lambda>d. d\<lparr>users := users d @ [u]\<rparr>)) (\<lambda>_. ret u)))))"

text \<open>\<open>user.update({ where: { id }, data })\<close>, which sets \<open>updatedAt\<close> and fails on an unknown id.\<close>

definition user_update :: "ext \<Rightarrow> id \<Rightarrow> (user \<Rightarrow> user) \<Rightarrow> user op" where
  "user_update x i f =
     bind draw (\<lambda>t.
     bind (query (\<lambda>d. findUser d i)) (\<lambda>found.
     bind (some_or found (PrismaKnown ''P2025'')) (\<lambda>u.
     let g = (\<lambda>u. (f u)\<lparr>usr_updatedAt := x_clock x t\<rparr>) in
     bind (write_db (\<lambda>d. d\<lparr>users := updateMany (\<lambda>r. usr_id r = i) g (users d)\<rparr>)) (\<lambda>_.
     ret (g u)))))"

section \<open>Repository (\<open>users.repo.ts\<close>)\<close>

definition getRoleKeys :: "db \<Rightarrow> id \<Rightarrow> string list" where
  "getRoleKeys d userId =
     concat (map (\<lambda>ur. map rol_key (findMany (\<lambda>r. rol_id r = uro_roleId ur) (roles d)))
       (findMany (\<lambda>ur. uro_userId ur = userId) (userRoles d)))"

definition listByOrg :: "db \<Rightarrow> id \<Rightarrow> (user \<times> string list) list" where
  "listByOrg d orgId =
     map (\<lambda>u. (u, getRoleKeys d (usr_id u)))
       (order_desc usr_createdAt (findMany (\<lambda>u. usr_orgId u = Some orgId) (users d)))"

text \<open>A field that is \<open>undefined\<close> is left alone, \<open>null\<close> clears it.\<close>

fun set_field :: "'a js \<Rightarrow> 'a option \<Rightarrow> 'a option" where
  "set_field Undefined old = old"
| "set_field Null old = None"
| "set_field (Val v) old = Some v"

definition users_repo_updateProfile :: "ext \<Rightarrow> id \<Rightarrow> update_user_profile_dto \<Rightarrow> user op" where
  "users_repo_updateProfile x i data =
     user_update x i (\<lambda>u. u\<lparr>usr_name := set_field (uup_name data) (usr_name u),
       usr_avatarUrl := set_field (uup_avatarUrl data) (usr_avatarUrl u),
       usr_phone := set_field (uup_phone data) (usr_phone u)\<rparr>)"

section \<open>Service (\<open>users.service.ts\<close>)\<close>

definition users_findById :: "id \<Rightarrow> user_response op" where
  "users_findById i =
     bind (query (\<lambda>d. findUser d i)) (\<lambda>found.
     bind (some_or found (NotFound ''User not found'')) (\<lambda>u.
     bind (query (\<lambda>d. getRoleKeys d (usr_id u))) (\<lambda>roleKeys.
     ret (toUserResponse u (Some roleKeys) None))))"

definition listMyAssignments :: "auth_user option \<Rightarrow> user_building_assignment_response list op" where
  "listMyAssignments user =
     bind (assertOrgScope user) (\<lambda>orgId.
     bind (requireSub user) (\<lambda>userId.
     bind get_db (\<lambda>d.
     let rows = order_desc (\<lambda>r. asg_createdAt (fst r))
       (concat (map (\<lambda>a. map (Pair a)
            (findMany (\<lambda>b. bld_id b = asg_buildingId a \<and> bld_orgId b = orgId) (buildings d)))
          (findMany (\<lambda>a. asg_userId a = userId) (assignments d)))) in
     ret (map (\<lambda>(a, b). \<lparr>uba_buildingId = asg_buildingId a, uba_buildingName = bld_name b,
        uba_type = asg_type a\<rparr>) rows))))"

definition listInOrg :: "auth_user option \<Rightarrow> user_response list op" where
  "listInOrg user =
     bind (assertOrgScope user) (\<lambda>orgId.
     bind (query (\<lambda>d. listByOrg d orgId)) (\<lambda>us.
     ret (map (\<lambda>(u, keys). toUserResponse u (Some keys) None) us)))"

definition users_updateProfile :: "ext \<Rightarrow> id \<Rightarrow> update_user_profile_dto \<Rightarrow> user_response op" where
  "users_updateProfile x i data =
     bind (query (\<lambda>d. findUser d i)) (\<lambda>found.
     bind (some_or found (NotFound ''User not found'')) (\<lambda>_.
     bind (users_repo_updateProfile x i data) (\<lambda>updated.
     bind (query (\<lambda>d. getRoleKeys d i)) (\<lambda>roleKeys.
     ret (toUserResponse updated (Some roleKeys) None)))))"

definition generateTempPassword :: "ext \<Rightarrow> string op" where
  "generateTempPassword x = bind draw (\<lambda>t. ret (base64url_encode (x_randomBytes x t 12)))"

definition argon2_hash :: "ext \<Rightarrow> string \<Rightarrow> string op" where
  "argon2_hash x pw = bind draw (\<lambda>t. ret (x_hash x t pw))"

definition createInOrg :: "ext \<Rightarrow> auth_user option \<Rightarrow> create_org_user_dto \<Rightarrow> create_org_user_response op" where
  "createInOrg x user dto =
     bind (assertOrgScope user) (\<lambda>orgId.
     bind (query (\<lambda>d. findUserByEmail d (cou_email dto))) (\<lambda>existing.
     bind (require (existing = None) (Conflict ''Email already in use'')) (\<lambda>_.
     bind (require (''super_admin'' \<notin> set (coalesce (cou_roleKeys dto) []))
       (BadRequest ''super_admin role cannot be assigned'')) (\<lambda>_.
     bind (case cou_password dto of Some p \<Rightarrow> ret p | None \<Rightarrow> generateTempPassword x) (\<lambda>tempPassword.
     bind (argon2_hash x tempPassword) (\<lambda>passwordHash.
     let roleKeys = uniq (coalesce (cou_roleKeys dto) []) in
     bind (transaction (
       bind (user_create x (cou_email dto) (Some (cou_name dto)) None passwordHash (Some orgId) True True) (\<lambda>createdUser.
       if roleKeys = [] then ret createdUser
       else
         bind (query (\<lambda>d. findMany (\<lambda>r. rol_key r \<in> set roleKeys) (roles d))) (\<lambda>rs.
         bind (require (length rs = length roleKeys) (BadRequest ''Unknown role key provided'')) (\<lambda>_.
         bind (createUserRoles (usr_id createdUser) (map rol_id rs)) (\<lambda>_.
         ret createdUser)))))) (\<lambda>created.
     ret \<lparr>cor_userId = usr_id created, cor_email = usr_email created,
          cor_tempPassword = (if truthy (cou_password dto) \<noteq> None then None else Some tempPassword),
          cor_mustChangePassword = True\<rparr>)))))))"

section \<open>Well-formed user table\<close>

definition users_ok :: "db \<Rightarrow> bool" where
  "users_ok d \<longleftrightarrow> distinct (map usr_id (users d)) \<and> distinct (map usr_email (users d)) \<and>
     (\<forall>u \<in> set (users d). \<forall>o1. usr_orgId u = Some o1 \<longrightarrow> o1 \<in> org_id ` set (orgs d))"

lemma findUserByEmail_None [simp]:
  "findUserByEmail d email = None \<longleftrightarrow> email \<notin> usr_email ` set (users d)"
  by (simp add: findUserByEmail_def findFirst_None_key)

lemma findUserByEmail_SomeD: "findUserByEmail d e = Some u \<Longrightarrow> u \<in> set (users d) \<and> usr_email u = e"
  unfolding findUserByEmail_def by (drule findFirst_SomeD) simp

lemma findUser_eq: "users_ok d \<Longrightarrow> u \<in> set (users d) \<Longrightarrow> findUser d (usr_id u) = Some u"
  by (simp add: users_ok_def findUser_def findFirst_unique)

lemma acl_keeps_user_create [inv]: "db_keeps acl_ok (user_create x e n p h o1 a m)"
  by (rule db_keepsI)
    (auto simp: user_create_def run find_by_id_None Let_def acl_ok_def split: if_splits option.splits)

lemma users_keeps_user_create [inv]: "db_keeps users_ok (user_create x e n p h o1 a m)"
  by (rule db_keepsI)
    (auto simp: user_create_def run find_by_id_None Let_def users_ok_def split: if_splits option.splits)

definition keeps_user_keys :: "(user \<Rightarrow> user) \<Rightarrow> bool" where
  "keeps_user_keys f \<longleftrightarrow> (\<forall>u. usr_id (f u) = usr_id u \<and> usr_email (f u) = usr_email u \<and> usr_orgId (f u) = usr_orgId u)"

lemma users_keeps_user_update:
  assumes "keeps_user_keys f"
  shows "db_keeps users_ok (user_update x i f)"
proof -
  have *: "users_ok (d\<lparr>users := updateMany p g (users d)\<rparr>)" if "users_ok d" "keeps_user_keys g" for d p g
    using that by (auto simp: users_ok_def keeps_user_keys_def map_updateMany set_updateMany split: if_splits)
  show ?thesis
    unfolding user_update_def Let_def
    by (intro inv db_keeps_write *) (use assms in \<open>auto simp: keeps_user_keys_def\<close>)
qed

lemma acl_keeps_user_update:
  assumes "keeps_user_keys f"
  shows "db_keeps acl_ok (user_update x i f)"
proof -
  have *: "usr_id ` set (updateMany p g us) = usr_id ` set us" if "keeps_user_keys g" for p g us
    using that map_updateMany [of usr_id g p us] by (metis keeps_user_keys_def set_map)
  have "acl_ok (d\<lparr>users := updateMany p g (users d)\<rparr>)" if "acl_ok d" "keeps_user_keys g" for d p g
    using that by (simp add: acl_ok_def *)
  then show ?thesis
    unfolding user_update_def Let_def
    by (intro inv db_keeps_write) (use assms in \<open>auto simp: keeps_user_keys_def\<close>)
qed

section \<open>Frames and effects of the services\<close>

lemma readonly_users [frame]: "readonly (generateTempPassword x)" "readonly (argon2_hash x pw)"
  by (simp_all add: generateTempPassword_def argon2_hash_def frame)

lemma argon2_hash_run [run]:
  "bind (argon2_hash x pw) k s = k (x_hash x (st_tick s) pw) (s\<lparr>st_tick := Suc (st_tick s)\<rparr>)"
  by (simp add: argon2_hash_def run)

lemma inv_users_helpers [inv]: "db_keeps I (generateTempPassword x)" "db_keeps I (argon2_hash x pw)"
  by (simp_all add: generateTempPassword_def argon2_hash_def inv)

lemma atomic_createInOrg: "atomic (createInOrg x user dto)"
  unfolding createInOrg_def by (intro frame)

lemma atomic_user_create [frame]: "atomic (user_create x e n p h o1 a m)"
  unfolding user_create_def by (intro frame)

lemma user_create_Inr:
  assumes "user_create x e n p h o1 a m s = (Inr u, t)"
  shows "st_db t = (st_db s)\<lparr>users := users (st_db s) @ [u]\<rparr>"
    "usr_id u \<notin> usr_id ` set (users (st_db s))" "e \<notin> usr_email ` set (users (st_db s))"
    "usr_email u = e" "usr_orgId u = o1" "usr_passwordHash u = h" "usr_isActive u = a"
    "usr_mustChangePassword u = m" "usr_name u = n"
    "\<And>v. o1 = Some v \<Longrightarrow> v \<in> org_id ` set (orgs (st_db s))"
    "st_events t = st_events s" "st_sent t = st_sent s" "usr_refreshTokenHash u = None" "usr_id u = x_uuid x (st_tick s)"
  using assms by (auto simp: user_create_def run find_by_id_None Let_def split: if_splits option.splits)

end
