(* ===== verification/BuildingAccess.thy ===== *)
theory BuildingAccess
  imports AccessControl
begin

text \<open>
  \<open>common/building-access/building-access.service.ts\<close>: whether a user may read or write the
  resources of a building. The locale \<open>building_policy\<close> states what the guard and the services
  rely on, and is interpreted on the service's own functions.
\<close>

section \<open>Assignment types by rank\<close>

instantiation BuildingAssignmentType :: linorder
begin

fun rank :: "BuildingAssignmentType \<Rightarrow> nat" where
  "rank STAFF = 0"
| "rank MANAGER = 1"
| "rank BUILDING_ADMIN = 2"

definition less_eq_BuildingAssignmentType :: "BuildingAssignmentType \<Rightarrow> BuildingAssignmentType \<Rightarrow> bool" where
  "less_eq_BuildingAssignmentType a b \<longleftrightarrow> rank a \<le> rank b"

definition less_BuildingAssignmentType :: "BuildingAssignmentType \<Rightarrow> BuildingAssignmentType \<Rightarrow> bool" where
  "less_BuildingAssignmentType a b \<longleftrightarrow> rank a < rank b"

instance
proof
  fix a b c :: BuildingAssignmentType
  show "a < b \<longleftrightarrow> a \<le> b \<and> \<not> b \<le> a"
    by (auto simp: less_eq_BuildingAssignmentType_def less_BuildingAssignmentType_def)
  show "a \<le> a" "a \<le> b \<Longrightarrow> b \<le> c \<Longrightarrow> a \<le> c" "a \<le> b \<or> b \<le> a"
    by (auto simp: less_eq_BuildingAssignmentType_def)
  show "a \<le> b \<Longrightarrow> b \<le> a \<Longrightarrow> a = b"
    by (cases a; cases b) (simp_all add: less_eq_BuildingAssignmentType_def)
qed

end

definition assignmentPriority :: "BuildingAssignmentType list" where
  "assignmentPriority = [BUILDING_ADMIN, MANAGER, STAFF]"

text \<open>\<open>for (const type of priority) if (assignments.some(a => a.type === type)) return type\<close>\<close>

primrec first_assigned :: "BuildingAssignmentType list \<Rightarrow> assignment list \<Rightarrow> BuildingAssignmentType option" where
  "first_assigned [] as = None"
| "first_assigned (ty # tys) as =
     (if list_ex (\<lambda>a. asg_type a = ty) as then Some ty else first_assigned tys as)"

section \<open>The service\<close>

record access_options =
  opt_requiredPermissions :: "string list option"
  opt_allowResident :: "bool option"
  opt_effectivePermissions :: "string list option"
  opt_allowManagerWrite :: "bool option"

definition buildingInOrg :: "db \<Rightarrow> id \<Rightarrow> id \<Rightarrow> building option" where
  "buildingInOrg d buildingId orgId =
     findFirst (\<lambda>b. bld_id b = buildingId \<and> bld_orgId b = orgId) (buildings d)"

definition assertBuildingInOrg :: "id \<Rightarrow> id \<Rightarrow> building op" where
  "assertBuildingInOrg buildingId orgId =
     bind (require (orgId \<noteq> []) (Forbidden ''Org scope required'')) (\<lambda>_.
     bind (query (\<lambda>d. buildingInOrg d buildingId orgId)) (\<lambda>b.
     some_or b (NotFound ''Building not found'')))"

definition getBuildingAssignmentType :: "db \<Rightarrow> id \<Rightarrow> id \<Rightarrow> BuildingAssignmentType option" where
  "getBuildingAssignmentType d buildingId userId =
     (let as = findMany (\<lambda>a. asg_buildingId a = buildingId \<and> asg_userId a = userId) (assignments d) in
      if as = [] then None else first_assigned assignmentPriority as)"

definition hasActiveOccupancy :: "db \<Rightarrow> id \<Rightarrow> id \<Rightarrow> bool" where
  "hasActiveOccupancy d buildingId userId \<longleftrightarrow>
     findFirst (\<lambda>r. occ_buildingId r = buildingId \<and> occ_residentUserId r = userId \<and> occ_status r = ACTIVE)
       (occupancies d) \<noteq> None"

definition hasGlobalPermissions :: "db \<Rightarrow> id \<Rightarrow> access_options \<Rightarrow> bool" where
  "hasGlobalPermissions d userId options =
     (let requiredPermissions = coalesce (opt_requiredPermissions options) [] in
      if requiredPermissions = [] then False
      else let effective = coalesce (opt_effectivePermissions options) (getUserEffectivePermissions d userId)
           in list_all (\<lambda>p. p \<in> set effective) requiredPermissions)"

definition canReadBuildingResource :: "auth_user option \<Rightarrow> id \<Rightarrow> access_options \<Rightarrow> bool op" where
  "canReadBuildingResource user buildingId options =
     bind (assertOrgScope user) (\<lambda>orgId.
     bind (assertBuildingInOrg buildingId orgId) (\<lambda>_.
     case sub_of user of
       None \<Rightarrow> ret False
     | Some userId \<Rightarrow>
         bind get_db (\<lambda>d.
         if hasGlobalPermissions d userId options then ret True
         else if getBuildingAssignmentType d buildingId userId \<noteq> None then ret True
         else if opt_allowResident options = Some True then ret (hasActiveOccupancy d buildingId userId)
         else ret False)))"

definition canWriteBuildingResource :: "auth_user option \<Rightarrow> id \<Rightarrow> access_options \<Rightarrow> bool op" where
  "canWriteBuildingResource user buildingId options =
     bind (assertOrgScope user) (\<lambda>orgId.
     bind (assertBuildingInOrg buildingId orgId) (\<lambda>_.
     case sub_of user of
       None \<Rightarrow> ret False
     | Some userId \<Rightarrow>
         bind get_db (\<lambda>d.
         if hasGlobalPermissions d userId options then ret True
         else let assignment = getBuildingAssignmentType d buildingId userId in
              if assignment = Some BUILDING_ADMIN then ret True
              else if opt_allowManagerWrite options = Some True \<and> assignment = Some MANAGER then ret True
              else ret False)))"

section \<open>Lemmas\<close>

lemma assertBuildingInOrg_run [run]:
  "bind (assertBuildingInOrg b o1) k s =
     (if o1 = [] then (Inl (Forbidden ''Org scope required''), s)
      else case buildingInOrg (st_db s) b o1 of
        None \<Rightarrow> (Inl (NotFound ''Building not found''), s)
      | Some r \<Rightarrow> k r s)"
  "assertBuildingInOrg b o1 s =
     (if o1 = [] then (Inl (Forbidden ''Org scope required''), s)
      else case buildingInOrg (st_db s) b o1 of
        None \<Rightarrow> (Inl (NotFound ''Building not found''), s)
      | Some r \<Rightarrow> (Inr r, s))"
  by (auto simp: assertBuildingInOrg_def run)

lemma db_keeps_assertBuildingInOrg [inv]: "db_keeps I (assertBuildingInOrg b o1)"
  by (simp add: assertBuildingInOrg_def inv)

lemma buildingInOrg_SomeD:
  "buildingInOrg d b o1 = Some r \<Longrightarrow> r \<in> set (buildings d) \<and> bld_id r = b \<and> bld_orgId r = o1"
  unfolding buildingInOrg_def by (drule findFirst_SomeD) simp

lemma list_ex_type: "list_ex (\<lambda>a. asg_type a = ty) as \<longleftrightarrow> ty \<in> asg_type ` set as"
  by (auto simp: list_ex_iff)

text \<open>The priority loop returns the highest type the rows hold.\<close>

lemma first_assigned_priority:
  assumes "as \<noteq> []"
  shows "first_assigned assignmentPriority as = Some (Max (asg_type ` set as))"
proof -
  have le: "ty \<le> BUILDING_ADMIN" for ty
    by (cases ty) (simp_all add: less_eq_BuildingAssignmentType_def)
  have le2: "ty \<le> MANAGER" if "ty \<noteq> BUILDING_ADMIN" for ty
    using that by (cases ty) (simp_all add: less_eq_BuildingAssignmentType_def)
  have max: "Max (asg_type ` set as) = t" if "t \<in> asg_type ` set as" "\<And>a. a \<in> asg_type ` set as \<Longrightarrow> a \<le> t" for t
    using that by (intro Max_eqI) auto
  consider "BUILDING_ADMIN \<in> asg_type ` set as"
    | "BUILDING_ADMIN \<notin> asg_type ` set as" "MANAGER \<in> asg_type ` set as"
    | "BUILDING_ADMIN \<notin> asg_type ` set as" "MANAGER \<notin> asg_type ` set as" by blast
  then show ?thesis
  proof cases
    case 1
    then show ?thesis using max [OF 1 le] by (simp add: assignmentPriority_def list_ex_type)
  next
    case 2
    then have "Max (asg_type ` set as) = MANAGER" by (intro max) (metis le2)+
    with 2 show ?thesis by (simp add: assignmentPriority_def list_ex_type)
  next
    case 3
    then have "asg_type a = STAFF" if "a \<in> set as" for a using that by (cases "asg_type a") force+
    then have "asg_type ` set as = {STAFF}" using assms by (cases as) auto
    with 3 show ?thesis by (simp add: assignmentPriority_def list_ex_type)
  qed
qed

definition assigned_types :: "db \<Rightarrow> id \<Rightarrow> id \<Rightarrow> BuildingAssignmentType set" where
  "assigned_types d b u = asg_type ` {a \<in> set (assignments d). asg_buildingId a = b \<and> asg_userId a = u}"

lemma getBuildingAssignmentType_eq:
  "getBuildingAssignmentType d b u = (if assigned_types d b u = {} then None else Some (Max (assigned_types d b u)))"
  by (auto simp: getBuildingAssignmentType_def assigned_types_def Let_def first_assigned_priority
      findMany_def filter_empty_conv)

lemma getBuildingAssignmentType_admin:
  "getBuildingAssignmentType d b u = Some BUILDING_ADMIN \<longleftrightarrow> BUILDING_ADMIN \<in> assigned_types d b u"
proof -
  let ?as = "findMany (\<lambda>a. asg_buildingId a = b \<and> asg_userId a = u) (assignments d)"
  have "list_ex (\<lambda>a. asg_type a = BUILDING_ADMIN) ?as \<longleftrightarrow> BUILDING_ADMIN \<in> assigned_types d b u"
    by (simp add: list_ex_type assigned_types_def)
  then show ?thesis
    by (auto simp: getBuildingAssignmentType_def Let_def assignmentPriority_def)
qed

text \<open>Plain staff of a building: assigned to it as staff and as nothing else.\<close>

lemma getBuildingAssignmentType_staff:
  "getBuildingAssignmentType d b u = Some STAFF \<longleftrightarrow> assigned_types d b u = {STAFF}"
proof -
  let ?as = "findMany (\<lambda>a. asg_buildingId a = b \<and> asg_userId a = u) (assignments d)"
  have ex: "list_ex (\<lambda>a. asg_type a = ty) ?as \<longleftrightarrow> ty \<in> assigned_types d b u" for ty
    by (simp add: list_ex_type assigned_types_def)
  have "?as = [] \<longleftrightarrow> assigned_types d b u = {}"
    by (auto simp: assigned_types_def findMany_def filter_empty_conv)
  moreover have "assigned_types d b u = {STAFF} \<longleftrightarrow> STAFF \<in> assigned_types d b u \<and>
      MANAGER \<notin> assigned_types d b u \<and> BUILDING_ADMIN \<notin> assigned_types d b u"
    by (auto, metis BuildingAssignmentType.exhaust)
  ultimately show ?thesis
    unfolding getBuildingAssignmentType_def Let_def assignmentPriority_def first_assigned.simps ex by auto
qed

lemma hasActiveOccupancy_iff:
  "hasActiveOccupancy d b u \<longleftrightarrow>
     (\<exists>r \<in> set (occupancies d). occ_buildingId r = b \<and> occ_residentUserId r = u \<and> occ_status r = ACTIVE)"
  unfolding hasActiveOccupancy_def findFirst_None_iff by blast

text \<open>The decision as one boolean, for a user with a scope whose org has the building.\<close>

definition may_read :: "db \<Rightarrow> id \<Rightarrow> id \<Rightarrow> access_options \<Rightarrow> bool" where
  "may_read d userId buildingId options \<longleftrightarrow>
     hasGlobalPermissions d userId options \<or> assigned_types d buildingId userId \<noteq> {} \<or>
     opt_allowResident options = Some True \<and> hasActiveOccupancy d buildingId userId"

definition may_write :: "db \<Rightarrow> id \<Rightarrow> id \<Rightarrow> access_options \<Rightarrow> bool" where
  "may_write d userId buildingId options \<longleftrightarrow>
     hasGlobalPermissions d userId options \<or> BUILDING_ADMIN \<in> assigned_types d buildingId userId \<or>
     opt_allowManagerWrite options = Some True \<and> MANAGER \<in> assigned_types d buildingId userId"

lemma getBuildingAssignmentType_manager:
  "getBuildingAssignmentType d b u = Some BUILDING_ADMIN \<or> getBuildingAssignmentType d b u = Some MANAGER
     \<longleftrightarrow> BUILDING_ADMIN \<in> assigned_types d b u \<or> MANAGER \<in> assigned_types d b u"
proof -
  let ?as = "findMany (\<lambda>a. asg_buildingId a = b \<and> asg_userId a = u) (assignments d)"
  have *: "list_ex (\<lambda>a. asg_type a = ty) ?as \<longleftrightarrow> ty \<in> assigned_types d b u" for ty
    by (simp add: list_ex_type assigned_types_def)
  have "?as = [] \<Longrightarrow> assigned_types d b u = {}" by (auto simp: assigned_types_def findMany_def filter_empty_conv)
  then show ?thesis
    by (cases "?as = []") (simp_all add: getBuildingAssignmentType_def Let_def assignmentPriority_def *)
qed

lemma canRead_run [run]:
  "canReadBuildingResource u b op1 s =
     (case scope_of u of
        None \<Rightarrow> (Inl (Forbidden ''Org scope required''), s)
      | Some orgId \<Rightarrow>
          (case buildingInOrg (st_db s) b orgId of
             None \<Rightarrow> (Inl (NotFound ''Building not found''), s)
           | Some _ \<Rightarrow> (Inr (case sub_of u of None \<Rightarrow> False | Some i \<Rightarrow> may_read (st_db s) i b op1), s)))"
  by (auto simp: canReadBuildingResource_def run may_read_def getBuildingAssignmentType_eq scope_of_def
      truthy_def split: option.splits if_splits)

lemma canWrite_run [run]:
  "canWriteBuildingResource u b op1 s =
     (case scope_of u of
        None \<Rightarrow> (Inl (Forbidden ''Org scope required''), s)
      | Some orgId \<Rightarrow>
          (case buildingInOrg (st_db s) b orgId of
             None \<Rightarrow> (Inl (NotFound ''Building not found''), s)
           | Some _ \<Rightarrow> (Inr (case sub_of u of None \<Rightarrow> False | Some i \<Rightarrow> may_write (st_db s) i b op1), s)))"
proof -
  have "may_write d i b op1 \<longleftrightarrow>
     hasGlobalPermissions d i op1 \<or> getBuildingAssignmentType d b i = Some BUILDING_ADMIN \<or>
     opt_allowManagerWrite op1 = Some True \<and> getBuildingAssignmentType d b i = Some MANAGER" for d i
    using getBuildingAssignmentType_manager [of d b i] getBuildingAssignmentType_admin [of d b i]
    unfolding may_write_def by blast
  then show ?thesis
    by (auto simp: canWriteBuildingResource_def run scope_of_def truthy_def Let_def
        split: option.splits if_splits)
qed

section \<open>The contract\<close>

text \<open>
  A policy answers only for buildings of the caller's org, and a caller allowed to write is
  allowed to read.
\<close>

locale building_policy =
  fixes read :: "'d \<Rightarrow> id \<Rightarrow> id \<Rightarrow> 'o \<Rightarrow> bool"
    and write_ok :: "'d \<Rightarrow> id \<Rightarrow> id \<Rightarrow> 'o \<Rightarrow> bool"
    and assigned :: "'d \<Rightarrow> id \<Rightarrow> id \<Rightarrow> 't :: linorder set"
    and global :: "'d \<Rightarrow> id \<Rightarrow> 'o \<Rightarrow> bool"
  assumes write_read: "write_ok d u b opts \<Longrightarrow> read d u b opts"
    and write_needs: "write_ok d u b opts \<Longrightarrow> global d u opts \<or> assigned d b u \<noteq> {}"
    and read_assigned: "assigned d b u \<noteq> {} \<Longrightarrow> read d u b opts"
begin

lemma no_read_no_write: "\<not> read d u b opts \<Longrightarrow> \<not> write_ok d u b opts"
  using write_read by blast

lemma stranger_cannot_write: "assigned d b u = {} \<Longrightarrow> \<not> global d u opts \<Longrightarrow> \<not> write_ok d u b opts"
  using write_needs by blast

end

interpretation ba: building_policy may_read may_write assigned_types hasGlobalPermissions
  by unfold_locales (auto simp: may_read_def may_write_def)

end
