(* ===== verification/Config.thy ===== *)
theory Config
  imports State
begin

text \<open>
  The environment of the process: the schema of \<open>env.schema.ts\<close> as a record of its parsed values
  with the checks of the schema, the derived object of \<open>env.ts\<close>, and the pagination helper that
  reads it. Coercion of the raw strings to numbers is the validation library's.
\<close>

section \<open>The parsed environment (\<open>env.schema.ts\<close>)\<close>

datatype NodeEnv = ENV_development | ENV_test | ENV_production

record env_data =
  NODE_ENV :: NodeEnv
  PORT :: int
  DATABASE_URL :: string
  JWT_ACCESS_SECRET :: string
  JWT_REFRESH_SECRET :: string
  JWT_ACCESS_TTL :: int
  JWT_REFRESH_TTL :: int
  PGOPTIONS :: "string option"
  RAW_PRISMA_APPLY_SESSION_TIMEOUTS :: "string option"
  HTTP_BODY_LIMIT :: "string option"
  THROTTLE_TTL :: "int option"
  THROTTLE_LIMIT :: "int option"
  THROTTLE_AUTH_TTL :: "int option"
  THROTTLE_AUTH_LIMIT :: "int option"
  DEFAULT_PAGE_SIZE :: "int option"
  MAX_PAGE_SIZE :: "int option"
  RAW_REQUEST_METRICS_ENABLED :: "string option"
  REQUEST_METRICS_INTERVAL_MS :: "int option"
  REQUEST_METRICS_SAMPLE_SIZE :: "int option"
  HTTP_SERVER_TIMEOUT_MS :: "int option"
  HTTP_HEADERS_TIMEOUT_MS :: "int option"
  HTTP_KEEP_ALIVE_TIMEOUT_MS :: "int option"
  WS_CORS_ORIGINS :: "string option"
  RAW_WS_LOG_CONNECTIONS :: "string option"
  RAW_QUEUE_ENABLED :: "string option"
  QUEUE_HOST :: "string option"
  QUEUE_PORT :: "int option"
  QUEUE_PASSWORD :: "string option"
  STORAGE_ENDPOINT :: "string option"
  STORAGE_REGION :: "string option"
  STORAGE_BUCKET :: "string option"
  STORAGE_ACCESS_KEY_ID :: "string option"
  STORAGE_SECRET_ACCESS_KEY :: "string option"
  PLATFORM_API_KEY :: "string option"
  PLATFORM_SUPERADMIN_EMAIL :: "string option"
  PLATFORM_SUPERADMIN_PASSWORD :: "string option"

definition positive_opt :: "int option \<Rightarrow> bool" where
  "positive_opt v = (case v of None \<Rightarrow> True | Some n \<Rightarrow> n > 0)"

definition envSchema_ok :: "env_data \<Rightarrow> bool" where
  "envSchema_ok e \<longleftrightarrow>
     PORT e > 0 \<and> JWT_ACCESS_SECRET e \<noteq> [] \<and> JWT_REFRESH_SECRET e \<noteq> [] \<and>
     JWT_ACCESS_TTL e > 0 \<and> JWT_REFRESH_TTL e > 0 \<and>
     positive_opt (THROTTLE_TTL e) \<and> positive_opt (THROTTLE_LIMIT e) \<and>
     positive_opt (THROTTLE_AUTH_TTL e) \<and> positive_opt (THROTTLE_AUTH_LIMIT e) \<and>
     positive_opt (DEFAULT_PAGE_SIZE e) \<and> positive_opt (MAX_PAGE_SIZE e) \<and>
     positive_opt (REQUEST_METRICS_INTERVAL_MS e) \<and> positive_opt (REQUEST_METRICS_SAMPLE_SIZE e) \<and>
     positive_opt (HTTP_SERVER_TIMEOUT_MS e) \<and> positive_opt (HTTP_HEADERS_TIMEOUT_MS e) \<and>
     positive_opt (HTTP_KEEP_ALIVE_TIMEOUT_MS e)"

section \<open>The exported object (\<open>env.ts\<close>)\<close>

record env = env_data +
  QUEUE_ENABLED :: bool
  REQUEST_METRICS_ENABLED :: bool
  PRISMA_APPLY_SESSION_TIMEOUTS :: bool
  WS_LOG_CONNECTIONS :: bool

text \<open>\<open>None\<close> is the thrown \<open>Invalid environment variables\<close>.\<close>

definition load_env :: "env_data \<Rightarrow> env option" where
  "load_env e =
     (if \<not> envSchema_ok e then None
      else Some (env_data.extend e (env.fields
        (RAW_QUEUE_ENABLED e = Some ''true'')
        (case RAW_REQUEST_METRICS_ENABLED e of
           Some v \<Rightarrow> v = ''true'' | None \<Rightarrow> NODE_ENV e = ENV_production)
        (RAW_PRISMA_APPLY_SESSION_TIMEOUTS e = Some ''true'')
        (case RAW_WS_LOG_CONNECTIONS e of Some v \<Rightarrow> v = ''true'' | None \<Rightarrow> True))))"

section \<open>Pagination (\<open>pagination.ts\<close>)\<close>

record pagination_query_dto =
  pag_limit :: "int option"
  pag_offset :: "int option"

definition pagination_query_ok :: "pagination_query_dto \<Rightarrow> bool" where
  "pagination_query_ok q \<longleftrightarrow>
     (case pag_limit q of None \<Rightarrow> True | Some l \<Rightarrow> l \<ge> 1) \<and>
     (case pag_offset q of None \<Rightarrow> True | Some f \<Rightarrow> f \<ge> 0)"

text \<open>The result is \<open>(take, skip)\<close>.\<close>

definition resolvePagination :: "env_data \<Rightarrow> int option \<Rightarrow> int option \<Rightarrow> int \<times> int" where
  "resolvePagination e limit offset =
     (let maxPageSize = coalesce (MAX_PAGE_SIZE e) 100;
          defaultPageSize = coalesce (DEFAULT_PAGE_SIZE e) 50
      in (min (max (coalesce limit defaultPageSize) 1) maxPageSize, max (coalesce offset 0) 0))"

lemma resolvePagination_bounds:
  assumes "envSchema_ok e"
  shows "1 \<le> fst (resolvePagination e l f)" "fst (resolvePagination e l f) \<le> coalesce (MAX_PAGE_SIZE e) 100"
    "0 \<le> snd (resolvePagination e l f)"
  using assms by (auto simp: resolvePagination_def Let_def envSchema_ok_def positive_opt_def coalesce_def
      split: option.splits)

lemma resolvePagination_exact:
  assumes "pagination_query_ok q" "pag_limit q = Some l" "l \<le> coalesce (MAX_PAGE_SIZE e) 100"
  shows "fst (resolvePagination e (pag_limit q) (pag_offset q)) = l"
    "snd (resolvePagination e (pag_limit q) (pag_offset q)) = coalesce (pag_offset q) 0"
  using assms by (auto simp: resolvePagination_def Let_def pagination_query_ok_def coalesce_def
      split: option.splits)

end
