(* ===== verification/Guards.thy ===== *)
theory Guards
  imports BuildingAccess Config
begin

text \<open>
  The guards of \<open>src/common/guards\<close> and the metadata of \<open>src/common/decorators\<close>. A guard takes the
  request context, throws, or lets the request pass with the context it has updated: a guard of the
  source that returns never returns \<open>false\<close>.
\<close>

section \<open>Request context and route metadata\<close>

text \<open>A header is absent, one string, or several.\<close>

datatype header = HeaderOne string | HeaderMany "string list"

fun header_first :: "header option \<Rightarrow> string option" where
  "header_first None = None"
| "header_first (Some (HeaderOne v)) = Some v"
| "header_first (Some (HeaderMany [])) = None"
| "header_first (Some (HeaderMany (v # vs))) = Some v"

record request_context =
  ctx_requestId :: "string option"
  ctx_user :: "auth_user option"
  ctx_refreshToken :: "string option"
  ctx_effectivePermissions :: "string list option"
  ctx_buildingId :: "string option"
  ctx_authorization :: "string option"
  ctx_platformKey :: "header option"
  ctx_orgIdHeader :: "header option"
  ctx_bodyRefreshToken :: "string option"

datatype access_level = READ | WRITE

text \<open>
  \<open>RequirePermissions\<close>, \<open>BuildingReadAccess\<close> and \<open>BuildingWriteAccess\<close> set the metadata of a route.
\<close>

record route =
  rt_permissions :: "string list option"
  rt_accessLevel :: "access_level option"
  rt_allowResident :: "bool option"
  rt_allowManagerWrite :: "bool option"

definition plain_route :: route where
  "plain_route = \<lparr>rt_permissions = None, rt_accessLevel = None, rt_allowResident = None,
     rt_allowManagerWrite = None\<rparr>"

definition RequirePermissions :: "string list \<Rightarrow> route \<Rightarrow> route" where
  "RequirePermissions ps r = r\<lparr>rt_permissions := Some ps\<rparr>"

definition BuildingReadAccess :: "bool \<Rightarrow> route \<Rightarrow> route" where
  "BuildingReadAccess allowResident r =
     r\<lparr>rt_accessLevel := Some READ, rt_allowResident := Some allowResident\<rparr>"

definition BuildingWriteAccess :: "bool \<Rightarrow> route \<Rightarrow> route" where
  "BuildingWriteAccess allowManager r =
     r\<lparr>rt_accessLevel := Some WRITE, rt_allowManagerWrite := Some allowManager\<rparr>"

type_synonym guard = "request_context \<Rightarrow> request_context op"

section \<open>The guards\<close>

definition OrgScopeGuard :: guard where
  "OrgScopeGuard ctx =
     bind (requireSub (ctx_user ctx)) (\<lambda>_.
     bind (assertOrgScope (ctx_user ctx)) (\<lambda>_. ret ctx))"

definition PermissionsGuard :: "route \<Rightarrow> guard" where
  "PermissionsGuard r ctx =
     (let ps = coalesce (rt_permissions r) [] in
      if ps = [] then ret ctx
      else
        bind (requireSub (ctx_user ctx)) (\<lambda>userId.
        bind (query (\<lambda>d. coalesce (ctx_effectivePermissions ctx) (getUserEffectivePermissions d userId))) (\<lambda>effective.
        bind (require (list_all (\<lambda>p. p \<in> set effective) ps) (Forbidden ''Missing required permissions'')) (\<lambda>_.
        ret (ctx\<lparr>ctx_effectivePermissions := Some effective\<rparr>)))))"

text \<open>The options object each level passes to the access service.\<close>

fun guard_options :: "access_level \<Rightarrow> route \<Rightarrow> request_context \<Rightarrow> access_options" where
  "guard_options READ r ctx =
     \<lparr>opt_requiredPermissions = Some (coalesce (rt_permissions r) []),
      opt_allowResident = Some (coalesce (rt_allowResident r) False),
      opt_effectivePermissions = ctx_effectivePermissions ctx,
      opt_allowManagerWrite = None\<rparr>"
| "guard_options WRITE r ctx =
     \<lparr>opt_requiredPermissions = Some (coalesce (rt_permissions r) []),
      opt_allowResident = None,
      opt_effectivePermissions = ctx_effectivePermissions ctx,
      opt_allowManagerWrite = Some (coalesce (rt_allowManagerWrite r) False)\<rparr>"

definition BuildingAccessGuard :: "route \<Rightarrow> guard" where
  "BuildingAccessGuard r ctx =
     (case rt_accessLevel r of
        None \<Rightarrow> ret ctx
      | Some accessLevel \<Rightarrow>
          bind (some_or (truthy (ctx_buildingId ctx)) (BadRequest ''buildingId is required'')) (\<lambda>buildingId.
          bind (requireSub (ctx_user ctx)) (\<lambda>_.
          bind (case accessLevel of
                  READ \<Rightarrow> canReadBuildingResource (ctx_user ctx) buildingId (guard_options READ r ctx)
                | WRITE \<Rightarrow> canWriteBuildingResource (ctx_user ctx) buildingId (guard_options WRITE r ctx)) (\<lambda>allowed.
          bind (require allowed (Forbidden ''Forbidden'')) (\<lambda>_.
          ret ctx)))))"

text \<open>
  The \<open>orgId\<close> check of a payload: absent, or equal to the user's (\<open>null\<close> when the user has none).
\<close>

fun payload_org_matches :: "id js \<Rightarrow> id option \<Rightarrow> bool" where
  "payload_org_matches Undefined o1 = True"
| "payload_org_matches Null o1 = (o1 = None)"
| "payload_org_matches (Val v) o1 = (o1 = Some v)"

text \<open>\<open>authHeader.split(' ')\<close>: the scheme and the token, when there is one and it is not empty.\<close>

definition bearer_token :: "string \<Rightarrow> string option" where
  "bearer_token h = (case split_on (CHR '' '') h of
       scheme # token # _ \<Rightarrow> if scheme = ''Bearer'' \<and> token \<noteq> [] then Some token else None
     | _ \<Rightarrow> None)"

definition PlatformAuthGuard :: "ext \<Rightarrow> env_data \<Rightarrow> route \<Rightarrow> guard" where
  "PlatformAuthGuard x e r ctx =
     (let providedKey = header_first (ctx_platformKey ctx) in
      if truthy (PLATFORM_API_KEY e) \<noteq> None \<and> providedKey = PLATFORM_API_KEY e then ret ctx
      else
        bind (some_or (truthy (ctx_authorization ctx)) (Unauthorized ''Invalid platform key'')) (\<lambda>authHeader.
        bind (some_or (bearer_token authHeader) (Unauthorized ''Unauthorized'')) (\<lambda>token.
        bind draw (\<lambda>t.
        bind (some_or (x_jwtVerify x t (JWT_ACCESS_SECRET e) token) (Unauthorized ''Unauthorized'')) (\<lambda>payload.
        bind (query (\<lambda>d. findUser d (jwt_sub payload))) (\<lambda>found.
        bind (some_or found (Unauthorized ''Unauthorized'')) (\<lambda>user.
        bind (require (usr_isActive user) (Unauthorized ''Unauthorized'')) (\<lambda>_.
        bind (require (payload_org_matches (jwt_orgId payload) (usr_orgId user)) (Unauthorized ''Unauthorized'')) (\<lambda>_.
        let ctx1 = ctx\<lparr>ctx_user := Some \<lparr>aut_sub = usr_id user, aut_email = Some (usr_email user), aut_orgId = usr_orgId user\<rparr>\<rparr> in
        bind (require (usr_orgId user = None) (Forbidden ''Platform access requires platform user'')) (\<lambda>_.
        let ps = coalesce (rt_permissions r) [] in
        bind (require (ps \<noteq> []) (Forbidden ''Missing required permissions'')) (\<lambda>_.
        bind (query (\<lambda>d. coalesce (ctx_effectivePermissions ctx1) (getUserEffectivePermissions d (usr_id user)))) (\<lambda>effective.
        bind (require (list_all (\<lambda>p. p \<in> set effective) ps) (Forbidden ''Missing required permissions'')) (\<lambda>_.
        ret (ctx1\<lparr>ctx_effectivePermissions := Some effective\<rparr>))))))))))))))"

text \<open>\<open>UseGuards(g1, g2, ...)\<close>: the guards run in order, the first that throws ends the request.\<close>

primrec useGuards :: "guard list \<Rightarrow> guard" where
  "useGuards [] ctx = ret ctx"
| "useGuards (g # gs) ctx = bind (g ctx) (\<lambda>ctx1. useGuards gs ctx1)"

section \<open>Lemmas\<close>

text \<open>No guard writes to the database.\<close>

lemma canRead_state [simp]: "snd (canReadBuildingResource u b o1 s) = s"
  by (simp add: canRead_run split: option.splits)

lemma canWrite_state [simp]: "snd (canWriteBuildingResource u b o1 s) = s"
  by (simp add: canWrite_run split: option.splits)

lemma OrgScopeGuard_run [run]:
  "OrgScopeGuard ctx s =
     (case sub_of (ctx_user ctx) of
        None \<Rightarrow> (Inl (Unauthorized ''Unauthorized''), s)
      | Some _ \<Rightarrow> (case scope_of (ctx_user ctx) of
          None \<Rightarrow> (Inl (Forbidden ''Org scope required''), s)
        | Some _ \<Rightarrow> (Inr ctx, s)))"
  by (simp add: OrgScopeGuard_def run split: option.splits)

lemma PermissionsGuard_state: "snd (PermissionsGuard r ctx s) = s"
  by (simp add: PermissionsGuard_def run Let_def split: option.splits)

lemma PermissionsGuard_Inr:
  assumes "PermissionsGuard r ctx s = (Inr c, t)" "rt_permissions r = Some ps" "ps \<noteq> []"
  shows "\<exists>userId. sub_of (ctx_user ctx) = Some userId \<and>
     list_all (\<lambda>p. p \<in> set (coalesce (ctx_effectivePermissions ctx) (getUserEffectivePermissions (st_db s) userId))) ps \<and>
     c = ctx\<lparr>ctx_effectivePermissions := Some (coalesce (ctx_effectivePermissions ctx) (getUserEffectivePermissions (st_db s) userId))\<rparr> \<and> t = s"
  using assms by (auto simp: PermissionsGuard_def run split: option.splits if_splits)

definition may_access :: "access_level \<Rightarrow> db \<Rightarrow> id \<Rightarrow> id \<Rightarrow> access_options \<Rightarrow> bool" where
  "may_access l d u b opts = (case l of READ \<Rightarrow> may_read d u b opts | WRITE \<Rightarrow> may_write d u b opts)"

lemma BuildingAccessGuard_run:
  assumes "rt_accessLevel r = Some l"
  shows "BuildingAccessGuard r ctx s =
    (case truthy (ctx_buildingId ctx) of
       None \<Rightarrow> (Inl (BadRequest ''buildingId is required''), s)
     | Some b \<Rightarrow> (case sub_of (ctx_user ctx) of
         None \<Rightarrow> (Inl (Unauthorized ''Unauthorized''), s)
       | Some userId \<Rightarrow> (case scope_of (ctx_user ctx) of
           None \<Rightarrow> (Inl (Forbidden ''Org scope required''), s)
         | Some orgId \<Rightarrow> (case buildingInOrg (st_db s) b orgId of
             None \<Rightarrow> (Inl (NotFound ''Building not found''), s)
           | Some _ \<Rightarrow>
               if may_access l (st_db s) userId b (guard_options l r ctx) then (Inr ctx, s)
               else (Inl (Forbidden ''Forbidden''), s)))))"
proof -
  have level: "bind (case l of READ \<Rightarrow> canReadBuildingResource u b (guard_options READ r ctx)
        | WRITE \<Rightarrow> canWriteBuildingResource u b (guard_options WRITE r ctx)) k s =
      (case scope_of u of
         None \<Rightarrow> (Inl (Forbidden ''Org scope required''), s)
       | Some orgId \<Rightarrow> (case buildingInOrg (st_db s) b orgId of
           None \<Rightarrow> (Inl (NotFound ''Building not found''), s)
         | Some _ \<Rightarrow> k (case sub_of u of None \<Rightarrow> False
             | Some i \<Rightarrow> may_access l (st_db s) i b (guard_options l r ctx)) s))" for u b k
    by (cases l) (simp_all only: access_level.case bind_app canRead_run canWrite_run may_access_def
        split: option.split, auto)
  show ?thesis
    unfolding BuildingAccessGuard_def assms option.case bind_some_or requireSub_run level
    by (simp only: bind_require ret_run option.case cong: option.case_cong)
qed

lemma BuildingAccessGuard_Inr:
  assumes "BuildingAccessGuard r ctx s = (Inr c, t)" "rt_accessLevel r = Some l"
  obtains b userId orgId bld where "ctx_buildingId ctx = Some b" "sub_of (ctx_user ctx) = Some userId"
    "scope_of (ctx_user ctx) = Some orgId" "buildingInOrg (st_db s) b orgId = Some bld"
    "may_access l (st_db s) userId b (guard_options l r ctx)" "c = ctx" "t = s"
proof -
  note g = assms(1) [unfolded BuildingAccessGuard_run [OF assms(2)]]
  obtain b where b: "truthy (ctx_buildingId ctx) = Some b" using g by (cases "truthy (ctx_buildingId ctx)") simp_all
  obtain u where u: "sub_of (ctx_user ctx) = Some u" using g b by (cases "sub_of (ctx_user ctx)") simp_all
  obtain o1 where o1: "scope_of (ctx_user ctx) = Some o1" using g b u by (cases "scope_of (ctx_user ctx)") simp_all
  obtain bld where bld: "buildingInOrg (st_db s) b o1 = Some bld"
    using g b u o1 by (cases "buildingInOrg (st_db s) b o1") simp_all
  have "may_access l (st_db s) u b (guard_options l r ctx)" "c = ctx" "t = s"
    using g b u o1 bld by (simp_all split: if_splits)
  with that b u o1 bld show thesis by (simp add: truthy_Some_iff)
qed

lemma BuildingAccessGuard_state: "snd (BuildingAccessGuard r ctx s) = s"
proof (cases "rt_accessLevel r")
  case None
  then show ?thesis by (simp add: BuildingAccessGuard_def run)
next
  case (Some l)
  then show ?thesis by (simp add: BuildingAccessGuard_run split: option.splits)
qed

lemma payload_org_matches_iff: "payload_org_matches p o1 \<longleftrightarrow> p = Undefined \<or> js_option p = o1 \<and> p \<noteq> Undefined"
  by (cases p) auto

lemma bearer_token_ok: "CHR '' '' \<notin> set tok \<Longrightarrow> tok \<noteq> [] \<Longrightarrow> bearer_token (''Bearer '' @ tok) = Some tok"
  using split_on_append [of "CHR '' ''" "''Bearer''" tok] split_on_no_sep [of "CHR '' ''" tok]
  by (simp add: bearer_token_def)

end
