(* ===== verification/Auth.thy ===== *)
theory Auth
  imports Users Guards
begin

text \<open>
  The auth module: repository, \<open>auth.service.ts\<close>, \<open>auth-validation.service.ts\<close>, the JWT strategy and
  the two guards that authenticate a request. Hashing and tokens are parameters; what the module
  needs of them is \<open>argon2_ok\<close> and \<open>jwt_ok\<close>.
\<close>

section \<open>Input and output objects\<close>

record register_dto =
  reg_email :: string
  reg_password :: string
  reg_name :: "string option"

record login_dto =
  lgn_email :: string
  lgn_password :: string

record tokens =
  tok_accessToken :: string
  tok_refreshToken :: string

record auth_response = tokens +
  ars_user :: user_response

section \<open>Repository (\<open>auth.repo.ts\<close>)\<close>

definition auth_createUser :: "ext \<Rightarrow> string \<Rightarrow> string \<Rightarrow> string option \<Rightarrow> user op" where
  "auth_createUser x email passwordHash name = user_create x email name None passwordHash None True False"

definition updateRefreshTokenHash :: "ext \<Rightarrow> id \<Rightarrow> string \<Rightarrow> user op" where
  "updateRefreshTokenHash x i h = user_update x i (\<lambda>u. u\<lparr>usr_refreshTokenHash := Some h\<rparr>)"

definition updatePasswordHash :: "ext \<Rightarrow> id \<Rightarrow> string \<Rightarrow> user op" where
  "updatePasswordHash x i h =
     user_update x i (\<lambda>u. u\<lparr>usr_passwordHash := h, usr_mustChangePassword := False\<rparr>)"

definition getHighestBuildingAssignmentType :: "db \<Rightarrow> id \<Rightarrow> BuildingAssignmentType option" where
  "getHighestBuildingAssignmentType d userId =
     (let as = findMany (\<lambda>a. asg_userId a = userId) (assignments d) in
      if as = [] then None else first_assigned [BUILDING_ADMIN, MANAGER, STAFF] as)"

section \<open>Service (\<open>auth.service.ts\<close>)\<close>

definition role_priority :: "string list" where
  "role_priority = [''platform_superadmin'', ''super_admin'', ''org_admin'', ''admin'', ''viewer'', ''resident'']"

definition deriveUserRole :: "string list \<Rightarrow> BuildingAssignmentType option \<Rightarrow> string option" where
  "deriveUserRole roleKeys assignmentType =
     (case List.find (\<lambda>k. k \<in> set roleKeys) role_priority of
        Some k \<Rightarrow> Some k
      | None \<Rightarrow> (case assignmentType of
          None \<Rightarrow> None
        | Some BUILDING_ADMIN \<Rightarrow> Some ''admin''
        | Some MANAGER \<Rightarrow> Some ''manager''
        | Some STAFF \<Rightarrow> Some ''staff''))"

definition access_payload :: "user \<Rightarrow> jwt_payload" where
  "access_payload u = \<lparr>jwt_sub = usr_id u, jwt_email = Some (usr_email u),
     jwt_orgId = (case usr_orgId u of None \<Rightarrow> Null | Some o1 \<Rightarrow> Val o1)\<rparr>"

definition refresh_payload :: "user \<Rightarrow> jwt_payload" where
  "refresh_payload u = \<lparr>jwt_sub = usr_id u, jwt_email = None, jwt_orgId = Undefined\<rparr>"

definition issueTokens :: "ext \<Rightarrow> env_data \<Rightarrow> user \<Rightarrow> tokens op" where
  "issueTokens x e u =
     bind draw (\<lambda>t1.
     bind draw (\<lambda>t2.
     ret \<lparr>tok_accessToken = x_sign x t1 (JWT_ACCESS_SECRET e) (JWT_ACCESS_TTL e) (access_payload u),
          tok_refreshToken = x_sign x t2 (JWT_REFRESH_SECRET e) (JWT_REFRESH_TTL e) (refresh_payload u)\<rparr>))"

definition saveRefreshToken :: "ext \<Rightarrow> id \<Rightarrow> string \<Rightarrow> unit op" where
  "saveRefreshToken x userId refreshToken =
     bind (argon2_hash x refreshToken) (\<lambda>h.
     bind (updateRefreshTokenHash x userId h) (\<lambda>_. ret ()))"

text \<open>The common end of \<open>register\<close>, \<open>login\<close> and \<open>refresh\<close>.\<close>

definition sign_in :: "ext \<Rightarrow> env_data \<Rightarrow> user \<Rightarrow> auth_response op" where
  "sign_in x e u =
     bind (issueTokens x e u) (\<lambda>ts.
     bind (saveRefreshToken x (usr_id u) (tok_refreshToken ts)) (\<lambda>_.
     bind (query (\<lambda>d. getRoleKeys d (usr_id u))) (\<lambda>roleKeys.
     bind (query (\<lambda>d. getHighestBuildingAssignmentType d (usr_id u))) (\<lambda>assignmentType.
     ret \<lparr>tok_accessToken = tok_accessToken ts, tok_refreshToken = tok_refreshToken ts,
          ars_user = toUserResponse u (Some roleKeys) (deriveUserRole roleKeys assignmentType)\<rparr>))))"

definition register :: "ext \<Rightarrow> env_data \<Rightarrow> register_dto \<Rightarrow> auth_response op" where
  "register x e dto =
     bind (query (\<lambda>d. findUserByEmail d (reg_email dto))) (\<lambda>existing.
     bind (require (existing = None) (Conflict ''Email already in use'')) (\<lambda>_.
     bind (argon2_hash x (reg_password dto)) (\<lambda>passwordHash.
     bind (auth_createUser x (reg_email dto) passwordHash (reg_name dto)) (\<lambda>u.
     sign_in x e u))))"

definition login :: "ext \<Rightarrow> env_data \<Rightarrow> login_dto \<Rightarrow> auth_response op" where
  "login x e dto =
     bind (query (\<lambda>d. findUserByEmail d (lgn_email dto))) (\<lambda>found.
     bind (some_or found (Unauthorized ''Invalid credentials'')) (\<lambda>u.
     bind (require (usr_isActive u) (Unauthorized ''Invalid credentials'')) (\<lambda>_.
     bind (require (x_verify x (usr_passwordHash u) (lgn_password dto)) (Unauthorized ''Invalid credentials'')) (\<lambda>_.
     sign_in x e u))))"

definition refresh :: "ext \<Rightarrow> env_data \<Rightarrow> id \<Rightarrow> string \<Rightarrow> auth_response op" where
  "refresh x e userId refreshToken =
     bind (query (\<lambda>d. findUser d userId)) (\<lambda>found.
     bind (some_or found (Unauthorized ''Refresh token invalid'')) (\<lambda>u.
     bind (some_or (truthy (usr_refreshTokenHash u)) (Unauthorized ''Refresh token invalid'')) (\<lambda>h.
     bind (require (x_verify x h refreshToken) (Unauthorized ''Refresh token invalid'')) (\<lambda>_.
     sign_in x e u))))"

definition changePassword :: "ext \<Rightarrow> id \<Rightarrow> string \<Rightarrow> string \<Rightarrow> bool op" where
  "changePassword x userId currentPassword newPassword =
     bind (query (\<lambda>d. findUser d userId)) (\<lambda>found.
     bind (some_or found (Unauthorized ''Invalid credentials'')) (\<lambda>u.
     bind (require (usr_isActive u) (Unauthorized ''Invalid credentials'')) (\<lambda>_.
     bind (require (x_verify x (usr_passwordHash u) currentPassword) (Unauthorized ''Invalid credentials'')) (\<lambda>_.
     bind (argon2_hash x newPassword) (\<lambda>passwordHash.
     bind (updatePasswordHash x (usr_id u) passwordHash) (\<lambda>_.
     ret True))))))"

section \<open>Validation of a token's payload (\<open>auth-validation.service.ts\<close>)\<close>

definition verifyAccessToken :: "ext \<Rightarrow> env_data \<Rightarrow> string \<Rightarrow> jwt_payload op" where
  "verifyAccessToken x e token =
     bind draw (\<lambda>t. some_or (x_jwtVerify x t (JWT_ACCESS_SECRET e) token) (Unauthorized ''Unauthorized''))"

definition validatePayload :: "jwt_payload \<Rightarrow> string option \<Rightarrow> auth_user op" where
  "validatePayload payload orgIdOverride =
     bind (query (\<lambda>d. findUser d (jwt_sub payload))) (\<lambda>found.
     bind (some_or found (Unauthorized ''Unauthorized'')) (\<lambda>u.
     bind (require (usr_isActive u) (Unauthorized ''Unauthorized'')) (\<lambda>_.
     bind (require (payload_org_matches (jwt_orgId payload) (usr_orgId u)) (Unauthorized ''Unauthorized'')) (\<lambda>_.
     bind (if truthy (usr_orgId u) = None \<and> truthy orgIdOverride \<noteq> None then
             bind (query (\<lambda>d. getRoleKeys d (usr_id u))) (\<lambda>roleKeys.
             if ''platform_superadmin'' \<in> set roleKeys then ret orgIdOverride
             else throw (Unauthorized ''Unauthorized''))
           else ret (usr_orgId u)) (\<lambda>effectiveOrgId.
     ret \<lparr>aut_sub = usr_id u, aut_email = Some (usr_email u), aut_orgId = effectiveOrgId\<rparr>)))))"

definition is_hex :: "char \<Rightarrow> bool" where
  "is_hex c \<longleftrightarrow> (let n = of_char (lower_char c) :: nat in 48 \<le> n \<and> n \<le> 57 \<or> 97 \<le> n \<and> n \<le> 102)"

definition is_uuid :: "string \<Rightarrow> bool" where
  "is_uuid s \<longleftrightarrow> (let parts = split_on (CHR ''-'') s in
     map length parts = [8, 4, 4, 4, 12] \<and> list_all (list_all is_hex) parts)"

definition parseOrgIdOverride :: "json option \<Rightarrow> string option op" where
  "parseOrgIdOverride v =
     (if v = None \<or> v = Some JNull then ret None
      else
        let raw = (case v of Some (JArr []) \<Rightarrow> None | Some (JArr (a # as)) \<Rightarrow> Some a | _ \<Rightarrow> v) in
        case raw of
          Some (JStr str) \<Rightarrow>
            (let trimmed = trim str in
             if trimmed = [] then ret None
             else bind (require (is_uuid trimmed) (BadRequest ''Invalid org scope'')) (\<lambda>_. ret (Some trimmed)))
        | _ \<Rightarrow> throw (BadRequest ''Invalid org scope''))"

section \<open>Authentication guards\<close>

text \<open>\<open>jwt.strategy.ts\<close>: the \<open>x-org-id\<close> header, then the payload.\<close>

definition getOrgIdOverride :: "request_context \<Rightarrow> string option op" where
  "getOrgIdOverride ctx =
     (case truthy (header_first (ctx_orgIdHeader ctx)) of
        None \<Rightarrow> ret None
      | Some orgId \<Rightarrow> parseOrgIdOverride (Some (JStr orgId)))"

definition jwt_validate :: "request_context \<Rightarrow> jwt_payload \<Rightarrow> auth_user op" where
  "jwt_validate ctx payload =
     bind (getOrgIdOverride ctx) (\<lambda>orgIdOverride. validatePayload payload orgIdOverride)"

text \<open>
  \<open>AuthGuard('jwt')\<close> with this strategy: extract the token, verify it with the access secret, call
  \<open>validate\<close>, and attach the user; without a valid token it is a 401.
\<close>

definition JwtAuthGuard :: "ext \<Rightarrow> env_data \<Rightarrow> guard" where
  "JwtAuthGuard x e ctx =
     bind (some_or (x_extractJwt x (ctx_authorization ctx)) (Unauthorized ''Unauthorized'')) (\<lambda>token.
     bind draw (\<lambda>t.
     bind (some_or (x_jwtVerify x t (JWT_ACCESS_SECRET e) token) (Unauthorized ''Unauthorized'')) (\<lambda>payload.
     bind (jwt_validate ctx payload) (\<lambda>user.
     ret (ctx\<lparr>ctx_user := Some user\<rparr>)))))"

definition RefreshTokenGuard :: "ext \<Rightarrow> env_data \<Rightarrow> guard" where
  "RefreshTokenGuard x e ctx =
     bind (some_or (truthy (ctx_bodyRefreshToken ctx)) (Unauthorized ''Refresh token missing'')) (\<lambda>refreshToken.
     bind draw (\<lambda>t.
     bind (some_or (x_jwtVerify x t (JWT_REFRESH_SECRET e) refreshToken) (Unauthorized ''Invalid refresh token'')) (\<lambda>payload.
     ret (ctx\<lparr>ctx_user := Some \<lparr>aut_sub = jwt_sub payload, aut_email = jwt_email payload,
                aut_orgId = js_option (jwt_orgId payload)\<rparr>,
              ctx_refreshToken := Some refreshToken\<rparr>))))"

section \<open>What the packages promise\<close>

text \<open>\<open>argon2.verify\<close> accepts exactly the hashed password, and a hash is not the empty string.\<close>

definition argon2_ok :: "ext \<Rightarrow> bool" where
  "argon2_ok x \<longleftrightarrow> (\<forall>t p q. x_verify x (x_hash x t p) q \<longleftrightarrow> p = q) \<and> (\<forall>t p. x_hash x t p \<noteq> [])"

text \<open>
  A token verifies under the secret it was signed with, until it expires, and yields its payload;
  its times are whole seconds.
\<close>

definition jwt_ok :: "ext \<Rightarrow> bool" where
  "jwt_ok x \<longleftrightarrow> (\<forall>t1 t2 secret ttl p. x_clock x t2 div 1000 < x_clock x t1 div 1000 + ttl \<longrightarrow>
     x_jwtVerify x t2 secret (x_sign x t1 secret ttl p) = Some p)"

section \<open>Lemmas\<close>

lemma argon2_okD: "argon2_ok x \<Longrightarrow> x_verify x (x_hash x t p) q \<longleftrightarrow> p = q" "argon2_ok x \<Longrightarrow> x_hash x t p \<noteq> []"
  by (simp_all add: argon2_ok_def)

lemma findFirst_updateMany:
  assumes "\<And>r. k (f r) = k r"
  shows "findFirst (\<lambda>r. k r = i) (updateMany p f t) =
     map_option (\<lambda>r. if p r then f r else r) (findFirst (\<lambda>r. k r = i) t)"
  by (induction t) (auto simp: findFirst_def updateMany_def assms)

lemma user_update_run:
  assumes "findUser (st_db s) i = Some u"
  shows "user_update x i f s =
     (let g = (\<lambda>u. (f u)\<lparr>usr_updatedAt := x_clock x (st_tick s)\<rparr>) in
      (Inr (g u), s\<lparr>st_tick := Suc (st_tick s),
         st_db := (st_db s)\<lparr>users := updateMany (\<lambda>r. usr_id r = i) g (users (st_db s))\<rparr>\<rparr>))"
  using assms by (simp add: user_update_def run Let_def)

text \<open>The state a sign-in leaves: the hash of the new refresh token is stored.\<close>

definition signed_in :: "ext \<Rightarrow> nat \<Rightarrow> string \<Rightarrow> user \<Rightarrow> user" where
  "signed_in x t tok u = u\<lparr>usr_refreshTokenHash := Some (x_hash x t tok), usr_updatedAt := x_clock x (Suc t)\<rparr>"

lemma sign_in_run:
  assumes "usr_id u \<in> usr_id ` set (users (st_db s))"
  obtains r t where "sign_in x e u s = (Inr r, t)" "urs_id (ars_user r) = usr_id u"
    "urs_orgId (ars_user r) = usr_orgId u"
    "tok_accessToken r = x_sign x (st_tick s) (JWT_ACCESS_SECRET e) (JWT_ACCESS_TTL e) (access_payload u)"
    "tok_refreshToken r = x_sign x (Suc (st_tick s)) (JWT_REFRESH_SECRET e) (JWT_REFRESH_TTL e) (refresh_payload u)"
    "st_db t = (st_db s)\<lparr>users := updateMany (\<lambda>r. usr_id r = usr_id u)
       (signed_in x (Suc (Suc (st_tick s))) (tok_refreshToken r)) (users (st_db s))\<rparr>"
proof -
  obtain u0 where u0: "findUser (st_db s) (usr_id u) = Some u0"
    using assms by (metis find_by_id_None(1) not_None_eq)
  show thesis
    by (rule that, (simp add: sign_in_def issueTokens_def saveRefreshToken_def updateRefreshTokenHash_def run
        bind_app [of "user_update x i f" for i f] user_update_run u0 Let_def)[1])
      (simp_all add: toUserResponse_def signed_in_def [abs_def])
qed

lemma signed_in_keys [simp]:
  "usr_id (signed_in x t tok u) = usr_id u" "usr_email (signed_in x t tok u) = usr_email u"
  "usr_isActive (signed_in x t tok u) = usr_isActive u" "usr_passwordHash (signed_in x t tok u) = usr_passwordHash u"
  "usr_refreshTokenHash (signed_in x t tok u) = Some (x_hash x t tok)" "usr_orgId (signed_in x t tok u) = usr_orgId u"
  by (simp_all add: signed_in_def)

text \<open>A refresh token works iff it is the one whose hash is stored.\<close>

lemma refresh_accepts:
  assumes "argon2_ok x" "findUser (st_db s) i = Some u" "usr_refreshTokenHash u = Some (x_hash x k old)"
  shows "(\<exists>r t. refresh x e i tok s = (Inr r, t)) \<longleftrightarrow> tok = old"
    "tok \<noteq> old \<Longrightarrow> refresh x e i tok s = (Inl (Unauthorized ''Refresh token invalid''), s)"
proof -
  have tr: "truthy (Some (x_hash x k old)) = Some (x_hash x k old)"
    using argon2_okD(2) [OF assms(1)] by (simp add: truthy_def)
  have u: "usr_id u \<in> usr_id ` set (users (st_db s))" using findUser_SomeD [OF assms(2)] by blast
  obtain r t where "sign_in x e u s = (Inr r, t)" by (rule sign_in_run [OF u])
  then show "(\<exists>r t. refresh x e i tok s = (Inr r, t)) \<longleftrightarrow> tok = old"
    "tok \<noteq> old \<Longrightarrow> refresh x e i tok s = (Inl (Unauthorized ''Refresh token invalid''), s)"
    using assms tr argon2_okD(1) [OF assms(1)] by (auto simp: refresh_def run)
qed

lemma login_Inr:
  assumes "login x e dto s = (Inr r, t)"
  obtains u where "findUserByEmail (st_db s) (lgn_email dto) = Some u" "usr_isActive u"
    "x_verify x (usr_passwordHash u) (lgn_password dto)" "sign_in x e u s = (Inr r, t)"
proof -
  obtain u where u: "findUserByEmail (st_db s) (lgn_email dto) = Some u"
    using assms by (cases "findUserByEmail (st_db s) (lgn_email dto)") (simp_all add: login_def run)
  with assms have "usr_isActive u" "x_verify x (usr_passwordHash u) (lgn_password dto)" "sign_in x e u s = (Inr r, t)"
    by (simp_all add: login_def run split: if_splits)
  with u that show thesis by blast
qed

lemma refresh_Inr:
  assumes "refresh x e i tok s = (Inr r, t)"
  obtains u where "findUser (st_db s) i = Some u" "sign_in x e u s = (Inr r, t)"
proof -
  obtain u where u: "findUser (st_db s) i = Some u"
    using assms by (cases "findUser (st_db s) i") (simp_all add: refresh_def run)
  with assms have "sign_in x e u s = (Inr r, t)"
    by (auto simp: refresh_def run split: if_splits option.splits)
  with u that show thesis by blast
qed

text \<open>After any sign-in, the issued refresh token is the accepted one.\<close>

lemma sign_in_token_stored:
  assumes "usr_id u \<in> usr_id ` set (users (st_db s))" "sign_in x e u s = (Inr r, t)"
  shows "urs_id (ars_user r) = usr_id u"
    "\<exists>v k. findUser (st_db t) (usr_id u) = Some v \<and> usr_refreshTokenHash v = Some (x_hash x k (tok_refreshToken r))"
proof -
  obtain r0 t0 where r0: "sign_in x e u s = (Inr r0, t0)" "urs_id (ars_user r0) = usr_id u"
      "st_db t0 = (st_db s)\<lparr>users := updateMany (\<lambda>r. usr_id r = usr_id u)
       (signed_in x (Suc (Suc (st_tick s))) (tok_refreshToken r0)) (users (st_db s))\<rparr>"
    by (rule sign_in_run [OF assms(1)])
  then have eq: "r0 = r" "t0 = t" using assms(2) by simp_all
  then show "urs_id (ars_user r) = usr_id u" using r0 by simp
  obtain v where v: "findUser (st_db s) (usr_id u) = Some v"
    using assms(1) by (metis find_by_id_None(1) not_None_eq)
  then have "usr_id v = usr_id u" by (blast dest: findUser_SomeD)
  then have "findUser (st_db t) (usr_id u) = Some (signed_in x (Suc (Suc (st_tick s))) (tok_refreshToken r) v)"
    using v r0(3) eq unfolding findUser_def by (simp add: findFirst_updateMany)
  then show "\<exists>v k. findUser (st_db t) (usr_id u) = Some v \<and> usr_refreshTokenHash v = Some (x_hash x k (tok_refreshToken r))"
    by auto
qed

lemma login_then_refresh:
  assumes "argon2_ok x" "login x e dto s = (Inr r, t)"
  shows "\<exists>r2 t2. refresh x e (urs_id (ars_user r)) (tok_refreshToken r) t = (Inr r2, t2)"
proof -
  obtain u where u: "findUserByEmail (st_db s) (lgn_email dto) = Some u" "sign_in x e u s = (Inr r, t)"
    using assms(2) by (rule login_Inr)
  from u(1) have "usr_id u \<in> usr_id ` set (users (st_db s))" by (blast dest: findUserByEmail_SomeD)
  from sign_in_token_stored [OF this u(2)] refresh_accepts(1) [OF assms(1)] show ?thesis by metis
qed

lemma validatePayload_Inr:
  assumes "validatePayload p ov s = (Inr a, t)"
  obtains u where "findUser (st_db s) (jwt_sub p) = Some u" "usr_isActive u" "aut_sub a = usr_id u"
    "aut_email a = Some (usr_email u)" "payload_org_matches (jwt_orgId p) (usr_orgId u)" "t = s"
    "aut_orgId a = usr_orgId u \<or>
       truthy (usr_orgId u) = None \<and> ''platform_superadmin'' \<in> set (getRoleKeys (st_db s) (usr_id u)) \<and>
       aut_orgId a = ov \<and> truthy ov \<noteq> None"
proof -
  obtain u where u: "findUser (st_db s) (jwt_sub p) = Some u"
    using assms by (cases "findUser (st_db s) (jwt_sub p)") (simp_all add: validatePayload_def run)
  have "usr_isActive u" "payload_org_matches (jwt_orgId p) (usr_orgId u)" "aut_sub a = usr_id u"
    "aut_email a = Some (usr_email u)" "t = s"
    "aut_orgId a = usr_orgId u \<or>
       truthy (usr_orgId u) = None \<and> ''platform_superadmin'' \<in> set (getRoleKeys (st_db s) (usr_id u)) \<and>
       aut_orgId a = ov \<and> truthy ov \<noteq> None"
    using assms u by (auto simp: validatePayload_def run split: if_splits)
  with u that show thesis by blast
qed

text \<open>A user of an org is never moved to another one by the header.\<close>

lemma validatePayload_scope:
  assumes "validatePayload p ov s = (Inr a, t)" "findUser (st_db s) (jwt_sub p) = Some u" "usr_orgId u = Some o1" "o1 \<noteq> []"
  shows "aut_orgId a = Some o1"
  using assms by (elim validatePayload_Inr) (auto simp: truthy_None_iff)

lemma readonly_validatePayload [frame]: "readonly (validatePayload p ov)"
  unfolding validatePayload_def by (intro frame)

lemma parseOrgIdOverride_state: "snd (parseOrgIdOverride v s) = s"
proof -
  have "snd (parseOrgIdOverride (Some (JStr str)) s) = s" for str
    by (simp add: parseOrgIdOverride_def Let_def run)
  moreover have "snd (parseOrgIdOverride (Some (JArr l)) s) = s" for l
  proof (cases l)
    case (Cons a as)
    then show ?thesis by (cases a) (simp_all add: parseOrgIdOverride_def Let_def run)
  qed (simp add: parseOrgIdOverride_def run)
  ultimately show ?thesis
    by (cases v; cases "the v") (simp_all add: parseOrgIdOverride_def run)
qed

lemma parseOrgIdOverride_str [run]:
  "parseOrgIdOverride (Some (JStr str)) s =
     (if trim str = [] then (Inr None, s)
      else if is_uuid (trim str) then (Inr (Some (trim str)), s)
      else (Inl (BadRequest ''Invalid org scope''), s))"
  by (simp add: parseOrgIdOverride_def Let_def run)

lemma jwt_validate_Inr:
  assumes "jwt_validate ctx p s = (Inr a, t)"
  obtains ov where "validatePayload p ov s = (Inr a, t)" "ov = None \<or> (\<exists>v. ov = Some v \<and> is_uuid v)"
proof -
  obtain ov s1 where ov: "getOrgIdOverride ctx s = (Inr ov, s1)" "validatePayload p ov s1 = (Inr a, t)"
    using assms by (auto simp: jwt_validate_def bind_Inr_iff)
  then have "s1 = s" "ov = None \<or> (\<exists>v. ov = Some v \<and> is_uuid v)"
    by (auto simp: getOrgIdOverride_def run split: option.splits if_splits)
  with ov that show thesis by blast
qed

lemma JwtAuthGuard_Inr:
  assumes "JwtAuthGuard x e ctx s = (Inr c, t)"
  obtains token p a ov where "x_extractJwt x (ctx_authorization ctx) = Some token"
    "x_jwtVerify x (st_tick s) (JWT_ACCESS_SECRET e) token = Some p"
    "validatePayload p ov (s\<lparr>st_tick := Suc (st_tick s)\<rparr>) = (Inr a, t)"
    "ov = None \<or> (\<exists>v. ov = Some v \<and> is_uuid v)" "c = ctx\<lparr>ctx_user := Some a\<rparr>"
proof -
  obtain token where tk: "x_extractJwt x (ctx_authorization ctx) = Some token"
    using assms by (cases "x_extractJwt x (ctx_authorization ctx)") (simp_all add: JwtAuthGuard_def run)
  obtain p where p: "x_jwtVerify x (st_tick s) (JWT_ACCESS_SECRET e) token = Some p"
    using assms tk by (cases "x_jwtVerify x (st_tick s) (JWT_ACCESS_SECRET e) token") (simp_all add: JwtAuthGuard_def run)
  obtain a where a: "jwt_validate ctx p (s\<lparr>st_tick := Suc (st_tick s)\<rparr>) = (Inr a, t)" "c = ctx\<lparr>ctx_user := Some a\<rparr>"
    using assms tk p by (auto simp: JwtAuthGuard_def run bind_Inr_iff)
  obtain ov where "validatePayload p ov (s\<lparr>st_tick := Suc (st_tick s)\<rparr>) = (Inr a, t)"
    "ov = None \<or> (\<exists>v. ov = Some v \<and> is_uuid v)"
    using a(1) by (rule jwt_validate_Inr)
  with tk p a(2) that show thesis by blast
qed

lemma JwtAuthGuard_user:
  assumes "JwtAuthGuard x e ctx s = (Inr c, t)"
  obtains a u where "ctx_user c = Some a" "findUser (st_db s) (aut_sub a) = Some u" "usr_isActive u"
    "\<And>o1. usr_orgId u = Some o1 \<Longrightarrow> o1 \<noteq> [] \<Longrightarrow> aut_orgId a = Some o1" "st_db t = st_db s"
  using assms
proof (rule JwtAuthGuard_Inr)
  fix token p a ov
  assume v: "validatePayload p ov (s\<lparr>st_tick := Suc (st_tick s)\<rparr>) = (Inr a, t)" "c = ctx\<lparr>ctx_user := Some a\<rparr>"
  obtain u where u: "findUser (st_db s) (jwt_sub p) = Some u" "usr_isActive u" "aut_sub a = usr_id u"
    using v(1) by (rule validatePayload_Inr) simp
  have "findUser (st_db s) (aut_sub a) = Some u" using u findUser_SomeD [OF u(1)] by simp
  moreover have "aut_orgId a = Some o1" if "usr_orgId u = Some o1" "o1 \<noteq> []" for o1
    using validatePayload_scope [OF v(1)] u(1) that by simp
  moreover have "st_db t = st_db s"
    using readonlyD [OF readonly_validatePayload v(1)] by simp
  ultimately show thesis using v(2) u(2) that by simp
qed

lemma changePassword_Inr:
  assumes "changePassword x i cur new s = (Inr b, t)"
  obtains u where "findUser (st_db s) i = Some u" "usr_isActive u" "x_verify x (usr_passwordHash u) cur"
    "st_db t = (st_db s)\<lparr>users := updateMany (\<lambda>r. usr_id r = i) (\<lambda>u. u\<lparr>usr_passwordHash := x_hash x (st_tick s) new,
        usr_mustChangePassword := False, usr_updatedAt := x_clock x (Suc (st_tick s))\<rparr>) (users (st_db s))\<rparr>"
proof -
  obtain u where u: "findUser (st_db s) i = Some u"
    using assms by (cases "findUser (st_db s) i") (simp_all add: changePassword_def run)
  then have i: "usr_id u = i" by (blast dest: findUser_SomeD)
  have "usr_isActive u" "x_verify x (usr_passwordHash u) cur"
    using assms u by (simp_all add: changePassword_def run split: if_splits)
  moreover from this have "st_db t = (st_db s)\<lparr>users := updateMany (\<lambda>r. usr_id r = i) (\<lambda>u. u\<lparr>usr_passwordHash := x_hash x (st_tick s) new,
        usr_mustChangePassword := False, usr_updatedAt := x_clock x (Suc (st_tick s))\<rparr>) (users (st_db s))\<rparr>"
    using assms u i by (auto simp: changePassword_def run updatePasswordHash_def
        bind_app [of "user_update x i f" for i f] user_update_run Let_def)
  ultimately show thesis using u that by blast
qed

lemma login_accepts:
  assumes "findUserByEmail (st_db s) (lgn_email dto) = Some u"
  shows "(\<exists>r t. login x e dto s = (Inr r, t)) \<longleftrightarrow> usr_isActive u \<and> x_verify x (usr_passwordHash u) (lgn_password dto)"
proof -
  have "usr_id u \<in> usr_id ` set (users (st_db s))" using assms by (blast dest: findUserByEmail_SomeD)
  then obtain r t where "sign_in x e u s = (Inr r, t)" by (rule sign_in_run)
  then show ?thesis using assms by (auto simp: login_def run)
qed

lemma password_after_change:
  assumes "users_ok (st_db s)" "changePassword x i cur new s = (Inr b, t)"
  obtains u v where "findUser (st_db s) i = Some u" "findUserByEmail (st_db t) (usr_email u) = Some v"
    "usr_isActive v" "usr_passwordHash v = x_hash x (st_tick s) new" "\<not> usr_mustChangePassword v"
proof -
  obtain u where u: "findUser (st_db s) i = Some u" "usr_isActive u"
    "st_db t = (st_db s)\<lparr>users := updateMany (\<lambda>r. usr_id r = i) (\<lambda>u. u\<lparr>usr_passwordHash := x_hash x (st_tick s) new,
        usr_mustChangePassword := False, usr_updatedAt := x_clock x (Suc (st_tick s))\<rparr>) (users (st_db s))\<rparr>"
    using assms(2) by (rule changePassword_Inr)
  have m: "u \<in> set (users (st_db s))" "usr_id u = i" using findUser_SomeD [OF u(1)] by simp_all
  have "findUserByEmail (st_db s) (usr_email u) = Some u"
    using assms(1) m(1) by (simp add: users_ok_def findUserByEmail_def findFirst_unique)
  then have "findUserByEmail (st_db t) (usr_email u) = Some (u\<lparr>usr_passwordHash := x_hash x (st_tick s) new,
        usr_mustChangePassword := False, usr_updatedAt := x_clock x (Suc (st_tick s))\<rparr>)"
    using u(3) m(2) unfolding findUserByEmail_def by (simp add: findFirst_updateMany)
  with u(1,2) that show thesis by simp
qed

end
