(* ===== verification/Routing.thy ===== *)
theory Routing
  imports Auth
begin

text \<open>
  How a request reaches a handler: the guards of the controller and of the method run in order,
  then the validation pipe checks the body, then the handler runs with the user the guards attached.
  The \<open>*_route\<close> definitions of the component theories are the controllers of the source.
\<close>

section \<open>Pipelines\<close>

definition org_guards :: "ext \<Rightarrow> env_data \<Rightarrow> guard list" where
  "org_guards x e = [JwtAuthGuard x e, OrgScopeGuard]"

definition org_permission_guards :: "ext \<Rightarrow> env_data \<Rightarrow> route \<Rightarrow> guard list" where
  "org_permission_guards x e r = [JwtAuthGuard x e, OrgScopeGuard, PermissionsGuard r]"

definition permission_guards :: "ext \<Rightarrow> env_data \<Rightarrow> route \<Rightarrow> guard list" where
  "permission_guards x e r = [JwtAuthGuard x e, PermissionsGuard r]"

definition building_guards :: "ext \<Rightarrow> env_data \<Rightarrow> route \<Rightarrow> guard list" where
  "building_guards x e r = [JwtAuthGuard x e, OrgScopeGuard, BuildingAccessGuard r]"

text \<open>The handler gets \<open>CurrentUser()\<close>, the user of the context the guards leave.\<close>

definition handle :: "guard list \<Rightarrow> request_context \<Rightarrow> (auth_user option \<Rightarrow> 'a op) \<Rightarrow> 'a op" where
  "handle gs ctx h = bind (useGuards gs ctx) (\<lambda>c. h (ctx_user c))"

definition at_building :: "request_context \<Rightarrow> id \<Rightarrow> request_context" where
  "at_building ctx b = ctx\<lparr>ctx_buildingId := Some b\<rparr>"

text \<open>The validation pipe answers 400 when the body does not satisfy its class's decorators.\<close>

definition validated :: "bool \<Rightarrow> unit op" where
  "validated ok = require ok (BadRequest ''Bad Request Exception'')"

text \<open>Validators of class-validator, on values of the declared type.\<close>

definition optional :: "('a \<Rightarrow> bool) \<Rightarrow> 'a option \<Rightarrow> bool" where
  "optional p v = (case v of None \<Rightarrow> True | Some w \<Rightarrow> p w)"

definition optional_js :: "('a \<Rightarrow> bool) \<Rightarrow> 'a js \<Rightarrow> bool" where
  "optional_js p v = optional p (js_option v)"

definition min_length :: "nat \<Rightarrow> string \<Rightarrow> bool" where
  "min_length n v \<longleftrightarrow> n \<le> length v"

definition max_length :: "nat \<Rightarrow> string \<Rightarrow> bool" where
  "max_length n v \<longleftrightarrow> length v \<le> n"

section \<open>Lemmas\<close>

lemma validated_run [run]:
  "bind (validated ok) k s = (if ok then k () s else (Inl (BadRequest ''Bad Request Exception''), s))"
  by (simp add: validated_def run)

lemma inv_validated [inv]: "db_keeps I (validated ok)"
  and readonly_validated [frame]: "readonly (validated ok)"
  by (simp_all add: validated_def inv frame)

lemma at_building_id [simp]:
  "ctx_buildingId (at_building ctx b) = Some b" "ctx_user (at_building ctx b) = ctx_user ctx"
  "ctx_authorization (at_building ctx b) = ctx_authorization ctx"
  "ctx_effectivePermissions (at_building ctx b) = ctx_effectivePermissions ctx"
  by (simp_all add: at_building_def)

lemma JwtAuthGuard_frame:
  assumes "JwtAuthGuard x e ctx s = (Inr c, t)"
  shows "ctx_buildingId c = ctx_buildingId ctx" "ctx_effectivePermissions c = ctx_effectivePermissions ctx"
  using assms by (auto elim: JwtAuthGuard_Inr)

lemma readonly_parseOrgIdOverride [frame]: "readonly (parseOrgIdOverride v)"
  unfolding readonly_def db_keeps_def keeps_def by (metis parseOrgIdOverride_state)

lemma readonly_guards [frame]:
  "readonly (JwtAuthGuard x e ctx)" "readonly (OrgScopeGuard ctx)" "readonly (PermissionsGuard r ctx)"
  "readonly (BuildingAccessGuard r ctx)"
proof -
  show "readonly (JwtAuthGuard x e ctx)"
    unfolding JwtAuthGuard_def jwt_validate_def getOrgIdOverride_def by (intro frame)
  show "readonly (OrgScopeGuard ctx)" unfolding OrgScopeGuard_def by (intro frame)
  show "readonly (PermissionsGuard r ctx)"
    unfolding readonly_def db_keeps_def keeps_def by (metis PermissionsGuard_state)
  show "readonly (BuildingAccessGuard r ctx)"
    unfolding readonly_def db_keeps_def keeps_def by (metis BuildingAccessGuard_state)
qed

lemma readonly_useGuards: "(\<And>g c. g \<in> set gs \<Longrightarrow> readonly (g c)) \<Longrightarrow> readonly (useGuards gs ctx)"
  by (induction gs arbitrary: ctx) (auto intro!: frame)

text \<open>A pipeline never writes, so a request it stops leaves the database alone.\<close>

lemma readonly_pipelines [frame]:
  "readonly (useGuards (org_guards x e) ctx)" "readonly (useGuards (org_permission_guards x e r) ctx)"
  "readonly (useGuards (permission_guards x e r) ctx)" "readonly (useGuards (building_guards x e r) ctx)"
  unfolding org_guards_def org_permission_guards_def permission_guards_def building_guards_def
  by (rule readonly_useGuards; auto intro: frame)+

text \<open>Who the user of an authenticated request is: an active user of the database, in its own org.\<close>

definition authentic :: "db \<Rightarrow> auth_user \<Rightarrow> bool" where
  "authentic d a \<longleftrightarrow> (\<exists>u. findUser d (aut_sub a) = Some u \<and> usr_isActive u \<and>
     (\<forall>o1. usr_orgId u = Some o1 \<longrightarrow> o1 \<noteq> [] \<longrightarrow> aut_orgId a = Some o1))"

lemma JwtAuthGuard_authentic:
  assumes "JwtAuthGuard x e ctx s = (Inr c, t)"
  obtains a where "ctx_user c = Some a" "authentic (st_db s) a" "st_db t = st_db s"
  using assms by (rule JwtAuthGuard_user) (auto simp: authentic_def)

text \<open>The token the request carries: signed with the access secret, not expired when read, and issued to the user.\<close>

definition bears_token :: "ext \<Rightarrow> env_data \<Rightarrow> request_context \<Rightarrow> nat \<Rightarrow> auth_user \<Rightarrow> bool" where
  "bears_token x e ctx k a \<longleftrightarrow> (\<exists>token p. x_extractJwt x (ctx_authorization ctx) = Some token \<and>
     x_jwtVerify x k (JWT_ACCESS_SECRET e) token = Some p \<and> jwt_sub p = aut_sub a)"

lemma JwtAuthGuard_token:
  assumes "JwtAuthGuard x e ctx s = (Inr c, t)" "ctx_user c = Some a"
  shows "bears_token x e ctx (st_tick s) a"
  using assms(1)
proof (rule JwtAuthGuard_Inr)
  fix token p b ov
  assume v: "x_extractJwt x (ctx_authorization ctx) = Some token" "x_jwtVerify x (st_tick s) (JWT_ACCESS_SECRET e) token = Some p"
    "validatePayload p ov (s\<lparr>st_tick := Suc (st_tick s)\<rparr>) = (Inr b, t)" "c = ctx\<lparr>ctx_user := Some b\<rparr>"
  have "jwt_sub p = aut_sub b" using v(3) by (rule validatePayload_Inr) (metis findUser_SomeD)
  then show ?thesis using v assms(2) by (auto simp: bears_token_def)
qed

lemma org_route_Inr:
  assumes "handle (org_guards x e) ctx h s = (Inr v, t)"
  obtains a userId orgId s1 where "authentic (st_db s) a" "sub_of (Some a) = Some userId" "scope_of (Some a) = Some orgId"
    "h (Some a) s1 = (Inr v, t)" "st_db s1 = st_db s" "bears_token x e ctx (st_tick s) a"
proof -
  obtain c1 s1 where j: "JwtAuthGuard x e ctx s = (Inr c1, s1)"
      and o1: "bind (bind (OrgScopeGuard c1) ret) (\<lambda>c. h (ctx_user c)) s1 = (Inr v, t)"
    using assms by (auto simp: handle_def org_guards_def bind_Inr_iff run)
  obtain a where a: "ctx_user c1 = Some a" "authentic (st_db s) a" "st_db s1 = st_db s"
    using j by (rule JwtAuthGuard_authentic)
  have "\<exists>i o2. sub_of (Some a) = Some i \<and> scope_of (Some a) = Some o2 \<and> h (Some a) s1 = (Inr v, t)"
    using o1 a(1) by (cases "sub_of (Some a)"; cases "scope_of (Some a)") (simp_all add: bind_app OrgScopeGuard_run ret_run)
  then show thesis using a(2,3) JwtAuthGuard_token [OF j a(1)] that by blast
qed

lemma building_route_Inr:
  assumes "handle (building_guards x e r) (at_building ctx b) h s = (Inr v, t)" "rt_accessLevel r = Some l"
  obtains a userId orgId bld s1 where "authentic (st_db s) a" "sub_of (Some a) = Some userId"
    "scope_of (Some a) = Some orgId" "buildingInOrg (st_db s) b orgId = Some bld"
    "may_access l (st_db s) userId b (guard_options l r ctx)"
    "h (Some a) s1 = (Inr v, t)" "st_db s1 = st_db s" "bears_token x e ctx (st_tick s) a"
proof -
  obtain c1 s1 where j: "JwtAuthGuard x e (at_building ctx b) s = (Inr c1, s1)"
      and o1: "bind (bind (OrgScopeGuard c1) (\<lambda>c. bind (BuildingAccessGuard r c) ret)) (\<lambda>c. h (ctx_user c)) s1 = (Inr v, t)"
    using assms by (auto simp: handle_def building_guards_def bind_Inr_iff run)
  obtain a where a: "ctx_user c1 = Some a" "authentic (st_db s) a" "st_db s1 = st_db s"
    using j by (rule JwtAuthGuard_authentic)
  note c1 = JwtAuthGuard_frame [OF j]
  have "bind (bind (BuildingAccessGuard r c1) ret) (\<lambda>c. h (ctx_user c)) s1 = (Inr v, t)"
    using o1 a(1) by (cases "sub_of (Some a)"; cases "scope_of (Some a)") (simp_all add: bind_app OrgScopeGuard_run)
  then obtain c2 s2 where g: "BuildingAccessGuard r c1 s1 = (Inr c2, s2)" "h (ctx_user c2) s2 = (Inr v, t)"
    by (auto simp: bind_Inr_iff run)
  obtain b1 i o2 bld where g2: "ctx_buildingId c1 = Some b1" "sub_of (ctx_user c1) = Some i" "scope_of (ctx_user c1) = Some o2"
      "buildingInOrg (st_db s1) b1 o2 = Some bld" "may_access l (st_db s1) i b1 (guard_options l r c1)" "c2 = c1" "s2 = s1"
    using g(1) assms(2) by (rule BuildingAccessGuard_Inr)
  have "b1 = b" using g2(1) c1(1) by simp
  moreover have "guard_options l r c1 = guard_options l r ctx" using c1(2) by (cases l) simp_all
  moreover have "bears_token x e ctx (st_tick s) a" using JwtAuthGuard_token [OF j a(1)] by (simp add: bears_token_def)
  ultimately show thesis using that [of a i o2 bld s1] a g g2 by simp
qed

lemma atomic_handle [frame]:
  "readonly (useGuards gs ctx) \<Longrightarrow> (\<And>a. atomic (h a)) \<Longrightarrow> atomic (handle gs ctx h)"
  unfolding handle_def by (intro frame)

lemma inv_handle: "readonly (useGuards gs ctx) \<Longrightarrow> (\<And>a. db_keeps I (h a)) \<Longrightarrow> db_keeps I (handle gs ctx h)"
  unfolding handle_def
proof (intro inv)
  assume "readonly (useGuards gs ctx)"
  then show "db_keeps I (useGuards gs ctx)"
    unfolding readonly_def db_keeps_def keeps_def by metis
qed simp

end
