(* ===== verification/Buildings.thy ===== *)
theory Buildings
  imports Routing
begin

text \<open>
  The buildings module and the amenities of a building: repositories, services, input objects and
  controllers (\<open>modules/buildings\<close>, \<open>modules/building-amenities\<close>).
\<close>

section \<open>Buildings: input and output objects\<close>

record create_building_dto =
  cbd_name :: string
  cbd_city :: string
  cbd_emirate :: "string option"
  cbd_country :: "string option"
  cbd_timezone :: "string option"
  cbd_floors :: "int option"
  cbd_unitsCount :: "int option"

text \<open>The transforms of the class, then its validators.\<close>

definition transform_create_building :: "create_building_dto \<Rightarrow> create_building_dto" where
  "transform_create_building dto = dto\<lparr>cbd_name := trim (cbd_name dto), cbd_city := trim (cbd_city dto),
     cbd_emirate := map_option trim (cbd_emirate dto), cbd_country := map_option trim (cbd_country dto),
     cbd_timezone := map_option trim (cbd_timezone dto)\<rparr>"

definition is_upper :: "char \<Rightarrow> bool" where
  "is_upper c \<longleftrightarrow> (let n = of_char c :: nat in 65 \<le> n \<and> n \<le> 90)"

definition country_code :: "string \<Rightarrow> bool" where
  "country_code v \<longleftrightarrow> length v = 3 \<and> list_all is_upper v"

definition create_building_ok :: "create_building_dto \<Rightarrow> bool" where
  "create_building_ok dto \<longleftrightarrow> min_length 2 (cbd_name dto) \<and> min_length 2 (cbd_city dto) \<and>
     optional country_code (cbd_country dto) \<and> optional (\<lambda>n. 1 \<le> n) (cbd_floors dto) \<and>
     optional (\<lambda>n. 1 \<le> n) (cbd_unitsCount dto)"

record building_response =
  brs_id :: id
  brs_orgId :: id
  brs_name :: string
  brs_city :: string
  brs_emirate :: "string option"
  brs_country :: string
  brs_timezone :: string
  brs_floors :: "int option"
  brs_unitsCount :: "int option"
  brs_createdAt :: date
  brs_updatedAt :: date

definition toBuildingResponse :: "building \<Rightarrow> building_response" where
  "toBuildingResponse b = \<lparr>brs_id = bld_id b, brs_orgId = bld_orgId b, brs_name = bld_name b,
     brs_city = bld_city b, brs_emirate = bld_emirate b, brs_country = bld_country b,
     brs_timezone = bld_timezone b, brs_floors = bld_floors b, brs_unitsCount = bld_unitsCount b,
     brs_createdAt = bld_createdAt b, brs_updatedAt = bld_updatedAt b\<rparr>"

section \<open>Buildings: repository (\<open>buildings.repo.ts\<close>)\<close>

record building_create_data =
  bcd_name :: string
  bcd_city :: string
  bcd_emirate :: "string option"
  bcd_country :: string
  bcd_timezone :: string
  bcd_floors :: "int option"
  bcd_unitsCount :: "int option"

definition building_create :: "ext \<Rightarrow> id \<Rightarrow> building_create_data \<Rightarrow> building op" where
  "building_create x orgId data =
     bind (new_row x (\<lambda>d. map bld_id (buildings d))) (\<lambda>(i, now).
     bind get_db (\<lambda>d.
     bind (foreign_key (findOrg d orgId \<noteq> None)) (\<lambda>_.
     let b = \<lparr>bld_id = i, bld_orgId = orgId, bld_name = bcd_name data, bld_city = bcd_city data,
              bld_emirate = bcd_emirate data, bld_country = bcd_country data, bld_timezone = bcd_timezone data,
              bld_floors = bcd_floors data, bld_unitsCount = bcd_unitsCount data,
              bld_createdAt = now, bld_updatedAt = now\<rparr> in
     bind (write_db (\<lambda>d. d\<lparr>buildings := buildings d @ [b]\<rparr>)) (\<lambda>_. ret b))))"

definition buildings_listByOrg :: "db \<Rightarrow> id \<Rightarrow> building list" where
  "buildings_listByOrg d orgId = order_desc bld_createdAt (findMany (\<lambda>b. bld_orgId b = orgId) (buildings d))"

definition listAssignedToUser :: "db \<Rightarrow> id \<Rightarrow> id \<Rightarrow> building list" where
  "listAssignedToUser d orgId userId =
     order_desc bld_createdAt (findMany (\<lambda>b. bld_orgId b = orgId \<and>
       list_ex (\<lambda>a. asg_buildingId a = bld_id b \<and> asg_userId a = userId) (assignments d)) (buildings d))"

definition findByIdForOrg :: "db \<Rightarrow> id \<Rightarrow> id \<Rightarrow> building option" where
  "findByIdForOrg d orgId buildingId =
     findFirst (\<lambda>b. bld_id b = buildingId \<and> bld_orgId b = orgId) (buildings d)"

section \<open>Buildings: service (\<open>buildings.service.ts\<close>)\<close>

definition buildings_create :: "ext \<Rightarrow> auth_user option \<Rightarrow> create_building_dto \<Rightarrow> building op" where
  "buildings_create x user dto =
     bind (assertOrgScope user) (\<lambda>orgId.
     building_create x orgId \<lparr>bcd_name = trim (cbd_name dto), bcd_city = trim (cbd_city dto),
       bcd_emirate = map_option trim (cbd_emirate dto),
       bcd_country = coalesce (map_option trim (cbd_country dto)) ''ARE'',
       bcd_timezone = coalesce (map_option trim (cbd_timezone dto)) ''Asia/Dubai'',
       bcd_floors = cbd_floors dto, bcd_unitsCount = cbd_unitsCount dto\<rparr>)"

definition buildings_list :: "auth_user option \<Rightarrow> building list op" where
  "buildings_list user = bind (assertOrgScope user) (\<lambda>orgId. query (\<lambda>d. buildings_listByOrg d orgId))"

definition listAssigned :: "auth_user option \<Rightarrow> building list op" where
  "listAssigned user =
     bind (assertOrgScope user) (\<lambda>orgId.
     bind (requireSub user) (\<lambda>userId.
     query (\<lambda>d. listAssignedToUser d orgId userId)))"

text \<open>The check that opens most building operations: \<open>findByIdForOrg\<close> or 404.\<close>

definition building_of_org :: "id \<Rightarrow> id \<Rightarrow> building op" where
  "building_of_org orgId buildingId =
     bind (query (\<lambda>d. findByIdForOrg d orgId buildingId)) (\<lambda>b.
     some_or b (NotFound ''Building not found''))"

definition buildings_getById :: "auth_user option \<Rightarrow> id \<Rightarrow> building op" where
  "buildings_getById user buildingId =
     bind (assertOrgScope user) (\<lambda>orgId. building_of_org orgId buildingId)"

section \<open>Buildings: controller (\<open>buildings.controller.ts\<close>)\<close>

definition buildings_create_route :: "ext \<Rightarrow> env_data \<Rightarrow> request_context \<Rightarrow> create_building_dto \<Rightarrow> building_response op" where
  "buildings_create_route x e ctx body =
     handle (org_permission_guards x e (RequirePermissions [''buildings.write''] plain_route)) ctx (\<lambda>user.
     let dto = transform_create_building body in
     bind (validated (create_building_ok dto)) (\<lambda>_.
     bind (buildings_create x user dto) (\<lambda>b. ret (toBuildingResponse b))))"

definition buildings_list_route :: "ext \<Rightarrow> env_data \<Rightarrow> request_context \<Rightarrow> building_response list op" where
  "buildings_list_route x e ctx =
     handle (org_permission_guards x e (RequirePermissions [''buildings.read''] plain_route)) ctx (\<lambda>user.
     bind (buildings_list user) (\<lambda>bs. ret (map toBuildingResponse bs)))"

definition buildings_assigned_route :: "ext \<Rightarrow> env_data \<Rightarrow> request_context \<Rightarrow> building_response list op" where
  "buildings_assigned_route x e ctx =
     handle (org_guards x e) ctx (\<lambda>user.
     bind (listAssigned user) (\<lambda>bs. ret (map toBuildingResponse bs)))"

definition buildings_get_route :: "ext \<Rightarrow> env_data \<Rightarrow> request_context \<Rightarrow> id \<Rightarrow> building_response op" where
  "buildings_get_route x e ctx buildingId =
     handle (building_guards x e (BuildingReadAccess False (RequirePermissions [''buildings.read''] plain_route)))
       (at_building ctx buildingId) (\<lambda>user.
     bind (buildings_getById user buildingId) (\<lambda>b. ret (toBuildingResponse b)))"

section \<open>Amenities: input and output objects\<close>

record create_amenity_dto =
  cam_name :: string
  cam_isDefault :: "bool option"
  cam_isActive :: "bool option"

record update_amenity_dto =
  uam_name :: "string js"
  uam_isDefault :: "bool js"
  uam_isActive :: "bool js"

definition create_amenity_ok :: "create_amenity_dto \<Rightarrow> bool" where
  "create_amenity_ok dto \<longleftrightarrow> min_length 1 (cam_name dto) \<and> max_length 100 (cam_name dto)"

definition update_amenity_ok :: "update_amenity_dto \<Rightarrow> bool" where
  "update_amenity_ok dto \<longleftrightarrow> optional_js (\<lambda>v. min_length 1 v \<and> max_length 100 v) (uam_name dto)"

record amenity_response =
  arp_id :: id
  arp_buildingId :: id
  arp_name :: string
  arp_isActive :: bool
  arp_isDefault :: bool
  arp_createdAt :: date
  arp_updatedAt :: date

definition toBuildingAmenityResponse :: "amenity \<Rightarrow> amenity_response" where
  "toBuildingAmenityResponse a = \<lparr>arp_id = amn_id a, arp_buildingId = amn_buildingId a, arp_name = amn_name a,
     arp_isActive = amn_isActive a, arp_isDefault = amn_isDefault a, arp_createdAt = amn_createdAt a,
     arp_updatedAt = amn_updatedAt a\<rparr>"

section \<open>Amenities: repository (\<open>building-amenities.repo.ts\<close>)\<close>

definition amenities_listByBuilding :: "db \<Rightarrow> id \<Rightarrow> amenity list" where
  "amenities_listByBuilding d buildingId =
     order_desc amn_createdAt (findMany (\<lambda>a. amn_buildingId a = buildingId) (amenities d))"

text \<open>The unique key of the table: the building and the name.\<close>

definition amenity_key :: "amenity \<Rightarrow> id \<times> string" where
  "amenity_key a = (amn_buildingId a, amn_name a)"

definition amenity_create :: "ext \<Rightarrow> id \<Rightarrow> create_amenity_dto \<Rightarrow> amenity op" where
  "amenity_create x buildingId data =
     bind (new_row x (\<lambda>d. map amn_id (amenities d))) (\<lambda>(i, now).
     bind get_db (\<lambda>d.
     bind (unique_key ((buildingId, cam_name data) \<notin> amenity_key ` set (amenities d))) (\<lambda>_.
     bind (foreign_key (findBuilding d buildingId \<noteq> None)) (\<lambda>_.
     let a = \<lparr>amn_id = i, amn_buildingId = buildingId, amn_name = cam_name data,
              amn_isActive = coalesce (cam_isActive data) True, amn_isDefault = coalesce (cam_isDefault data) False,
              amn_createdAt = now, amn_updatedAt = now\<rparr> in
     bind (write_db (\<lambda>d. d\<lparr>amenities := amenities d @ [a]\<rparr>)) (\<lambda>_. ret a)))))"

text \<open>
  A field of the update: \<open>undefined\<close> leaves the column, a value replaces it; \<open>null\<close> is refused by the
  client, the three columns being required.
\<close>

fun set_required :: "'a js \<Rightarrow> 'a \<Rightarrow> 'a" where
  "set_required (Val v) old = v"
| "set_required _ old = old"

definition amenity_apply :: "update_amenity_dto \<Rightarrow> date \<Rightarrow> amenity \<Rightarrow> amenity" where
  "amenity_apply data now a = a\<lparr>amn_name := set_required (uam_name data) (amn_name a),
     amn_isDefault := set_required (uam_isDefault data) (amn_isDefault a),
     amn_isActive := set_required (uam_isActive data) (amn_isActive a), amn_updatedAt := now\<rparr>"

definition amenity_update :: "ext \<Rightarrow> id \<Rightarrow> update_amenity_dto \<Rightarrow> amenity op" where
  "amenity_update x amenityId data =
     bind (require (uam_name data \<noteq> Null \<and> uam_isDefault data \<noteq> Null \<and> uam_isActive data \<noteq> Null)
       (JsError ''PrismaClientValidationError'')) (\<lambda>_.
     bind draw (\<lambda>t.
     bind get_db (\<lambda>d.
     bind (some_or (findFirst (\<lambda>a. amn_id a = amenityId) (amenities d)) (PrismaKnown ''P2025'')) (\<lambda>old.
     let a = amenity_apply data (x_clock x t) old in
     bind (unique_key (\<forall>r \<in> set (amenities d). amenity_key r = amenity_key a \<longrightarrow> amn_id r = amenityId)) (\<lambda>_.
     bind (write_db (\<lambda>d. d\<lparr>amenities := updateMany (\<lambda>r. amn_id r = amenityId) (amenity_apply data (x_clock x t)) (amenities d)\<rparr>)) (\<lambda>_.
     ret a))))))"

definition amenity_findByIdForBuilding :: "db \<Rightarrow> id \<Rightarrow> id \<Rightarrow> amenity option" where
  "amenity_findByIdForBuilding d buildingId amenityId =
     findFirst (\<lambda>a. amn_id a = amenityId \<and> amn_buildingId a = buildingId) (amenities d)"

section \<open>Amenities: service (\<open>building-amenities.service.ts\<close>)\<close>

definition amenities_list :: "auth_user option \<Rightarrow> id \<Rightarrow> amenity list op" where
  "amenities_list user buildingId =
     bind (assertOrgScope user) (\<lambda>orgId.
     bind (building_of_org orgId buildingId) (\<lambda>_.
     query (\<lambda>d. amenities_listByBuilding d buildingId)))"

definition amenities_create :: "ext \<Rightarrow> auth_user option \<Rightarrow> id \<Rightarrow> create_amenity_dto \<Rightarrow> amenity op" where
  "amenities_create x user buildingId dto =
     bind (assertOrgScope user) (\<lambda>orgId.
     bind (building_of_org orgId buildingId) (\<lambda>_.
     on_duplicate ''Amenity already exists'' (amenity_create x buildingId dto)))"

definition amenities_update_op :: "ext \<Rightarrow> auth_user option \<Rightarrow> id \<Rightarrow> id \<Rightarrow> update_amenity_dto \<Rightarrow> amenity op" where
  "amenities_update_op x user buildingId amenityId dto =
     bind (assertOrgScope user) (\<lambda>orgId.
     bind (building_of_org orgId buildingId) (\<lambda>_.
     bind (query (\<lambda>d. amenity_findByIdForBuilding d buildingId amenityId)) (\<lambda>found.
     bind (some_or found (NotFound ''Amenity not found'')) (\<lambda>_.
     amenity_update x amenityId dto))))"

section \<open>Amenities: controller (\<open>building-amenities.controller.ts\<close>)\<close>

definition amenities_list_route :: "ext \<Rightarrow> env_data \<Rightarrow> request_context \<Rightarrow> id \<Rightarrow> amenity_response list op" where
  "amenities_list_route x e ctx buildingId =
     handle (building_guards x e (BuildingReadAccess False (RequirePermissions [''buildings.read''] plain_route)))
       (at_building ctx buildingId) (\<lambda>user.
     bind (amenities_list user buildingId) (\<lambda>as. ret (map toBuildingAmenityResponse as)))"

definition amenities_create_route :: "ext \<Rightarrow> env_data \<Rightarrow> request_context \<Rightarrow> id \<Rightarrow> create_amenity_dto \<Rightarrow> amenity_response op" where
  "amenities_create_route x e ctx buildingId dto =
     handle (building_guards x e (BuildingWriteAccess True (RequirePermissions [''buildings.write''] plain_route)))
       (at_building ctx buildingId) (\<lambda>user.
     bind (validated (create_amenity_ok dto)) (\<lambda>_.
     bind (amenities_create x user buildingId dto) (\<lambda>a. ret (toBuildingAmenityResponse a))))"

definition amenities_update_route ::
  "ext \<Rightarrow> env_data \<Rightarrow> request_context \<Rightarrow> id \<Rightarrow> id \<Rightarrow> update_amenity_dto \<Rightarrow> amenity_response op" where
  "amenities_update_route x e ctx buildingId amenityId dto =
     handle (building_guards x e (BuildingWriteAccess True (RequirePermissions [''buildings.write''] plain_route)))
       (at_building ctx buildingId) (\<lambda>user.
     bind (validated (update_amenity_ok dto)) (\<lambda>_.
     bind (amenities_update_op x user buildingId amenityId dto) (\<lambda>a. ret (toBuildingAmenityResponse a))))"

section \<open>Lemmas\<close>

lemma findByIdForOrg_buildingInOrg: "findByIdForOrg d o1 b = buildingInOrg d b o1"
  by (simp add: findByIdForOrg_def buildingInOrg_def)

lemma building_of_org_run [run]:
  "bind (building_of_org o1 b) k s = (case buildingInOrg (st_db s) b o1 of
       None \<Rightarrow> (Inl (NotFound ''Building not found''), s) | Some r \<Rightarrow> k r s)"
  "building_of_org o1 b s = (case buildingInOrg (st_db s) b o1 of
       None \<Rightarrow> (Inl (NotFound ''Building not found''), s) | Some r \<Rightarrow> (Inr r, s))"
  by (simp_all add: building_of_org_def run findByIdForOrg_buildingInOrg)

lemma readonly_building_of_org [frame]: "readonly (building_of_org o1 b)"
  and inv_building_of_org [inv]: "db_keeps I (building_of_org o1 b)"
  unfolding building_of_org_def by (intro frame, intro inv)

text \<open>The tables of the two modules: keys are unique and references resolve.\<close>

definition buildings_ok :: "db \<Rightarrow> bool" where
  "buildings_ok d \<longleftrightarrow> distinct (map bld_id (buildings d)) \<and>
     bld_orgId ` set (buildings d) \<subseteq> org_id ` set (orgs d) \<and>
     distinct (map amn_id (amenities d)) \<and> distinct (map amenity_key (amenities d)) \<and>
     amn_buildingId ` set (amenities d) \<subseteq> bld_id ` set (buildings d)"

lemma building_create_Inr:
  assumes "building_create x o1 data s = (Inr b, t)"
  shows "st_db t = (st_db s)\<lparr>buildings := buildings (st_db s) @ [b]\<rparr>" "bld_orgId b = o1"
    "bld_id b \<notin> bld_id ` set (buildings (st_db s))" "o1 \<in> org_id ` set (orgs (st_db s))"
    "bld_name b = bcd_name data"
  using assms by (auto simp: building_create_def run find_by_id_None Let_def split: if_splits)

lemma buildings_keeps_create [inv]: "db_keeps buildings_ok (building_create x o1 data)"
  by (rule db_keepsI) (auto simp: building_create_def run find_by_id_None Let_def buildings_ok_def split: if_splits)

lemma buildings_keeps_amenity_create [inv]: "db_keeps buildings_ok (amenity_create x b data)"
  by (rule db_keepsI)
    (auto simp: amenity_create_def run find_by_id_None Let_def buildings_ok_def amenity_key_def split: if_splits)

lemma distinct_key_update:
  assumes "distinct (map i t)" "distinct (map k t)" "r0 \<in> set t"
    and "\<And>r. i (f r) = i r" "\<And>r. r \<in> set t \<Longrightarrow> k r = k (f r0) \<Longrightarrow> i r = i r0"
  shows "distinct (map k (updateMany (\<lambda>r. i r = i r0) f t))"
proof -
  obtain xs ys where t: "t = xs @ r0 # ys" using assms(3) by (meson split_list)
  have ne: "i r \<noteq> i r0" if "r \<in> set xs \<union> set ys" for r
    using assms(1) that unfolding t by (auto simp: image_iff)
  then have "updateMany (\<lambda>r. i r = i r0) f t = xs @ f r0 # ys"
    unfolding t by (auto simp: updateMany_def intro!: map_idI)
  moreover have "k r \<noteq> k (f r0)" if "r \<in> set xs \<union> set ys" for r
    using assms(5) [of r] ne [OF that] that unfolding t by auto
  ultimately show ?thesis using assms(2) unfolding t by (force simp: image_iff)
qed

lemma buildings_keeps_amenity_update [inv]: "db_keeps buildings_ok (amenity_update x i data)"
proof (rule db_keepsI)
  fix s :: st assume ok: "buildings_ok (st_db s)"
  let ?d = "st_db s" and ?f = "amenity_apply data (x_clock x (st_tick s))"
  have f: "amn_id (?f r) = amn_id r" "amn_buildingId (?f r) = amn_buildingId r" for r
    by (simp_all add: amenity_apply_def)
  have "buildings_ok (?d\<lparr>amenities := updateMany (\<lambda>r. amn_id r = i) ?f (amenities ?d)\<rparr>)"
    if old: "findFirst (\<lambda>a. amn_id a = i) (amenities ?d) = Some old"
      and u: "\<forall>r \<in> set (amenities ?d). amenity_key r = amenity_key (?f old) \<longrightarrow> amn_id r = i" for old
  proof -
    have o: "old \<in> set (amenities ?d)" "amn_id old = i" using findFirst_SomeD [OF old] by simp_all
    have "distinct (map amenity_key (updateMany (\<lambda>r. amn_id r = amn_id old) ?f (amenities ?d)))"
      using ok o u f by (intro distinct_key_update) (auto simp: buildings_ok_def)
    then show ?thesis using ok o(2) f by (auto simp: buildings_ok_def map_updateMany set_updateMany)
  qed
  then show "buildings_ok (st_db (snd (amenity_update x i data s)))"
    using ok by (auto simp: amenity_update_def run Let_def split: option.splits)
qed

lemma buildings_keeps_services:
  "db_keeps buildings_ok (buildings_create x user dto)" "db_keeps buildings_ok (amenities_create x user b adto)"
  "db_keeps buildings_ok (amenities_update_op x user b i udto)"
  unfolding buildings_create_def amenities_create_def amenities_update_op_def by (intro inv)+

text \<open>The lists are the rows of the caller's org, in the order asked for.\<close>

lemma sorted_order_desc: "sorted_wrt (\<lambda>a b. k a \<ge> k b) (order_desc k t)"
proof -
  have "sorted (map (\<lambda>r. - k r) (order_desc k t))" by (simp add: order_desc_def)
  then show ?thesis by (simp add: sorted_wrt_map)
qed

lemma buildings_list_run:
  "buildings_list user s = (case scope_of user of None \<Rightarrow> (Inl (Forbidden ''Org scope required''), s)
     | Some o1 \<Rightarrow> (Inr (buildings_listByOrg (st_db s) o1), s))"
  by (simp add: buildings_list_def run split: option.splits)

lemma set_buildings_listByOrg: "set (buildings_listByOrg d o1) = {b \<in> set (buildings d). bld_orgId b = o1}"
  by (simp add: buildings_listByOrg_def)

end
