(* ===== verification/OrgCatalog.thy ===== *)
theory OrgCatalog
  imports Buildings
begin

text \<open>
  What belongs to an org as a whole: its owners, its unit types and its profile
  (\<open>modules/owners\<close>, \<open>modules/unit-types\<close>, \<open>modules/org-profile\<close>).
\<close>

section \<open>Owners\<close>

record create_owner_dto =
  cow_name :: string
  cow_email :: "string option"
  cow_phone :: "string option"
  cow_address :: "string option"

definition create_owner_ok :: "ext \<Rightarrow> create_owner_dto \<Rightarrow> bool" where
  "create_owner_ok x dto \<longleftrightarrow> min_length 1 (cow_name dto) \<and> optional (x_isEmail x) (cow_email dto)"

record owner_response =
  owr_id :: id
  owr_orgId :: id
  owr_name :: string
  owr_email :: "string option"
  owr_phone :: "string option"
  owr_address :: "string option"
  owr_createdAt :: date
  owr_updatedAt :: date

definition toOwnerResponse :: "owner \<Rightarrow> owner_response" where
  "toOwnerResponse w = \<lparr>owr_id = own_id w, owr_orgId = own_orgId w, owr_name = own_name w,
     owr_email = own_email w, owr_phone = own_phone w, owr_address = own_address w,
     owr_createdAt = own_createdAt w, owr_updatedAt = own_updatedAt w\<rparr>"

text \<open>\<open>contains\<close> with \<open>mode: 'insensitive'\<close>; a null column contains nothing.\<close>

fun starts_with :: "string \<Rightarrow> string \<Rightarrow> bool" where
  "starts_with [] v = True"
| "starts_with (p # ps) [] = False"
| "starts_with (p # ps) (c # cs) \<longleftrightarrow> p = c \<and> starts_with ps cs"

fun has_substring :: "string \<Rightarrow> string \<Rightarrow> bool" where
  "has_substring p [] \<longleftrightarrow> p = []"
| "has_substring p (c # cs) \<longleftrightarrow> starts_with p (c # cs) \<or> has_substring p cs"

definition contains_insensitive :: "string \<Rightarrow> string option \<Rightarrow> bool" where
  "contains_insensitive p v = (case v of None \<Rightarrow> False | Some w \<Rightarrow> has_substring (toLowerCase p) (toLowerCase w))"

definition owner_matches :: "string option \<Rightarrow> owner \<Rightarrow> bool" where
  "owner_matches search w = (case truthy search of
       None \<Rightarrow> True
     | Some p \<Rightarrow> contains_insensitive p (Some (own_name w)) \<or> contains_insensitive p (own_email w) \<or>
                contains_insensitive p (own_phone w) \<or> contains_insensitive p (own_address w))"

definition owners_repo_list :: "db \<Rightarrow> id \<Rightarrow> string option \<Rightarrow> owner list" where
  "owners_repo_list d orgId search =
     order_desc own_createdAt (findMany (\<lambda>w. own_orgId w = orgId \<and> owner_matches search w) (owners d))"

definition owners_repo_create :: "ext \<Rightarrow> id \<Rightarrow> create_owner_dto \<Rightarrow> owner op" where
  "owners_repo_create x orgId data =
     bind (new_row x (\<lambda>d. map own_id (owners d))) (\<lambda>(i, now).
     bind get_db (\<lambda>d.
     bind (foreign_key (findOrg d orgId \<noteq> None)) (\<lambda>_.
     let w = \<lparr>own_id = i, own_orgId = orgId, own_name = cow_name data, own_email = cow_email data,
              own_phone = cow_phone data, own_address = cow_address data, own_createdAt = now, own_updatedAt = now\<rparr> in
     bind (write_db (\<lambda>d. d\<lparr>owners := owners d @ [w]\<rparr>)) (\<lambda>_. ret w))))"

definition owners_list :: "auth_user option \<Rightarrow> string option \<Rightarrow> owner list op" where
  "owners_list user search =
     bind (assertOrgScope user) (\<lambda>orgId. query (\<lambda>d. owners_repo_list d orgId search))"

definition owners_create :: "ext \<Rightarrow> auth_user option \<Rightarrow> create_owner_dto \<Rightarrow> owner op" where
  "owners_create x user dto =
     bind (assertOrgScope user) (\<lambda>orgId. owners_repo_create x orgId dto)"

definition owners_list_route :: "ext \<Rightarrow> env_data \<Rightarrow> request_context \<Rightarrow> string option \<Rightarrow> owner_response list op" where
  "owners_list_route x e ctx search =
     handle (org_permission_guards x e (RequirePermissions [''owners.read''] plain_route)) ctx (\<lambda>user.
     bind (owners_list user search) (\<lambda>ws. ret (map toOwnerResponse ws)))"

definition owners_create_route :: "ext \<Rightarrow> env_data \<Rightarrow> request_context \<Rightarrow> create_owner_dto \<Rightarrow> owner_response op" where
  "owners_create_route x e ctx dto =
     handle (org_permission_guards x e (RequirePermissions [''owners.write''] plain_route)) ctx (\<lambda>user.
     bind (validated (create_owner_ok x dto)) (\<lambda>_.
     bind (owners_create x user dto) (\<lambda>w. ret (toOwnerResponse w))))"

section \<open>Unit types\<close>

record create_unit_type_dto =
  cut_name :: string
  cut_isActive :: "bool option"

definition create_unit_type_ok :: "create_unit_type_dto \<Rightarrow> bool" where
  "create_unit_type_ok dto \<longleftrightarrow> min_length 1 (cut_name dto)"

record unit_type_response =
  utr_id :: id
  utr_orgId :: id
  utr_name :: string
  utr_isActive :: bool
  utr_createdAt :: date
  utr_updatedAt :: date

definition toUnitTypeResponse :: "unit_type \<Rightarrow> unit_type_response" where
  "toUnitTypeResponse t = \<lparr>utr_id = utp_id t, utr_orgId = utp_orgId t, utr_name = utp_name t,
     utr_isActive = utp_isActive t, utr_createdAt = utp_createdAt t, utr_updatedAt = utp_updatedAt t\<rparr>"

definition unit_type_key :: "unit_type \<Rightarrow> id \<times> string" where
  "unit_type_key t = (utp_orgId t, utp_name t)"

definition unit_types_listActive :: "db \<Rightarrow> id \<Rightarrow> unit_type list" where
  "unit_types_listActive d orgId =
     order_desc utp_createdAt (findMany (\<lambda>t. utp_orgId t = orgId \<and> utp_isActive t) (unitTypes d))"

definition unit_types_repo_create :: "ext \<Rightarrow> id \<Rightarrow> create_unit_type_dto \<Rightarrow> unit_type op" where
  "unit_types_repo_create x orgId data =
     bind (new_row x (\<lambda>d. map utp_id (unitTypes d))) (\<lambda>(i, now).
     bind get_db (\<lambda>d.
     bind (unique_key ((orgId, cut_name data) \<notin> unit_type_key ` set (unitTypes d))) (\<lambda>_.
     bind (foreign_key (findOrg d orgId \<noteq> None)) (\<lambda>_.
     let t = \<lparr>utp_id = i, utp_orgId = orgId, utp_name = cut_name data, utp_isActive = coalesce (cut_isActive data) True,
              utp_createdAt = now, utp_updatedAt = now\<rparr> in
     bind (write_db (\<lambda>d. d\<lparr>unitTypes := unitTypes d @ [t]\<rparr>)) (\<lambda>_. ret t)))))"

definition unit_types_list :: "auth_user option \<Rightarrow> unit_type list op" where
  "unit_types_list user = bind (assertOrgScope user) (\<lambda>orgId. query (\<lambda>d. unit_types_listActive d orgId))"

definition unit_types_create :: "ext \<Rightarrow> auth_user option \<Rightarrow> create_unit_type_dto \<Rightarrow> unit_type op" where
  "unit_types_create x user dto =
     bind (assertOrgScope user) (\<lambda>orgId.
     on_duplicate ''Unit type already exists'' (unit_types_repo_create x orgId dto))"

definition unit_types_list_route :: "ext \<Rightarrow> env_data \<Rightarrow> request_context \<Rightarrow> unit_type_response list op" where
  "unit_types_list_route x e ctx =
     handle (org_permission_guards x e (RequirePermissions [''unitTypes.read''] plain_route)) ctx (\<lambda>user.
     bind (unit_types_list user) (\<lambda>ts. ret (map toUnitTypeResponse ts)))"

definition unit_types_create_route :: "ext \<Rightarrow> env_data \<Rightarrow> request_context \<Rightarrow> create_unit_type_dto \<Rightarrow> unit_type_response op" where
  "unit_types_create_route x e ctx dto =
     handle (org_permission_guards x e (RequirePermissions [''unitTypes.write''] plain_route)) ctx (\<lambda>user.
     bind (validated (create_unit_type_ok dto)) (\<lambda>_.
     bind (unit_types_create x user dto) (\<lambda>t. ret (toUnitTypeResponse t))))"

section \<open>Org profile\<close>

record update_org_profile_dto =
  uop_name :: "string js"
  uop_logoUrl :: "string js"
  uop_businessName :: "string js"
  uop_businessType :: "OrgBusinessType js"
  uop_tradeLicenseNumber :: "string js"
  uop_vatRegistrationNumber :: "string js"
  uop_registeredOfficeAddress :: "string js"
  uop_city :: "string js"
  uop_officePhoneNumber :: "string js"
  uop_businessEmailAddress :: "string js"
  uop_website :: "string js"
  uop_ownerName :: "string js"

definition update_org_profile_ok :: "ext \<Rightarrow> update_org_profile_dto \<Rightarrow> bool" where
  "update_org_profile_ok x dto \<longleftrightarrow> optional_js (min_length 2) (uop_name dto) \<and>
     optional_js (\<lambda>v. x_isUrl x v \<and> starts_with ''https://'' v) (uop_logoUrl dto) \<and>
     optional_js (x_isEmail x) (uop_businessEmailAddress dto) \<and> optional_js (x_isUrl x) (uop_website dto)"

record org_profile_response =
  opr_id :: id
  opr_name :: string
  opr_logoUrl :: "string option"
  opr_businessName :: "string option"
  opr_businessType :: "OrgBusinessType option"
  opr_tradeLicenseNumber :: "string option"
  opr_vatRegistrationNumber :: "string option"
  opr_registeredOfficeAddress :: "string option"
  opr_city :: "string option"
  opr_officePhoneNumber :: "string option"
  opr_businessEmailAddress :: "string option"
  opr_website :: "string option"
  opr_ownerName :: "string option"

definition toOrgProfileResponse :: "org \<Rightarrow> org_profile_response" where
  "toOrgProfileResponse v = \<lparr>opr_id = org_id v, opr_name = org_name v, opr_logoUrl = org_logoUrl v,
     opr_businessName = org_businessName v, opr_businessType = org_businessType v,
     opr_tradeLicenseNumber = org_tradeLicenseNumber v, opr_vatRegistrationNumber = org_vatRegistrationNumber v,
     opr_registeredOfficeAddress = org_registeredOfficeAddress v, opr_city = org_city v,
     opr_officePhoneNumber = org_officePhoneNumber v, opr_businessEmailAddress = org_businessEmailAddress v,
     opr_website = org_website v, opr_ownerName = org_ownerName v\<rparr>"

definition org_apply :: "update_org_profile_dto \<Rightarrow> org \<Rightarrow> org" where
  "org_apply data v = v\<lparr>org_name := set_required (uop_name data) (org_name v),
     org_logoUrl := set_field (uop_logoUrl data) (org_logoUrl v),
     org_businessName := set_field (uop_businessName data) (org_businessName v),
     org_businessType := set_field (uop_businessType data) (org_businessType v),
     org_tradeLicenseNumber := set_field (uop_tradeLicenseNumber data) (org_tradeLicenseNumber v),
     org_vatRegistrationNumber := set_field (uop_vatRegistrationNumber data) (org_vatRegistrationNumber v),
     org_registeredOfficeAddress := set_field (uop_registeredOfficeAddress data) (org_registeredOfficeAddress v),
     org_city := set_field (uop_city data) (org_city v),
     org_officePhoneNumber := set_field (uop_officePhoneNumber data) (org_officePhoneNumber v),
     org_businessEmailAddress := set_field (uop_businessEmailAddress data) (org_businessEmailAddress v),
     org_website := set_field (uop_website data) (org_website v),
     org_ownerName := set_field (uop_ownerName data) (org_ownerName v)\<rparr>"

definition org_update :: "ext \<Rightarrow> id \<Rightarrow> update_org_profile_dto \<Rightarrow> org op" where
  "org_update x orgId data =
     bind (require (uop_name data \<noteq> Null) (JsError ''PrismaClientValidationError'')) (\<lambda>_.
     bind draw (\<lambda>t.
     bind (query (\<lambda>d. findOrg d orgId)) (\<lambda>found.
     bind (some_or found (PrismaKnown ''P2025'')) (\<lambda>old.
     let f = (\<lambda>v. (org_apply data v)\<lparr>org_updatedAt := x_clock x t\<rparr>) in
     bind (write_db (\<lambda>d. d\<lparr>orgs := updateMany (\<lambda>v. org_id v = orgId) f (orgs d)\<rparr>)) (\<lambda>_.
     ret (f old))))))"

definition org_getProfile :: "id \<Rightarrow> org op" where
  "org_getProfile orgId =
     bind (query (\<lambda>d. findOrg d orgId)) (\<lambda>found. some_or found (NotFound ''Org not found''))"

definition org_updateProfile :: "ext \<Rightarrow> id \<Rightarrow> update_org_profile_dto \<Rightarrow> org op" where
  "org_updateProfile x orgId data =
     bind (query (\<lambda>d. findOrg d orgId)) (\<lambda>found.
     bind (some_or found (NotFound ''Org not found'')) (\<lambda>_.
     org_update x orgId data))"

text \<open>\<open>CurrentUser('orgId')\<close>, which the guards have checked to be there.\<close>

definition current_orgId :: "auth_user option \<Rightarrow> id" where
  "current_orgId user = coalesce (case user of None \<Rightarrow> None | Some a \<Rightarrow> aut_orgId a) []"

definition org_profile_route :: "ext \<Rightarrow> env_data \<Rightarrow> request_context \<Rightarrow> org_profile_response op" where
  "org_profile_route x e ctx =
     handle (org_guards x e) ctx (\<lambda>user.
     bind (org_getProfile (current_orgId user)) (\<lambda>v. ret (toOrgProfileResponse v)))"

definition org_profile_update_route ::
  "ext \<Rightarrow> env_data \<Rightarrow> request_context \<Rightarrow> update_org_profile_dto \<Rightarrow> org_profile_response op" where
  "org_profile_update_route x e ctx dto =
     handle (org_permission_guards x e (RequirePermissions [''org.profile.write''] plain_route)) ctx (\<lambda>user.
     bind (validated (update_org_profile_ok x dto)) (\<lambda>_.
     bind (org_updateProfile x (current_orgId user) dto) (\<lambda>v. ret (toOrgProfileResponse v))))"

section \<open>Lemmas\<close>

lemma starts_with_iff: "starts_with p v \<longleftrightarrow> (\<exists>r. v = p @ r)"
  by (induction p v rule: starts_with.induct) auto

text \<open>The search finds exactly the rows with the text in one of the four columns.\<close>

lemma has_substring_iff: "has_substring p v \<longleftrightarrow> (\<exists>a b. v = a @ p @ b)"
proof (induction p v rule: has_substring.induct)
  case (2 p c cs)
  have "(\<exists>a b. c # cs = a @ p @ b) \<longleftrightarrow> starts_with p (c # cs) \<or> (\<exists>a b. cs = a @ p @ b)"
  proof
    assume "\<exists>a b. c # cs = a @ p @ b"
    then obtain a b where ab: "c # cs = a @ p @ b" by blast
    then show "starts_with p (c # cs) \<or> (\<exists>a b. cs = a @ p @ b)"
      by (cases a) (auto simp: starts_with_iff)
  next
    assume "starts_with p (c # cs) \<or> (\<exists>a b. cs = a @ p @ b)"
    then show "\<exists>a b. c # cs = a @ p @ b"
      by (metis append_Cons append_Nil starts_with_iff)
  qed
  then show ?case using 2 by simp
qed simp

lemma owners_list_run:
  "owners_list user search s = (case scope_of user of None \<Rightarrow> (Inl (Forbidden ''Org scope required''), s)
     | Some o1 \<Rightarrow> (Inr (owners_repo_list (st_db s) o1 search), s))"
  by (simp add: owners_list_def run split: option.splits)

definition catalog_ok :: "db \<Rightarrow> bool" where
  "catalog_ok d \<longleftrightarrow> distinct (map org_id (orgs d)) \<and> distinct (map own_id (owners d)) \<and> distinct (map utp_id (unitTypes d)) \<and>
     distinct (map unit_type_key (unitTypes d)) \<and>
     own_orgId ` set (owners d) \<subseteq> org_id ` set (orgs d) \<and> utp_orgId ` set (unitTypes d) \<subseteq> org_id ` set (orgs d)"

lemma catalog_keeps_creates [inv]:
  "db_keeps catalog_ok (owners_repo_create x o1 odto)" "db_keeps catalog_ok (unit_types_repo_create x o1 tdto)"
  by (rule db_keepsI, auto simp: owners_repo_create_def unit_types_repo_create_def run find_by_id_None Let_def
      catalog_ok_def unit_type_key_def split: if_splits)+

lemma org_id_apply [simp]: "org_id (org_apply data v) = org_id v"
  by (simp add: org_apply_def)

lemma catalog_keeps_org_update [inv]: "db_keeps catalog_ok (org_update x o1 data)"
proof (rule db_keepsI)
  fix s :: st assume ok: "catalog_ok (st_db s)"
  have "org_id ` set (updateMany p (\<lambda>v. org_apply data v\<lparr>org_updatedAt := now\<rparr>) vs) = org_id ` set vs" for p now vs
    by (metis (no_types, lifting) map_updateMany[of org_id] org_id_apply list.set_map org.select_convs(1) org.surjective org.update_convs(15))
  then show "catalog_ok (st_db (snd (org_update x o1 data s)))"
    using ok by (auto simp: org_update_def run Let_def catalog_ok_def map_updateMany split: option.splits)
qed

lemma catalog_keeps_services:
  "db_keeps catalog_ok (owners_create x user odto)" "db_keeps catalog_ok (unit_types_create x user tdto)"
  "db_keeps catalog_ok (org_updateProfile x o1 pdto)"
  unfolding owners_create_def unit_types_create_def org_updateProfile_def by (intro inv)+

end
