(* ===== verification/Requests.thy ===== *)
theory Requests
  imports BuildingAccess
begin

text \<open>
  The maintenance-requests module: the status machine of \<open>maintenance-requests.constants.ts\<close>, the
  repository, the service with its events, and the input and response objects. A request read with
  \<open>include\<close> is a \<open>request_view\<close>: the row and the related rows the query asks for.
\<close>

section \<open>The status machine (\<open>maintenance-requests.constants.ts\<close>)\<close>

fun MAINTENANCE_STATUS_TRANSITIONS :: "RequestStatus \<Rightarrow> RequestStatus list" where
  "MAINTENANCE_STATUS_TRANSITIONS OPEN = [ASSIGNED]"
| "MAINTENANCE_STATUS_TRANSITIONS ASSIGNED = [IN_PROGRESS]"
| "MAINTENANCE_STATUS_TRANSITIONS IN_PROGRESS = [COMPLETED]"
| "MAINTENANCE_STATUS_TRANSITIONS COMPLETED = []"
| "MAINTENANCE_STATUS_TRANSITIONS CANCELED = []"

section \<open>Input objects\<close>

record attachment_input =
  atn_fileName :: string
  atn_mimeType :: string
  atn_sizeBytes :: int
  atn_url :: string

record create_resident_request_dto =
  crr_title :: string
  crr_description :: "string option"
  crr_type :: "string option"
  crr_priority :: "string option"
  crr_attachments :: "attachment_input list option"

record update_resident_request_dto =
  urr_title :: "string js"
  urr_description :: "string js"

text \<open>
  The \<open>@Transform\<close> of \<open>type\<close>: runs of characters outside \<open>A-Z0-9\<close> become one underscore, and a
  known misspelling is corrected. The one of \<open>priority\<close> only trims and upper-cases.
\<close>

definition is_word_char :: "char \<Rightarrow> bool" where
  "is_word_char c \<longleftrightarrow> (let n = of_char c :: nat in 65 \<le> n \<and> n \<le> 90 \<or> 48 \<le> n \<and> n \<le> 57)"

fun squash :: "string \<Rightarrow> string" where
  "squash [] = []"
| "squash [c] = (if is_word_char c then [c] else ''_'')"
| "squash (c # b # cs) =
     (if is_word_char c then c # squash (b # cs)
      else if is_word_char b then CHR ''_'' # squash (b # cs)
      else squash (b # cs))"

definition transform_type :: "string \<Rightarrow> string" where
  "transform_type v =
     (let normalized = squash (toUpperCase (trim v))
      in if normalized = ''MAINTAINCE'' then ''MAINTENANCE'' else normalized)"

definition transform_priority :: "string \<Rightarrow> string" where
  "transform_priority v = toUpperCase (trim v)"

definition request_type_names :: "string list" where
  "request_type_names = [''CLEANING'', ''ELECTRICAL'', ''MAINTENANCE'', ''PLUMBING_AC_HEATING'', ''OTHER'']"

definition request_priority_names :: "string list" where
  "request_priority_names = [''LOW'', ''MEDIUM'', ''HIGH'']"

definition attachment_input_ok :: "attachment_input \<Rightarrow> bool" where
  "attachment_input_ok a \<longleftrightarrow> atn_sizeBytes a \<ge> 1"

text \<open>What the validation pipe lets through to the handler: \<open>None\<close> is the 400 it answers.\<close>

definition validate_create_resident_request :: "create_resident_request_dto \<Rightarrow> create_resident_request_dto option" where
  "validate_create_resident_request raw =
     (let dto = raw\<lparr>crr_type := map_option transform_type (crr_type raw),
                    crr_priority := map_option transform_priority (crr_priority raw)\<rparr> in
      if length (crr_title dto) \<ge> 3 \<and>
         (case crr_type dto of None \<Rightarrow> True | Some v \<Rightarrow> v \<in> set request_type_names) \<and>
         (case crr_priority dto of None \<Rightarrow> True | Some v \<Rightarrow> v \<in> set request_priority_names) \<and>
         list_all attachment_input_ok (coalesce (crr_attachments dto) [])
      then Some dto else None)"

section \<open>Repository (\<open>maintenance-requests.repo.ts\<close>)\<close>

record request_view =
  rqv_row :: request
  rqv_unit :: "unit_row option"
  rqv_createdByUser :: "user option"
  rqv_assignedToUser :: "user option"
  rqv_attachments :: "attachment list option"

definition request_unit :: "db \<Rightarrow> request \<Rightarrow> unit_row option" where
  "request_unit d r = Option.bind (req_unitId r) (findUnit d)"

definition request_assignee :: "db \<Rightarrow> request \<Rightarrow> user option" where
  "request_assignee d r = Option.bind (req_assignedToUserId r) (findUser d)"

definition request_attachments :: "db \<Rightarrow> request \<Rightarrow> attachment list" where
  "request_attachments d r = findMany (\<lambda>a. att_requestId a = req_id r) (attachments d)"

text \<open>The three \<open>include\<close> objects of the repository.\<close>

definition view_resident :: "db \<Rightarrow> request \<Rightarrow> request_view" where
  "view_resident d r = \<lparr>rqv_row = r, rqv_unit = request_unit d r, rqv_createdByUser = None,
     rqv_assignedToUser = request_assignee d r, rqv_attachments = Some (request_attachments d r)\<rparr>"

definition view_updated :: "db \<Rightarrow> request \<Rightarrow> request_view" where
  "view_updated d r = \<lparr>rqv_row = r, rqv_unit = request_unit d r, rqv_createdByUser = findUser d (req_createdByUserId r),
     rqv_assignedToUser = request_assignee d r, rqv_attachments = None\<rparr>"

definition view_building :: "db \<Rightarrow> request \<Rightarrow> request_view" where
  "view_building d r = \<lparr>rqv_row = r, rqv_unit = request_unit d r, rqv_createdByUser = findUser d (req_createdByUserId r),
     rqv_assignedToUser = request_assignee d r, rqv_attachments = Some (request_attachments d r)\<rparr>"

record request_data =
  rqd_orgId :: id
  rqd_buildingId :: id
  rqd_unitId :: "id option"
  rqd_createdByUserId :: id
  rqd_title :: string
  rqd_description :: "string option"
  rqd_type :: "RequestType option"
  rqd_priority :: "RequestPriority option"
  rqd_status :: RequestStatus

text \<open>\<open>connect\<close> fails on a record that does not exist.\<close>

definition connect :: "bool \<Rightarrow> unit op" where
  "connect ok = require ok (PrismaKnown ''P2025'')"

definition createRequest :: "ext \<Rightarrow> request_data \<Rightarrow> request_view op" where
  "createRequest x dt =
     bind (new_row x (\<lambda>d. map req_id (requests d))) (\<lambda>(i, now).
     bind get_db (\<lambda>d.
     bind (connect (findOrg d (rqd_orgId dt) \<noteq> None \<and> findBuilding d (rqd_buildingId dt) \<noteq> None \<and>
       (case rqd_unitId dt of None \<Rightarrow> True | Some u \<Rightarrow> findUnit d u \<noteq> None) \<and>
       findUser d (rqd_createdByUserId dt) \<noteq> None)) (\<lambda>_.
     let r = \<lparr>req_id = i, req_orgId = rqd_orgId dt, req_buildingId = rqd_buildingId dt, req_unitId = rqd_unitId dt,
              req_createdByUserId = rqd_createdByUserId dt, req_title = rqd_title dt,
              req_description = rqd_description dt, req_status = rqd_status dt, req_type = rqd_type dt,
              req_priority = rqd_priority dt, req_assignedToUserId = None, req_assignedAt = None,
              req_completedAt = None, req_canceledAt = None, req_createdAt = now, req_updatedAt = now\<rparr> in
     bind (write_db (\<lambda>d. d\<lparr>requests := requests d @ [r]\<rparr>)) (\<lambda>_.
     query (\<lambda>d. view_resident d r)))))"

definition createAttachments :: "ext \<Rightarrow> id \<Rightarrow> id \<Rightarrow> id \<Rightarrow> attachment_input list \<Rightarrow> unit op" where
  "createAttachments x requestId orgId uploadedByUserId as =
     (if as = [] then ret ()
      else bind (for_each as (\<lambda>a.
        bind (new_row x (\<lambda>d. map att_id (attachments d))) (\<lambda>(i, now).
        bind get_db (\<lambda>d.
        bind (foreign_key (requestId \<in> req_id ` set (requests d) \<and> findOrg d orgId \<noteq> None \<and>
          findUser d uploadedByUserId \<noteq> None)) (\<lambda>_.
        write_db (\<lambda>d. d\<lparr>attachments := attachments d @ [\<lparr>att_id = i, att_requestId = requestId,
          att_orgId = orgId, att_uploadedByUserId = uploadedByUserId, att_fileName = atn_fileName a,
          att_mimeType = atn_mimeType a, att_sizeBytes = atn_sizeBytes a, att_url = atn_url a,
          att_createdAt = now\<rparr>]\<rparr>)))))) (\<lambda>_. ret ()))"

definition createRequestWithAttachmentsInTx ::
  "ext \<Rightarrow> request_data \<Rightarrow> attachment_input list \<Rightarrow> request_view op" where
  "createRequestWithAttachmentsInTx x dt as =
     bind (createRequest x dt) (\<lambda>request.
     bind (if as \<noteq> [] then
             createAttachments x (req_id (rqv_row request)) (rqd_orgId dt) (rqd_createdByUserId dt) as
           else ret ()) (\<lambda>_.
     ret request))"

text \<open>With a transaction of the caller the body runs in it, otherwise in one of its own.\<close>

definition createRequestWithAttachments ::
  "ext \<Rightarrow> request_data \<Rightarrow> attachment_input list \<Rightarrow> bool \<Rightarrow> request_view op" where
  "createRequestWithAttachments x dt as in_tx =
     (if in_tx then createRequestWithAttachmentsInTx x dt as
      else transaction (createRequestWithAttachmentsInTx x dt as))"

definition listByCreator :: "db \<Rightarrow> id \<Rightarrow> id \<Rightarrow> request_view list" where
  "listByCreator d orgId userId =
     map (view_resident d) (order_desc req_createdAt
       (findMany (\<lambda>r. req_orgId r = orgId \<and> req_createdByUserId r = userId) (requests d)))"

definition findByIdForCreator :: "db \<Rightarrow> id \<Rightarrow> id \<Rightarrow> id \<Rightarrow> request_view option" where
  "findByIdForCreator d orgId userId requestId =
     map_option (view_resident d)
       (findFirst (\<lambda>r. req_id r = requestId \<and> req_orgId r = orgId \<and> req_createdByUserId r = userId) (requests d))"

definition updateById :: "ext \<Rightarrow> id \<Rightarrow> (request \<Rightarrow> request) \<Rightarrow> request_view op" where
  "updateById x requestId f =
     bind draw (\<lambda>t.
     bind (query (\<lambda>d. findFirst (\<lambda>r. req_id r = requestId) (requests d))) (\<lambda>found.
     bind (some_or found (PrismaKnown ''P2025'')) (\<lambda>r.
     let g = (\<lambda>r. (f r)\<lparr>req_updatedAt := x_clock x t\<rparr>) in
     bind (write_db (\<lambda>d. d\<lparr>requests := updateMany (\<lambda>q. req_id q = requestId) g (requests d)\<rparr>)) (\<lambda>_.
     query (\<lambda>d. view_updated d (g r))))))"

definition listByBuilding :: "db \<Rightarrow> id \<Rightarrow> id \<Rightarrow> RequestStatus option \<Rightarrow> id option \<Rightarrow> request_view list" where
  "listByBuilding d orgId buildingId status assignedToUserId =
     map (view_building d) (order_desc req_createdAt
       (findMany (\<lambda>r. req_orgId r = orgId \<and> req_buildingId r = buildingId \<and>
           (case status of None \<Rightarrow> True | Some v \<Rightarrow> req_status r = v) \<and>
           (case truthy assignedToUserId of None \<Rightarrow> True | Some u \<Rightarrow> req_assignedToUserId r = Some u)) (requests d)))"

definition findByIdForBuilding :: "db \<Rightarrow> id \<Rightarrow> id \<Rightarrow> id \<Rightarrow> request_view option" where
  "findByIdForBuilding d orgId buildingId requestId =
     map_option (view_building d)
       (findFirst (\<lambda>r. req_id r = requestId \<and> req_orgId r = orgId \<and> req_buildingId r = buildingId) (requests d))"

text \<open>A comment with its author.\<close>

type_synonym comment_view = "request_comment \<times> user option"

definition createComment :: "ext \<Rightarrow> id \<Rightarrow> id \<Rightarrow> id \<Rightarrow> string \<Rightarrow> comment_view op" where
  "createComment x requestId orgId authorUserId message =
     bind (new_row x (\<lambda>d. map cmt_id (request_comments d))) (\<lambda>(i, now).
     bind get_db (\<lambda>d.
     bind (connect (requestId \<in> req_id ` set (requests d) \<and> findOrg d orgId \<noteq> None \<and> findUser d authorUserId \<noteq> None)) (\<lambda>_.
     let c = \<lparr>cmt_id = i, cmt_requestId = requestId, cmt_orgId = orgId, cmt_authorUserId = authorUserId,
              cmt_message = message, cmt_createdAt = now\<rparr> in
     bind (write_db (\<lambda>d. d\<lparr>request_comments := request_comments d @ [c]\<rparr>)) (\<lambda>_.
     ret (c, findUser d authorUserId)))))"

definition listComments :: "db \<Rightarrow> id \<Rightarrow> id \<Rightarrow> comment_view list" where
  "listComments d orgId requestId =
     map (\<lambda>c. (c, findUser d (cmt_authorUserId c))) (order_asc cmt_createdAt
       (findMany (\<lambda>c. cmt_orgId c = orgId \<and> cmt_requestId c = requestId) (request_comments d)))"

definition findAssignedActiveOccupancy :: "db \<Rightarrow> id \<Rightarrow> (occupancy \<times> building option) option" where
  "findAssignedActiveOccupancy d userId =
     map_option (\<lambda>r. (r, findBuilding d (occ_buildingId r)))
       (findFirst (\<lambda>r. occ_residentUserId r = userId \<and> occ_status r = ACTIVE) (occupancies d))"

definition findActiveOccupancyForUnit :: "db \<Rightarrow> id \<Rightarrow> occupancy option" where
  "findActiveOccupancyForUnit d unitId =
     findFirst (\<lambda>r. occ_unitId r = unitId \<and> occ_status r = ACTIVE) (occupancies d)"

definition findStaffAssignment :: "db \<Rightarrow> id \<Rightarrow> id \<Rightarrow> assignment option" where
  "findStaffAssignment d buildingId userId =
     findFirst (\<lambda>a. asg_buildingId a = buildingId \<and> asg_userId a = userId \<and> asg_type a = STAFF) (assignments d)"

section \<open>Helpers of the service\<close>

definition hasGlobalPermission :: "db \<Rightarrow> id \<Rightarrow> string \<Rightarrow> bool" where
  "hasGlobalPermission d userId p \<longleftrightarrow> p \<in> set (getUserEffectivePermissions d userId)"

definition normalizePriority :: "string option \<Rightarrow> RequestPriority option" where
  "normalizePriority v = (case truthy v of
       None \<Rightarrow> None
     | Some s \<Rightarrow> if s = ''LOW'' then Some LOW else if s = ''MEDIUM'' then Some NORMAL
         else if s = ''HIGH'' then Some HIGH else None)"

definition normalizeType :: "string option \<Rightarrow> RequestType option" where
  "normalizeType v = (case truthy v of
       None \<Rightarrow> None
     | Some s \<Rightarrow> if s = ''CLEANING'' then Some CLEANING else if s = ''ELECTRICAL'' then Some ELECTRICAL
         else if s = ''MAINTENANCE'' then Some MAINTENANCE
         else if s = ''PLUMBING_AC_HEATING'' then Some PLUMBING_AC_HEATING
         else if s = ''OTHER'' then Some OTHER else None)"

definition toEventRequest :: "request_view \<Rightarrow> request_snapshot" where
  "toEventRequest v = (let r = rqv_row v in
     \<lparr>snp_id = req_id r, snp_orgId = req_orgId r, snp_buildingId = req_buildingId r, snp_unitId = req_unitId r,
      snp_title = req_title r, snp_status = Some (req_status r), snp_createdByUserId = req_createdByUserId r,
      snp_assignedToUserId = req_assignedToUserId r,
      snp_unit = map_option (\<lambda>u. (unt_id u, unt_label u)) (rqv_unit v)\<rparr>)"

definition emitEvent :: "event_name \<Rightarrow> request_view \<Rightarrow> id \<Rightarrow> bool option \<Rightarrow> (id \<times> string) option \<Rightarrow> unit op" where
  "emitEvent n v actor res cm =
     emit n \<lparr>evp_request = toEventRequest v, evp_actorUserId = actor, evp_actorIsResident = res, evp_comment = cm\<rparr>"

text \<open>The org and the user of every handler: \<open>assertOrgScope\<close>, then the \<open>sub\<close> check.\<close>

definition caller :: "auth_user option \<Rightarrow> (id \<times> id) op" where
  "caller user = bind (assertOrgScope user) (\<lambda>orgId. bind (requireSub user) (\<lambda>userId. ret (orgId, userId)))"

section \<open>Resident operations\<close>

definition createResidentRequest :: "ext \<Rightarrow> auth_user option \<Rightarrow> create_resident_request_dto \<Rightarrow> request_view op" where
  "createResidentRequest x user dto =
     bind (caller user) (\<lambda>(orgId, userId).
     bind (transaction (
       bind (query (\<lambda>d. findAssignedActiveOccupancy d userId)) (\<lambda>found.
       bind (some_or found (Forbidden ''Active occupancy required'')) (\<lambda>(occ, b).
       bind (require (map_option bld_orgId b = Some orgId) (Forbidden ''Active occupancy required'')) (\<lambda>_.
       createRequestWithAttachments x
         \<lparr>rqd_orgId = orgId, rqd_buildingId = occ_buildingId occ, rqd_unitId = Some (occ_unitId occ),
          rqd_createdByUserId = userId, rqd_title = crr_title dto, rqd_description = crr_description dto,
          rqd_type = normalizeType (crr_type dto), rqd_priority = normalizePriority (crr_priority dto),
          rqd_status = OPEN\<rparr>
         (coalesce (crr_attachments dto) []) True))))) (\<lambda>request.
     bind (emitEvent EV_CREATED request userId None None) (\<lambda>_.
     ret request)))"

definition listResidentRequests :: "auth_user option \<Rightarrow> request_view list op" where
  "listResidentRequests user =
     bind (caller user) (\<lambda>(orgId, userId). query (\<lambda>d. listByCreator d orgId userId))"

definition getResidentRequest :: "auth_user option \<Rightarrow> id \<Rightarrow> request_view op" where
  "getResidentRequest user requestId =
     bind (caller user) (\<lambda>(orgId, userId).
     bind (query (\<lambda>d. findByIdForCreator d orgId userId requestId)) (\<lambda>found.
     some_or found (NotFound ''Request not found'')))"

definition updateResidentRequest :: "ext \<Rightarrow> auth_user option \<Rightarrow> id \<Rightarrow> update_resident_request_dto \<Rightarrow> request_view op" where
  "updateResidentRequest x user requestId dto =
     bind (caller user) (\<lambda>(orgId, userId).
     bind (query (\<lambda>d. findByIdForCreator d orgId userId requestId)) (\<lambda>found.
     bind (some_or found (NotFound ''Request not found'')) (\<lambda>v.
     let request = rqv_row v in
     bind (require (req_status request = OPEN) (Conflict ''Request cannot be edited'')) (\<lambda>_.
     bind (require (truthy (js_option (urr_title dto)) \<noteq> None \<or> urr_description dto \<noteq> Undefined)
       (BadRequest ''No changes provided'')) (\<lambda>_.
     updateById x (req_id request) (\<lambda>r. r\<lparr>
       req_title := coalesce (js_option (urr_title dto)) (req_title request),
       req_description := (case js_option (urr_description dto) of
          Some v \<Rightarrow> Some v | None \<Rightarrow> req_description request)\<rparr>))))))"

definition cancelResidentRequest :: "ext \<Rightarrow> auth_user option \<Rightarrow> id \<Rightarrow> request_view op" where
  "cancelResidentRequest x user requestId =
     bind (caller user) (\<lambda>(orgId, userId).
     bind (transaction (
       bind (query (\<lambda>d. findByIdForCreator d orgId userId requestId)) (\<lambda>found.
       bind (some_or found (NotFound ''Request not found'')) (\<lambda>v.
       let request = rqv_row v in
       bind (require (\<not> (req_status request = COMPLETED \<or> req_status request = CANCELED))
         (Conflict ''Request cannot be canceled'')) (\<lambda>_.
       bind draw (\<lambda>t.
       updateById x (req_id request) (\<lambda>r. r\<lparr>req_status := CANCELED, req_canceledAt := Some (x_clock x t)\<rparr>)))))) ) (\<lambda>updated.
     bind (emitEvent EV_CANCELED updated userId None None) (\<lambda>_.
     ret updated)))"

definition addResidentComment :: "ext \<Rightarrow> auth_user option \<Rightarrow> id \<Rightarrow> string \<Rightarrow> comment_view op" where
  "addResidentComment x user requestId message =
     bind (caller user) (\<lambda>(orgId, userId).
     bind (transaction (
       bind (query (\<lambda>d. findByIdForCreator d orgId userId requestId)) (\<lambda>found.
       bind (some_or found (NotFound ''Request not found'')) (\<lambda>v.
       let request = rqv_row v in
       bind (require (\<not> (req_status request = CANCELED \<or> req_status request = COMPLETED))
         (Conflict ''Request is closed'')) (\<lambda>_.
       bind (createComment x (req_id request) orgId userId message) (\<lambda>comment.
       ret (v, comment))))))) (\<lambda>(v, comment).
     bind (emitEvent EV_COMMENTED v userId (Some True) (Some (cmt_id (fst comment), cmt_message (fst comment)))) (\<lambda>_.
     ret comment)))"

definition listResidentComments :: "auth_user option \<Rightarrow> id \<Rightarrow> comment_view list op" where
  "listResidentComments user requestId =
     bind (caller user) (\<lambda>(orgId, userId).
     bind (query (\<lambda>d. findByIdForCreator d orgId userId requestId)) (\<lambda>found.
     bind (some_or found (NotFound ''Request not found'')) (\<lambda>v.
     query (\<lambda>d. listComments d orgId (req_id (rqv_row v))))))"

section \<open>Building operations\<close>

definition listBuildingRequests :: "auth_user option \<Rightarrow> id \<Rightarrow> RequestStatus option \<Rightarrow> request_view list op" where
  "listBuildingRequests user buildingId status =
     bind (caller user) (\<lambda>(orgId, userId).
     bind (assertBuildingInOrg buildingId orgId) (\<lambda>_.
     bind (query (\<lambda>d. getBuildingAssignmentType d buildingId userId)) (\<lambda>assignmentType.
     bind (query (\<lambda>d. hasGlobalPermission d userId ''requests.read'')) (\<lambda>hasRequestsRead.
     let assignedToUserId = (if assignmentType = Some STAFF \<and> \<not> hasRequestsRead then Some userId else None) in
     query (\<lambda>d. listByBuilding d orgId buildingId status assignedToUserId)))))"

definition getBuildingRequest :: "auth_user option \<Rightarrow> id \<Rightarrow> id \<Rightarrow> request_view op" where
  "getBuildingRequest user buildingId requestId =
     bind (caller user) (\<lambda>(orgId, userId).
     bind (assertBuildingInOrg buildingId orgId) (\<lambda>_.
     bind (query (\<lambda>d. findByIdForBuilding d orgId buildingId requestId)) (\<lambda>found.
     bind (some_or found (NotFound ''Request not found'')) (\<lambda>v.
     bind (query (\<lambda>d. getBuildingAssignmentType d buildingId userId)) (\<lambda>assignmentType.
     bind (query (\<lambda>d. hasGlobalPermission d userId ''requests.read'')) (\<lambda>hasRequestsRead.
     bind (require (\<not> (assignmentType = Some STAFF \<and> \<not> hasRequestsRead \<and> req_assignedToUserId (rqv_row v) \<noteq> Some userId))
       (Forbidden ''Forbidden'')) (\<lambda>_.
     ret v)))))))"

definition assignRequest :: "ext \<Rightarrow> auth_user option \<Rightarrow> id \<Rightarrow> id \<Rightarrow> id \<Rightarrow> request_view op" where
  "assignRequest x user buildingId requestId staffUserId =
     bind (caller user) (\<lambda>(orgId, userId).
     bind (assertBuildingInOrg buildingId orgId) (\<lambda>_.
     bind (query (\<lambda>d. getBuildingAssignmentType d buildingId userId)) (\<lambda>assignmentType.
     bind (require (assignmentType \<noteq> Some STAFF) (Forbidden ''Staff cannot assign requests'')) (\<lambda>_.
     bind (transaction (
       bind (query (\<lambda>d. findByIdForBuilding d orgId buildingId requestId)) (\<lambda>found.
       bind (some_or found (NotFound ''Request not found'')) (\<lambda>v.
       let request = rqv_row v in
       bind (require (req_status request = OPEN \<or> req_status request = ASSIGNED)
         (Conflict ''Request is not open or assigned'')) (\<lambda>_.
       bind (query (\<lambda>d. findUser d staffUserId)) (\<lambda>foundUser.
       bind (some_or foundUser (BadRequest ''Staff user not in org'')) (\<lambda>staffUser.
       bind (require (usr_isActive staffUser \<and> usr_orgId staffUser = Some orgId) (BadRequest ''Staff user not in org'')) (\<lambda>_.
       bind (query (\<lambda>d. findStaffAssignment d buildingId (usr_id staffUser))) (\<lambda>staffAssignment.
       bind (require (staffAssignment \<noteq> None) (BadRequest ''Staff user not assigned to building'')) (\<lambda>_.
       bind draw (\<lambda>t.
       updateById x (req_id request) (\<lambda>r. r\<lparr>req_assignedToUserId := Some (usr_id staffUser),
         req_assignedAt := Some (x_clock x t), req_status := ASSIGNED\<rparr>)))))))))))) (\<lambda>updated.
     bind (emitEvent EV_ASSIGNED updated userId None None) (\<lambda>_.
     ret updated))))))"

definition updateRequestStatus :: "ext \<Rightarrow> auth_user option \<Rightarrow> id \<Rightarrow> id \<Rightarrow> RequestStatus \<Rightarrow> request_view op" where
  "updateRequestStatus x user buildingId requestId status =
     bind (caller user) (\<lambda>(orgId, userId).
     bind (assertBuildingInOrg buildingId orgId) (\<lambda>_.
     bind (query (\<lambda>d. getBuildingAssignmentType d buildingId userId)) (\<lambda>assignmentType.
     bind (transaction (
       bind (query (\<lambda>d. findByIdForBuilding d orgId buildingId requestId)) (\<lambda>found.
       bind (some_or found (NotFound ''Request not found'')) (\<lambda>v.
       let request = rqv_row v; currentStatus = req_status request in
       bind (require (status \<in> set (MAINTENANCE_STATUS_TRANSITIONS currentStatus))
         (Conflict ''Invalid status transition'')) (\<lambda>_.
       bind (require (\<not> (assignmentType = Some STAFF \<and> req_assignedToUserId request \<noteq> Some userId))
         (Forbidden ''Forbidden'')) (\<lambda>_.
       bind (if status = COMPLETED then bind draw (\<lambda>t. ret (Some (x_clock x t)))
             else ret (req_completedAt request)) (\<lambda>completedAt.
       updateById x (req_id request) (\<lambda>r. r\<lparr>req_status := status, req_completedAt := completedAt\<rparr>))))))) ) (\<lambda>updated.
     bind (emitEvent EV_STATUS_CHANGED updated userId None None) (\<lambda>_.
     ret updated)))))"

definition cancelBuildingRequest :: "ext \<Rightarrow> auth_user option \<Rightarrow> id \<Rightarrow> id \<Rightarrow> request_view op" where
  "cancelBuildingRequest x user buildingId requestId =
     bind (caller user) (\<lambda>(orgId, userId).
     bind (assertBuildingInOrg buildingId orgId) (\<lambda>_.
     bind (query (\<lambda>d. getBuildingAssignmentType d buildingId userId)) (\<lambda>assignmentType.
     bind (if assignmentType = None then
             bind (query (\<lambda>d. hasGlobalPermission d userId ''requests.update_status'')) (\<lambda>hasPermission.
             require hasPermission (Forbidden ''Forbidden''))
           else ret ()) (\<lambda>_.
     bind (require (assignmentType \<noteq> Some STAFF) (Forbidden ''Staff cannot cancel requests'')) (\<lambda>_.
     bind (transaction (
       bind (query (\<lambda>d. findByIdForBuilding d orgId buildingId requestId)) (\<lambda>found.
       bind (some_or found (NotFound ''Request not found'')) (\<lambda>v.
       let request = rqv_row v in
       bind (require (\<not> (req_status request = COMPLETED \<or> req_status request = CANCELED))
         (Conflict ''Request cannot be canceled'')) (\<lambda>_.
       bind draw (\<lambda>t.
       updateById x (req_id request) (\<lambda>r. r\<lparr>req_status := CANCELED, req_canceledAt := Some (x_clock x t)\<rparr>)))))) ) (\<lambda>updated.
     bind (emitEvent EV_CANCELED updated userId None None) (\<lambda>_.
     ret updated)))))))"

definition addBuildingComment :: "ext \<Rightarrow> auth_user option \<Rightarrow> id \<Rightarrow> id \<Rightarrow> string \<Rightarrow> comment_view op" where
  "addBuildingComment x user buildingId requestId message =
     bind (caller user) (\<lambda>(orgId, userId).
     bind (assertBuildingInOrg buildingId orgId) (\<lambda>_.
     bind (query (\<lambda>d. getBuildingAssignmentType d buildingId userId)) (\<lambda>assignmentType.
     bind (transaction (
       bind (query (\<lambda>d. findByIdForBuilding d orgId buildingId requestId)) (\<lambda>found.
       bind (some_or found (NotFound ''Request not found'')) (\<lambda>v.
       let request = rqv_row v in
       bind (require (\<not> (assignmentType = Some STAFF \<and> req_assignedToUserId request \<noteq> Some userId))
         (Forbidden ''Forbidden'')) (\<lambda>_.
       bind (createComment x (req_id request) orgId userId message) (\<lambda>comment.
       ret (v, comment))))))) (\<lambda>(v, comment).
     bind (emitEvent EV_COMMENTED v userId (Some False) (Some (cmt_id (fst comment), cmt_message (fst comment)))) (\<lambda>_.
     ret comment)))))"

definition listBuildingComments :: "auth_user option \<Rightarrow> id \<Rightarrow> id \<Rightarrow> comment_view list op" where
  "listBuildingComments user buildingId requestId =
     bind (caller user) (\<lambda>(orgId, userId).
     bind (assertBuildingInOrg buildingId orgId) (\<lambda>_.
     bind (query (\<lambda>d. findByIdForBuilding d orgId buildingId requestId)) (\<lambda>found.
     bind (some_or found (NotFound ''Request not found'')) (\<lambda>v.
     bind (query (\<lambda>d. getBuildingAssignmentType d buildingId userId)) (\<lambda>assignmentType.
     bind (require (\<not> (assignmentType = Some STAFF \<and> req_assignedToUserId (rqv_row v) \<noteq> Some userId))
       (Forbidden ''Forbidden'')) (\<lambda>_.
     query (\<lambda>d. listComments d orgId (req_id (rqv_row v)))))))))"

definition addBuildingAttachments :: "ext \<Rightarrow> auth_user option \<Rightarrow> id \<Rightarrow> id \<Rightarrow> attachment_input list \<Rightarrow> request_view op" where
  "addBuildingAttachments x user buildingId requestId as =
     bind (caller user) (\<lambda>(orgId, userId).
     bind (assertBuildingInOrg buildingId orgId) (\<lambda>_.
     bind (query (\<lambda>d. getBuildingAssignmentType d buildingId userId)) (\<lambda>assignmentType.
     transaction (
       bind (query (\<lambda>d. findByIdForBuilding d orgId buildingId requestId)) (\<lambda>found.
       bind (some_or found (NotFound ''Request not found'')) (\<lambda>v.
       let request = rqv_row v in
       bind (require (\<not> (req_status request = CANCELED \<or> req_status request = COMPLETED))
         (Conflict ''Request is closed'')) (\<lambda>_.
       bind (require (\<not> (assignmentType = Some STAFF \<and> req_assignedToUserId request \<noteq> Some userId))
         (Forbidden ''Forbidden'')) (\<lambda>_.
       bind (createAttachments x (req_id request) orgId userId as) (\<lambda>_.
       bind (query (\<lambda>d. findByIdForBuilding d orgId buildingId requestId)) (\<lambda>updated.
       some_or updated (NotFound ''Request not found'')))))))))))"

section \<open>Response objects\<close>

record attachment_response =
  atr_id :: id
  atr_fileName :: string
  atr_mimeType :: string
  atr_sizeBytes :: int
  atr_url :: string
  atr_createdAt :: date

definition toRequestAttachmentResponse :: "attachment \<Rightarrow> attachment_response" where
  "toRequestAttachmentResponse a = \<lparr>atr_id = att_id a, atr_fileName = att_fileName a,
     atr_mimeType = att_mimeType a, atr_sizeBytes = att_sizeBytes a, atr_url = att_url a,
     atr_createdAt = att_createdAt a\<rparr>"

record person =
  per_id :: id
  per_name :: "string option"
  per_email :: string

definition to_person :: "user \<Rightarrow> person" where
  "to_person u = \<lparr>per_id = usr_id u, per_name = usr_name u, per_email = usr_email u\<rparr>"

record resident_request_response =
  rrr_id :: id
  rrr_buildingId :: id
  rrr_unit :: "id \<times> string"
  rrr_title :: string
  rrr_description :: "string option"
  rrr_status :: RequestStatus
  rrr_priority :: "RequestPriority option"
  rrr_type :: "RequestType option"
  rrr_assignedTo :: "person option"
  rrr_attachments :: "attachment_response list option"
  rrr_createdAt :: date
  rrr_updatedAt :: date

definition toResidentRequestResponse :: "request_view \<Rightarrow> resident_request_response" where
  "toResidentRequestResponse v = (let r = rqv_row v in
     \<lparr>rrr_id = req_id r, rrr_buildingId = req_buildingId r,
      rrr_unit = (case rqv_unit v of Some u \<Rightarrow> (unt_id u, unt_label u) | None \<Rightarrow> (coalesce (req_unitId r) [], [])),
      rrr_title = req_title r, rrr_description = req_description r, rrr_status = req_status r,
      rrr_priority = req_priority r, rrr_type = req_type r,
      rrr_assignedTo = map_option to_person (rqv_assignedToUser v),
      rrr_attachments = map_option (map toRequestAttachmentResponse) (rqv_attachments v),
      rrr_createdAt = req_createdAt r, rrr_updatedAt = req_updatedAt r\<rparr>)"

record building_request_response =
  brr_id :: id
  brr_buildingId :: id
  brr_unit :: "(id \<times> string \<times> int option) option"
  brr_createdBy :: person
  brr_assignedTo :: "person option"
  brr_title :: string
  brr_description :: "string option"
  brr_status :: RequestStatus
  brr_priority :: "RequestPriority option"
  brr_type :: "RequestType option"
  brr_attachments :: "attachment_response list option"
  brr_createdAt :: date
  brr_updatedAt :: date

text \<open>\<open>None\<close> is the \<open>TypeError\<close> of a view without its creator.\<close>

definition toBuildingRequestResponse :: "request_view \<Rightarrow> building_request_response option" where
  "toBuildingRequestResponse v = (let r = rqv_row v in
     map_option (\<lambda>creator.
       \<lparr>brr_id = req_id r, brr_buildingId = req_buildingId r,
        brr_unit = map_option (\<lambda>u. (unt_id u, unt_label u, unt_floor u)) (rqv_unit v),
        brr_createdBy = to_person creator,
        brr_assignedTo = map_option to_person (rqv_assignedToUser v),
        brr_title = req_title r, brr_description = req_description r, brr_status = req_status r,
        brr_priority = req_priority r, brr_type = req_type r,
        brr_attachments = map_option (map toRequestAttachmentResponse) (rqv_attachments v),
        brr_createdAt = req_createdAt r, brr_updatedAt = req_updatedAt r\<rparr>) (rqv_createdByUser v))"

record comment_response =
  crs_id :: id
  crs_requestId :: id
  crs_author :: person
  crs_message :: string
  crs_createdAt :: date

definition toRequestCommentResponse :: "comment_view \<Rightarrow> comment_response option" where
  "toRequestCommentResponse c =
     map_option (\<lambda>author. \<lparr>crs_id = cmt_id (fst c), crs_requestId = cmt_requestId (fst c),
       crs_author = to_person author, crs_message = cmt_message (fst c), crs_createdAt = cmt_createdAt (fst c)\<rparr>) (snd c)"

end
