(* ===== verification/DateTime.thy ===== *)
theory DateTime
  imports Prelude
begin

text \<open>
  \<open>Date.prototype.toISOString\<close> and the reading of such a string by \<open>new Date(...)\<close>, on dates as
  milliseconds since the epoch: the day, year and time-of-day computations of ECMAScript, and the
  24-character format of the years 0 to 9999. What an engine makes of any other string is the
  argument \<open>other\<close> of the parser.
\<close>

section \<open>Days and years\<close>

definition dayFromYear :: "int \<Rightarrow> int" where
  "dayFromYear y = 365 * (y - 1970) + (y - 1969) div 4 - (y - 1901) div 100 + (y - 1601) div 400"

definition leap_year :: "int \<Rightarrow> bool" where
  "leap_year y \<longleftrightarrow> y mod 4 = 0 \<and> (y mod 100 \<noteq> 0 \<or> y mod 400 = 0)"

definition yearFromDay :: "int \<Rightarrow> int" where
  "yearFromDay d =
     (let y = 1970 + (d * 400) div 146097
      in if d < dayFromYear y then y - 1 else if dayFromYear (y + 1) \<le> d then y + 1 else y)"

definition month_lengths :: "int \<Rightarrow> int list" where
  "month_lengths y = [31, if leap_year y then 29 else 28, 31, 30, 31, 30, 31, 31, 30, 31, 30, 31]"

lemma div_bounds:
  fixes a n :: int
  assumes "0 < n"
  shows "n * (a div n) \<le> a" "a < n * (a div n) + n"
  using mult_div_mod_eq [of n a] pos_mod_bound [OF assms, of a] pos_mod_sign [OF assms, of a] by linarith+

lemma div_succ:
  fixes a n :: int
  assumes "0 < n"
  shows "(a + 1) div n - a div n = (if (a + 1) mod n = 0 then 1 else 0)"
proof (cases "(a + 1) mod n = 0")
  case True
  then obtain q where q: "a + 1 = n * q" by (metis mod_0_imp_dvd dvdE)
  then have "a = n * (q - 1) + (n - 1)" by (simp add: algebra_simps)
  then have "a div n = q - 1" by (rule int_div_pos_eq) (use assms in auto)
  with True q assms show ?thesis by simp
next
  case False
  have "a + 1 = n * ((a + 1) div n) + (a + 1) mod n" by simp
  then have "a = n * ((a + 1) div n) + ((a + 1) mod n - 1)" by linarith
  then have "a div n = (a + 1) div n"
    by (rule int_div_pos_eq)
      (use False pos_mod_sign [OF assms, of "a + 1"] pos_mod_bound [OF assms, of "a + 1"] in linarith)+
  with False show ?thesis by simp
qed

lemma mod_shift: "(y - n * k) mod n = (y :: int) mod n"
  by (simp add: mod_diff_eq [symmetric, of y "n * k"])

lemma dayFromYear_bounds:
  "400 * dayFromYear y \<le> 146097 * (y - 1970) + 593" "146097 * (y - 1970) - 700 \<le> 400 * dayFromYear y"
proof -
  define a b c where abc: "a = (y - 1969) div 4" "b = (y - 1901) div 100" "c = (y - 1601) div 400"
  have "4 * a \<le> y - 1969" "y - 1969 < 4 * a + 4" "100 * b \<le> y - 1901" "y - 1901 < 100 * b + 100"
    "400 * c \<le> y - 1601" "y - 1601 < 400 * c + 400"
    unfolding abc by (rule div_bounds; simp)+
  then show "400 * dayFromYear y \<le> 146097 * (y - 1970) + 593" "146097 * (y - 1970) - 700 \<le> 400 * dayFromYear y"
    unfolding dayFromYear_def abc [symmetric] by (simp_all add: algebra_simps)
qed

lemma yearFromDay_bounds: "dayFromYear (yearFromDay d) \<le> d" "d < dayFromYear (yearFromDay d + 1)"
proof -
  define y where y: "y = 1970 + (d * 400) div 146097"
  have "146097 * (y - 1970) \<le> d * 400" "d * 400 < 146097 * (y - 1970) + 146097"
    using div_bounds [of 146097 "d * 400"] unfolding y by simp_all
  then have "dayFromYear (y - 1) \<le> d" "d < dayFromYear (y + 2)"
    using dayFromYear_bounds [of "y - 1"] dayFromYear_bounds [of "y + 2"] by (simp_all add: algebra_simps)
  then show "dayFromYear (yearFromDay d) \<le> d" "d < dayFromYear (yearFromDay d + 1)"
    unfolding yearFromDay_def y [symmetric] Let_def by (simp_all add: add.assoc)
qed

lemma year_length: "dayFromYear (y + 1) - dayFromYear y = sum_list (month_lengths y)"
proof -
  have "dayFromYear (y + 1) - dayFromYear y = 365 + ((y - 1968) div 4 - (y - 1969) div 4) -
      ((y - 1900) div 100 - (y - 1901) div 100) + ((y - 1600) div 400 - (y - 1601) div 400)"
  proof -
    have e: "y + 1 - 1969 = y - 1968" "y + 1 - 1901 = y - 1900" "y + 1 - 1601 = y - 1600"
      "365 * (y + 1 - 1970) = 365 * (y - 1970) + 365" by simp_all
    have "(z + 365 + a1 - b1 + c1) - (z + a - b + c) = 365 + (a1 - a) - (b1 - b) + (c1 - c)"
      for z a b c a1 b1 c1 :: int by simp
    then show ?thesis unfolding dayFromYear_def e .
  qed
  moreover have c4: "(y - 1968) div 4 - (y - 1969) div 4 = (if y mod 4 = 0 then 1 else 0)"
    using div_succ [of 4 "y - 1969"] mod_shift [of y 4 492] by simp
  moreover have c100: "(y - 1900) div 100 - (y - 1901) div 100 = (if y mod 100 = 0 then 1 else 0)"
    using div_succ [of 100 "y - 1901"] mod_shift [of y 100 19] by simp
  moreover have c400: "(y - 1600) div 400 - (y - 1601) div 400 = (if y mod 400 = 0 then 1 else 0)"
    using div_succ [of 400 "y - 1601"] mod_shift [of y 400 4] by simp
  ultimately have "dayFromYear (y + 1) - dayFromYear y =
      365 + (if y mod 4 = 0 then 1 else 0) - (if y mod 100 = 0 then 1 else 0) + (if y mod 400 = 0 then 1 else 0)"
    by (simp only: c4 c100 c400)
  moreover have "y mod 400 = 0 \<Longrightarrow> y mod 100 = 0" "y mod 100 = 0 \<Longrightarrow> y mod 4 = 0"
    using dvd_trans [of 100 400 y] dvd_trans [of 4 100 y] by (simp_all add: dvd_eq_mod_eq_0)
  ultimately show ?thesis
    by (cases "y mod 4 = 0"; cases "y mod 100 = 0"; cases "y mod 400 = 0")
      (simp_all add: month_lengths_def leap_year_def)
qed

section \<open>Months\<close>

text \<open>The month (from 0) and the day of it (from 0) of the \<open>n\<close>-th day of a year.\<close>

fun split_month :: "int list \<Rightarrow> int \<Rightarrow> nat \<times> int" where
  "split_month [] n = (0, n)"
| "split_month (l # ls) n = (if n < l then (0, n) else (case split_month ls (n - l) of (m, k) \<Rightarrow> (Suc m, k)))"

definition join_month :: "int list \<Rightarrow> nat \<Rightarrow> int \<Rightarrow> int" where
  "join_month ls m k = sum_list (take m ls) + k"

lemma join_split_month:
  assumes "0 \<le> n" "n < sum_list ls" "\<forall>l \<in> set ls. 0 < l" "split_month ls n = (m, k)"
  shows "join_month ls m k = n" "m < length ls" "0 \<le> k" "k < ls ! m"
proof -
  have "join_month ls m k = n \<and> m < length ls \<and> 0 \<le> k \<and> k < ls ! m"
    using assms
  proof (induction ls arbitrary: n m)
    case (Cons l ls)
    show ?case
    proof (cases "n < l")
      case True
      with Cons.prems show ?thesis by (auto simp: join_month_def)
    next
      case False
      obtain m1 k1 where s: "split_month ls (n - l) = (m1, k1)" by fastforce
      then have "m = Suc m1" "k = k1" using Cons.prems(4) False by simp_all
      moreover have "join_month ls m1 k = n - l \<and> m1 < length ls \<and> 0 \<le> k \<and> k < ls ! m1"
        using Cons.IH [of "n - l" m1] Cons.prems(2,3) False s \<open>k = k1\<close> by simp
      ultimately show ?thesis by (simp add: join_month_def)
    qed
  qed simp
  then show "join_month ls m k = n" "m < length ls" "0 \<le> k" "k < ls ! m" by simp_all
qed

section \<open>Digits\<close>

fun pad :: "nat \<Rightarrow> nat \<Rightarrow> string" where
  "pad 0 n = []"
| "pad (Suc w) n = pad w (n div 10) @ [char_of (48 + n mod 10)]"

definition digit :: "char \<Rightarrow> nat option" where
  "digit c = (let n = of_char c in if 48 \<le> n \<and> n \<le> 57 then Some (n - 48) else None)"

fun read_digits :: "nat \<Rightarrow> string \<Rightarrow> nat option" where
  "read_digits acc [] = Some acc"
| "read_digits acc (c # cs) = (case digit c of None \<Rightarrow> None | Some k \<Rightarrow> read_digits (acc * 10 + k) cs)"

lemma length_pad [simp]: "length (pad w n) = w"
  by (induction w arbitrary: n) auto

lemma digit_char [simp]: "k < 10 \<Longrightarrow> digit (char_of (48 + k)) = Some k"
  by (simp add: digit_def Let_def)

lemma read_digits_append:
  "read_digits acc (xs @ ys) = (case read_digits acc xs of None \<Rightarrow> None | Some a \<Rightarrow> read_digits a ys)"
  by (induction xs arbitrary: acc) (auto split: option.splits)

lemma read_pad_acc: "n < 10 ^ w \<Longrightarrow> read_digits acc (pad w n) = Some (acc * 10 ^ w + n)"
proof (induction w arbitrary: n acc)
  case (Suc w)
  then have "n div 10 < 10 ^ w" by (simp add: less_mult_imp_div_less)
  then have "read_digits acc (pad w (n div 10)) = Some (acc * 10 ^ w + n div 10)" by (rule Suc.IH)
  then show ?case by (simp add: read_digits_append)
qed simp

lemma read_pad: "n < 10 ^ w \<Longrightarrow> read_digits 0 (pad w n) = Some n"
  by (simp add: read_pad_acc)

lemma pad_ascii: "c \<in> set (pad w n) \<Longrightarrow> 48 \<le> (of_char c :: nat) \<and> (of_char c :: nat) \<le> 57"
  by (induction w arbitrary: n) auto

section \<open>The format\<close>

definition ms_per_day :: int where
  "ms_per_day = 86400000"

definition toISOString :: "int \<Rightarrow> string" where
  "toISOString t =
     (let d = t div ms_per_day; ms = nat (t mod ms_per_day);
          y = yearFromDay d;
          (m, k) = split_month (month_lengths y) (d - dayFromYear y);
          yy = (if 0 \<le> y \<and> y \<le> 9999 then pad 4 (nat y)
                else (if y < 0 then CHR ''-'' else CHR ''+'') # pad 6 (nat \<bar>y\<bar>))
      in yy @ ''-'' @ pad 2 (Suc m) @ ''-'' @ pad 2 (Suc (nat k)) @ ''T'' @
         pad 2 (ms div 3600000) @ '':'' @ pad 2 (ms div 60000 mod 60) @ '':'' @
         pad 2 (ms div 1000 mod 60) @ ''.'' @ pad 3 (ms mod 1000) @ ''Z'')"

definition parts_to_ms :: "nat \<Rightarrow> nat \<Rightarrow> nat \<Rightarrow> nat \<Rightarrow> nat \<Rightarrow> nat \<Rightarrow> nat \<Rightarrow> int option" where
  "parts_to_ms y mo dd h mi sec ms =
     (let ls = month_lengths (int y) in
      if 1 \<le> mo \<and> mo \<le> 12 \<and> 1 \<le> dd \<and> int dd \<le> ls ! (mo - 1) \<and> h < 24 \<and> mi < 60 \<and> sec < 60
      then Some ((dayFromYear (int y) + join_month ls (mo - 1) (int (dd - 1))) * ms_per_day +
             int (h * 3600000 + mi * 60000 + sec * 1000 + ms))
      else None)"

text \<open>The separators of the format, and the digits between them.\<close>

definition iso_shape :: "string \<Rightarrow> bool" where
  "iso_shape s \<longleftrightarrow> length s = 24 \<and> s ! 4 = CHR ''-'' \<and> s ! 7 = CHR ''-'' \<and> s ! 10 = CHR ''T'' \<and>
     s ! 13 = CHR '':'' \<and> s ! 16 = CHR '':'' \<and> s ! 19 = CHR ''.'' \<and> s ! 23 = CHR ''Z''"

definition field :: "nat \<Rightarrow> nat \<Rightarrow> string \<Rightarrow> nat option" where
  "field i w s = read_digits 0 (take w (drop i s))"

definition parse_date :: "(string \<Rightarrow> int option) \<Rightarrow> string \<Rightarrow> int option" where
  "parse_date other s =
     (if iso_shape s then
        (case (field 0 4 s, field 5 2 s, field 8 2 s, field 11 2 s, field 14 2 s, field 17 2 s, field 20 3 s) of
           (Some y, Some mo, Some dd, Some h, Some mi, Some sec, Some ms) \<Rightarrow> parts_to_ms y mo dd h mi sec ms
         | _ \<Rightarrow> None)
      else other s)"

section \<open>Round trip\<close>

lemma take_drop_app: "length xs = i \<Longrightarrow> length ys = w \<Longrightarrow> take w (drop i (xs @ ys @ zs)) = ys"
  by simp

definition four_digit_year :: "int \<Rightarrow> bool" where
  "four_digit_year t \<longleftrightarrow> 0 \<le> yearFromDay (t div ms_per_day) \<and> yearFromDay (t div ms_per_day) \<le> 9999"

lemma time_parts:
  fixes n :: nat
  shows "n div 3600000 * 3600000 + n div 60000 mod 60 * 60000 + n div 1000 mod 60 * 1000 + n mod 1000 = n"
proof -
  have "n div 60000 = n div 1000 div 60" "n div 3600000 = n div 60000 div 60"
    by (simp_all add: div_mult2_eq [symmetric])
  moreover have "n div 1000 * 1000 + n mod 1000 = n" "n div 1000 div 60 * 60 + n div 1000 mod 60 = n div 1000"
    "n div 60000 div 60 * 60 + n div 60000 mod 60 = n div 60000" by simp_all
  ultimately show ?thesis by linarith
qed

lemma parse_toISOString:
  assumes "four_digit_year t"
  shows "parse_date other (toISOString t) = Some t"
proof -
  define d ms y where dmy: "d = t div ms_per_day" "ms = nat (t mod ms_per_day)" "y = yearFromDay d"
  obtain m k where mk: "split_month (month_lengths y) (d - dayFromYear y) = (m, k)" by fastforce
  have y: "0 \<le> y" "y \<le> 9999" using assms dmy by (simp_all add: four_digit_year_def)
  have b: "0 \<le> d - dayFromYear y" "d - dayFromYear y < sum_list (month_lengths y)"
    using yearFromDay_bounds [of d] year_length [of y] dmy(3) by simp_all
  have pos: "\<forall>l \<in> set (month_lengths y). 0 < l" by (simp add: month_lengths_def)
  note j = join_split_month [OF b pos mk]
  have m12: "m < 12" using j(2) by (simp add: month_lengths_def)
  have le31: "l \<in> set (month_lengths y) \<Longrightarrow> l \<le> 31" for l by (auto simp: month_lengths_def)
  have k31: "k < 31" using j(4) le31 [OF nth_mem [OF j(2)]] by simp
  have ms: "ms < 86400000" using pos_mod_bound [of ms_per_day t] by (simp add: dmy(2) ms_per_day_def nat_less_iff)
  let ?f = "[pad 4 (nat y), pad 2 (Suc m), pad 2 (Suc (nat k)), pad 2 (ms div 3600000), pad 2 (ms div 60000 mod 60),
      pad 2 (ms div 1000 mod 60), pad 3 (ms mod 1000)]"
  have str: "toISOString t = pad 4 (nat y) @ ''-'' @ pad 2 (Suc m) @ ''-'' @ pad 2 (Suc (nat k)) @ ''T'' @
         pad 2 (ms div 3600000) @ '':'' @ pad 2 (ms div 60000 mod 60) @ '':'' @
         pad 2 (ms div 1000 mod 60) @ ''.'' @ pad 3 (ms mod 1000) @ ''Z''"
    using y mk by (simp add: toISOString_def Let_def dmy)
  have shape: "iso_shape (toISOString t)"
    by (simp add: iso_shape_def str nth_append)
  have fields: "field 0 4 (toISOString t) = Some (nat y)" "field 5 2 (toISOString t) = Some (Suc m)"
    "field 8 2 (toISOString t) = Some (Suc (nat k))" "field 11 2 (toISOString t) = Some (ms div 3600000)"
    "field 14 2 (toISOString t) = Some (ms div 60000 mod 60)" "field 17 2 (toISOString t) = Some (ms div 1000 mod 60)"
    "field 20 3 (toISOString t) = Some (ms mod 1000)"
    using y m12 k31 ms by (simp_all add: field_def str read_pad nat_less_iff less_mult_imp_div_less)
  have h: "ms div 3600000 < 24" using ms by (simp add: less_mult_imp_div_less)
  have kk: "int (Suc (nat k)) \<le> month_lengths y ! m" using j(3,4) by simp
  have "parts_to_ms (nat y) (Suc m) (Suc (nat k)) (ms div 3600000) (ms div 60000 mod 60) (ms div 1000 mod 60) (ms mod 1000)
      = Some (d * ms_per_day + int ms)"
    using y m12 kk h j(1,3) time_parts [of ms] unfolding parts_to_ms_def Let_def
    by (simp add: algebra_simps flip: of_nat_add of_nat_mult)
  moreover have "d * ms_per_day + int ms = t"
    using pos_mod_sign [of ms_per_day t] by (simp add: dmy ms_per_day_def)
  ultimately show ?thesis by (simp add: parse_date_def shape fields)
qed

lemma toISOString_chars:
  "c \<in> set (toISOString t) \<Longrightarrow> of_char c < (128 :: nat) \<and> c \<noteq> CHR ''|''"
proof -
  obtain m k where mk: "split_month (month_lengths (yearFromDay (t div ms_per_day)))
      (t div ms_per_day - dayFromYear (yearFromDay (t div ms_per_day))) = (m, k)" by fastforce
  have p: "c \<in> set (pad w n) \<Longrightarrow> of_char c < (128 :: nat) \<and> c \<noteq> CHR ''|''" for w n
    by (drule pad_ascii) auto
  assume "c \<in> set (toISOString t)"
  then show ?thesis using mk p by (auto simp: toISOString_def Let_def split: if_splits)
qed

end
