(* ===== verification/Notifications.thy ===== *)
theory Notifications
  imports Requests Codec DateTime "HOL-Library.Product_Lexorder"
begin

text \<open>
  The notifications module: repository, service with its cursor, realtime service, recipient
  resolver and the listener that turns the request events into notifications.
\<close>

section \<open>Responses and the realtime service\<close>

definition toNotificationResponse :: "notification \<Rightarrow> notification_response" where
  "toNotificationResponse n = \<lparr>nrs_id = ntf_id n, nrs_type = ntf_type n, nrs_title = ntf_title n,
     nrs_body = ntf_body n, nrs_data = ntf_data n, nrs_readAt = ntf_readAt n,
     nrs_dismissedAt = ntf_dismissedAt n, nrs_createdAt = ntf_createdAt n\<rparr>"

definition setServer :: "unit op" where
  "setServer = modify (\<lambda>s. s\<lparr>st_server := True\<rparr>)"

definition roomForUser :: "id \<Rightarrow> id \<Rightarrow> string" where
  "roomForUser orgId userId = ''org:'' @ orgId @ '':user:'' @ userId"

definition publishToUser :: "id \<Rightarrow> id \<Rightarrow> ws_payload \<Rightarrow> unit op" where
  "publishToUser orgId userId payload =
     bind (gets st_server) (\<lambda>server.
     if \<not> server then ret () else send_ws (roomForUser orgId userId) payload)"

section \<open>Repository (\<open>notifications.repo.ts\<close>)\<close>

record notification_input =
  nin_orgId :: id
  nin_recipientUserId :: id
  nin_type :: NotificationType
  nin_title :: string
  nin_body :: "string option"
  nin_data :: json

definition notification_create :: "ext \<Rightarrow> notification_input \<Rightarrow> notification op" where
  "notification_create x inp =
     bind (new_row x (\<lambda>d. map ntf_id (notifications d))) (\<lambda>(i, now).
     bind get_db (\<lambda>d.
     bind (foreign_key (findOrg d (nin_orgId inp) \<noteq> None \<and> findUser d (nin_recipientUserId inp) \<noteq> None)) (\<lambda>_.
     let n = \<lparr>ntf_id = i, ntf_orgId = nin_orgId inp, ntf_recipientUserId = nin_recipientUserId inp,
              ntf_type = nin_type inp, ntf_title = nin_title inp, ntf_body = nin_body inp, ntf_data = nin_data inp,
              ntf_readAt = None, ntf_dismissedAt = None, ntf_createdAt = now\<rparr> in
     bind (write_db (\<lambda>d. d\<lparr>notifications := notifications d @ [n]\<rparr>)) (\<lambda>_. ret n))))"

definition createManyAndReturn :: "ext \<Rightarrow> notification_input list \<Rightarrow> notification list op" where
  "createManyAndReturn x ns = (if ns = [] then ret [] else for_each ns (notification_create x))"

text \<open>\<open>createMany\<close> inserts all rows or none.\<close>

definition notifications_createMany :: "ext \<Rightarrow> notification_input list \<Rightarrow> nat op" where
  "notifications_createMany x ns =
     (if ns = [] then ret 0
      else bind (transaction (for_each ns (notification_create x))) (\<lambda>created. ret (length created)))"

definition findByIdForUser :: "db \<Rightarrow> id \<Rightarrow> id \<Rightarrow> id \<Rightarrow> notification option" where
  "findByIdForUser d notificationId userId orgId =
     findFirst (\<lambda>n. ntf_id n = notificationId \<and> ntf_recipientUserId n = userId \<and> ntf_orgId n = orgId) (notifications d)"

text \<open>The order of the list: newest first, then the greater id first.\<close>

definition feed_key :: "notification \<Rightarrow> date \<times> id" where
  "feed_key n = (ntf_createdAt n, ntf_id n)"

definition feed_where :: "id \<Rightarrow> id \<Rightarrow> bool \<Rightarrow> bool \<Rightarrow> (date \<times> id) option \<Rightarrow> notification \<Rightarrow> bool" where
  "feed_where userId orgId unreadOnly includeDismissed cursor n \<longleftrightarrow>
     ntf_orgId n = orgId \<and> ntf_recipientUserId n = userId \<and>
     (unreadOnly \<longrightarrow> ntf_readAt n = None) \<and>
     (\<not> includeDismissed \<longrightarrow> ntf_dismissedAt n = None) \<and>
     (case cursor of None \<Rightarrow> True
      | Some (createdAt, i) \<Rightarrow> ntf_createdAt n < createdAt \<or> ntf_createdAt n = createdAt \<and> ntf_id n < i)"

definition feed_order :: "notification list \<Rightarrow> notification list" where
  "feed_order ns = rev (sort_key feed_key ns)"

definition repo_listForUser ::
  "db \<Rightarrow> id \<Rightarrow> id \<Rightarrow> bool \<Rightarrow> bool \<Rightarrow> nat \<Rightarrow> (date \<times> id) option \<Rightarrow> notification list" where
  "repo_listForUser d userId orgId unreadOnly includeDismissed n cursor =
     take n (feed_order (findMany (feed_where userId orgId unreadOnly includeDismissed cursor) (notifications d)))"

text \<open>The \<open>updateMany\<close> calls: the rows that match are rewritten and counted.\<close>

definition updateNotifications :: "(notification \<Rightarrow> bool) \<Rightarrow> (notification \<Rightarrow> notification) \<Rightarrow> nat op" where
  "updateNotifications p f =
     bind (query (\<lambda>d. countMany p (notifications d))) (\<lambda>n.
     bind (write_db (\<lambda>d. d\<lparr>notifications := updateMany p f (notifications d)\<rparr>)) (\<lambda>_.
     ret n))"

definition repo_markRead :: "id \<Rightarrow> id \<Rightarrow> id \<Rightarrow> date \<Rightarrow> nat op" where
  "repo_markRead notificationId userId orgId readAt =
     updateNotifications (\<lambda>n. ntf_id n = notificationId \<and> ntf_recipientUserId n = userId \<and> ntf_orgId n = orgId \<and>
         ntf_readAt n = None \<and> ntf_dismissedAt n = None)
       (\<lambda>n. n\<lparr>ntf_readAt := Some readAt\<rparr>)"

definition repo_markAllRead :: "id \<Rightarrow> id \<Rightarrow> date \<Rightarrow> nat op" where
  "repo_markAllRead userId orgId readAt =
     updateNotifications (\<lambda>n. ntf_recipientUserId n = userId \<and> ntf_orgId n = orgId \<and>
         ntf_readAt n = None \<and> ntf_dismissedAt n = None)
       (\<lambda>n. n\<lparr>ntf_readAt := Some readAt\<rparr>)"

definition repo_markDismissed :: "id \<Rightarrow> id \<Rightarrow> id \<Rightarrow> date \<Rightarrow> nat op" where
  "repo_markDismissed notificationId userId orgId dismissedAt =
     updateNotifications (\<lambda>n. ntf_id n = notificationId \<and> ntf_recipientUserId n = userId \<and> ntf_orgId n = orgId \<and>
         ntf_dismissedAt n = None)
       (\<lambda>n. n\<lparr>ntf_dismissedAt := Some dismissedAt\<rparr>)"

definition repo_clearDismissed :: "id \<Rightarrow> id \<Rightarrow> id \<Rightarrow> nat op" where
  "repo_clearDismissed notificationId userId orgId =
     updateNotifications (\<lambda>n. ntf_id n = notificationId \<and> ntf_recipientUserId n = userId \<and> ntf_orgId n = orgId \<and>
         ntf_dismissedAt n \<noteq> None)
       (\<lambda>n. n\<lparr>ntf_dismissedAt := None\<rparr>)"

definition repo_countUnread :: "db \<Rightarrow> id \<Rightarrow> id \<Rightarrow> nat" where
  "repo_countUnread d userId orgId =
     countMany (\<lambda>n. ntf_recipientUserId n = userId \<and> ntf_orgId n = orgId \<and> ntf_readAt n = None \<and>
       ntf_dismissedAt n = None) (notifications d)"

section \<open>Service (\<open>notifications.service.ts\<close>)\<close>

definition encodeCursor :: "notification \<Rightarrow> string" where
  "encodeCursor n = base64_encode (utf8_bytes (toISOString (ntf_createdAt n) @ ''|'' @ ntf_id n))"

definition decodeCursor :: "ext \<Rightarrow> string \<Rightarrow> (date \<times> id) op" where
  "decodeCursor x cursor =
     (let decoded = utf8_text (base64_decode cursor) in
      case split_on (CHR ''|'') decoded of
        [createdAtRaw, i] \<Rightarrow>
          bind (require (createdAtRaw \<noteq> [] \<and> i \<noteq> []) (BadRequest ''Invalid cursor'')) (\<lambda>_.
          bind (some_or (parse_date (x_parseDate x) createdAtRaw) (BadRequest ''Invalid cursor'')) (\<lambda>createdAt.
          ret (createdAt, i)))
      | _ \<Rightarrow> throw (BadRequest ''Invalid cursor''))"

record list_options =
  lop_unreadOnly :: "bool option"
  lop_includeDismissed :: "bool option"
  lop_cursor :: "string option"
  lop_limit :: "int option"

definition clamp_limit :: "int option \<Rightarrow> nat" where
  "clamp_limit l = nat (min (max (coalesce l 20) 1) 100)"

definition listForUser :: "ext \<Rightarrow> id \<Rightarrow> id \<Rightarrow> list_options \<Rightarrow> (notification list \<times> string option) op" where
  "listForUser x userId orgId options =
     (let limit = clamp_limit (lop_limit options) in
      bind (case truthy (lop_cursor options) of
              None \<Rightarrow> ret None
            | Some c \<Rightarrow> bind (decodeCursor x c) (\<lambda>info. ret (Some info))) (\<lambda>cursorInfo.
      bind (query (\<lambda>d. repo_listForUser d userId orgId (coalesce (lop_unreadOnly options) False)
              (coalesce (lop_includeDismissed options) False) (limit + 1) cursorInfo)) (\<lambda>items.
      let hasMore = length items > limit;
          sliced = (if hasMore then take limit items else items);
          nextCursor = (if hasMore then Some (encodeCursor (last sliced)) else None)
      in ret (sliced, nextCursor))))"

record create_input =
  cin_orgId :: id
  cin_userIds :: "id list"
  cin_type :: NotificationType
  cin_title :: string
  cin_body :: "string option"
  cin_data :: json

definition createForUsers :: "ext \<Rightarrow> create_input \<Rightarrow> notification_response list op" where
  "createForUsers x inp =
     (let uniqueUserIds = filter (\<lambda>u. u \<noteq> []) (uniq (cin_userIds inp)) in
      if uniqueUserIds = [] then ret []
      else
        bind (createManyAndReturn x (map (\<lambda>u. \<lparr>nin_orgId = cin_orgId inp, nin_recipientUserId = u,
           nin_type = cin_type inp, nin_title = cin_title inp, nin_body = cin_body inp,
           nin_data = cin_data inp\<rparr>) uniqueUserIds)) (\<lambda>created.
        bind (for_each created (\<lambda>n.
           publishToUser (cin_orgId inp) (ntf_recipientUserId n) (WsNew (toNotificationResponse n)))) (\<lambda>_.
        ret (map toNotificationResponse created))))"

definition markRead :: "ext \<Rightarrow> id \<Rightarrow> id \<Rightarrow> id \<Rightarrow> unit op" where
  "markRead x notificationId userId orgId =
     bind (query (\<lambda>d. findByIdForUser d notificationId userId orgId)) (\<lambda>found.
     bind (some_or found (NotFound ''Notification not found'')) (\<lambda>existing.
     if ntf_readAt existing = None \<and> ntf_dismissedAt existing = None then
       bind draw (\<lambda>t. let readAt = x_clock x t in
       bind (repo_markRead notificationId userId orgId readAt) (\<lambda>_.
       publishToUser orgId userId (WsRead notificationId readAt)))
     else ret ()))"

definition markAllRead :: "ext \<Rightarrow> id \<Rightarrow> id \<Rightarrow> unit op" where
  "markAllRead x userId orgId =
     bind draw (\<lambda>t. let readAt = x_clock x t in
     bind (repo_markAllRead userId orgId readAt) (\<lambda>updated.
     if updated > 0 then publishToUser orgId userId (WsReadAll readAt) else ret ()))"

definition dismiss :: "ext \<Rightarrow> id \<Rightarrow> id \<Rightarrow> id \<Rightarrow> unit op" where
  "dismiss x notificationId userId orgId =
     bind (query (\<lambda>d. findByIdForUser d notificationId userId orgId)) (\<lambda>found.
     bind (some_or found (NotFound ''Notification not found'')) (\<lambda>existing.
     if ntf_dismissedAt existing = None then
       bind draw (\<lambda>t. let dismissedAt = x_clock x t in
       bind (repo_markDismissed notificationId userId orgId dismissedAt) (\<lambda>_.
       publishToUser orgId userId (WsDismiss notificationId dismissedAt)))
     else ret ()))"

definition undismiss :: "id \<Rightarrow> id \<Rightarrow> id \<Rightarrow> unit op" where
  "undismiss notificationId userId orgId =
     bind (query (\<lambda>d. findByIdForUser d notificationId userId orgId)) (\<lambda>found.
     bind (some_or found (NotFound ''Notification not found'')) (\<lambda>existing.
     if ntf_dismissedAt existing \<noteq> None then
       bind (repo_clearDismissed notificationId userId orgId) (\<lambda>_.
       publishToUser orgId userId (WsUndismiss notificationId))
     else ret ()))"

definition countUnread :: "id \<Rightarrow> id \<Rightarrow> nat op" where
  "countUnread userId orgId = query (\<lambda>d. repo_countUnread d userId orgId)"

section \<open>Recipients (\<open>notification-recipient.resolver.ts\<close>)\<close>

definition getBuildingManagersAndAdmins :: "db \<Rightarrow> id \<Rightarrow> id \<Rightarrow> id list" where
  "getBuildingManagersAndAdmins d orgId buildingId =
     foldl (\<lambda>acc a. case findUser d (asg_userId a) of
         None \<Rightarrow> acc
       | Some u \<Rightarrow> if usr_isActive u \<and> usr_orgId u = Some orgId then set_add (asg_userId a) acc else acc) []
       (findMany (\<lambda>a. asg_buildingId a = buildingId \<and> asg_type a \<in> {MANAGER, BUILDING_ADMIN}) (assignments d))"

definition has_role_in :: "db \<Rightarrow> id \<Rightarrow> string set \<Rightarrow> bool" where
  "has_role_in d u ks \<longleftrightarrow>
     list_ex (\<lambda>ur. uro_userId ur = u \<and> list_ex (\<lambda>r. rol_id r = uro_roleId ur \<and> rol_key r \<in> ks) (roles d)) (userRoles d)"

definition getOrgAdmins :: "db \<Rightarrow> id \<Rightarrow> id list" where
  "getOrgAdmins d orgId =
     uniq (map usr_id (findMany (\<lambda>u. usr_orgId u = Some orgId \<and> usr_isActive u \<and>
       has_role_in d (usr_id u) {''org_admin'', ''admin''}) (users d)))"

definition resolveOpsRecipients :: "db \<Rightarrow> id \<Rightarrow> id \<Rightarrow> id list" where
  "resolveOpsRecipients d orgId buildingId =
     (let recipients = getBuildingManagersAndAdmins d orgId buildingId
      in if recipients = [] then getOrgAdmins d orgId else recipients)"

definition finalizeRecipients :: "id list \<Rightarrow> id \<Rightarrow> id list" where
  "finalizeRecipients recipients actorUserId =
     (let r = set_delete actorUserId recipients in if r = [] then set_add actorUserId r else r)"

text \<open>\<open>if (request.assignedToUserId) recipients.add(...)\<close>, and \<open>forEach(id => recipients.add(id))\<close>.\<close>

definition add_assignee :: "request_snapshot \<Rightarrow> id list \<Rightarrow> id list" where
  "add_assignee r rs = (case truthy (snp_assignedToUserId r) of None \<Rightarrow> rs | Some u \<Rightarrow> set_add u rs)"

definition add_all :: "id list \<Rightarrow> id list \<Rightarrow> id list" where
  "add_all us rs = foldl (\<lambda>acc u. set_add u acc) rs us"

definition resolveForRequestCreated :: "db \<Rightarrow> request_snapshot \<Rightarrow> id \<Rightarrow> id list" where
  "resolveForRequestCreated d r actorUserId =
     finalizeRecipients (resolveOpsRecipients d (snp_orgId r) (snp_buildingId r)) actorUserId"

definition resolveForRequestAssigned :: "db \<Rightarrow> request_snapshot \<Rightarrow> id \<Rightarrow> id list" where
  "resolveForRequestAssigned d r actorUserId =
     (let recipients = set_add (snp_createdByUserId r) (add_assignee r [])
      in finalizeRecipients (add_all (resolveOpsRecipients d (snp_orgId r) (snp_buildingId r)) recipients) actorUserId)"

definition resolveForRequestStatusChanged :: "db \<Rightarrow> request_snapshot \<Rightarrow> id \<Rightarrow> id list" where
  "resolveForRequestStatusChanged d r actorUserId =
     (let recipients = add_assignee r [snp_createdByUserId r]
      in finalizeRecipients (add_all (resolveOpsRecipients d (snp_orgId r) (snp_buildingId r)) recipients) actorUserId)"

definition resolveForRequestCommented :: "db \<Rightarrow> request_snapshot \<Rightarrow> id \<Rightarrow> bool \<Rightarrow> id list" where
  "resolveForRequestCommented d r actorUserId actorIsResident =
     (let recipients = add_assignee r [snp_createdByUserId r]
      in finalizeRecipients (add_all (resolveOpsRecipients d (snp_orgId r) (snp_buildingId r)) recipients) actorUserId)"

definition resolveForRequestCanceled :: "db \<Rightarrow> request_snapshot \<Rightarrow> id \<Rightarrow> id list" where
  "resolveForRequestCanceled d r actorUserId =
     finalizeRecipients (add_assignee r (resolveOpsRecipients d (snp_orgId r) (snp_buildingId r))) actorUserId"

section \<open>Listener (\<open>notifications.listener.ts\<close>)\<close>

definition buildRequestBody :: "request_snapshot \<Rightarrow> string" where
  "buildRequestBody r =
     (case truthy (map_option snd (snp_unit r)) of
        None \<Rightarrow> snp_title r
      | Some label \<Rightarrow> ''Unit '' @ label @ '': '' @ snp_title r)"

definition json_opt :: "string option \<Rightarrow> json" where
  "json_opt v = (case v of None \<Rightarrow> JNull | Some s \<Rightarrow> JStr s)"

text \<open>A key whose value is \<open>undefined\<close> is not stored.\<close>

definition buildNotificationData :: "event_payload \<Rightarrow> json" where
  "buildNotificationData p =
     (let r = evp_request p;
          unitId = (case snp_unit r of Some u \<Rightarrow> Some (fst u) | None \<Rightarrow> snp_unitId r)
      in JObj ([(''requestId'', JStr (snp_id r)), (''buildingId'', JStr (snp_buildingId r)),
          (''unitId'', json_opt unitId), (''actorUserId'', JStr (evp_actorUserId p))] @
          (case snp_status r of None \<Rightarrow> [] | Some v \<Rightarrow> [(''status'', JStr (status_str v))]) @
          (case evp_comment p of None \<Rightarrow> [] | Some c \<Rightarrow> [(''commentId'', JStr (fst c))])))"

definition truncateMessage :: "string \<Rightarrow> string" where
  "truncateMessage message =
     (let trimmed = trim message in if length trimmed \<le> 80 then trimmed else take 77 trimmed @ ''...'')"

definition notify :: "ext \<Rightarrow> event_payload \<Rightarrow> (db \<Rightarrow> id list) \<Rightarrow> NotificationType \<Rightarrow> string \<Rightarrow> string option \<Rightarrow> unit op" where
  "notify x p resolve ty title body =
     bind (query resolve) (\<lambda>recipients.
     bind (createForUsers x \<lparr>cin_orgId = snp_orgId (evp_request p), cin_userIds = recipients, cin_type = ty,
        cin_title = title, cin_body = body, cin_data = buildNotificationData p\<rparr>) (\<lambda>_. ret ()))"

definition handleRequestCreated :: "ext \<Rightarrow> event_payload \<Rightarrow> unit op" where
  "handleRequestCreated x p =
     notify x p (\<lambda>d. resolveForRequestCreated d (evp_request p) (evp_actorUserId p))
       REQUEST_CREATED ''New maintenance request'' (Some (buildRequestBody (evp_request p)))"

definition handleRequestAssigned :: "ext \<Rightarrow> event_payload \<Rightarrow> unit op" where
  "handleRequestAssigned x p =
     notify x p (\<lambda>d. resolveForRequestAssigned d (evp_request p) (evp_actorUserId p))
       REQUEST_ASSIGNED ''Request assigned'' (Some (buildRequestBody (evp_request p)))"

definition handleRequestStatusChanged :: "ext \<Rightarrow> event_payload \<Rightarrow> unit op" where
  "handleRequestStatusChanged x p =
     notify x p (\<lambda>d. resolveForRequestStatusChanged d (evp_request p) (evp_actorUserId p))
       REQUEST_STATUS_CHANGED ''Request status updated'' (map_option status_str (snp_status (evp_request p)))"

definition handleRequestCommented :: "ext \<Rightarrow> event_payload \<Rightarrow> unit op" where
  "handleRequestCommented x p =
     notify x p (\<lambda>d. resolveForRequestCommented d (evp_request p) (evp_actorUserId p)
         (coalesce (evp_actorIsResident p) False))
       REQUEST_COMMENTED ''New comment'' (map_option (\<lambda>c. truncateMessage (snd c)) (evp_comment p))"

definition handleRequestCanceled :: "ext \<Rightarrow> event_payload \<Rightarrow> unit op" where
  "handleRequestCanceled x p =
     notify x p (\<lambda>d. resolveForRequestCanceled d (evp_request p) (evp_actorUserId p))
       REQUEST_CANCELED ''Request canceled'' (Some (buildRequestBody (evp_request p)))"

text \<open>The \<open>@OnEvent\<close> bindings.\<close>

fun on_event :: "ext \<Rightarrow> event_name \<Rightarrow> event_payload \<Rightarrow> unit op" where
  "on_event x EV_CREATED p = handleRequestCreated x p"
| "on_event x EV_ASSIGNED p = handleRequestAssigned x p"
| "on_event x EV_STATUS_CHANGED p = handleRequestStatusChanged x p"
| "on_event x EV_COMMENTED p = handleRequestCommented x p"
| "on_event x EV_CANCELED p = handleRequestCanceled x p"

text \<open>
  The event emitter hands the \<open>n\<close>-th pending event to its handler; a handler that fails is dropped.
\<close>

definition dispatch :: "ext \<Rightarrow> nat \<Rightarrow> st \<Rightarrow> st" where
  "dispatch x n s =
     (if n < length (st_events s) then
        (let (name, p) = st_events s ! n;
             s1 = s\<lparr>st_events := take n (st_events s) @ drop (Suc n) (st_events s)\<rparr>
         in snd (on_event x name p s1))
      else s)"

end
