(* ===== verification/Controllers.thy ===== *)
theory Controllers
  imports OrgCatalog Notifications
begin

text \<open>
  The controllers of the modules whose services have theories of their own: authentication, users,
  access control, maintenance requests and notifications. Each route is the guards of its class and
  method, the validation of its body, the service call and the response.
\<close>

section \<open>Authentication (\<open>auth.controller.ts\<close>)\<close>

text \<open>The limit of requests per window (in milliseconds) of the throttled routes.\<close>

definition authThrottle :: "env_data \<Rightarrow> int \<times> int" where
  "authThrottle e = (coalesce (THROTTLE_AUTH_LIMIT e) 10, coalesce (THROTTLE_AUTH_TTL e) 60 * 1000)"

definition register_ok :: "ext \<Rightarrow> register_dto \<Rightarrow> bool" where
  "register_ok x dto \<longleftrightarrow> x_isEmail x (reg_email dto) \<and> min_length 8 (reg_password dto)"

definition login_ok :: "ext \<Rightarrow> login_dto \<Rightarrow> bool" where
  "login_ok x dto \<longleftrightarrow> x_isEmail x (lgn_email dto) \<and> min_length 8 (lgn_password dto)"

record change_password_dto =
  cpd_currentPassword :: string
  cpd_newPassword :: string

definition change_password_ok :: "change_password_dto \<Rightarrow> bool" where
  "change_password_ok dto \<longleftrightarrow> min_length 8 (cpd_currentPassword dto) \<and> min_length 8 (cpd_newPassword dto)"

definition current_sub :: "auth_user option \<Rightarrow> id" where
  "current_sub user = (case user of None \<Rightarrow> [] | Some a \<Rightarrow> aut_sub a)"

definition register_route :: "ext \<Rightarrow> env_data \<Rightarrow> register_dto \<Rightarrow> auth_response op" where
  "register_route x e dto = bind (validated (register_ok x dto)) (\<lambda>_. register x e dto)"

definition login_route :: "ext \<Rightarrow> env_data \<Rightarrow> login_dto \<Rightarrow> auth_response op" where
  "login_route x e dto = bind (validated (login_ok x dto)) (\<lambda>_. login x e dto)"

definition refresh_route :: "ext \<Rightarrow> env_data \<Rightarrow> request_context \<Rightarrow> auth_response op" where
  "refresh_route x e ctx =
     handle [RefreshTokenGuard x e] ctx (\<lambda>user.
     refresh x e (current_sub user) (coalesce (ctx_bodyRefreshToken ctx) []))"

definition change_password_route :: "ext \<Rightarrow> env_data \<Rightarrow> request_context \<Rightarrow> change_password_dto \<Rightarrow> bool op" where
  "change_password_route x e ctx dto =
     handle [JwtAuthGuard x e] ctx (\<lambda>user.
     bind (validated (change_password_ok dto)) (\<lambda>_.
     changePassword x (current_sub user) (cpd_currentPassword dto) (cpd_newPassword dto)))"

section \<open>Users (\<open>users.controller.ts\<close>, \<open>org-users.controller.ts\<close>)\<close>

definition create_org_user_ok :: "ext \<Rightarrow> create_org_user_dto \<Rightarrow> bool" where
  "create_org_user_ok x dto \<longleftrightarrow> min_length 2 (cou_name dto) \<and> x_isEmail x (cou_email dto) \<and>
     optional (min_length 8) (cou_password dto) \<and> optional (\<lambda>ks. ks \<noteq> []) (cou_roleKeys dto)"

definition update_user_profile_ok :: "ext \<Rightarrow> update_user_profile_dto \<Rightarrow> bool" where
  "update_user_profile_ok x dto \<longleftrightarrow> optional_js (min_length 2) (uup_name dto) \<and>
     optional_js (\<lambda>v. x_isUrl x v \<and> starts_with ''https://'' v) (uup_avatarUrl dto)"

definition users_me_route :: "ext \<Rightarrow> env_data \<Rightarrow> request_context \<Rightarrow> user_response op" where
  "users_me_route x e ctx =
     handle (permission_guards x e plain_route) ctx (\<lambda>user. users_findById (current_sub user))"

definition users_my_assignments_route ::
  "ext \<Rightarrow> env_data \<Rightarrow> request_context \<Rightarrow> user_building_assignment_response list op" where
  "users_my_assignments_route x e ctx =
     handle (permission_guards x e plain_route @ [OrgScopeGuard]) ctx listMyAssignments"

definition users_update_profile_route ::
  "ext \<Rightarrow> env_data \<Rightarrow> request_context \<Rightarrow> update_user_profile_dto \<Rightarrow> user_response op" where
  "users_update_profile_route x e ctx dto =
     handle (permission_guards x e plain_route) ctx (\<lambda>user.
     bind (validated (update_user_profile_ok x dto)) (\<lambda>_. users_updateProfile x (current_sub user) dto))"

definition users_get_route :: "ext \<Rightarrow> env_data \<Rightarrow> request_context \<Rightarrow> id \<Rightarrow> user_response op" where
  "users_get_route x e ctx i =
     handle (permission_guards x e plain_route) ctx (\<lambda>_. users_findById i)"

definition users_create_route ::
  "ext \<Rightarrow> env_data \<Rightarrow> request_context \<Rightarrow> create_org_user_dto \<Rightarrow> create_org_user_response op" where
  "users_create_route x e ctx dto =
     handle (permission_guards x e (RequirePermissions [''users.write''] plain_route) @ [OrgScopeGuard]) ctx (\<lambda>user.
     bind (validated (create_org_user_ok x dto)) (\<lambda>_. createInOrg x user dto))"

definition org_users_list_route :: "ext \<Rightarrow> env_data \<Rightarrow> request_context \<Rightarrow> user_response list op" where
  "org_users_list_route x e ctx =
     handle (org_permission_guards x e (RequirePermissions [''users.read''] plain_route)) ctx listInOrg"

section \<open>Access control (\<open>permissions\<close>, \<open>roles\<close> and \<open>user-access\<close> controllers)\<close>

text \<open>\<open>/^[a-z0-9_]+$/\<close>\<close>

definition role_key_char :: "char \<Rightarrow> bool" where
  "role_key_char c \<longleftrightarrow> (let n = of_char c :: nat in 97 \<le> n \<and> n \<le> 122 \<or> 48 \<le> n \<and> n \<le> 57 \<or> n = 95)"

definition create_role_ok :: "create_role_dto \<Rightarrow> bool" where
  "create_role_ok dto \<longleftrightarrow> min_length 2 (crd_key dto) \<and> list_all role_key_char (crd_key dto) \<and> min_length 2 (crd_name dto)"

record set_role_permissions_dto =
  srp_permissionKeys :: "string list"
  srp_mode :: "update_mode option"

record assign_user_roles_dto =
  aur_roleIds :: "id list"
  aur_mode :: "update_mode option"

definition permissions_list_route :: "ext \<Rightarrow> env_data \<Rightarrow> request_context \<Rightarrow> permission_response list op" where
  "permissions_list_route x e ctx =
     handle (permission_guards x e (RequirePermissions [''roles.read''] plain_route)) ctx (\<lambda>_. permissions_list)"

definition roles_list_route :: "ext \<Rightarrow> env_data \<Rightarrow> request_context \<Rightarrow> role_response list op" where
  "roles_list_route x e ctx =
     handle (permission_guards x e (RequirePermissions [''roles.read''] plain_route)) ctx (\<lambda>_. roles_list)"

definition roles_create_route :: "ext \<Rightarrow> env_data \<Rightarrow> request_context \<Rightarrow> create_role_dto \<Rightarrow> role_response op" where
  "roles_create_route x e ctx dto =
     handle (permission_guards x e (RequirePermissions [''roles.write''] plain_route)) ctx (\<lambda>_.
     bind (validated (create_role_ok dto)) (\<lambda>_. roles_create x dto))"

definition roles_set_permissions_route ::
  "ext \<Rightarrow> env_data \<Rightarrow> request_context \<Rightarrow> id \<Rightarrow> set_role_permissions_dto \<Rightarrow> role_response op" where
  "roles_set_permissions_route x e ctx roleId dto =
     handle (permission_guards x e (RequirePermissions [''roles.write''] plain_route)) ctx (\<lambda>_.
     setRolePermissions roleId (srp_permissionKeys dto) (srp_mode dto))"

definition assign_roles_route ::
  "ext \<Rightarrow> env_data \<Rightarrow> request_context \<Rightarrow> id \<Rightarrow> assign_user_roles_dto \<Rightarrow> (id \<times> id list) op" where
  "assign_roles_route x e ctx userId dto =
     handle (permission_guards x e (RequirePermissions [''users.write''] plain_route)) ctx (\<lambda>_.
     bind (assignRoles userId (aur_roleIds dto) (aur_mode dto)) (\<lambda>_.
     ret (userId, aur_roleIds dto)))"

definition set_permissions_route ::
  "ext \<Rightarrow> env_data \<Rightarrow> request_context \<Rightarrow> id \<Rightarrow> (string \<times> PermissionEffect) list \<Rightarrow>
     (id \<times> (string \<times> PermissionEffect) list) op" where
  "set_permissions_route x e ctx userId overrides =
     handle (permission_guards x e (RequirePermissions [''users.write''] plain_route)) ctx (\<lambda>_.
     bind (setPermissionOverrides userId overrides) (\<lambda>_.
     ret (userId, overrides)))"

section \<open>Resident requests (\<open>resident-requests.controller.ts\<close>)\<close>

definition comment_ok :: "string \<Rightarrow> bool" where
  "comment_ok message \<longleftrightarrow> min_length 1 message"

definition update_resident_request_ok :: "update_resident_request_dto \<Rightarrow> bool" where
  "update_resident_request_ok dto \<longleftrightarrow> optional_js (min_length 3) (urr_title dto)"

text \<open>A response that would read a field of \<open>undefined\<close> is a \<open>TypeError\<close>.\<close>

definition respond :: "'a option \<Rightarrow> 'a op" where
  "respond v = some_or v (JsError ''TypeError'')"

definition resident_request_create_route ::
  "ext \<Rightarrow> env_data \<Rightarrow> request_context \<Rightarrow> create_resident_request_dto \<Rightarrow> resident_request_response op" where
  "resident_request_create_route x e ctx body =
     handle (org_guards x e) ctx (\<lambda>user.
     bind (some_or (validate_create_resident_request body) (BadRequest ''Bad Request Exception'')) (\<lambda>dto.
     bind (createResidentRequest x user dto) (\<lambda>v. ret (toResidentRequestResponse v))))"

definition resident_request_list_route :: "ext \<Rightarrow> env_data \<Rightarrow> request_context \<Rightarrow> resident_request_response list op" where
  "resident_request_list_route x e ctx =
     handle (org_guards x e) ctx (\<lambda>user.
     bind (listResidentRequests user) (\<lambda>vs. ret (map toResidentRequestResponse vs)))"

definition resident_request_get_route :: "ext \<Rightarrow> env_data \<Rightarrow> request_context \<Rightarrow> id \<Rightarrow> resident_request_response op" where
  "resident_request_get_route x e ctx requestId =
     handle (org_guards x e) ctx (\<lambda>user.
     bind (getResidentRequest user requestId) (\<lambda>v. ret (toResidentRequestResponse v)))"

definition resident_request_update_route ::
  "ext \<Rightarrow> env_data \<Rightarrow> request_context \<Rightarrow> id \<Rightarrow> update_resident_request_dto \<Rightarrow> resident_request_response op" where
  "resident_request_update_route x e ctx requestId dto =
     handle (org_guards x e) ctx (\<lambda>user.
     bind (validated (update_resident_request_ok dto)) (\<lambda>_.
     bind (updateResidentRequest x user requestId dto) (\<lambda>v. ret (toResidentRequestResponse v))))"

definition resident_request_cancel_route :: "ext \<Rightarrow> env_data \<Rightarrow> request_context \<Rightarrow> id \<Rightarrow> resident_request_response op" where
  "resident_request_cancel_route x e ctx requestId =
     handle (org_guards x e) ctx (\<lambda>user.
     bind (cancelResidentRequest x user requestId) (\<lambda>v. ret (toResidentRequestResponse v)))"

definition resident_comment_route :: "ext \<Rightarrow> env_data \<Rightarrow> request_context \<Rightarrow> id \<Rightarrow> string \<Rightarrow> comment_response op" where
  "resident_comment_route x e ctx requestId message =
     handle (org_guards x e) ctx (\<lambda>user.
     bind (validated (comment_ok message)) (\<lambda>_.
     bind (addResidentComment x user requestId message) (\<lambda>c. respond (toRequestCommentResponse c))))"

definition resident_comments_route :: "ext \<Rightarrow> env_data \<Rightarrow> request_context \<Rightarrow> id \<Rightarrow> comment_response list op" where
  "resident_comments_route x e ctx requestId =
     handle (org_guards x e) ctx (\<lambda>user.
     bind (listResidentComments user requestId) (\<lambda>cs.
     for_each cs (\<lambda>c. respond (toRequestCommentResponse c))))"

section \<open>Building requests (\<open>building-requests.controller.ts\<close>)\<close>

definition request_read :: "string \<Rightarrow> route" where
  "request_read p = BuildingReadAccess False (RequirePermissions [p] plain_route)"

definition assign_request_ok :: "id \<Rightarrow> bool" where
  "assign_request_ok staffUserId \<longleftrightarrow> is_uuid staffUserId"

definition building_request_list_route ::
  "ext \<Rightarrow> env_data \<Rightarrow> request_context \<Rightarrow> id \<Rightarrow> RequestStatus option \<Rightarrow> building_request_response list op" where
  "building_request_list_route x e ctx buildingId status =
     handle (building_guards x e (request_read ''requests.read'')) (at_building ctx buildingId) (\<lambda>user.
     bind (listBuildingRequests user buildingId status) (\<lambda>vs.
     for_each vs (\<lambda>v. respond (toBuildingRequestResponse v))))"

definition building_request_get_route ::
  "ext \<Rightarrow> env_data \<Rightarrow> request_context \<Rightarrow> id \<Rightarrow> id \<Rightarrow> building_request_response op" where
  "building_request_get_route x e ctx buildingId requestId =
     handle (building_guards x e (request_read ''requests.read'')) (at_building ctx buildingId) (\<lambda>user.
     bind (getBuildingRequest user buildingId requestId) (\<lambda>v. respond (toBuildingRequestResponse v)))"

definition building_request_assign_route ::
  "ext \<Rightarrow> env_data \<Rightarrow> request_context \<Rightarrow> id \<Rightarrow> id \<Rightarrow> id \<Rightarrow> building_request_response op" where
  "building_request_assign_route x e ctx buildingId requestId staffUserId =
     handle (building_guards x e (BuildingWriteAccess True (RequirePermissions [''requests.assign''] plain_route)))
       (at_building ctx buildingId) (\<lambda>user.
     bind (validated (assign_request_ok staffUserId)) (\<lambda>_.
     bind (assignRequest x user buildingId requestId staffUserId) (\<lambda>v. respond (toBuildingRequestResponse v))))"

definition building_request_status_route ::
  "ext \<Rightarrow> env_data \<Rightarrow> request_context \<Rightarrow> id \<Rightarrow> id \<Rightarrow> RequestStatus \<Rightarrow> building_request_response op" where
  "building_request_status_route x e ctx buildingId requestId status =
     handle (building_guards x e (request_read ''requests.update_status'')) (at_building ctx buildingId) (\<lambda>user.
     bind (updateRequestStatus x user buildingId requestId status) (\<lambda>v. respond (toBuildingRequestResponse v)))"

definition building_request_cancel_route ::
  "ext \<Rightarrow> env_data \<Rightarrow> request_context \<Rightarrow> id \<Rightarrow> id \<Rightarrow> building_request_response op" where
  "building_request_cancel_route x e ctx buildingId requestId =
     handle (building_guards x e (request_read ''requests.update_status'')) (at_building ctx buildingId) (\<lambda>user.
     bind (cancelBuildingRequest x user buildingId requestId) (\<lambda>v. respond (toBuildingRequestResponse v)))"

definition building_comment_route ::
  "ext \<Rightarrow> env_data \<Rightarrow> request_context \<Rightarrow> id \<Rightarrow> id \<Rightarrow> string \<Rightarrow> comment_response op" where
  "building_comment_route x e ctx buildingId requestId message =
     handle (building_guards x e (request_read ''requests.comment'')) (at_building ctx buildingId) (\<lambda>user.
     bind (validated (comment_ok message)) (\<lambda>_.
     bind (addBuildingComment x user buildingId requestId message) (\<lambda>c. respond (toRequestCommentResponse c))))"

definition building_comments_route ::
  "ext \<Rightarrow> env_data \<Rightarrow> request_context \<Rightarrow> id \<Rightarrow> id \<Rightarrow> comment_response list op" where
  "building_comments_route x e ctx buildingId requestId =
     handle (building_guards x e (request_read ''requests.comment'')) (at_building ctx buildingId) (\<lambda>user.
     bind (listBuildingComments user buildingId requestId) (\<lambda>cs.
     for_each cs (\<lambda>c. respond (toRequestCommentResponse c))))"

definition building_attachments_route ::
  "ext \<Rightarrow> env_data \<Rightarrow> request_context \<Rightarrow> id \<Rightarrow> id \<Rightarrow> attachment_input list \<Rightarrow> building_request_response op" where
  "building_attachments_route x e ctx buildingId requestId as =
     handle (building_guards x e (request_read ''requests.comment'')) (at_building ctx buildingId) (\<lambda>user.
     bind (validated (as \<noteq> [] \<and> list_all attachment_input_ok as)) (\<lambda>_.
     bind (addBuildingAttachments x user buildingId requestId as) (\<lambda>v. respond (toBuildingRequestResponse v))))"

section \<open>Notifications (\<open>notifications.controller.ts\<close>, \<open>dev-notifications.controller.ts\<close>)\<close>

definition list_notifications_ok :: "list_options \<Rightarrow> bool" where
  "list_notifications_ok q \<longleftrightarrow> optional (\<lambda>n. 1 \<le> n \<and> n \<le> 100) (lop_limit q)"

definition notifications_list_route ::
  "ext \<Rightarrow> env_data \<Rightarrow> request_context \<Rightarrow> list_options \<Rightarrow> (notification_response list \<times> string option) op" where
  "notifications_list_route x e ctx q =
     handle (org_guards x e) ctx (\<lambda>user.
     bind (validated (list_notifications_ok q)) (\<lambda>_.
     bind (listForUser x (current_sub user) (current_orgId user) q) (\<lambda>(items, nextCursor).
     ret (map toNotificationResponse items, nextCursor))))"

definition notification_read_route :: "ext \<Rightarrow> env_data \<Rightarrow> request_context \<Rightarrow> id \<Rightarrow> bool op" where
  "notification_read_route x e ctx i =
     handle (org_guards x e) ctx (\<lambda>user.
     bind (markRead x i (current_sub user) (current_orgId user)) (\<lambda>_. ret True))"

definition notification_read_all_route :: "ext \<Rightarrow> env_data \<Rightarrow> request_context \<Rightarrow> bool op" where
  "notification_read_all_route x e ctx =
     handle (org_guards x e) ctx (\<lambda>user.
     bind (markAllRead x (current_sub user) (current_orgId user)) (\<lambda>_. ret True))"

definition notification_dismiss_route :: "ext \<Rightarrow> env_data \<Rightarrow> request_context \<Rightarrow> id \<Rightarrow> bool op" where
  "notification_dismiss_route x e ctx i =
     handle (org_guards x e) ctx (\<lambda>user.
     bind (dismiss x i (current_sub user) (current_orgId user)) (\<lambda>_. ret True))"

definition notification_undismiss_route :: "ext \<Rightarrow> env_data \<Rightarrow> request_context \<Rightarrow> id \<Rightarrow> bool op" where
  "notification_undismiss_route x e ctx i =
     handle (org_guards x e) ctx (\<lambda>user.
     bind (undismiss i (current_sub user) (current_orgId user)) (\<lambda>_. ret True))"

record dev_notification_dto =
  dvn_type :: "NotificationType option"
  dvn_title :: "string option"
  dvn_body :: "string option"
  dvn_data :: "json option"

definition dev_notification_ok :: "dev_notification_dto \<Rightarrow> bool" where
  "dev_notification_ok dto \<longleftrightarrow> optional (min_length 1) (dvn_title dto) \<and>
     optional (\<lambda>v. case v of JObj _ \<Rightarrow> True | _ \<Rightarrow> False) (dvn_data dto)"

definition dev_notification_route ::
  "ext \<Rightarrow> env_data \<Rightarrow> request_context \<Rightarrow> dev_notification_dto \<Rightarrow> notification_response list op" where
  "dev_notification_route x e ctx dto =
     handle (org_guards x e) ctx (\<lambda>user.
     bind (validated (dev_notification_ok dto)) (\<lambda>_.
     bind (require (NODE_ENV e \<noteq> ENV_production) (NotFound ''Not Found'')) (\<lambda>_.
     createForUsers x \<lparr>cin_orgId = current_orgId user, cin_userIds = [current_sub user],
       cin_type = coalesce (dvn_type dto) REQUEST_CREATED,
       cin_title = coalesce (truthy (map_option trim (dvn_title dto))) ''Dev notification'',
       cin_body = map_option trim (dvn_body dto),
       cin_data = coalesce (dvn_data dto) (JObj [(''source'', JStr ''dev'')])\<rparr>)))"

end
