(* ===== verification/RequestFacts.thy ===== *)
theory RequestFacts
  imports Requests
begin

text \<open>
  What the operations of the maintenance-requests module do: the effect of each on the database and
  the event queue, the abstract status machine they refine, and the life-cycle invariant of a
  request that they keep.
\<close>

section \<open>Execution\<close>

lemma caller_run [run]:
  "bind (caller u) k s =
     (case scope_of u of
        None \<Rightarrow> (Inl (Forbidden ''Org scope required''), s)
      | Some orgId \<Rightarrow> (case sub_of u of
          None \<Rightarrow> (Inl (Unauthorized ''Unauthorized''), s)
        | Some userId \<Rightarrow> k (orgId, userId) s))"
  by (simp add: caller_def run split: option.splits)

lemma inv_caller [inv]: "db_keeps I (caller u)"
  by (simp add: caller_def inv)

lemma readonly_caller [frame]: "readonly (caller u)"
  by (simp add: caller_def frame)

lemma readonly_request_helpers [frame]:
  "readonly (connect b)" "readonly (assertBuildingInOrg b1 o1)" "readonly (emitEvent n v a res cm)"
  by (simp_all add: connect_def assertBuildingInOrg_def emitEvent_def frame)

lemma nothrow_emitEvent [frame]: "nothrow (emitEvent n v a res cm)"
  by (simp add: emitEvent_def frame)

lemma inv_request_helpers [inv]: "db_keeps I (connect b)" "db_keeps I (emitEvent n v a res cm)"
  by (simp_all add: connect_def emitEvent_def inv)

lemma connect_run [run]:
  "bind (connect b) k s = (if b then k () s else (Inl (PrismaKnown ''P2025''), s))"
  by (simp add: connect_def run)

definition event_of :: "request_view \<Rightarrow> id \<Rightarrow> bool option \<Rightarrow> (id \<times> string) option \<Rightarrow> event_payload" where
  "event_of v actor res cm =
     \<lparr>evp_request = toEventRequest v, evp_actorUserId = actor, evp_actorIsResident = res, evp_comment = cm\<rparr>"

lemma emitEvent_run [run]:
  "bind (emitEvent n v a res cm) k s = k () (s\<lparr>st_events := st_events s @ [(n, event_of v a res cm)]\<rparr>)"
  by (simp add: emitEvent_def event_of_def run)

text \<open>The database after \<open>updateById\<close> on an existing id.\<close>

definition revise :: "date \<Rightarrow> id \<Rightarrow> (request \<Rightarrow> request) \<Rightarrow> db \<Rightarrow> db" where
  "revise now i f d =
     d\<lparr>requests := updateMany (\<lambda>q. req_id q = i) (\<lambda>r. (f r)\<lparr>req_updatedAt := now\<rparr>) (requests d)\<rparr>"

lemma updateById_run [run]:
  "updateById x i f s =
     (case findFirst (\<lambda>r. req_id r = i) (requests (st_db s)) of
        None \<Rightarrow> (Inl (PrismaKnown ''P2025''), s\<lparr>st_tick := Suc (st_tick s)\<rparr>)
      | Some r \<Rightarrow> (let d = revise (x_clock x (st_tick s)) i f (st_db s) in
          (Inr (view_updated d ((f r)\<lparr>req_updatedAt := x_clock x (st_tick s)\<rparr>)),
           s\<lparr>st_tick := Suc (st_tick s), st_db := d\<rparr>)))"
  by (simp add: updateById_def run Let_def revise_def split: option.splits)

lemma updateById_Inr:
  assumes "updateById x i f s = (Inr v, t)"
  obtains r where "findFirst (\<lambda>r. req_id r = i) (requests (st_db s)) = Some r"
    "st_db t = revise (x_clock x (st_tick s)) i f (st_db s)" "st_events t = st_events s" "st_sent t = st_sent s"
    "v = view_updated (st_db t) ((f r)\<lparr>req_updatedAt := x_clock x (st_tick s)\<rparr>)"
proof -
  obtain r where r: "findFirst (\<lambda>r. req_id r = i) (requests (st_db s)) = Some r"
    using assms by (cases "findFirst (\<lambda>r. req_id r = i) (requests (st_db s))") (simp_all add: updateById_run)
  with assms show thesis by (intro that [OF r]) (auto simp: updateById_run Let_def)
qed

lemma findByIdForCreator_SomeD:
  assumes "findByIdForCreator d o1 u i = Some v"
  shows "v = view_resident d (rqv_row v)" "rqv_row v \<in> set (requests d)" "req_id (rqv_row v) = i"
    "req_orgId (rqv_row v) = o1" "req_createdByUserId (rqv_row v) = u"
  using assms by (auto simp: findByIdForCreator_def view_resident_def dest!: findFirst_SomeD)

lemma findByIdForBuilding_SomeD:
  assumes "findByIdForBuilding d o1 b i = Some v"
  shows "v = view_building d (rqv_row v)" "rqv_row v \<in> set (requests d)" "req_id (rqv_row v) = i"
    "req_orgId (rqv_row v) = o1" "req_buildingId (rqv_row v) = b"
  using assms by (auto simp: findByIdForBuilding_def view_building_def dest!: findFirst_SomeD)

section \<open>What each operation does when it returns\<close>

lemma cancelResidentRequest_Inr:
  assumes "cancelResidentRequest x user i s = (Inr v, t)"
  obtains orgId userId w k where "scope_of user = Some orgId" "sub_of user = Some userId"
    "findByIdForCreator (st_db s) orgId userId i = Some w"
    "req_status (rqv_row w) \<noteq> COMPLETED" "req_status (rqv_row w) \<noteq> CANCELED"
    "st_db t = revise (x_clock x (Suc k)) i (\<lambda>r. r\<lparr>req_status := CANCELED, req_canceledAt := Some (x_clock x k)\<rparr>) (st_db s)"
    "st_events t = st_events s @ [(EV_CANCELED, event_of v userId None None)]"
proof -
  obtain orgId userId where u: "scope_of user = Some orgId" "sub_of user = Some userId"
    using assms by (cases "scope_of user"; cases "sub_of user") (simp_all add: cancelResidentRequest_def run)
  obtain w where w: "findByIdForCreator (st_db s) orgId userId i = Some w"
    using assms u by (cases "findByIdForCreator (st_db s) orgId userId i")
      (simp_all add: cancelResidentRequest_def run bind_transaction_Inr)
  have "req_status (rqv_row w) \<noteq> COMPLETED" "req_status (rqv_row w) \<noteq> CANCELED"
    "\<exists>t0. updateById x (req_id (rqv_row w)) (\<lambda>r. r\<lparr>req_status := CANCELED, req_canceledAt := Some (x_clock x (st_tick s))\<rparr>)
       (s\<lparr>st_tick := Suc (st_tick s)\<rparr>) = (Inr v, t0) \<and> t = t0\<lparr>st_events := st_events t0 @ [(EV_CANCELED, event_of v userId None None)]\<rparr>"
    using assms u w by (auto simp: cancelResidentRequest_def bind_transaction_Inr Let_def
        caller_run query_run bind_some_or bind_require draw_run emitEvent_run ret_run split: if_splits)
  then show thesis
    using u w findByIdForCreator_SomeD(3) [OF w] by (elim exE conjE updateById_Inr) (rule that, auto)
qed

text \<open>The scope every building operation runs in.\<close>

lemma building_scope:
  assumes "bind (caller user) (\<lambda>(orgId, userId). bind (assertBuildingInOrg b orgId) (\<lambda>_. k orgId userId)) s = (Inr v, t)"
  obtains orgId userId bld where "scope_of user = Some orgId" "sub_of user = Some userId"
    "buildingInOrg (st_db s) b orgId = Some bld" "orgId \<noteq> []" "k orgId userId s = (Inr v, t)"
proof -
  obtain orgId userId where u: "scope_of user = Some orgId" "sub_of user = Some userId"
    using assms by (cases "scope_of user"; cases "sub_of user") (simp_all add: caller_run)
  obtain bld where "buildingInOrg (st_db s) b orgId = Some bld" "orgId \<noteq> []"
    using assms u by (cases "buildingInOrg (st_db s) b orgId") (simp_all add: caller_run assertBuildingInOrg_run split: if_splits)
  with u assms that show thesis by (simp add: caller_run assertBuildingInOrg_run)
qed

lemma updateResidentRequest_Inr:
  assumes "updateResidentRequest x user i dto s = (Inr v, t)"
  obtains orgId userId w k where "scope_of user = Some orgId" "sub_of user = Some userId"
    "findByIdForCreator (st_db s) orgId userId i = Some w" "req_status (rqv_row w) = OPEN"
    "truthy (js_option (urr_title dto)) \<noteq> None \<or> urr_description dto \<noteq> Undefined"
    "st_db t = revise (x_clock x k) i (\<lambda>r. r\<lparr>
       req_title := coalesce (js_option (urr_title dto)) (req_title (rqv_row w)),
       req_description := (case js_option (urr_description dto) of
          Some v \<Rightarrow> Some v | None \<Rightarrow> req_description (rqv_row w))\<rparr>) (st_db s)"
    "st_events t = st_events s"
proof -
  obtain orgId userId where u: "scope_of user = Some orgId" "sub_of user = Some userId"
    using assms by (cases "scope_of user"; cases "sub_of user") (simp_all add: updateResidentRequest_def caller_run)
  obtain w where w: "findByIdForCreator (st_db s) orgId userId i = Some w"
    using assms u by (cases "findByIdForCreator (st_db s) orgId userId i") (simp_all add: updateResidentRequest_def run)
  have "req_status (rqv_row w) = OPEN" "truthy (js_option (urr_title dto)) \<noteq> None \<or> urr_description dto \<noteq> Undefined"
    "updateById x (req_id (rqv_row w)) (\<lambda>r. r\<lparr>
       req_title := coalesce (js_option (urr_title dto)) (req_title (rqv_row w)),
       req_description := (case js_option (urr_description dto) of
          Some v \<Rightarrow> Some v | None \<Rightarrow> req_description (rqv_row w))\<rparr>) s = (Inr v, t)"
    using assms u w by (simp_all add: updateResidentRequest_def Let_def
        caller_run query_run bind_some_or bind_require split: if_splits)
  then show thesis
    using u w findByIdForCreator_SomeD(3) [OF w] by (elim updateById_Inr) (rule that, auto)
qed

lemma assignRequest_Inr:
  assumes "assignRequest x user b i staffId s = (Inr v, t)"
  obtains orgId userId w staff k where "scope_of user = Some orgId" "sub_of user = Some userId"
    "buildingInOrg (st_db s) b orgId \<noteq> None"
    "getBuildingAssignmentType (st_db s) b userId \<noteq> Some STAFF"
    "findByIdForBuilding (st_db s) orgId b i = Some w"
    "req_status (rqv_row w) = OPEN \<or> req_status (rqv_row w) = ASSIGNED"
    "findUser (st_db s) staffId = Some staff" "usr_isActive staff" "usr_orgId staff = Some orgId"
    "findStaffAssignment (st_db s) b staffId \<noteq> None"
    "st_db t = revise (x_clock x (Suc k)) i (\<lambda>r. r\<lparr>req_assignedToUserId := Some staffId,
         req_assignedAt := Some (x_clock x k), req_status := ASSIGNED\<rparr>) (st_db s)"
    "st_events t = st_events s @ [(EV_ASSIGNED, event_of v userId None None)]"
  using assms unfolding assignRequest_def
proof (elim building_scope, goal_cases)
  case (1 orgId userId bld)
  let ?d = "st_db s"
  note u = 1(2-5) and r = 1(6)
  obtain w where w: "findByIdForBuilding ?d orgId b i = Some w"
    using r by (cases "findByIdForBuilding ?d orgId b i") (simp_all add: run bind_transaction_Inr split: if_splits)
  obtain staff where st: "findUser ?d staffId = Some staff"
    using r w by (cases "findUser ?d staffId")
      (simp_all add: run bind_transaction_Inr Let_def split: if_splits)
  then have sid: "usr_id staff = staffId" by (blast dest: findUser_SomeD)
  have facts: "getBuildingAssignmentType ?d b userId \<noteq> Some STAFF"
    "req_status (rqv_row w) = OPEN \<or> req_status (rqv_row w) = ASSIGNED"
    "usr_isActive staff" "usr_orgId staff = Some orgId" "findStaffAssignment ?d b staffId \<noteq> None"
    and up: "\<exists>t0. updateById x (req_id (rqv_row w)) (\<lambda>r. r\<lparr>req_assignedToUserId := Some staffId,
         req_assignedAt := Some (x_clock x (st_tick s)), req_status := ASSIGNED\<rparr>)
       (s\<lparr>st_tick := Suc (st_tick s)\<rparr>) = (Inr v, t0) \<and> t = t0\<lparr>st_events := st_events t0 @ [(EV_ASSIGNED, event_of v userId None None)]\<rparr>"
    using r w st sid by (auto simp: bind_transaction_Inr Let_def
        query_run bind_some_or bind_require draw_run emitEvent_run ret_run split: if_splits)
  show thesis
    using up u facts w st findByIdForBuilding_SomeD(3) [OF w] by (elim exE conjE updateById_Inr) (rule 1(1), auto)
qed

lemma updateRequestStatus_Inr:
  assumes "updateRequestStatus x user b i status s = (Inr v, t)"
  obtains orgId userId w completedAt k where "scope_of user = Some orgId" "sub_of user = Some userId"
    "buildingInOrg (st_db s) b orgId \<noteq> None"
    "findByIdForBuilding (st_db s) orgId b i = Some w"
    "status \<in> set (MAINTENANCE_STATUS_TRANSITIONS (req_status (rqv_row w)))"
    "getBuildingAssignmentType (st_db s) b userId = Some STAFF \<Longrightarrow> req_assignedToUserId (rqv_row w) = Some userId"
    "status = COMPLETED \<Longrightarrow> completedAt \<noteq> None" "status \<noteq> COMPLETED \<Longrightarrow> completedAt = req_completedAt (rqv_row w)"
    "st_db t = revise (x_clock x k) i (\<lambda>r. r\<lparr>req_status := status, req_completedAt := completedAt\<rparr>) (st_db s)"
    "st_events t = st_events s @ [(EV_STATUS_CHANGED, event_of v userId None None)]"
  using assms unfolding updateRequestStatus_def
proof (elim building_scope, goal_cases)
  case (1 orgId userId bld)
  let ?d = "st_db s"
  note u = 1(2-5) and r = 1(6)
  obtain w where w: "findByIdForBuilding ?d orgId b i = Some w"
    using r by (cases "findByIdForBuilding ?d orgId b i") (simp_all add: run bind_transaction_Inr split: if_splits)
  have facts: "status \<in> set (MAINTENANCE_STATUS_TRANSITIONS (req_status (rqv_row w)))"
    "getBuildingAssignmentType ?d b userId = Some STAFF \<Longrightarrow> req_assignedToUserId (rqv_row w) = Some userId"
    using r w by (auto simp: bind_transaction_Inr Let_def query_run bind_some_or bind_require split: if_splits)
  have "\<exists>completedAt s0 t0. (status = COMPLETED \<longrightarrow> completedAt \<noteq> None) \<and>
      (status \<noteq> COMPLETED \<longrightarrow> completedAt = req_completedAt (rqv_row w)) \<and> st_db s0 = st_db s \<and> st_events s0 = st_events s \<and>
      updateById x (req_id (rqv_row w)) (\<lambda>r. r\<lparr>req_status := status, req_completedAt := completedAt\<rparr>) s0 = (Inr v, t0) \<and>
      t = t0\<lparr>st_events := st_events t0 @ [(EV_STATUS_CHANGED, event_of v userId None None)]\<rparr>"
  proof (cases "status = COMPLETED")
    case True
    with r w show ?thesis
      by - (rule exI [of _ "Some (x_clock x (st_tick s))"], rule exI [of _ "s\<lparr>st_tick := Suc (st_tick s)\<rparr>"],
         auto simp: bind_transaction_Inr Let_def
          query_run bind_some_or bind_require bind_bind draw_run bind_ret emitEvent_run ret_run split: if_splits)
  next
    case False
    with r w show ?thesis
      by - (rule exI [of _ "req_completedAt (rqv_row w)"], rule exI [of _ s],
         auto simp: bind_transaction_Inr Let_def
          query_run bind_some_or bind_require bind_ret emitEvent_run ret_run split: if_splits)
  qed
  then show thesis
    using u facts w findByIdForBuilding_SomeD(3) [OF w] by (elim exE conjE updateById_Inr) (rule 1(1), auto)
qed

lemma cancelBuildingRequest_Inr:
  assumes "cancelBuildingRequest x user b i s = (Inr v, t)"
  obtains orgId userId w k where "scope_of user = Some orgId" "sub_of user = Some userId"
    "buildingInOrg (st_db s) b orgId \<noteq> None"
    "findByIdForBuilding (st_db s) orgId b i = Some w"
    "getBuildingAssignmentType (st_db s) b userId \<noteq> Some STAFF"
    "getBuildingAssignmentType (st_db s) b userId = None \<Longrightarrow> hasGlobalPermission (st_db s) userId ''requests.update_status''"
    "req_status (rqv_row w) \<noteq> COMPLETED" "req_status (rqv_row w) \<noteq> CANCELED"
    "st_db t = revise (x_clock x (Suc k)) i (\<lambda>r. r\<lparr>req_status := CANCELED, req_canceledAt := Some (x_clock x k)\<rparr>) (st_db s)"
    "st_events t = st_events s @ [(EV_CANCELED, event_of v userId None None)]"
  using assms unfolding cancelBuildingRequest_def
proof (elim building_scope, goal_cases)
  case (1 orgId userId bld)
  let ?d = "st_db s"
  note u = 1(2-5) and r = 1(6)
  obtain w where w: "findByIdForBuilding ?d orgId b i = Some w"
    using r by (cases "findByIdForBuilding ?d orgId b i") (simp_all add: run bind_transaction_Inr split: if_splits)
  have facts: "getBuildingAssignmentType ?d b userId \<noteq> Some STAFF"
    "getBuildingAssignmentType ?d b userId = None \<Longrightarrow> hasGlobalPermission ?d userId ''requests.update_status''"
    "req_status (rqv_row w) \<noteq> COMPLETED" "req_status (rqv_row w) \<noteq> CANCELED"
    and up: "\<exists>t0. updateById x (req_id (rqv_row w)) (\<lambda>r. r\<lparr>req_status := CANCELED, req_canceledAt := Some (x_clock x (st_tick s))\<rparr>)
       (s\<lparr>st_tick := Suc (st_tick s)\<rparr>) = (Inr v, t0) \<and> t = t0\<lparr>st_events := st_events t0 @ [(EV_CANCELED, event_of v userId None None)]\<rparr>"
    using r w by (auto simp: bind_transaction_Inr Let_def bind_if bind_bind bind_ret
        query_run bind_some_or bind_require draw_run emitEvent_run ret_run split: if_splits)
  show thesis
    using up u facts w findByIdForBuilding_SomeD(3) [OF w] by (elim exE conjE updateById_Inr) (rule 1(1), auto)
qed

lemma createRequest_Inr:
  assumes "createRequest x dt s = (Inr v, t)"
  shows "v = view_resident (st_db t) (rqv_row v)"
    "st_db t = (st_db s)\<lparr>requests := requests (st_db s) @ [rqv_row v]\<rparr>"
    "req_id (rqv_row v) \<notin> req_id ` set (requests (st_db s))"
    "req_orgId (rqv_row v) = rqd_orgId dt" "req_buildingId (rqv_row v) = rqd_buildingId dt"
    "req_unitId (rqv_row v) = rqd_unitId dt" "req_createdByUserId (rqv_row v) = rqd_createdByUserId dt"
    "req_status (rqv_row v) = rqd_status dt" "req_title (rqv_row v) = rqd_title dt"
    "req_type (rqv_row v) = rqd_type dt" "req_priority (rqv_row v) = rqd_priority dt"
    "req_description (rqv_row v) = rqd_description dt"
    "req_assignedToUserId (rqv_row v) = None" "req_assignedAt (rqv_row v) = None"
    "req_completedAt (rqv_row v) = None" "req_canceledAt (rqv_row v) = None"
    "findOrg (st_db s) (rqd_orgId dt) \<noteq> None" "findBuilding (st_db s) (rqd_buildingId dt) \<noteq> None"
    "findUser (st_db s) (rqd_createdByUserId dt) \<noteq> None"
    "st_events t = st_events s" "st_sent t = st_sent s"
  using assms by (auto simp: createRequest_def run Let_def view_resident_def
      split: if_splits option.splits)

lemma createAttachments_requests [inv]: "db_keeps (\<lambda>d. P (requests d)) (createAttachments x i o1 u as)"
  unfolding createAttachments_def by (intro inv db_keeps_write) simp_all

lemma createAttachments_events:
  "st_events (snd (createAttachments x i o1 u as s)) = st_events s"
proof -
  have "keeps (\<lambda>s. st_events s = E) (createAttachments x i o1 u as)" for E
  proof -
    have body: "keeps (\<lambda>s. st_events s = E) (bind (new_row x ids) f)"
      if "\<And>p. keeps (\<lambda>s. st_events s = E) (f p)" for ids and f :: "id \<times> date \<Rightarrow> unit op"
      using that by (auto simp: keeps_def run Let_def)
    show ?thesis
      unfolding createAttachments_def
      by (intro keeps_if keeps_ret keeps_bind keeps_for_each body)
        (auto simp: keeps_def run split: prod.splits)
  qed
  then show ?thesis by (simp add: keeps_def)
qed

lemma createRequestWithAttachmentsInTx_Inr:
  assumes "createRequestWithAttachmentsInTx x dt as s = (Inr v, t)"
  obtains s1 where "createRequest x dt s = (Inr v, s1)" "requests (st_db t) = requests (st_db s1)"
    "st_events t = st_events s1"
proof -
  obtain s1 where s1: "createRequest x dt s = (Inr v, s1)"
    "bind (if as \<noteq> [] then createAttachments x (req_id (rqv_row v)) (rqd_orgId dt) (rqd_createdByUserId dt) as
           else ret ()) (\<lambda>_. ret v) s1 = (Inr v, t)"
  proof -
    obtain w s1 where w: "createRequest x dt s = (Inr w, s1)"
      "bind (if as \<noteq> [] then createAttachments x (req_id (rqv_row w)) (rqd_orgId dt) (rqd_createdByUserId dt) as
           else ret ()) (\<lambda>_. ret w) s1 = (Inr v, t)"
      using assms by (auto simp: createRequestWithAttachmentsInTx_def bind_Inr_iff)
    then have "w = v" by (auto simp: bind_Inr_iff ret_run)
    with w that show thesis by blast
  qed
  have "requests (st_db t) = requests (st_db s1) \<and> st_events t = st_events s1"
  proof (cases "as = []")
    case True
    with s1(2) show ?thesis by (simp add: run)
  next
    case False
    let ?m = "createAttachments x (req_id (rqv_row v)) (rqd_orgId dt) (rqd_createdByUserId dt) as"
    have t: "t = snd (?m s1)" using s1(2) False by (auto simp: bind_Inr_iff ret_run)
    show ?thesis
      unfolding t using createAttachments_events db_keepsD [OF createAttachments_requests [of "\<lambda>r. r = requests (st_db s1)"]] by simp
  qed
  with s1(1) that show thesis by blast
qed

lemma createResidentRequest_Inr:
  assumes "createResidentRequest x user dto s = (Inr v, t)"
  obtains orgId userId occ bld where "scope_of user = Some orgId" "sub_of user = Some userId"
    "findAssignedActiveOccupancy (st_db s) userId = Some (occ, Some bld)" "bld_orgId bld = orgId"
    "requests (st_db t) = requests (st_db s) @ [rqv_row v]"
    "req_id (rqv_row v) \<notin> req_id ` set (requests (st_db s))"
    "req_orgId (rqv_row v) = orgId" "req_buildingId (rqv_row v) = occ_buildingId occ"
    "req_unitId (rqv_row v) = Some (occ_unitId occ)" "req_createdByUserId (rqv_row v) = userId"
    "req_title (rqv_row v) = crr_title dto" "req_type (rqv_row v) = normalizeType (crr_type dto)"
    "req_priority (rqv_row v) = normalizePriority (crr_priority dto)"
    "req_status (rqv_row v) = OPEN" "req_assignedToUserId (rqv_row v) = None" "req_assignedAt (rqv_row v) = None"
    "req_completedAt (rqv_row v) = None" "req_canceledAt (rqv_row v) = None"
    "st_events t = st_events s @ [(EV_CREATED, event_of v userId None None)]"
proof -
  obtain orgId userId where u: "scope_of user = Some orgId" "sub_of user = Some userId"
    using assms by (cases "scope_of user"; cases "sub_of user") (simp_all add: createResidentRequest_def run)
  obtain ob where ob: "findAssignedActiveOccupancy (st_db s) userId = Some ob"
    using assms u by (cases "findAssignedActiveOccupancy (st_db s) userId")
      (simp_all add: createResidentRequest_def run bind_transaction_Inr)
  obtain occ b where occ: "ob = (occ, b)" by (cases ob)
  obtain bld where bld: "b = Some bld" "bld_orgId bld = orgId"
    using assms u ob occ by (cases b) (auto simp: createResidentRequest_def run bind_transaction_Inr split: if_splits)
  let ?dt = "\<lparr>rqd_orgId = orgId, rqd_buildingId = occ_buildingId occ, rqd_unitId = Some (occ_unitId occ),
          rqd_createdByUserId = userId, rqd_title = crr_title dto, rqd_description = crr_description dto,
          rqd_type = normalizeType (crr_type dto), rqd_priority = normalizePriority (crr_priority dto),
          rqd_status = OPEN\<rparr>"
  obtain s1 where s1: "createRequestWithAttachmentsInTx x ?dt (coalesce (crr_attachments dto) []) s = (Inr v, s1)"
    "t = s1\<lparr>st_events := st_events s1 @ [(EV_CREATED, event_of v userId None None)]\<rparr>"
    using assms u ob occ bld
    by (auto simp: createResidentRequest_def run bind_transaction_Inr createRequestWithAttachments_def)
  obtain s2 where s2: "createRequest x ?dt s = (Inr v, s2)" "requests (st_db s1) = requests (st_db s2)" "st_events s1 = st_events s2"
    using s1(1) by (rule createRequestWithAttachmentsInTx_Inr)
  show thesis
    by (rule that [of orgId userId occ bld]) (use u ob occ bld s1 s2 createRequest_Inr [OF s2(1)] in simp_all)
qed

lemma createComment_requests [inv]: "db_keeps (\<lambda>d. P (requests d)) (createComment x i o1 u m)"
  unfolding createComment_def by (intro inv db_keeps_write) simp_all

lemma comments_keep_requests [inv]:
  "db_keeps (\<lambda>d. P (requests d)) (addResidentComment x user i m)"
  "db_keeps (\<lambda>d. P (requests d)) (addBuildingComment x user b i m)"
  "db_keeps (\<lambda>d. P (requests d)) (addBuildingAttachments x user b i as)"
  unfolding addResidentComment_def addBuildingComment_def addBuildingAttachments_def assertBuildingInOrg_def
  by (intro inv)+

section \<open>Failing operations leave the database alone\<close>

lemma atomic_updateById [frame]: "atomic (updateById x i f)"
  unfolding updateById_def by (intro frame)

lemma atomic_requests [frame]:
  "atomic (createResidentRequest x user dto)" "atomic (updateResidentRequest x user i udto)"
  "atomic (cancelResidentRequest x user i)" "atomic (addResidentComment x user i m)"
  "atomic (assignRequest x user b i staff)" "atomic (updateRequestStatus x user b i st)"
  "atomic (cancelBuildingRequest x user b i)" "atomic (addBuildingComment x user b i m)"
  "atomic (addBuildingAttachments x user b i as)"
proof -
  have tr: "atomic (bind (transaction m) k)" if "\<And>v. nothrow (k v)" for m :: "'z op" and k :: "'z \<Rightarrow> 'w op"
    using that by (intro frame)
  have pair: "nothrow (case p of (a, c) \<Rightarrow> f a c)" if "\<And>a c. nothrow (f a c)" for p and f :: "'a \<Rightarrow> 'b \<Rightarrow> 'c op"
    using that by (simp split: prod.splits)
  show "atomic (createResidentRequest x user dto)" "atomic (updateResidentRequest x user i udto)"
    "atomic (cancelResidentRequest x user i)" "atomic (addResidentComment x user i m)"
    "atomic (assignRequest x user b i staff)" "atomic (updateRequestStatus x user b i st)"
    "atomic (cancelBuildingRequest x user b i)" "atomic (addBuildingComment x user b i m)"
    "atomic (addBuildingAttachments x user b i as)"
    unfolding createResidentRequest_def updateResidentRequest_def cancelResidentRequest_def addResidentComment_def
      assignRequest_def updateRequestStatus_def cancelBuildingRequest_def addBuildingComment_def addBuildingAttachments_def
    by (intro frame tr pair)+
qed

section \<open>The abstract status machine\<close>

text \<open>
  What the module promises of a request's status: it is assigned (and reassigned) while open or
  assigned, started, completed, or canceled before it is completed; it never moves otherwise.
\<close>

inductive status_step :: "RequestStatus \<Rightarrow> RequestStatus \<Rightarrow> bool" where
  step_assign: "status_step OPEN ASSIGNED"
| step_reassign: "status_step ASSIGNED ASSIGNED"
| step_start: "status_step ASSIGNED IN_PROGRESS"
| step_finish: "status_step IN_PROGRESS COMPLETED"
| step_cancel: "st \<noteq> COMPLETED \<Longrightarrow> st \<noteq> CANCELED \<Longrightarrow> status_step st CANCELED"

code_pred status_step .

inductive_cases status_stepE: "status_step a b"
inductive_simps from_closed: "status_step COMPLETED b" "status_step CANCELED b"
inductive_simps to_completed: "status_step a COMPLETED"

lemma transitions_step: "b \<in> set (MAINTENANCE_STATUS_TRANSITIONS a) \<Longrightarrow> status_step a b"
  by (cases a) (auto intro: status_step.intros)

fun progress :: "RequestStatus \<Rightarrow> nat" where
  "progress OPEN = 0"
| "progress ASSIGNED = 1"
| "progress IN_PROGRESS = 2"
| "progress COMPLETED = 3"
| "progress CANCELED = 3"

lemma status_step_progress: "status_step a b \<Longrightarrow> progress a \<le> progress b"
  by (cases a; cases b) (auto elim: status_step.cases)

text \<open>What never changes in a request, and how a step of the system changes the table of requests.\<close>

definition same_request :: "request \<Rightarrow> request \<Rightarrow> bool" where
  "same_request r q \<longleftrightarrow> req_id q = req_id r \<and> req_orgId q = req_orgId r \<and> req_buildingId q = req_buildingId r \<and>
     req_unitId q = req_unitId r \<and> req_createdByUserId q = req_createdByUserId r \<and> req_createdAt q = req_createdAt r"

definition evolves :: "db \<Rightarrow> db \<Rightarrow> bool" where
  "evolves d e \<longleftrightarrow> (\<forall>r \<in> set (requests d). \<exists>q \<in> set (requests e). same_request r q \<and>
     (req_status q = req_status r \<or> status_step (req_status r) (req_status q)))"

text \<open>The life cycle of one request: when each column is set.\<close>

definition lifecycle_ok :: "request \<Rightarrow> bool" where
  "lifecycle_ok r \<longleftrightarrow>
     (req_status r = OPEN \<longrightarrow> req_assignedToUserId r = None) \<and>
     (req_assignedToUserId r = None \<longleftrightarrow> req_assignedAt r = None) \<and>
     (req_status r = COMPLETED \<longleftrightarrow> req_completedAt r \<noteq> None) \<and>
     (req_status r = CANCELED \<longleftrightarrow> req_canceledAt r \<noteq> None)"

definition requests_ok :: "db \<Rightarrow> bool" where
  "requests_ok d \<longleftrightarrow> distinct (map req_id (requests d)) \<and> (\<forall>r \<in> set (requests d). lifecycle_ok r)"

lemma evolves_refl: "requests e = requests d \<Longrightarrow> evolves d e"
  by (auto simp: evolves_def same_request_def)

text \<open>
  An action is sound when it keeps the invariant and moves every request along the machine.
\<close>

definition sound :: "'a op \<Rightarrow> bool" where
  "sound m \<longleftrightarrow> (\<forall>s. requests_ok (st_db s) \<longrightarrow>
     requests_ok (st_db (snd (m s))) \<and> evolves (st_db s) (st_db (snd (m s))))"

lemma sound_frame:
  assumes "\<And>R. db_keeps (\<lambda>d. requests d = R) m"
  shows "sound m"
  unfolding sound_def
proof (intro allI impI)
  fix s :: st assume "requests_ok (st_db s)"
  moreover have "requests (st_db (snd (m s))) = requests (st_db s)" using db_keepsD [OF assms] by blast
  ultimately show "requests_ok (st_db (snd (m s))) \<and> evolves (st_db s) (st_db (snd (m s)))"
    by (simp add: requests_ok_def evolves_refl)
qed

lemma sound_atomic:
  assumes "atomic m" "\<And>s v t. m s = (Inr v, t) \<Longrightarrow> requests_ok (st_db s) \<Longrightarrow> requests_ok (st_db t) \<and> evolves (st_db s) (st_db t)"
  shows "sound m"
  unfolding sound_def
proof (intro allI impI)
  fix s :: st assume ok: "requests_ok (st_db s)"
  show "requests_ok (st_db (snd (m s))) \<and> evolves (st_db s) (st_db (snd (m s)))"
  proof (cases "m s")
    case (Pair r t)
    then show ?thesis
      using ok assms(2) [of s _ t] atomicD [OF assms(1), of s _ t]
      by (cases r) (auto simp: evolves_refl)
  qed
qed

text \<open>The one lemma behind every update: a revision that respects the machine on the row it revises.\<close>

lemma revise_sound:
  assumes ok: "requests_ok d" and w: "w \<in> set (requests d)" "req_id w = i"
    and keep: "\<And>r. same_request r (f r)"
    and step: "req_status (f w) = req_status w \<or> status_step (req_status w) (req_status (f w))"
    and life: "lifecycle_ok w \<Longrightarrow> lifecycle_ok (f w)"
  shows "requests_ok (revise now i f d) \<and> evolves d (revise now i f d)"
proof -
  let ?g = "\<lambda>r. (f r)\<lparr>req_updatedAt := now\<rparr>"
  have uniq: "r = w" if "r \<in> set (requests d)" "req_id r = i" for r
    using that w ok by (auto simp: requests_ok_def intro: distinct_map_eq)
  have g: "same_request r (?g r)" "lifecycle_ok (f r) \<Longrightarrow> lifecycle_ok (?g r)" "req_status (?g r) = req_status (f r)" for r
    using keep [of r] by (simp_all add: same_request_def lifecycle_ok_def)
  have ids: "map req_id (requests (revise now i f d)) = map req_id (requests d)"
    using keep unfolding revise_def by (simp add: map_updateMany same_request_def)
  have mem: "r \<in> set (requests (revise now i f d)) \<longleftrightarrow>
      (\<exists>q \<in> set (requests d). r = (if req_id q = i then ?g q else q))" for r
  proof -
    have "requests (revise now i f d) = updateMany (\<lambda>q. req_id q = i) ?g (requests d)" by (simp add: revise_def)
    then show ?thesis by (simp only: set_updateMany image_iff)
  qed
  have "lifecycle_ok r" if r: "r \<in> set (requests (revise now i f d))" for r
  proof -
    obtain q where q: "q \<in> set (requests d)" "r = (if req_id q = i then ?g q else q)"
      using r unfolding mem by blast
    have "lifecycle_ok q" using ok q(1) by (simp add: requests_ok_def)
    then show ?thesis using q uniq [OF q(1)] life g(2) by (cases "req_id q = i") simp_all
  qed
  moreover have "\<exists>q \<in> set (requests (revise now i f d)). same_request r q \<and>
      (req_status q = req_status r \<or> status_step (req_status r) (req_status q))" if r: "r \<in> set (requests d)" for r
  proof -
    let ?q = "if req_id r = i then ?g r else r"
    have "?q \<in> set (requests (revise now i f d))" using r by (auto simp: mem)
    moreover have "same_request r ?q" using g(1) by (simp add: same_request_def)
    moreover have "req_status ?q = req_status r \<or> status_step (req_status r) (req_status ?q)"
      using uniq [OF r] step by auto
    ultimately show ?thesis by blast
  qed
  ultimately show ?thesis using ok ids by (simp add: requests_ok_def evolves_def)
qed

section \<open>Every operation is sound\<close>

lemma sound_createResidentRequest: "sound (createResidentRequest x user dto)"
proof (rule sound_atomic)
  fix s v t
  assume "createResidentRequest x user dto s = (Inr v, t)" and ok: "requests_ok (st_db s)"
  then show "requests_ok (st_db t) \<and> evolves (st_db s) (st_db t)"
  proof (elim createResidentRequest_Inr, goal_cases)
    case (1 orgId userId occ bld)
    then have "lifecycle_ok (rqv_row v)" by (simp add: lifecycle_ok_def)
    with 1 ok show ?case by (auto simp: requests_ok_def evolves_def same_request_def)
  qed
qed (intro frame)

lemma sound_updateResidentRequest: "sound (updateResidentRequest x user i dto)"
proof (rule sound_atomic)
  fix s v t
  assume "updateResidentRequest x user i dto s = (Inr v, t)" and ok: "requests_ok (st_db s)"
  then show "requests_ok (st_db t) \<and> evolves (st_db s) (st_db t)"
  proof (elim updateResidentRequest_Inr, goal_cases)
    case (1 orgId userId w k)
    note w = findByIdForCreator_SomeD [OF 1(4)]
    show ?case unfolding 1(7)
      by (rule revise_sound [OF ok w(2,3)]) (simp_all add: same_request_def lifecycle_ok_def)
  qed
qed (intro frame)

lemma sound_cancelResidentRequest: "sound (cancelResidentRequest x user i)"
proof (rule sound_atomic)
  fix s v t
  assume "cancelResidentRequest x user i s = (Inr v, t)" and ok: "requests_ok (st_db s)"
  then show "requests_ok (st_db t) \<and> evolves (st_db s) (st_db t)"
  proof (elim cancelResidentRequest_Inr, goal_cases)
    case (1 orgId userId w k)
    note w = findByIdForCreator_SomeD [OF 1(4)]
    show ?case unfolding 1(7)
      by (rule revise_sound [OF ok w(2,3)])
        (use 1(5,6) in \<open>auto simp: same_request_def lifecycle_ok_def intro: step_cancel\<close>)
  qed
qed (intro frame)

lemma sound_assignRequest: "sound (assignRequest x user b i staffId)"
proof (rule sound_atomic)
  fix s v t
  assume "assignRequest x user b i staffId s = (Inr v, t)" and ok: "requests_ok (st_db s)"
  then show "requests_ok (st_db t) \<and> evolves (st_db s) (st_db t)"
  proof (elim assignRequest_Inr, goal_cases)
    case (1 orgId userId w staff k)
    note w = findByIdForBuilding_SomeD [OF 1(6)]
    show ?case unfolding 1(12)
      by (rule revise_sound [OF ok w(2,3)])
        (use 1(7) in \<open>auto simp: same_request_def lifecycle_ok_def intro: step_assign step_reassign\<close>)
  qed
qed (intro frame)

lemma sound_updateRequestStatus: "sound (updateRequestStatus x user b i status)"
proof (rule sound_atomic)
  fix s v t
  assume "updateRequestStatus x user b i status s = (Inr v, t)" and ok: "requests_ok (st_db s)"
  then show "requests_ok (st_db t) \<and> evolves (st_db s) (st_db t)"
  proof (elim updateRequestStatus_Inr, goal_cases)
    case (1 orgId userId w completedAt k)
    note w = findByIdForBuilding_SomeD [OF 1(5)]
    have tr: "status_step (req_status (rqv_row w)) status" by (rule transitions_step) (rule 1(6))
    have ne: "status \<noteq> OPEN" "status \<noteq> CANCELED" "req_status (rqv_row w) \<noteq> COMPLETED" "req_status (rqv_row w) \<noteq> CANCELED"
      using 1(6) by (cases "req_status (rqv_row w)"; auto)+
    show ?case unfolding 1(10)
      by (rule revise_sound [OF ok w(2,3)])
        (use tr ne 1(8,9) in \<open>auto simp: same_request_def lifecycle_ok_def\<close>)
  qed
qed (intro frame)

lemma sound_cancelBuildingRequest: "sound (cancelBuildingRequest x user b i)"
proof (rule sound_atomic)
  fix s v t
  assume "cancelBuildingRequest x user b i s = (Inr v, t)" and ok: "requests_ok (st_db s)"
  then show "requests_ok (st_db t) \<and> evolves (st_db s) (st_db t)"
  proof (elim cancelBuildingRequest_Inr, goal_cases)
    case (1 orgId userId w k)
    note w = findByIdForBuilding_SomeD [OF 1(5)]
    show ?case unfolding 1(10)
      by (rule revise_sound [OF ok w(2,3)])
        (use 1(8,9) in \<open>auto simp: same_request_def lifecycle_ok_def intro: step_cancel\<close>)
  qed
qed (intro frame)

lemmas sound_request_ops = sound_createResidentRequest sound_updateResidentRequest sound_cancelResidentRequest
  sound_assignRequest sound_updateRequestStatus sound_cancelBuildingRequest
  comments_keep_requests [THEN sound_frame]

end
