(* ===== verification/NotificationFacts.thy ===== *)
theory NotificationFacts
  imports Notifications RequestFacts
begin

text \<open>
  What the notifications module guarantees: the cursor reads back, following the cursors walks the
  whole feed once and in order, who is notified of an event, and what marking and dismissing do to
  the unread count.
\<close>

section \<open>The cursor\<close>

definition cursor_ok :: "date \<times> id \<Rightarrow> bool" where
  "cursor_ok k \<longleftrightarrow> four_digit_year (fst k) \<and> snd k \<noteq> [] \<and>
     (\<forall>c \<in> set (snd k). of_char c < (128 :: nat) \<and> c \<noteq> CHR ''|'')"

lemma toISOString_nonempty [simp]: "toISOString t \<noteq> []"
  by (simp add: toISOString_def Let_def split: prod.splits)

lemma decode_encode_cursor:
  assumes "cursor_ok (feed_key n)"
  shows "decodeCursor x (encodeCursor n) s = (Inr (feed_key n), s)"
proof -
  let ?iso = "toISOString (ntf_createdAt n)"
  have ascii: "\<forall>c \<in> set (?iso @ ''|'' @ ntf_id n). of_char c < (128 :: nat)"
    using assms toISOString_chars by (auto simp: cursor_ok_def feed_key_def)
  have dec: "utf8_text (base64_decode (encodeCursor n)) = ?iso @ CHR ''|'' # ntf_id n"
    using base64_text_roundtrip [OF ascii] by (simp add: encodeCursor_def)
  have "CHR ''|'' \<notin> set ?iso" "CHR ''|'' \<notin> set (ntf_id n)"
    using assms toISOString_chars by (auto simp: cursor_ok_def feed_key_def)
  then have split: "split_on (CHR ''|'') (?iso @ CHR ''|'' # ntf_id n) = [?iso, ntf_id n]"
    by (simp add: split_on_append split_on_no_sep)
  have "parse_date (x_parseDate x) ?iso = Some (ntf_createdAt n)"
    using assms by (intro parse_toISOString) (simp add: cursor_ok_def feed_key_def)
  then show ?thesis
    using assms by (simp add: decodeCursor_def dec split run cursor_ok_def feed_key_def)
qed

text \<open>The cursor of a notification as a codec of its position in the feed.\<close>

definition position_cursor :: "date \<times> id \<Rightarrow> string" where
  "position_cursor k = base64_encode (utf8_bytes (toISOString (fst k) @ ''|'' @ snd k))"

definition read_cursor :: "ext \<Rightarrow> string \<Rightarrow> (date \<times> id) option" where
  "read_cursor x c = (case decodeCursor x c \<lparr>st_db = empty_db, st_tick = 0, st_events = [], st_sent = [], st_server = False\<rparr> of
     (Inr k, _) \<Rightarrow> Some k | _ \<Rightarrow> None)"

lemma encodeCursor_position: "encodeCursor n = position_cursor (feed_key n)"
  by (simp add: encodeCursor_def position_cursor_def feed_key_def)

interpretation feed: codec position_cursor "read_cursor x" cursor_ok for x
proof
  fix k :: "date \<times> id"
  assume ok: "cursor_ok k"
  define n where "n = \<lparr>ntf_id = snd k, ntf_orgId = [], ntf_recipientUserId = [], ntf_type = REQUEST_CREATED,
    ntf_title = [], ntf_body = None, ntf_data = JNull, ntf_readAt = None, ntf_dismissedAt = None, ntf_createdAt = fst k\<rparr>"
  have n: "feed_key n = k" by (simp add: n_def feed_key_def)
  show "read_cursor x (position_cursor k) = Some k"
    using decode_encode_cursor [of n x] ok by (simp add: read_cursor_def encodeCursor_position n)
qed

section \<open>Pagination\<close>

text \<open>In a strictly decreasing list, what is below the \<open>n\<close>-th element is what follows it.\<close>

lemma filter_below:
  fixes k :: "'a \<Rightarrow> 'k :: linorder"
  assumes "sorted_wrt (\<lambda>a b. k b < k a) L" "n < length L"
  shows "filter (\<lambda>a. k a < k (L ! n)) L = drop (Suc n) L"
proof -
  have "filter (\<lambda>a. k a < k (L ! n)) (take (Suc n) L @ drop (Suc n) L) = drop (Suc n) L"
  proof -
    have "k (L ! n) < k a \<or> a = L ! n" if a: "a \<in> set (take (Suc n) L)" for a
    proof -
      obtain i where i: "i < Suc n" "a = L ! i" using a by (auto simp: in_set_conv_nth)
      then show ?thesis using assms by (cases "i = n") (auto simp: sorted_wrt_iff_nth_less)
    qed
    then have "filter (\<lambda>a. k a < k (L ! n)) (take (Suc n) L) = []"
      by (force simp: filter_empty_conv)
    moreover have "k a < k (L ! n)" if a: "a \<in> set (drop (Suc n) L)" for a
    proof -
      obtain i where i: "i < length L - Suc n" "a = L ! (Suc n + i)" using a by (auto simp: in_set_conv_nth)
      then show ?thesis using assms(1) unfolding sorted_wrt_iff_nth_less
        by (metis add.commute add_Suc_right less_add_Suc2 less_diff_conv)
    qed
    then have "filter (\<lambda>a. k a < k (L ! n)) (drop (Suc n) L) = drop (Suc n) L" by simp
    ultimately show ?thesis unfolding filter_append by simp
  qed
  then show ?thesis by (simp only: append_take_drop_id)
qed

lemma feed_order_strict:
  assumes "distinct (map ntf_id ns)"
  shows "sorted_wrt (\<lambda>a b. feed_key b < feed_key a) (feed_order ns)"
proof -
  have "distinct (map feed_key ns)"
    using assms by (auto simp: distinct_map feed_key_def inj_on_def)
  then have "distinct (map feed_key (sort_key feed_key ns))"
    by (simp add: distinct_map)
  then have "sorted_wrt (<) (map feed_key (sort_key feed_key ns))"
    by (simp add: strict_sorted_iff)
  then show ?thesis
    by (simp add: feed_order_def sorted_wrt_rev sorted_wrt_map)
qed

lemma feed_order_filter: "feed_order (filter P ns) = filter P (feed_order ns)"
  by (simp add: feed_order_def filter_sort flip: rev_filter)

text \<open>The whole feed of a user, and the part after a position.\<close>

definition feed_of :: "db \<Rightarrow> id \<Rightarrow> id \<Rightarrow> bool \<Rightarrow> bool \<Rightarrow> notification list" where
  "feed_of d userId orgId unreadOnly includeDismissed =
     feed_order (findMany (feed_where userId orgId unreadOnly includeDismissed None) (notifications d))"

lemma feed_where_cursor:
  "feed_where u o1 a b (Some k) n \<longleftrightarrow> feed_where u o1 a b None n \<and> feed_key n < k"
  by (cases k) (auto simp: feed_where_def feed_key_def less_prod_def')

lemma repo_first_page: "repo_listForUser d u o1 a b n None = take n (feed_of d u o1 a b)"
  by (simp add: repo_listForUser_def feed_of_def)

lemma repo_next_page:
  assumes "distinct (map ntf_id (notifications d))" "i < length (feed_of d u o1 a b)"
  shows "repo_listForUser d u o1 a b n (Some (feed_key (feed_of d u o1 a b ! i))) = take n (drop (Suc i) (feed_of d u o1 a b))"
proof -
  let ?F = "feed_of d u o1 a b" and ?ns = "findMany (feed_where u o1 a b None) (notifications d)"
  have "distinct (map ntf_id ?ns)"
    using assms(1) by (simp add: findMany_def distinct_map_filter)
  then have st: "sorted_wrt (\<lambda>a b. feed_key b < feed_key a) ?F"
    unfolding feed_of_def by (rule feed_order_strict)
  have "findMany (feed_where u o1 a b (Some k)) (notifications d) = filter (\<lambda>m. feed_key m < k) ?ns" for k
    unfolding findMany_def filter_filter by (rule filter_cong) (auto simp: feed_where_cursor)
  then have "repo_listForUser d u o1 a b n (Some k) = take n (filter (\<lambda>m. feed_key m < k) ?F)" for k
    by (simp add: repo_listForUser_def feed_order_filter feed_of_def)
  then show ?thesis using filter_below [OF st assms(2)] by simp
qed

text \<open>One call of the service, at the start of the feed and after a cursor it handed out.\<close>

definition feed_page :: "notification list \<Rightarrow> nat \<Rightarrow> nat \<Rightarrow> notification list \<times> string option" where
  "feed_page F i limit =
     (take limit (drop i F), if length F - i > limit then Some (encodeCursor (F ! (i + limit - 1))) else None)"

lemma clamp_limit_pos: "1 \<le> clamp_limit l" "clamp_limit l \<le> 100"
  by (simp_all add: clamp_limit_def nat_le_iff le_nat_iff)

lemma last_take_drop: "limit < length F - i \<Longrightarrow> 0 < limit \<Longrightarrow> last (take limit (drop i F)) = F ! (i + limit - 1)"
  by (simp add: last_conv_nth)

definition options_feed :: "db \<Rightarrow> id \<Rightarrow> id \<Rightarrow> list_options \<Rightarrow> notification list" where
  "options_feed d u o1 opts =
     feed_of d u o1 (coalesce (lop_unreadOnly opts) False) (coalesce (lop_includeDismissed opts) False)"

lemma listForUser_first:
  assumes "truthy (lop_cursor opts) = None"
  shows "listForUser x u o1 opts s = (Inr (feed_page (options_feed (st_db s) u o1 opts) 0 (clamp_limit (lop_limit opts))), s)"
proof -
  let ?F = "options_feed (st_db s) u o1 opts" and ?L = "clamp_limit (lop_limit opts)"
  have pos: "0 < ?L" using clamp_limit_pos(1) [of "lop_limit opts"] by simp
  have F: "repo_listForUser (st_db s) u o1 (coalesce (lop_unreadOnly opts) False) (coalesce (lop_includeDismissed opts) False)
      n None = take n ?F" for n
    by (simp add: repo_first_page options_feed_def)
  show ?thesis
    using last_take_drop [of ?L ?F 0] pos assms
    by (cases "?L < length ?F") (simp_all add: listForUser_def run Let_def F feed_page_def)
qed

lemma encodeCursor_nonempty: "encodeCursor n \<noteq> []"
proof -
  have "to_sextets bs \<noteq> []" if "bs \<noteq> []" for bs
    using that by (cases bs rule: to_sextets.cases) auto
  then show ?thesis by (simp add: encodeCursor_def base64_encode_def utf8_bytes_def)
qed

lemma listForUser_next:
  assumes "distinct (map ntf_id (notifications (st_db s)))" "i < length (options_feed (st_db s) u o1 opts)"
    "cursor_ok (feed_key (options_feed (st_db s) u o1 opts ! i))"
    "lop_cursor opts = Some (encodeCursor (options_feed (st_db s) u o1 opts ! i))"
  shows "listForUser x u o1 opts s = (Inr (feed_page (options_feed (st_db s) u o1 opts) (Suc i) (clamp_limit (lop_limit opts))), s)"
proof -
  let ?F = "options_feed (st_db s) u o1 opts"
  have "truthy (lop_cursor opts) = Some (encodeCursor (?F ! i))"
    using assms(4) encodeCursor_nonempty by (simp add: truthy_def)
  moreover have "repo_listForUser (st_db s) u o1 (coalesce (lop_unreadOnly opts) False) (coalesce (lop_includeDismissed opts) False)
      n (Some (feed_key (?F ! i))) = take n (drop (Suc i) ?F)" for n
    using repo_next_page [OF assms(1) assms(2) [unfolded options_feed_def]] by (simp add: options_feed_def)
  moreover have "0 < clamp_limit (lop_limit opts)" using clamp_limit_pos(1) [of "lop_limit opts"] by simp
  ultimately show ?thesis
    using last_take_drop [of "clamp_limit (lop_limit opts)" ?F "Suc i"]
    by (cases "clamp_limit (lop_limit opts) < length ?F - Suc i")
      (simp_all add: listForUser_def run bind_app decode_encode_cursor [OF assms(3)] Let_def feed_page_def)
qed

text \<open>A client that follows the cursors, for at most \<open>n\<close> calls.\<close>

fun walk_feed :: "ext \<Rightarrow> id \<Rightarrow> id \<Rightarrow> list_options \<Rightarrow> nat \<Rightarrow> st \<Rightarrow> notification list option" where
  "walk_feed x u o1 opts 0 s = None"
| "walk_feed x u o1 opts (Suc n) s =
     (case listForUser x u o1 opts s of
        (Inr (items, None), _) \<Rightarrow> Some items
      | (Inr (items, Some c), t) \<Rightarrow> map_option ((@) items) (walk_feed x u o1 (opts\<lparr>lop_cursor := Some c\<rparr>) n t)
      | (Inl _, _) \<Rightarrow> None)"

lemma walk_from:
  assumes ok: "distinct (map ntf_id (notifications (st_db s)))"
      "\<forall>n \<in> set (options_feed (st_db s) u o1 opts). cursor_ok (feed_key n)"
    and i: "i < length (options_feed (st_db s) u o1 opts)"
    and fuel: "length (options_feed (st_db s) u o1 opts) - i \<le> fuel"
  shows "walk_feed x u o1 (opts\<lparr>lop_cursor := Some (encodeCursor (options_feed (st_db s) u o1 opts ! i))\<rparr>) fuel s =
      Some (drop (Suc i) (options_feed (st_db s) u o1 opts))"
  using i fuel
proof (induction fuel arbitrary: i)
  case (Suc fuel)
  let ?F = "options_feed (st_db s) u o1 opts" and ?L = "clamp_limit (lop_limit opts)"
  let ?o = "opts\<lparr>lop_cursor := Some (encodeCursor (?F ! i))\<rparr>"
  have F: "options_feed (st_db s) u o1 ?o = ?F" by (simp add: options_feed_def)
  have page: "listForUser x u o1 ?o s = (Inr (feed_page ?F (Suc i) ?L), s)"
    using listForUser_next [of s i u o1 ?o x] ok Suc.prems(1) F by simp
  show ?case
  proof (cases "length ?F - Suc i > ?L")
    case False
    then show ?thesis by (simp add: page feed_page_def)
  next
    case True
    let ?j = "i + ?L"
    have j: "?j < length ?F" "length ?F - ?j \<le> fuel" using True Suc.prems(2) clamp_limit_pos(1) [of "lop_limit opts"] by linarith+
    have "walk_feed x u o1 (?o\<lparr>lop_cursor := Some (encodeCursor (?F ! ?j))\<rparr>) fuel s = Some (drop (Suc ?j) ?F)"
      using Suc.IH [OF j] by simp
    moreover have "take ?L (drop (Suc i) ?F) @ drop (Suc ?j) ?F = drop (Suc i) ?F"
      by (metis add_Suc append_take_drop_id drop_drop add.commute)
    ultimately show ?thesis
      using True by (simp add: page feed_page_def)
  qed
qed simp

lemma walk_feed_all:
  assumes "distinct (map ntf_id (notifications (st_db s)))"
      "\<forall>n \<in> set (options_feed (st_db s) u o1 opts). cursor_ok (feed_key n)"
    and "lop_cursor opts = None" and "length (options_feed (st_db s) u o1 opts) < fuel"
  shows "walk_feed x u o1 opts fuel s = Some (options_feed (st_db s) u o1 opts)"
proof -
  let ?F = "options_feed (st_db s) u o1 opts" and ?L = "clamp_limit (lop_limit opts)"
  obtain m where m: "fuel = Suc m" using assms(4) by (cases fuel) auto
  have page: "listForUser x u o1 opts s = (Inr (feed_page ?F 0 ?L), s)"
    using assms(3) by (intro listForUser_first) simp
  show ?thesis
  proof (cases "length ?F > ?L")
    case False
    then show ?thesis by (simp add: m page feed_page_def)
  next
    case True
    let ?j = "?L - 1"
    have j: "?j < length ?F" "length ?F - ?j \<le> m" "Suc ?j = ?L"
      using True assms(4) m clamp_limit_pos(1) [of "lop_limit opts"] by linarith+
    have "walk_feed x u o1 (opts\<lparr>lop_cursor := Some (encodeCursor (?F ! ?j))\<rparr>) m s = Some (drop ?L ?F)"
      using walk_from [OF assms(1,2) j(1,2)] j(3) by simp
    then show ?thesis using True by (simp add: m page feed_page_def)
  qed
qed

section \<open>Recipients\<close>

lemma set_finalizeRecipients:
  "set (finalizeRecipients rs a) = (if set rs \<subseteq> {a} then {a} else set rs - {a})"
proof -
  have "set_delete a rs = [] \<longleftrightarrow> set rs \<subseteq> {a}" by (auto simp: set_delete_def filter_empty_conv)
  then show ?thesis by (simp add: finalizeRecipients_def Let_def)
qed

lemma finalizeRecipients_nonempty: "finalizeRecipients rs a \<noteq> []"
  by (simp add: finalizeRecipients_def Let_def set_add_def)

lemma set_add_assignee [simp]:
  "set (add_assignee r rs) = set rs \<union> set_option (truthy (snp_assignedToUserId r))"
  by (auto simp: add_assignee_def split: option.splits)

lemma set_add_all [simp]: "set (add_all us rs) = set us \<union> set rs"
  unfolding add_all_def by (induction us arbitrary: rs) auto

text \<open>The people who run a building: its managers and admins, or else the admins of the org.\<close>

definition runs_building :: "db \<Rightarrow> id \<Rightarrow> id \<Rightarrow> id \<Rightarrow> bool" where
  "runs_building d orgId b u \<longleftrightarrow> (\<exists>a \<in> set (assignments d). asg_buildingId a = b \<and> asg_userId a = u \<and>
     asg_type a \<in> {MANAGER, BUILDING_ADMIN}) \<and>
     (\<exists>v. findUser d u = Some v \<and> usr_isActive v \<and> usr_orgId v = Some orgId)"

lemma set_getBuildingManagersAndAdmins:
  "set (getBuildingManagersAndAdmins d orgId b) = {u. runs_building d orgId b u}"
proof -
  have "set (foldl (\<lambda>acc a. case findUser d (asg_userId a) of
         None \<Rightarrow> acc
       | Some u \<Rightarrow> if usr_isActive u \<and> usr_orgId u = Some orgId then set_add (asg_userId a) acc else acc) acc as) =
      set acc \<union> {u. \<exists>a \<in> set as. asg_userId a = u \<and>
        (\<exists>v. findUser d u = Some v \<and> usr_isActive v \<and> usr_orgId v = Some orgId)}"
    for acc and as :: "assignment list"
    by (induction as arbitrary: acc) (auto split: option.splits)
  then show ?thesis
    by (auto simp: getBuildingManagersAndAdmins_def runs_building_def)
qed

lemma ops_in_org:
  assumes "distinct (map usr_id (users d))" "u \<in> set (resolveOpsRecipients d orgId b)"
  shows "\<exists>v. findUser d u = Some v \<and> usr_isActive v \<and> usr_orgId v = Some orgId"
proof (cases "getBuildingManagersAndAdmins d orgId b = []")
  case True
  then obtain v where "v \<in> set (users d)" "usr_id v = u" "usr_orgId v = Some orgId" "usr_isActive v"
    using assms(2) by (auto simp: resolveOpsRecipients_def Let_def getOrgAdmins_def)
  then show ?thesis using findFirst_unique [OF assms(1)] by (auto simp: findUser_def)
next
  case False
  then have "u \<in> set (getBuildingManagersAndAdmins d orgId b)"
    using assms(2) by (simp add: resolveOpsRecipients_def Let_def)
  then show ?thesis by (simp add: set_getBuildingManagersAndAdmins runs_building_def)
qed

text \<open>
  Who an event concerns, said of the tables alone. Active members of the org; of them, the managers and
  building admins of the building; the org's heads, by their roles; and who operates a building: those
  who manage it, or the heads when nobody does.
\<close>

definition works_for :: "db \<Rightarrow> id \<Rightarrow> id \<Rightarrow> bool" where
  "works_for d orgId u \<longleftrightarrow> (\<exists>v \<in> set (users d). usr_id v = u \<and> usr_isActive v \<and> usr_orgId v = Some orgId)"

definition manages :: "db \<Rightarrow> id \<Rightarrow> id \<Rightarrow> id \<Rightarrow> bool" where
  "manages d orgId b u \<longleftrightarrow> works_for d orgId u \<and> (\<exists>a \<in> set (assignments d).
     asg_buildingId a = b \<and> asg_userId a = u \<and> (asg_type a = MANAGER \<or> asg_type a = BUILDING_ADMIN))"

definition heads :: "db \<Rightarrow> id \<Rightarrow> id \<Rightarrow> bool" where
  "heads d orgId u \<longleftrightarrow> works_for d orgId u \<and> (\<exists>ur \<in> set (userRoles d). \<exists>r \<in> set (roles d).
     uro_userId ur = u \<and> uro_roleId ur = rol_id r \<and> (rol_key r = ''org_admin'' \<or> rol_key r = ''admin''))"

definition operates :: "db \<Rightarrow> id \<Rightarrow> id \<Rightarrow> id \<Rightarrow> bool" where
  "operates d orgId b u \<longleftrightarrow> manages d orgId b u \<or> (\<nexists>v. manages d orgId b v) \<and> heads d orgId u"

text \<open>
  The audience: who operates the building, the assignee unless the request is new, and the creator unless
  the request is new or canceled.
\<close>

definition in_audience :: "event_name \<Rightarrow> db \<Rightarrow> request_snapshot \<Rightarrow> id \<Rightarrow> bool" where
  "in_audience ev d r u \<longleftrightarrow> operates d (snp_orgId r) (snp_buildingId r) u \<or>
     (ev \<noteq> EV_CREATED \<and> snp_assignedToUserId r = Some u \<and> u \<noteq> []) \<or>
     (ev \<noteq> EV_CREATED \<and> ev \<noteq> EV_CANCELED \<and> u = snp_createdByUserId r)"

lemma works_for_find:
  assumes "distinct (map usr_id (users d))"
  shows "works_for d o1 u \<longleftrightarrow> (\<exists>v. findUser d u = Some v \<and> usr_isActive v \<and> usr_orgId v = Some o1)"
  unfolding works_for_def findUser_def using findFirst_unique [OF assms] by (blast dest: findFirst_SomeD)

lemma set_resolveOpsRecipients:
  assumes "distinct (map usr_id (users d))"
  shows "set (resolveOpsRecipients d o1 b) = {u. operates d o1 b u}"
proof -
  have managers: "set (getBuildingManagersAndAdmins d o1 b) = {u. manages d o1 b u}"
    unfolding set_getBuildingManagersAndAdmins runs_building_def manages_def works_for_find [OF assms] by blast
  have "has_role_in d u {''org_admin'', ''admin''} \<longleftrightarrow> (\<exists>ur \<in> set (userRoles d). \<exists>r \<in> set (roles d).
     uro_userId ur = u \<and> uro_roleId ur = rol_id r \<and> (rol_key r = ''org_admin'' \<or> rol_key r = ''admin''))" for u
    unfolding has_role_in_def list_ex_iff insert_iff empty_iff by metis
  then have "set (getOrgAdmins d o1) = {u. heads d o1 u}"
    unfolding getOrgAdmins_def heads_def works_for_def by (auto simp del: insert_iff)
  moreover have "getBuildingManagersAndAdmins d o1 b = [] \<longleftrightarrow> (\<nexists>v. manages d o1 b v)"
    using managers by (metis Collect_empty_eq set_empty)
  ultimately show ?thesis using managers by (auto simp: resolveOpsRecipients_def Let_def operates_def)
qed

fun event_recipients :: "event_name \<Rightarrow> db \<Rightarrow> event_payload \<Rightarrow> id list" where
  "event_recipients EV_CREATED d p = resolveForRequestCreated d (evp_request p) (evp_actorUserId p)"
| "event_recipients EV_ASSIGNED d p = resolveForRequestAssigned d (evp_request p) (evp_actorUserId p)"
| "event_recipients EV_STATUS_CHANGED d p = resolveForRequestStatusChanged d (evp_request p) (evp_actorUserId p)"
| "event_recipients EV_COMMENTED d p = resolveForRequestCommented d (evp_request p) (evp_actorUserId p)
     (coalesce (evp_actorIsResident p) False)"
| "event_recipients EV_CANCELED d p = resolveForRequestCanceled d (evp_request p) (evp_actorUserId p)"

lemma event_recipients_member:
  assumes "distinct (map usr_id (users d))"
  shows "set (event_recipients e d p) = (let A = {u. in_audience e d (evp_request p) u}; a = evp_actorUserId p
      in if A \<subseteq> {a} then {a} else A - {a})"
proof -
  let ?r = "evp_request p"
  have "{u. in_audience e d ?r u} = {u. operates d (snp_orgId ?r) (snp_buildingId ?r) u} \<union>
      (if e = EV_CREATED then {} else set_option (truthy (snp_assignedToUserId ?r))) \<union>
      (if e = EV_CREATED \<or> e = EV_CANCELED then {} else {snp_createdByUserId ?r})"
    by (auto simp: in_audience_def truthy_Some_iff)
  then show ?thesis
    by (cases e) (simp_all add: Let_def resolveForRequestCreated_def resolveForRequestAssigned_def
      resolveForRequestStatusChanged_def resolveForRequestCommented_def resolveForRequestCanceled_def
      set_finalizeRecipients set_resolveOpsRecipients [OF assms] Un_commute Un_left_commute insert_commute)
qed

section \<open>Creating notifications\<close>

lemma notification_create_Inr:
  assumes "notification_create x inp s = (Inr n, t)"
  shows "st_db t = (st_db s)\<lparr>notifications := notifications (st_db s) @ [n]\<rparr>"
    "ntf_id n \<notin> ntf_id ` set (notifications (st_db s))"
    "ntf_orgId n = nin_orgId inp" "ntf_recipientUserId n = nin_recipientUserId inp" "ntf_type n = nin_type inp"
    "ntf_title n = nin_title inp" "ntf_body n = nin_body inp" "ntf_data n = nin_data inp"
    "ntf_readAt n = None" "ntf_dismissedAt n = None"
    "findOrg (st_db s) (nin_orgId inp) \<noteq> None" "findUser (st_db s) (nin_recipientUserId inp) \<noteq> None"
    "st_events t = st_events s" "st_sent t = st_sent s" "st_server t = st_server s"
  using assms by (auto simp: notification_create_def run Let_def split: if_splits)

lemma create_all_Inr:
  assumes "for_each inps (notification_create x) s = (Inr ns, t)"
  shows "st_db t = (st_db s)\<lparr>notifications := notifications (st_db s) @ ns\<rparr>"
    "map ntf_recipientUserId ns = map nin_recipientUserId inps" "map ntf_orgId ns = map nin_orgId inps"
    "map ntf_type ns = map nin_type inps" "map ntf_title ns = map nin_title inps"
    "map ntf_body ns = map nin_body inps" "map ntf_data ns = map nin_data inps"
    "\<forall>n \<in> set ns. ntf_readAt n = None \<and> ntf_dismissedAt n = None"
    "st_sent t = st_sent s" "st_server t = st_server s"
proof -
  have "st_db t = (st_db s)\<lparr>notifications := notifications (st_db s) @ ns\<rparr> \<and>
      map ntf_recipientUserId ns = map nin_recipientUserId inps \<and> map ntf_orgId ns = map nin_orgId inps \<and>
      map ntf_type ns = map nin_type inps \<and> map ntf_title ns = map nin_title inps \<and>
      map ntf_body ns = map nin_body inps \<and> map ntf_data ns = map nin_data inps \<and>
      (\<forall>n \<in> set ns. ntf_readAt n = None \<and> ntf_dismissedAt n = None) \<and> st_sent t = st_sent s \<and> st_server t = st_server s"
    using assms
  proof (induction inps arbitrary: s ns)
    case (Cons i js)
    obtain n s1 ms where m: "notification_create x i s = (Inr n, s1)"
        "for_each js (notification_create x) s1 = (Inr ms, t)" "ns = n # ms"
      using Cons.prems by (auto simp: bind_Inr_iff ret_run)
    show ?case using Cons.IH [OF m(2)] notification_create_Inr [OF m(1)] m(3) by simp
  qed (simp add: ret_run)
  then show "st_db t = (st_db s)\<lparr>notifications := notifications (st_db s) @ ns\<rparr>"
    "map ntf_recipientUserId ns = map nin_recipientUserId inps" "map ntf_orgId ns = map nin_orgId inps"
    "map ntf_type ns = map nin_type inps" "map ntf_title ns = map nin_title inps"
    "map ntf_body ns = map nin_body inps" "map ntf_data ns = map nin_data inps"
    "\<forall>n \<in> set ns. ntf_readAt n = None \<and> ntf_dismissedAt n = None"
    "st_sent t = st_sent s" "st_server t = st_server s" by simp_all
qed

lemma publish_all:
  "for_each ns (\<lambda>n. publishToUser o1 (ntf_recipientUserId n) (WsNew (toNotificationResponse n))) s =
     (Inr (replicate (length ns) ()), s\<lparr>st_sent := st_sent s @ (if st_server s then
        map (\<lambda>n. (roomForUser o1 (ntf_recipientUserId n), WsNew (toNotificationResponse n))) ns else [])\<rparr>)"
proof (induction ns arbitrary: s)
  case (Cons n ns)
  then show ?case by (simp add: publishToUser_def run bind_app)
qed (simp add: run)

lemma createForUsers_Inr:
  assumes "createForUsers x inp s = (Inr rs, t)"
  obtains ns where "st_db t = (st_db s)\<lparr>notifications := notifications (st_db s) @ ns\<rparr>"
    "map ntf_recipientUserId ns = filter (\<lambda>u. u \<noteq> []) (uniq (cin_userIds inp))"
    "\<forall>n \<in> set ns. ntf_orgId n = cin_orgId inp \<and> ntf_type n = cin_type inp \<and> ntf_title n = cin_title inp \<and>
       ntf_body n = cin_body inp \<and> ntf_data n = cin_data inp \<and> ntf_readAt n = None \<and> ntf_dismissedAt n = None"
    "rs = map toNotificationResponse ns"
    "st_server s \<Longrightarrow> st_sent t = st_sent s @
       map (\<lambda>n. (roomForUser (cin_orgId inp) (ntf_recipientUserId n), WsNew (toNotificationResponse n))) ns"
proof -
  let ?us = "filter (\<lambda>u. u \<noteq> []) (uniq (cin_userIds inp))"
  let ?inps = "map (\<lambda>u. \<lparr>nin_orgId = cin_orgId inp, nin_recipientUserId = u, nin_type = cin_type inp,
      nin_title = cin_title inp, nin_body = cin_body inp, nin_data = cin_data inp\<rparr>) ?us"
  show thesis
  proof (cases "?us = []")
    case True
    with assms have "t = s" "rs = []" by (simp_all add: createForUsers_def ret_run)
    then show ?thesis using True by (intro that [of "[]"]) simp_all
  next
    case False
    then obtain ns s1 where c: "for_each ?inps (notification_create x) s = (Inr ns, s1)" "rs = map toNotificationResponse ns"
        "t = s1\<lparr>st_sent := st_sent s1 @ (if st_server s1 then
          map (\<lambda>n. (roomForUser (cin_orgId inp) (ntf_recipientUserId n), WsNew (toNotificationResponse n))) ns else [])\<rparr>"
      using assms by (auto simp: createForUsers_def createManyAndReturn_def bind_Inr_iff publish_all ret_run)
    note f = create_all_Inr [OF c(1)]
    have all: "(\<forall>n \<in> set ns. g n = v)" if "map g ns = map (\<lambda>_. v) ?us" for g :: "notification \<Rightarrow> 'z" and v
      using that by (metis (no_types, lifting) image_iff in_set_conv_nth length_map nth_map set_map)
    show ?thesis
      by (rule that [of ns]) (use c f all [of ntf_orgId] all [of ntf_type] all [of ntf_title] all [of ntf_body] all [of ntf_data]
        in \<open>simp_all add: comp_def\<close>)
  qed
qed

section \<open>Unread notifications\<close>

text \<open>What the client counts: the notifications of a user in an org that are neither read nor dismissed.\<close>

definition unread_of :: "id \<Rightarrow> id \<Rightarrow> notification \<Rightarrow> bool" where
  "unread_of u o1 n \<longleftrightarrow> ntf_recipientUserId n = u \<and> ntf_orgId n = o1 \<and> ntf_readAt n = None \<and> ntf_dismissedAt n = None"

lemma repo_countUnread_alt: "repo_countUnread d u o1 = length (filter (unread_of u o1) (notifications d))"
  by (simp add: repo_countUnread_def countMany_def unread_of_def [abs_def])

lemma publishToUser_run [run]:
  "publishToUser o1 u w s =
     (Inr (), s\<lparr>st_sent := st_sent s @ (if st_server s then [(roomForUser o1 u, w)] else [])\<rparr>)"
  "bind (publishToUser o1 u w) k s =
     k () (s\<lparr>st_sent := st_sent s @ (if st_server s then [(roomForUser o1 u, w)] else [])\<rparr>)"
  by (simp_all add: publishToUser_def run bind_app)

lemma updateNotifications_run [run]:
  "updateNotifications p f s = (Inr (countMany p (notifications (st_db s))),
     s\<lparr>st_db := (st_db s)\<lparr>notifications := updateMany p f (notifications (st_db s))\<rparr>\<rparr>)"
  "bind (updateNotifications p f) k s = k (countMany p (notifications (st_db s)))
     (s\<lparr>st_db := (st_db s)\<lparr>notifications := updateMany p f (notifications (st_db s))\<rparr>\<rparr>)"
  by (simp_all add: updateNotifications_def run)

lemma filter_updateMany_none:
  "(\<And>n. q n \<Longrightarrow> p n) \<Longrightarrow> (\<And>n. \<not> q (f n)) \<Longrightarrow> filter q (updateMany p f ns) = []"
  by (auto simp: updateMany_def filter_empty_conv)

lemma filter_updateMany_other:
  "(\<And>n. p n \<Longrightarrow> \<not> q n \<and> \<not> q (f n)) \<Longrightarrow> filter q (updateMany p f ns) = filter q ns"
  by (induction ns) (auto simp: updateMany_def)

lemma markAllRead_run:
  "\<exists>t. markAllRead x u o1 s = (Inr (), t) \<and> repo_countUnread (st_db t) u o1 = 0 \<and>
     (\<forall>v o2. (v, o2) \<noteq> (u, o1) \<longrightarrow>
        filter (\<lambda>n. ntf_recipientUserId n = v \<and> ntf_orgId n = o2) (notifications (st_db t)) =
        filter (\<lambda>n. ntf_recipientUserId n = v \<and> ntf_orgId n = o2) (notifications (st_db s)))"
  unfolding markAllRead_def repo_markAllRead_def
  by (auto simp: run Let_def repo_countUnread_alt unread_of_def intro!: filter_updateMany_none filter_updateMany_other)

lemma updateMany_one:
  assumes "distinct (map k ns)" "e \<in> set ns" "p e" "\<And>n. p n \<Longrightarrow> k n = k e"
  obtains xs ys where "ns = xs @ e # ys" "\<And>f. updateMany p f ns = xs @ f e # ys"
proof -
  obtain xs ys where ns: "ns = xs @ e # ys" using assms(2) by (meson split_list)
  have "\<not> p n" if "n \<in> set xs \<union> set ys" for n
  proof
    assume "p n"
    then have "k n = k e" by (rule assms(4))
    with that assms(1) ns show False by (auto simp: image_iff)
  qed
  then have "updateMany p f ns = xs @ f e # ys" for f
    using assms(3) ns by (auto simp: updateMany_def intro!: map_idI)
  then show thesis using ns by (rule that [rotated])
qed

text \<open>Reading one notification takes one off the count, the first time only.\<close>

lemma markRead_run:
  assumes "distinct (map ntf_id (notifications (st_db s)))" "findByIdForUser (st_db s) i u o1 = Some e"
  shows "\<exists>t. markRead x i u o1 s = (Inr (), t) \<and>
      repo_countUnread (st_db t) u o1 = repo_countUnread (st_db s) u o1 - (if unread_of u o1 e then 1 else 0) \<and>
      (unread_of u o1 e \<longrightarrow> repo_countUnread (st_db s) u o1 > 0)"
proof -
  have e: "e \<in> set (notifications (st_db s))" "ntf_id e = i" "ntf_recipientUserId e = u" "ntf_orgId e = o1"
    using assms(2) unfolding findByIdForUser_def by (auto dest: findFirst_SomeD)
  show ?thesis
  proof (cases "unread_of u o1 e")
    case True
    let ?p = "\<lambda>n. ntf_id n = i \<and> ntf_recipientUserId n = u \<and> ntf_orgId n = o1 \<and> ntf_readAt n = None \<and> ntf_dismissedAt n = None"
    have "?p e" "\<And>n. ?p n \<Longrightarrow> ntf_id n = ntf_id e" using True e by (auto simp: unread_of_def)
    then obtain xs ys where "notifications (st_db s) = xs @ e # ys"
        "\<And>f. updateMany ?p f (notifications (st_db s)) = xs @ f e # ys"
      using updateMany_one [OF assms(1) e(1), of ?p] by blast
    then show ?thesis
      using True assms(2) e unfolding markRead_def repo_markRead_def
      by (simp add: run Let_def repo_countUnread_alt unread_of_def)
  next
    case False
    then show ?thesis
      using assms(2) e unfolding markRead_def by (auto simp: run unread_of_def)
  qed
qed

section \<open>From an event to the feeds\<close>

text \<open>
  The handler of an event gives each of its recipients one new notification and nobody else.
\<close>

fun event_type :: "event_name \<Rightarrow> NotificationType" where
  "event_type EV_CREATED = REQUEST_CREATED"
| "event_type EV_ASSIGNED = REQUEST_ASSIGNED"
| "event_type EV_STATUS_CHANGED = REQUEST_STATUS_CHANGED"
| "event_type EV_COMMENTED = REQUEST_COMMENTED"
| "event_type EV_CANCELED = REQUEST_CANCELED"

lemma on_event_alt:
  "\<exists>title body. on_event x e p = notify x p (\<lambda>d. event_recipients e d p) (event_type e) title body"
  by (cases e) (auto simp: handleRequestCreated_def handleRequestAssigned_def handleRequestStatusChanged_def
      handleRequestCommented_def handleRequestCanceled_def)

lemma distinct_add_all [simp]: "distinct rs \<Longrightarrow> distinct (add_all us rs)"
  unfolding add_all_def by (induction us arbitrary: rs) auto

lemma on_event_Inr:
  assumes "on_event x e p s = (Inr (), t)"
  obtains ns where "st_db t = (st_db s)\<lparr>notifications := notifications (st_db s) @ ns\<rparr>"
    "distinct (map ntf_recipientUserId ns)"
    "ntf_recipientUserId ` set ns = set (event_recipients e (st_db s) p) - {[]}"
    "\<forall>n \<in> set ns. ntf_orgId n = snp_orgId (evp_request p) \<and> ntf_type n = event_type e \<and> ntf_readAt n = None \<and>
       ntf_dismissedAt n = None \<and> ntf_data n = buildNotificationData p"
    "st_server s \<Longrightarrow> st_sent t = st_sent s @
       map (\<lambda>n. (roomForUser (snp_orgId (evp_request p)) (ntf_recipientUserId n), WsNew (toNotificationResponse n))) ns"
proof -
  obtain title body where "on_event x e p = notify x p (\<lambda>d. event_recipients e d p) (event_type e) title body"
    using on_event_alt by blast
  then obtain rs where c: "createForUsers x \<lparr>cin_orgId = snp_orgId (evp_request p),
      cin_userIds = event_recipients e (st_db s) p, cin_type = event_type e, cin_title = title, cin_body = body,
      cin_data = buildNotificationData p\<rparr> s = (Inr rs, t)"
    using assms by (auto simp: notify_def run bind_Inr_iff)
  obtain ns where n: "st_db t = (st_db s)\<lparr>notifications := notifications (st_db s) @ ns\<rparr>"
      "map ntf_recipientUserId ns = filter (\<lambda>u. u \<noteq> []) (uniq (event_recipients e (st_db s) p))"
      "\<forall>n \<in> set ns. ntf_orgId n = snp_orgId (evp_request p) \<and> ntf_type n = event_type e \<and> ntf_readAt n = None \<and>
         ntf_dismissedAt n = None \<and> ntf_data n = buildNotificationData p"
      "st_server s \<Longrightarrow> st_sent t = st_sent s @
         map (\<lambda>n. (roomForUser (snp_orgId (evp_request p)) (ntf_recipientUserId n), WsNew (toNotificationResponse n))) ns"
    by (rule createForUsers_Inr [OF c]) auto
  have "distinct (map ntf_recipientUserId ns)" unfolding n(2) by simp
  moreover have "ntf_recipientUserId ` set ns = set (event_recipients e (st_db s) p) - {[]}"
    unfolding set_map [symmetric] n(2) by auto
  ultimately show thesis by (rule that [OF n(1) _ _ n(3) n(4)])
qed

text \<open>The rows the module writes keep the notification table's key and references.\<close>

definition notifications_ok :: "db \<Rightarrow> bool" where
  "notifications_ok d \<longleftrightarrow> distinct (map ntf_id (notifications d)) \<and>
     (\<forall>n \<in> set (notifications d). ntf_orgId n \<in> org_id ` set (orgs d) \<and> ntf_recipientUserId n \<in> usr_id ` set (users d))"

lemma notifications_keeps_create [inv]: "db_keeps notifications_ok (notification_create x inp)"
  by (rule db_keepsI)
    (auto simp: notification_create_def run find_by_id_None Let_def notifications_ok_def split: if_splits)

lemma notifications_keeps_update [inv]:
  assumes "\<And>n. ntf_id (f n) = ntf_id n \<and> ntf_orgId (f n) = ntf_orgId n \<and> ntf_recipientUserId (f n) = ntf_recipientUserId n"
  shows "db_keeps notifications_ok (updateNotifications p f)"
  using assms by (intro db_keepsI)
    (auto simp: run notifications_ok_def map_updateMany set_updateMany split: if_splits)

lemma db_keeps_publish [inv]: "db_keeps I (publishToUser o1 u w)"
  by (rule db_keepsI) (simp add: run)

lemma notifications_keeps_ops:
  "db_keeps notifications_ok (createForUsers x inp)" "db_keeps notifications_ok (markRead x i u o1)"
  "db_keeps notifications_ok (markAllRead x u o1)" "db_keeps notifications_ok (dismiss x i u o1)"
  "db_keeps notifications_ok (undismiss i u o1)"
  unfolding createForUsers_def createManyAndReturn_def markRead_def markAllRead_def dismiss_def undismiss_def
    repo_markRead_def repo_markAllRead_def repo_markDismissed_def repo_clearDismissed_def Let_def
  by (intro inv; simp)+

lemma notifications_keeps_on_event: "db_keeps notifications_ok (on_event x e p)"
proof -
  obtain title body where "on_event x e p = notify x p (\<lambda>d. event_recipients e d p) (event_type e) title body"
    using on_event_alt by blast
  then show ?thesis by (simp add: notify_def inv notifications_keeps_ops)
qed

end
