(* ===== verification/Gateway.thy ===== *)
theory Gateway
  imports NotificationFacts Routing
begin

text \<open>
  The WebSocket gateway of the notifications (\<open>notifications.gateway.ts\<close>): who may connect, the room a
  socket joins, the count of live connections, and what a publication delivers. The handlers are
  asynchronous: \<open>handleConnection\<close> is split where it waits, so that a disconnect can come between.
\<close>

section \<open>The handshake\<close>

record handshake =
  hs_authorization :: "string option"
  hs_authToken :: "json option"
  hs_authOrgId :: "json option"
  hs_queryToken :: "header option"
  hs_queryOrgId :: "header option"

definition nonempty :: "string \<Rightarrow> string option" where
  "nonempty v = truthy (Some v)"

definition auth_token :: "json option \<Rightarrow> string option" where
  "auth_token v = (case v of Some (JStr s) \<Rightarrow> nonempty (trim s) | _ \<Rightarrow> None)"

definition query_token :: "header option \<Rightarrow> string option" where
  "query_token v = (case header_first v of None \<Rightarrow> None | Some s \<Rightarrow> nonempty (trim s))"

definition first_some :: "'a option \<Rightarrow> 'a option \<Rightarrow> 'a option" where
  "first_some a b = (case a of None \<Rightarrow> b | Some v \<Rightarrow> Some v)"

definition extractToken :: "handshake \<Rightarrow> string option" where
  "extractToken h =
     (case (case hs_authorization h of None \<Rightarrow> None | Some v \<Rightarrow> bearer_token v) of
        Some token \<Rightarrow> Some (trim token)
      | None \<Rightarrow> first_some (auth_token (hs_authToken h)) (query_token (hs_queryToken h)))"

fun query_json :: "header \<Rightarrow> json" where
  "query_json (HeaderOne v) = JStr v"
| "query_json (HeaderMany vs) = JArr (map JStr vs)"

definition extractOrgId :: "handshake \<Rightarrow> string option op" where
  "extractOrgId h =
     (if hs_authOrgId h \<noteq> None then parseOrgIdOverride (hs_authOrgId h)
      else if hs_queryOrgId h \<noteq> None then parseOrgIdOverride (map_option query_json (hs_queryOrgId h))
      else ret None)"

text \<open>The origins the server answers: the configured list, any in development, none in production.\<close>

datatype cors_origins = AnyOrigin | Origins "string list"

definition resolveWsCorsOrigins :: "env_data \<Rightarrow> cors_origins" where
  "resolveWsCorsOrigins e =
     (let raw = (case WS_CORS_ORIGINS e of
          None \<Rightarrow> []
        | Some v \<Rightarrow> filter (\<lambda>w. w \<noteq> []) (map trim (split_on (CHR '','') v)))
      in if raw \<noteq> [] then Origins raw
         else if NODE_ENV e \<noteq> ENV_production then AnyOrigin
         else Origins [])"

section \<open>The state of the gateway\<close>

text \<open>
  A socket: whether the transport is up, \<open>client.data\<close>, the rooms joined, and the unread counts
  sent in \<open>notifications:hello\<close>.
\<close>

record socket =
  sck_connected :: bool
  sck_userId :: "id option"
  sck_orgId :: "id option"
  sck_rooms :: "string list"
  sck_hello :: "nat list"

definition fresh_socket :: socket where
  "fresh_socket = \<lparr>sck_connected = True, sck_userId = None, sck_orgId = None, sck_rooms = [], sck_hello = []\<rparr>"

text \<open>
  A line of the connection log; org and user appear as the first digits of a digest, which is an
  argument. \<open>gw_logger\<close> is absent where \<open>WS_LOG_CONNECTIONS\<close> is off.
\<close>

datatype ws_event = Connected | Disconnected

record ws_log =
  wlg_event :: ws_event
  wlg_socketId :: nat
  wlg_org :: string
  wlg_user :: string
  wlg_connections :: nat

record gw =
  gw_st :: st
  gw_connectedCount :: nat
  gw_sockets :: "(nat \<times> socket) list"
  gw_pending :: "(nat \<times> handshake \<times> string) list"
  gw_logger :: "(string \<Rightarrow> string) option"
  gw_log :: "ws_log list"

definition hashValue :: "(string \<Rightarrow> string) \<Rightarrow> string \<Rightarrow> string" where
  "hashValue sha256 v = take 8 (sha256 v)"

definition logConnection :: "ws_event \<Rightarrow> nat \<Rightarrow> id \<Rightarrow> id \<Rightarrow> gw \<Rightarrow> gw" where
  "logConnection event socketId orgId userId g =
     (case gw_logger g of
        None \<Rightarrow> g
      | Some sha256 \<Rightarrow> g\<lparr>gw_log := gw_log g @ [\<lparr>wlg_event = event, wlg_socketId = socketId, wlg_org = hashValue sha256 orgId,
          wlg_user = hashValue sha256 userId, wlg_connections = gw_connectedCount g\<rparr>]\<rparr>)"

text \<open>The configured logger, for a digest.\<close>

definition ws_logger :: "env \<Rightarrow> (string \<Rightarrow> string) \<Rightarrow> (string \<Rightarrow> string) option" where
  "ws_logger e sha256 = (if WS_LOG_CONNECTIONS e then Some sha256 else None)"

text \<open>\<open>afterInit\<close> hands the server to the realtime service.\<close>

definition afterInit :: "gw \<Rightarrow> gw" where
  "afterInit g = g\<lparr>gw_st := snd (setServer (gw_st g))\<rparr>"

definition socket_of :: "gw \<Rightarrow> nat \<Rightarrow> socket option" where
  "socket_of g i = map_of (gw_sockets g) i"

definition set_socket :: "nat \<Rightarrow> (socket \<Rightarrow> socket) \<Rightarrow> gw \<Rightarrow> gw" where
  "set_socket i f g = g\<lparr>gw_sockets := map (\<lambda>(j, k). (j, if j = i then f k else k)) (gw_sockets g)\<rparr>"

text \<open>\<open>client.disconnect()\<close>: the transport goes down and the socket leaves its rooms.\<close>

definition drop_transport :: "nat \<Rightarrow> gw \<Rightarrow> gw" where
  "drop_transport i = set_socket i (\<lambda>k. k\<lparr>sck_connected := False, sck_rooms := []\<rparr>)"

definition handleDisconnect :: "nat \<Rightarrow> gw \<Rightarrow> gw" where
  "handleDisconnect i g =
     (let g1 = (case socket_of g i of
          None \<Rightarrow> g
        | Some k \<Rightarrow> (case (truthy (sck_userId k), truthy (sck_orgId k)) of
              (Some userId, Some orgId) \<Rightarrow>
                logConnection Disconnected i orgId userId (g\<lparr>gw_connectedCount := gw_connectedCount g - 1\<rparr>)
            | _ \<Rightarrow> g))
      in set_socket i (\<lambda>k. k\<lparr>sck_userId := None, sck_orgId := None\<rparr>) g1)"

text \<open>
  A disconnect of a live transport, from either side, runs \<open>handleDisconnect\<close>; \<open>client.disconnect()\<close> on
  a socket that is already down does nothing.
\<close>

definition disconnect :: "nat \<Rightarrow> gw \<Rightarrow> gw" where
  "disconnect i g = (case socket_of g i of
       None \<Rightarrow> g
     | Some k \<Rightarrow> if sck_connected k then handleDisconnect i (drop_transport i g) else g)"

text \<open>The first part of \<open>handleConnection\<close>, up to the first \<open>await\<close>.\<close>

definition handleConnection_start :: "nat \<Rightarrow> handshake \<Rightarrow> gw \<Rightarrow> gw" where
  "handleConnection_start i h g =
     (let g1 = g\<lparr>gw_sockets := (i, fresh_socket) # gw_sockets g\<rparr> in
      case truthy (extractToken h) of
        None \<Rightarrow> disconnect i g1
      | Some token \<Rightarrow> g1\<lparr>gw_pending := (i, h, token) # gw_pending g\<rparr>)"

text \<open>The \<open>try\<close> block up to the user: the override, the token, the payload.\<close>

definition authenticate :: "ext \<Rightarrow> env_data \<Rightarrow> handshake \<Rightarrow> string \<Rightarrow> auth_user op" where
  "authenticate x e h token =
     bind (extractOrgId h) (\<lambda>orgIdOverride.
     bind (verifyAccessToken x e token) (\<lambda>payload.
     validatePayload payload orgIdOverride))"

text \<open>
  The socket is registered in its room and greeted with its unread count. The wait for the count is part of the
  step, so a disconnect comes before or after the greeting and not between registration and greeting.
\<close>

definition register_socket :: "nat \<Rightarrow> id \<Rightarrow> id \<Rightarrow> gw \<Rightarrow> gw" where
  "register_socket i userId orgId g =
     (let g1 = set_socket i (\<lambda>k. k\<lparr>sck_userId := Some userId, sck_orgId := Some orgId,
            sck_rooms := (if sck_connected k then [roomForUser orgId userId] else [])\<rparr>) g;
          g2 = logConnection Connected i orgId userId (g1\<lparr>gw_connectedCount := gw_connectedCount g1 + 1\<rparr>)
      in case countUnread userId orgId (gw_st g2) of
           (Inl _, s) \<Rightarrow> disconnect i (g2\<lparr>gw_st := s\<rparr>)
         | (Inr unreadCount, s) \<Rightarrow>
             set_socket i (\<lambda>k. k\<lparr>sck_hello := sck_hello k @ [unreadCount]\<rparr>) (g2\<lparr>gw_st := s\<rparr>))"

text \<open>The rest of \<open>handleConnection\<close>, when the authentication comes back.\<close>

definition handleConnection_finish :: "ext \<Rightarrow> env_data \<Rightarrow> nat \<Rightarrow> handshake \<Rightarrow> string \<Rightarrow> gw \<Rightarrow> gw" where
  "handleConnection_finish x e i h token g =
     (let g0 = g\<lparr>gw_pending := remove1 (i, h, token) (gw_pending g)\<rparr> in
      case authenticate x e h token (gw_st g0) of
        (Inl _, s) \<Rightarrow> disconnect i (g0\<lparr>gw_st := s\<rparr>)
      | (Inr user, s) \<Rightarrow>
          (let g1 = g0\<lparr>gw_st := s\<rparr> in
           case truthy (aut_orgId user) of
             None \<Rightarrow> disconnect i g1
           | Some orgId \<Rightarrow> register_socket i (aut_sub user) orgId g1))"

text \<open>\<open>handleConnection\<close> when nothing comes between.\<close>

definition handleConnection :: "ext \<Rightarrow> env_data \<Rightarrow> nat \<Rightarrow> handshake \<Rightarrow> gw \<Rightarrow> gw" where
  "handleConnection x e i h g =
     (let g1 = handleConnection_start i h g in
      case truthy (extractToken h) of None \<Rightarrow> g1
      | Some token \<Rightarrow> handleConnection_finish x e i h token g1)"

text \<open>Who gets a message published to a room.\<close>

definition delivered_to :: "gw \<Rightarrow> string \<Rightarrow> nat list" where
  "delivered_to g room = map fst (filter (\<lambda>(i, k). room \<in> set (sck_rooms k)) (gw_sockets g))"

section \<open>Steps\<close>

text \<open>
  What the room names rely on: no user has an empty id, and the org ids of the users contain no colon
  (both are UUIDs).
\<close>

definition plain_ids :: "db \<Rightarrow> bool" where
  "plain_ids d \<longleftrightarrow> list_all (\<lambda>u. usr_id u \<noteq> [] \<and> (case usr_orgId u of None \<Rightarrow> True | Some v \<Rightarrow> CHR '':'' \<notin> set v)) (users d)"

text \<open>
  The events of the server: a new socket, an authentication that comes back, a transport that
  closes, and any change of the rest of the system.
\<close>

inductive gw_step :: "ext \<Rightarrow> env_data \<Rightarrow> gw \<Rightarrow> gw \<Rightarrow> bool" for x e where
  gw_connect: "i \<notin> fst ` set (gw_sockets g) \<Longrightarrow> gw_step x e g (handleConnection_start i h g)"
| gw_authenticated: "(i, h, token) \<in> set (gw_pending g) \<Longrightarrow> gw_step x e g (handleConnection_finish x e i h token g)"
| gw_close: "socket_of g i = Some k \<Longrightarrow> sck_connected k \<Longrightarrow> gw_step x e g (disconnect i g)"
| gw_other: "plain_ids (st_db s) \<Longrightarrow> gw_step x e g (g\<lparr>gw_st := s\<rparr>)"

inductive gw_reach :: "ext \<Rightarrow> env_data \<Rightarrow> st \<Rightarrow> gw \<Rightarrow> bool" for x e s0 where
  gw_init: "plain_ids (st_db s0) \<Longrightarrow> gw_reach x e s0 \<lparr>gw_st = s0, gw_connectedCount = 0, gw_sockets = [], gw_pending = [],
    gw_logger = l, gw_log = []\<rparr>"
| gw_more: "gw_reach x e s0 g \<Longrightarrow> gw_step x e g g1 \<Longrightarrow> gw_reach x e s0 g1"

inductive_cases gw_stepE: "gw_step x e g g1"

section \<open>Lemmas\<close>

text \<open>A socket with a session: \<open>handleDisconnect\<close> would count it down.\<close>

definition in_session :: "socket \<Rightarrow> bool" where
  "in_session k \<longleftrightarrow> truthy (sck_userId k) \<noteq> None \<and> truthy (sck_orgId k) \<noteq> None"

definition sessions :: "gw \<Rightarrow> nat" where
  "sessions g = length (filter (\<lambda>(i, k). in_session k) (gw_sockets g))"

text \<open>
  The invariant: the count is the number of sockets with a session, a pending socket has none, and
  a socket is in no room but the one of the user and org of its session.
\<close>

definition session_ok :: "socket \<Rightarrow> bool" where
  "session_ok k \<longleftrightarrow> (case (sck_userId k, sck_orgId k) of
       (None, None) \<Rightarrow> sck_rooms k = []
     | (Some u, Some o1) \<Rightarrow> u \<noteq> [] \<and> o1 \<noteq> [] \<and> CHR '':'' \<notin> set o1 \<and> set (sck_rooms k) \<subseteq> {roomForUser o1 u}
     | _ \<Rightarrow> False)"

definition gw_ok :: "gw \<Rightarrow> bool" where
  "gw_ok g \<longleftrightarrow> distinct (map fst (gw_sockets g)) \<and> gw_connectedCount g = sessions g \<and>
     distinct (map fst (gw_pending g)) \<and>
     (\<forall>p \<in> set (gw_pending g). \<exists>k. socket_of g (fst p) = Some k \<and> sck_userId k = None) \<and>
     (\<forall>q \<in> set (gw_sockets g). session_ok (snd q))"

lemma gw_ok_state [simp]: "gw_ok (g\<lparr>gw_st := s\<rparr>) \<longleftrightarrow> gw_ok g"
  by (simp add: gw_ok_def sessions_def socket_of_def)

lemma logConnection_frame [simp]:
  "gw_st (logConnection ev i o1 u g) = gw_st g" "gw_connectedCount (logConnection ev i o1 u g) = gw_connectedCount g"
  "gw_sockets (logConnection ev i o1 u g) = gw_sockets g" "gw_pending (logConnection ev i o1 u g) = gw_pending g"
  "gw_logger (logConnection ev i o1 u g) = gw_logger g" "socket_of (logConnection ev i o1 u g) j = socket_of g j"
  "gw_ok (logConnection ev i o1 u g) \<longleftrightarrow> gw_ok g"
  by (simp_all add: logConnection_def gw_ok_def sessions_def socket_of_def split: option.split)

lemma logConnection_set_socket: "set_socket j f (logConnection ev i o1 u g) = logConnection ev i o1 u (set_socket j f g)"
  by (simp add: logConnection_def set_socket_def split: option.split)

lemma keys_set_socket [simp]: "map fst (gw_sockets (set_socket i f g)) = map fst (gw_sockets g)"
  by (simp add: set_socket_def case_prod_beta comp_def)

lemma socket_of_set_socket: "socket_of (set_socket i f g) j = (if j = i then map_option f (socket_of g i) else socket_of g j)"
proof -
  have "map_of (map (\<lambda>(j, k). (j, if j = i then f k else k)) ks) j =
    (if j = i then map_option f (map_of ks i) else map_of ks j)" for ks by (induction ks) auto
  then show ?thesis by (simp add: socket_of_def set_socket_def)
qed

lemma pending_set_socket [simp]:
  "gw_pending (set_socket i f g) = gw_pending g" "gw_connectedCount (set_socket i f g) = gw_connectedCount g"
  "gw_st (set_socket i f g) = gw_st g"
  by (simp_all add: set_socket_def)

lemma set_set_socket: "q \<in> set (gw_sockets (set_socket i f g)) \<Longrightarrow>
  q \<in> set (gw_sockets g) \<or> (\<exists>k. (i, k) \<in> set (gw_sockets g) \<and> q = (i, f k))"
  by (auto simp: set_socket_def split: if_splits)

lemma socket_of_mem: "socket_of g i = Some k \<Longrightarrow> (i, k) \<in> set (gw_sockets g)"
  by (simp add: socket_of_def map_of_SomeD)

text \<open>Changing one socket changes the number of sessions by what that socket counts.\<close>

lemma sessions_set_socket:
  assumes "distinct (map fst (gw_sockets g))" "socket_of g i = Some k"
  shows "sessions (set_socket i f g) + (if in_session k then 1 else 0) =
    sessions g + (if in_session (f k) then 1 else 0)"
proof -
  have "distinct (map fst ks) \<Longrightarrow> map_of ks i = Some k \<Longrightarrow>
    length (filter (\<lambda>(i, k). in_session k) (map (\<lambda>(j, k). (j, if j = i then f k else k)) ks)) + (if in_session k then 1 else 0)
      = length (filter (\<lambda>(i, k). in_session k) ks) + (if in_session (f k) then 1 else 0)" for ks
  proof (induction ks)
    case (Cons q ks)
    obtain j m where q: "q = (j, m)" by (cases q)
    show ?case
    proof (cases "j = i")
      case True
      have "map (\<lambda>(j, k). (j, if j = i then f k else k)) ks = ks"
        using Cons.prems True q by (intro map_idI) force
      then show ?thesis using Cons.prems True q by auto
    next
      case False
      then show ?thesis using Cons q by auto
    qed
  qed simp
  then show ?thesis using assms by (simp add: sessions_def socket_of_def set_socket_def)
qed

lemma gw_ok_update:
  assumes "gw_ok g" "socket_of g i = Some k" "session_ok (f k)"
    and pend: "sck_userId (f k) = None \<or> i \<notin> fst ` set (gw_pending g)"
    and count: "c + (if in_session k then 1 else 0) = gw_connectedCount g + (if in_session (f k) then 1 else 0)"
  shows "gw_ok ((set_socket i f g)\<lparr>gw_connectedCount := c\<rparr>)"
proof -
  have d: "distinct (map fst (gw_sockets g))" and n: "gw_connectedCount g = sessions g"
    using assms(1) by (simp_all add: gw_ok_def)
  have "c = sessions (set_socket i f g)"
    using sessions_set_socket [OF d assms(2), of f] count n by simp
  moreover have "\<exists>k. socket_of (set_socket i f g) (fst p) = Some k \<and> sck_userId k = None" if p: "p \<in> set (gw_pending g)" for p
  proof -
    have "\<exists>k. socket_of g (fst p) = Some k \<and> sck_userId k = None" using assms(1) p by (simp add: gw_ok_def)
    then show ?thesis using pend p assms(2) by (auto simp: socket_of_set_socket)
  qed
  moreover have "session_ok (snd q)" if q: "q \<in> set (gw_sockets (set_socket i f g))" for q
  proof -
    have "session_ok (snd q)" if "q \<in> set (gw_sockets g)" using assms(1) that by (simp add: gw_ok_def)
    moreover have "m = k" if "(i, m) \<in> set (gw_sockets g)" for m
      using that d assms(2) by (simp add: socket_of_def)
    ultimately show ?thesis using set_set_socket [OF q] assms(3) by auto
  qed
  ultimately show ?thesis
    using assms(1) d by (simp add: gw_ok_def sessions_def socket_of_def)
qed

lemma session_ok_fresh [simp]: "session_ok fresh_socket" "\<not> in_session fresh_socket"
  by (simp_all add: session_ok_def fresh_socket_def in_session_def)

text \<open>A disconnect ends the session of the socket, if it has one, and counts it down.\<close>

definition dead_socket :: "socket \<Rightarrow> socket" where
  "dead_socket k = k\<lparr>sck_connected := False, sck_rooms := [], sck_userId := None, sck_orgId := None\<rparr>"

definition log_end :: "nat \<Rightarrow> socket \<Rightarrow> gw \<Rightarrow> gw" where
  "log_end i k g = (if in_session k then logConnection Disconnected i (coalesce (sck_orgId k) []) (coalesce (sck_userId k) []) g else g)"

lemma log_end_frame [simp]:
  "gw_st (log_end i k g) = gw_st g" "gw_connectedCount (log_end i k g) = gw_connectedCount g"
  "gw_pending (log_end i k g) = gw_pending g" "socket_of (log_end i k g) j = socket_of g j" "gw_ok (log_end i k g) \<longleftrightarrow> gw_ok g"
  by (simp_all add: log_end_def)

lemma disconnect_eq:
  assumes "socket_of g i = Some k" "sck_connected k"
  shows "disconnect i g = log_end i k ((set_socket i dead_socket g)\<lparr>gw_connectedCount :=
    (if in_session k then gw_connectedCount g - 1 else gw_connectedCount g)\<rparr>)"
proof -
  have "set_socket i h (set_socket i f g) = set_socket i (\<lambda>k. h (f k)) g" for f h g
    by (simp add: set_socket_def comp_def case_prod_beta cong: if_cong)
  moreover have "set_socket i h (g\<lparr>gw_connectedCount := c\<rparr>) = (set_socket i h g)\<lparr>gw_connectedCount := c\<rparr>" for h g c
    by (simp add: set_socket_def)
  ultimately show ?thesis
    using assms by (auto simp: disconnect_def handleDisconnect_def drop_transport_def socket_of_set_socket log_end_def
      in_session_def dead_socket_def [abs_def] logConnection_set_socket truthy_def coalesce_def split: option.split)
qed

lemma session_counted:
  assumes "gw_ok g" "socket_of g i = Some k" "in_session k"
  shows "0 < gw_connectedCount g"
proof -
  have "(i, k) \<in> set (filter (\<lambda>(i, k). in_session k) (gw_sockets g))" using assms(2,3) by (simp add: socket_of_mem)
  then have "0 < sessions g" unfolding sessions_def by (rule length_pos_if_in_set)
  then show ?thesis using assms(1) by (simp add: gw_ok_def)
qed

lemma gw_ok_disconnect:
  assumes "gw_ok g" shows "gw_ok (disconnect i g)"
proof (cases "socket_of g i")
  case (Some k)
  show ?thesis
  proof (cases "sck_connected k")
    case True
    have "0 < gw_connectedCount g" if "in_session k" using session_counted [OF assms Some that] .
    then show ?thesis unfolding disconnect_eq [OF Some True] log_end_frame
      by (intro gw_ok_update [OF assms Some]) (simp_all add: session_ok_def dead_socket_def in_session_def)
  qed (use assms Some in \<open>simp add: disconnect_def\<close>)
qed (use assms in \<open>simp add: disconnect_def\<close>)

lemma disconnect_frame [simp]: "gw_st (disconnect i g) = gw_st g" "gw_pending (disconnect i g) = gw_pending g"
  by (simp_all add: disconnect_def handleDisconnect_def drop_transport_def split: option.splits prod.split)

lemma gw_ok_start:
  assumes "gw_ok g" "i \<notin> fst ` set (gw_sockets g)"
  shows "gw_ok (handleConnection_start i h g)"
proof -
  define g1 where "g1 = g\<lparr>gw_sockets := (i, fresh_socket) # gw_sockets g\<rparr>"
  have other: "socket_of g1 j = socket_of g j" if "socket_of g j = Some k" for j k
    using that assms(2) socket_of_mem [OF that] by (force simp: g1_def socket_of_def)
  have self: "socket_of g1 i = Some fresh_socket" by (simp add: g1_def socket_of_def)
  have pend: "i \<notin> fst ` set (gw_pending g)"
    using assms socket_of_mem by (force simp: gw_ok_def)
  have g1: "gw_ok g1"
    using assms other by (auto simp: gw_ok_def g1_def sessions_def)
  have "gw_ok (g1\<lparr>gw_pending := (i, h, token) # gw_pending g\<rparr>)" for token
    using g1 pend self by (auto simp: gw_ok_def g1_def sessions_def socket_of_def fresh_socket_def)
  then show ?thesis
    using gw_ok_disconnect [OF g1] by (simp add: handleConnection_start_def g1_def Let_def split: option.splits)
qed

text \<open>What the authentication lets through: a user of the database, in an org named without a colon.\<close>

lemma split_on_chars: "c \<in> set s \<Longrightarrow> c = sep \<or> (\<exists>p \<in> set (split_on sep s). c \<in> set p)"
  by (induction s) (auto split: list.splits)

lemma is_uuid_no_colon: "is_uuid v \<Longrightarrow> CHR '':'' \<notin> set v"
proof
  assume "is_uuid v" "CHR '':'' \<in> set v"
  then obtain p where "p \<in> set (split_on (CHR ''-'') v)" "CHR '':'' \<in> set p"
    using split_on_chars [of "CHR '':''" v "CHR ''-''"] by auto
  then have "is_hex (CHR '':'')" using \<open>is_uuid v\<close> by (auto simp: is_uuid_def Let_def list_all_iff)
  then show False by (simp add: is_hex_def lower_char_def)
qed

lemma parseOrgIdOverride_Inr:
  assumes "parseOrgIdOverride v s = (Inr ov, t)"
  shows "ov = None \<or> (\<exists>w. ov = Some w \<and> is_uuid w)"
proof -
  have "ov = None \<or> (\<exists>w. ov = Some w \<and> is_uuid w)"
    if "bind (require (is_uuid w) e) (\<lambda>_. ret (Some w)) s = (Inr ov, t)" for w e
    using that by (auto simp: run split: if_splits)
  then show ?thesis
    using assms by (auto simp: parseOrgIdOverride_def Let_def run split: if_splits option.splits json.splits list.splits)
qed

lemma readonly_authenticate [frame]: "readonly (authenticate x e h token)"
  unfolding authenticate_def extractOrgId_def verifyAccessToken_def by (intro frame)

lemma authenticate_Inr:
  assumes "authenticate x e h token s = (Inr a, t)" "plain_ids (st_db s)" "truthy (aut_orgId a) = Some o1"
  shows "aut_sub a \<noteq> [] \<and> o1 \<noteq> [] \<and> CHR '':'' \<notin> set o1"
proof -
  obtain ov p s1 s2 where ov: "extractOrgId h s = (Inr ov, s1)" and p: "validatePayload p ov s2 = (Inr a, t)"
    and tk: "verifyAccessToken x e token s1 = (Inr p, s2)"
    using assms(1) by (auto simp: authenticate_def bind_Inr_iff)
  have "readonly (extractOrgId h)" unfolding extractOrgId_def by (intro frame)
  moreover have "readonly (verifyAccessToken x e token)" unfolding verifyAccessToken_def by (intro frame)
  ultimately have d: "st_db s2 = st_db s" using readonlyD ov tk by metis
  have uu: "ov = None \<or> (\<exists>w. ov = Some w \<and> is_uuid w)"
    using ov parseOrgIdOverride_Inr by (auto simp: extractOrgId_def run split: if_splits)
  show ?thesis using p
  proof (rule validatePayload_Inr)
    fix u assume u: "findUser (st_db s2) (jwt_sub p) = Some u" "aut_sub a = usr_id u"
      "aut_orgId a = usr_orgId u \<or> truthy (usr_orgId u) = None \<and>
         ''platform_superadmin'' \<in> set (getRoleKeys (st_db s2) (usr_id u)) \<and> aut_orgId a = ov \<and> truthy ov \<noteq> None"
    have "u \<in> set (users (st_db s))" using u(1) d by (simp add: findUser_SomeD)
    then have plain: "usr_id u \<noteq> []" "case usr_orgId u of None \<Rightarrow> True | Some v \<Rightarrow> CHR '':'' \<notin> set v"
      using assms(2) by (auto simp: plain_ids_def list_all_iff)
    have o1: "aut_orgId a = Some o1" "o1 \<noteq> []" using assms(3) by (auto simp: truthy_Some_iff)
    have "CHR '':'' \<notin> set o1" using u(3) o1(1) plain(2) uu is_uuid_no_colon by (auto split: option.splits)
    then show ?thesis using o1(2) plain(1) u(2) by simp
  qed
qed

subsection \<open>The invariant along the steps\<close>

definition session_socket :: "id \<Rightarrow> id \<Rightarrow> socket \<Rightarrow> socket" where
  "session_socket userId orgId k = k\<lparr>sck_userId := Some userId, sck_orgId := Some orgId,
     sck_rooms := (if sck_connected k then [roomForUser orgId userId] else [])\<rparr>"

lemma register_socket_eq:
  "register_socket i u o1 g = set_socket i (\<lambda>k. k\<lparr>sck_hello := sck_hello k @ [repo_countUnread (st_db (gw_st g)) u o1]\<rparr>)
     (logConnection Connected i o1 u ((set_socket i (session_socket u o1) g)\<lparr>gw_connectedCount := gw_connectedCount g + 1\<rparr>))"
  by (simp add: register_socket_def countUnread_def run Let_def session_socket_def [abs_def])

lemma session_hello [simp]: "session_ok (k\<lparr>sck_hello := m\<rparr>) = session_ok k" "in_session (k\<lparr>sck_hello := m\<rparr>) = in_session k"
  by (simp_all add: session_ok_def in_session_def split: option.splits)

lemma gw_ok_hello:
  assumes "gw_ok g" shows "gw_ok (set_socket i (\<lambda>k. k\<lparr>sck_hello := f k\<rparr>) g)"
proof (cases "socket_of g i")
  case None
  then have "i \<notin> fst ` set (gw_sockets g)" by (simp add: socket_of_def map_of_eq_None_iff)
  then have "gw_sockets (set_socket i (\<lambda>k. k\<lparr>sck_hello := f k\<rparr>) g) = gw_sockets g"
    unfolding set_socket_def by (force intro: map_idI)
  then have "set_socket i (\<lambda>k. k\<lparr>sck_hello := f k\<rparr>) g = g" by (simp add: set_socket_def)
  then show ?thesis using assms by simp
next
  case (Some k)
  have k: "session_ok k" using assms socket_of_mem [OF Some] by (auto simp: gw_ok_def)
  have pend: "sck_userId k = None \<or> i \<notin> fst ` set (gw_pending g)"
  proof (cases "i \<in> fst ` set (gw_pending g)")
    case True
    then obtain q where "q \<in> set (gw_pending g)" "i = fst q" by auto
    then show ?thesis using assms Some by (auto simp: gw_ok_def)
  qed simp
  have "gw_ok ((set_socket i (\<lambda>k. k\<lparr>sck_hello := f k\<rparr>) g)\<lparr>gw_connectedCount := gw_connectedCount g\<rparr>)"
    by (rule gw_ok_update [OF assms Some]) (use k pend in simp_all)
  then show ?thesis by (simp add: set_socket_def)
qed

lemma gw_ok_register:
  assumes "gw_ok g" "socket_of g i = Some k" "sck_userId k = None" "i \<notin> fst ` set (gw_pending g)"
    and "u \<noteq> []" "o1 \<noteq> []" "CHR '':'' \<notin> set o1"
  shows "gw_ok (register_socket i u o1 g)"
proof -
  have s: "session_ok (session_socket u o1 k)" "in_session (session_socket u o1 k)" "\<not> in_session k"
    using assms(3,5-7) by (auto simp: session_ok_def session_socket_def in_session_def truthy_def)
  have "gw_ok ((set_socket i (session_socket u o1) g)\<lparr>gw_connectedCount := gw_connectedCount g + 1\<rparr>)"
    by (rule gw_ok_update [OF assms(1,2)]) (use s assms(4) in simp_all)
  then show ?thesis unfolding register_socket_eq by (intro gw_ok_hello) simp
qed

lemma register_state [simp]: "gw_st (register_socket i u o1 g) = gw_st g"
  by (simp add: register_socket_eq)

lemma gw_ok_pending:
  assumes "gw_ok g"
  shows "gw_ok (g\<lparr>gw_pending := remove1 q (gw_pending g)\<rparr>)"
proof -
  have "distinct (map fst (gw_pending g))" using assms by (simp add: gw_ok_def)
  then have "distinct (map fst (remove1 q (gw_pending g)))"
    unfolding distinct_map by (auto intro: inj_on_subset dest: notin_set_remove1)
  then show ?thesis
    using assms unfolding gw_ok_def by (auto simp: sessions_def socket_of_def simp del: map_of_eq_Some_iff dest: notin_set_remove1)
qed

lemma gw_ok_finish:
  assumes "gw_ok g" "(i, h, token) \<in> set (gw_pending g)" "plain_ids (st_db (gw_st g))"
  shows "gw_ok (handleConnection_finish x e i h token g) \<and>
    plain_ids (st_db (gw_st (handleConnection_finish x e i h token g)))"
proof -
  define ps where "ps = remove1 (i, h, token) (gw_pending g)"
  have d: "distinct (map fst (gw_pending g))" using assms(1) by (simp add: gw_ok_def)
  then have dp: "distinct (gw_pending g)" by (simp add: distinct_map)
  have ps: "set ps = set (gw_pending g) - {(i, h, token)}" using dp by (simp add: ps_def)
  have out: "i \<notin> fst ` set ps"
    using d assms(2) unfolding ps distinct_map inj_on_def by force
  obtain k where k: "socket_of g i = Some k" "sck_userId k = None"
    using assms(1,2) by (auto simp: gw_ok_def)
  have g0: "gw_ok (g\<lparr>gw_pending := ps, gw_st := s\<rparr>)" for s
    using gw_ok_pending [OF assms(1)] by (simp add: ps_def)
  obtain r s where r: "authenticate x e h token (gw_st g) = (r, s)" by (cases "authenticate x e h token (gw_st g)")
  have db: "st_db s = st_db (gw_st g)" using readonlyD [OF readonly_authenticate r] .
  have "gw_ok (register_socket i (aut_sub a) o1 (g\<lparr>gw_pending := ps, gw_st := s\<rparr>))"
    if "r = Inr a" "truthy (aut_orgId a) = Some o1" for a o1
  proof -
    have "aut_sub a \<noteq> [] \<and> o1 \<noteq> [] \<and> CHR '':'' \<notin> set o1"
      using authenticate_Inr r that assms(3) by blast
    then show ?thesis using k out by (intro gw_ok_register [OF g0]) (simp_all add: socket_of_def)
  qed
  then show ?thesis
    using gw_ok_disconnect [OF g0] r db assms(3)
    by (auto simp: handleConnection_finish_def ps_def Let_def split: sum.splits option.splits)
qed

lemma handleConnection_start_state [simp]: "gw_st (handleConnection_start i h g) = gw_st g"
  by (simp add: handleConnection_start_def Let_def split: option.splits)

lemma gw_reach_ok: "gw_reach x e s0 g \<Longrightarrow> gw_ok g \<and> plain_ids (st_db (gw_st g))"
proof (induction rule: gw_reach.induct)
  case gw_init
  then show ?case by (simp add: gw_ok_def sessions_def)
next
  case (gw_more g g1)
  show ?case using gw_more.hyps(2)
    by (rule gw_stepE) (use gw_more.IH gw_ok_start gw_ok_disconnect gw_ok_finish in simp_all)
qed

subsection \<open>Rooms\<close>

lemma roomForUser_inj:
  assumes "roomForUser o1 u1 = roomForUser o2 u2" "CHR '':'' \<notin> set o1" "CHR '':'' \<notin> set o2"
  shows "o1 = o2 \<and> u1 = u2"
proof -
  have "o1 @ CHR '':'' # ''user:'' @ u1 = o2 @ CHR '':'' # ''user:'' @ u2"
    using assms(1) by (simp add: roomForUser_def)
  then have "o1 = o2"
    using split_on_append [OF assms(2), of "''user:'' @ u1"] split_on_append [OF assms(3), of "''user:'' @ u2"] by simp
  then show ?thesis using assms(1) by (simp add: roomForUser_def)
qed

lemma delivered_to_session:
  assumes "gw_reach x e s0 g" "CHR '':'' \<notin> set o1" "i \<in> set (delivered_to g (roomForUser o1 u))"
  shows "\<exists>k. socket_of g i = Some k \<and> sck_userId k = Some u \<and> sck_orgId k = Some o1"
proof -
  have ok: "gw_ok g" using gw_reach_ok [OF assms(1)] by simp
  obtain k where k: "(i, k) \<in> set (gw_sockets g)" "roomForUser o1 u \<in> set (sck_rooms k)"
    using assms(3) by (auto simp: delivered_to_def)
  then have "session_ok k" using ok by (auto simp: gw_ok_def)
  then have "sck_userId k = Some u \<and> sck_orgId k = Some o1"
    using k(2) assms(2) by (auto simp: session_ok_def dest: roomForUser_inj split: option.splits)
  moreover have "socket_of g i = Some k" using k(1) ok by (simp add: socket_of_def gw_ok_def)
  ultimately show ?thesis by blast
qed

subsection \<open>What a connection does\<close>

lemma socket_of_frame [simp]:
  "socket_of (g\<lparr>gw_connectedCount := c\<rparr>) i = socket_of g i" "socket_of (g\<lparr>gw_pending := ps\<rparr>) i = socket_of g i"
  "socket_of (g\<lparr>gw_st := s\<rparr>) i = socket_of g i" "socket_of (g\<lparr>gw_sockets := (i, k) # ks\<rparr>) i = Some k"
  by (simp_all add: socket_of_def)

lemma handleConnection_accepts:
  assumes "i \<notin> fst ` set (gw_sockets g)" "truthy (extractToken h) = Some token"
    and "authenticate x e h token (gw_st g) = (Inr a, s)" "truthy (aut_orgId a) = Some o1"
  shows "socket_of (handleConnection x e i h g) i = Some \<lparr>sck_connected = True, sck_userId = Some (aut_sub a),
      sck_orgId = Some o1, sck_rooms = [roomForUser o1 (aut_sub a)],
      sck_hello = [repo_countUnread (st_db (gw_st g)) (aut_sub a) o1]\<rparr> \<and>
    gw_connectedCount (handleConnection x e i h g) = gw_connectedCount g + 1"
proof -
  have "st_db s = st_db (gw_st g)" using readonlyD [OF readonly_authenticate assms(3)] .
  then show ?thesis
    using assms(2-4) by (simp add: handleConnection_def handleConnection_start_def handleConnection_finish_def
      register_socket_eq socket_of_set_socket session_socket_def fresh_socket_def Let_def)
qed

lemma handleConnection_rejects:
  assumes "i \<notin> fst ` set (gw_sockets g)"
    and "truthy (extractToken h) = None \<or> (\<exists>token r s. truthy (extractToken h) = Some token \<and>
      authenticate x e h token (gw_st g) = (r, s) \<and> (\<forall>a. r = Inr a \<longrightarrow> truthy (aut_orgId a) = None))"
  shows "socket_of (handleConnection x e i h g) i = Some (dead_socket fresh_socket) \<and>
    gw_connectedCount (handleConnection x e i h g) = gw_connectedCount g"
proof -
  have d: "socket_of (disconnect i g1) i = Some (dead_socket fresh_socket) \<and> gw_connectedCount (disconnect i g1) = gw_connectedCount g1"
    if "socket_of g1 i = Some fresh_socket" for g1
    using that by (subst (1 2) disconnect_eq [OF that])
      (simp_all add: socket_of_set_socket fresh_socket_def in_session_def)
  have s: "socket_of (g\<lparr>gw_sockets := (i, fresh_socket) # gw_sockets g\<rparr>) i = Some fresh_socket"
    "socket_of (g\<lparr>gw_sockets := (i, fresh_socket) # gw_sockets g, gw_st := t\<rparr>) i = Some fresh_socket" for t
    by simp_all
  show ?thesis
    using assms(2) d [OF s(1)] d [OF s(2)]
    by (auto simp: handleConnection_def handleConnection_start_def handleConnection_finish_def Let_def split: sum.splits)
qed

text \<open>The live sessions are never more than the count.\<close>

lemma live_le_count:
  assumes "gw_ok g"
  shows "length (filter (\<lambda>(i, k). sck_connected k \<and> in_session k) (gw_sockets g)) \<le> gw_connectedCount g"
proof -
  have "length (filter (\<lambda>(i, k). sck_connected k \<and> in_session k) ks) \<le> length (filter (\<lambda>(i, k). in_session k) ks)" for ks
    by (induction ks) auto
  then show ?thesis using assms by (simp add: gw_ok_def sessions_def)
qed

subsection \<open>The connection log\<close>

text \<open>Where connections are logged, the lines of connections are those of disconnections and of the counted sockets.\<close>

definition lines_of :: "ws_event \<Rightarrow> gw \<Rightarrow> nat" where
  "lines_of ev g = length (filter (\<lambda>l. wlg_event l = ev) (gw_log g))"

definition log_balanced :: "gw \<Rightarrow> bool" where
  "log_balanced g \<longleftrightarrow> gw_logger g = None \<or> lines_of Connected g = lines_of Disconnected g + gw_connectedCount g"

lemma log_set_socket [simp]: "gw_log (set_socket i f g) = gw_log g" "gw_logger (set_socket i f g) = gw_logger g"
  by (simp_all add: set_socket_def)

lemma log_balanced_frame [simp]:
  "log_balanced (set_socket i f g) = log_balanced g" "log_balanced (g\<lparr>gw_st := s\<rparr>) = log_balanced g"
  "log_balanced (g\<lparr>gw_pending := ps\<rparr>) = log_balanced g" "log_balanced (g\<lparr>gw_sockets := ks\<rparr>) = log_balanced g"
  by (simp_all add: log_balanced_def lines_of_def)

lemma log_balanced_log:
  "log_balanced (logConnection Connected i o1 u (g\<lparr>gw_connectedCount := gw_connectedCount g + 1\<rparr>)) = log_balanced g"
  "0 < gw_connectedCount g \<Longrightarrow>
    log_balanced (logConnection Disconnected i o1 u (g\<lparr>gw_connectedCount := gw_connectedCount g - 1\<rparr>)) = log_balanced g"
  by (auto simp: log_balanced_def lines_of_def logConnection_def split: option.split)

lemma log_balanced_disconnect:
  assumes "gw_ok g" "log_balanced g" shows "log_balanced (disconnect i g)"
proof (cases "\<exists>k. socket_of g i = Some k \<and> sck_connected k")
  case True
  then obtain k where k: "socket_of g i = Some k" "sck_connected k" by blast
  show ?thesis
  proof (cases "in_session k")
    case True
    then show ?thesis
      using assms(2) log_balanced_log(2) [of "set_socket i dead_socket g"] session_counted [OF assms(1) k(1)]
      unfolding disconnect_eq [OF k] log_end_def by simp
  qed (use assms(2) in \<open>simp add: disconnect_eq [OF k] log_end_def log_balanced_def lines_of_def\<close>)
next
  case False
  then have "disconnect i g = g" by (auto simp: disconnect_def split: option.split)
  then show ?thesis using assms(2) by simp
qed

lemma log_balanced_register: "log_balanced g \<Longrightarrow> log_balanced (register_socket i u o1 g)"
  using log_balanced_log(1) [of i o1 u "set_socket i (session_socket u o1) g"] by (simp add: register_socket_eq)

lemma log_balanced_reach: "gw_reach x e s0 g \<Longrightarrow> log_balanced g"
proof (induction rule: gw_reach.induct)
  case gw_init
  then show ?case by (simp add: log_balanced_def lines_of_def)
next
  case (gw_more g g1)
  have ok: "gw_ok g" "plain_ids (st_db (gw_st g))" using gw_reach_ok [OF gw_more.hyps(1)] by simp_all
  show ?case using gw_more.hyps(2)
  proof (rule gw_stepE)
    fix i h assume i: "g1 = handleConnection_start i h g" "i \<notin> fst ` set (gw_sockets g)"
    let ?g1 = "g\<lparr>gw_sockets := (i, fresh_socket) # gw_sockets g\<rparr>"
    have "disconnect i ?g1 = log_end i fresh_socket ((set_socket i dead_socket ?g1)\<lparr>gw_connectedCount := gw_connectedCount g\<rparr>)"
      using disconnect_eq [of ?g1 i fresh_socket] by (simp add: fresh_socket_def in_session_def)
    then have "log_balanced (disconnect i ?g1)" using gw_more.IH by (simp add: log_end_def log_balanced_def lines_of_def)
    then show ?thesis using i gw_more.IH by (simp add: handleConnection_start_def Let_def split: option.split)
  next
    fix i h token assume i: "g1 = handleConnection_finish x e i h token g" "(i, h, token) \<in> set (gw_pending g)"
    then show ?thesis using gw_more.IH ok log_balanced_disconnect log_balanced_register gw_ok_pending [OF ok(1)]
      by (auto simp: handleConnection_finish_def Let_def split: sum.split option.split prod.split)
  qed (use gw_more.IH log_balanced_disconnect [OF ok(1)] in simp_all)
qed

end
