(* ===== verification/Hoare.thy ===== *)
theory Hoare
  imports Buildings Users
begin

text \<open>
  Triples over the database. \<open>hoare I P m Q\<close>: from a database with \<open>P\<close>, the action \<open>m\<close> returns a value
  and a database with \<open>Q\<close>, or throws and leaves a database with \<open>I\<close>. Invariants that hold only because
  of a check a service makes before it writes are proved with them; the rules for the checks add what
  was checked to the precondition of what follows.
\<close>

named_theorems hoare_rules \<open>rules of the triples\<close>

definition hoare :: "(db \<Rightarrow> bool) \<Rightarrow> (db \<Rightarrow> bool) \<Rightarrow> 'a op \<Rightarrow> ('a \<Rightarrow> db \<Rightarrow> bool) \<Rightarrow> bool" where
  "hoare I P m Q \<longleftrightarrow> (\<forall>s. P (st_db s) \<longrightarrow>
     (case m s of (Inl e, t) \<Rightarrow> I (st_db t) | (Inr v, t) \<Rightarrow> Q v (st_db t)))"

lemma hoareI:
  assumes "\<And>s v t. P (st_db s) \<Longrightarrow> m s = (Inr v, t) \<Longrightarrow> Q v (st_db t)"
    and "\<And>s e t. P (st_db s) \<Longrightarrow> m s = (Inl e, t) \<Longrightarrow> I (st_db t)"
  shows "hoare I P m Q"
  unfolding hoare_def using assms by (simp split: prod.split sum.split)

lemma hoareD:
  "hoare I P m Q \<Longrightarrow> P (st_db s) \<Longrightarrow> m s = (Inr v, t) \<Longrightarrow> Q v (st_db t)"
  "hoare I P m Q \<Longrightarrow> P (st_db s) \<Longrightarrow> m s = (Inl e, t) \<Longrightarrow> I (st_db t)"
  by (force simp: hoare_def)+

lemma db_keeps_hoare: "db_keeps I m \<longleftrightarrow> hoare I I m (\<lambda>_. I)"
proof
  assume "db_keeps I m"
  then have "I (st_db t)" if "I (st_db s)" "m s = (r, t)" for s t r
    using db_keepsD [of I m s] that by simp
  then show "hoare I I m (\<lambda>_. I)" by (blast intro: hoareI)
next
  assume h: "hoare I I m (\<lambda>_. I)"
  show "db_keeps I m"
  proof (rule db_keepsI)
    fix s :: st assume i: "I (st_db s)"
    obtain r t where m: "m s = (r, t)" by (cases "m s")
    then show "I (st_db (snd (m s)))" using hoareD [OF h i] by (cases r) auto
  qed
qed

lemma hoare_conseq:
  assumes "hoare I P m Q" "\<And>d. P' d \<Longrightarrow> P d" "\<And>v d. Q v d \<Longrightarrow> Q' v d"
  shows "hoare I P' m Q'"
  by (rule hoareI) (use assms hoareD [OF assms(1)] in blast)+

lemma hoare_pre: "hoare I P m Q \<Longrightarrow> (\<And>d. P' d \<Longrightarrow> P d) \<Longrightarrow> hoare I P' m Q"
  by (rule hoare_conseq)

lemma hoare_bind:
  assumes "hoare I P m Q" "\<And>v. hoare I (Q v) (k v) R"
  shows "hoare I P (bind m k) R"
proof (rule hoareI)
  fix s v t assume "P (st_db s)" "bind m k s = (Inr v, t)"
  then show "R v (st_db t)" unfolding bind_Inr_iff using hoareD(1) [OF assms(1)] hoareD(1) [OF assms(2)] by metis
next
  fix s e t assume "P (st_db s)" "bind m k s = (Inl e, t)"
  then show "I (st_db t)" using hoareD [OF assms(1)] hoareD(2) [OF assms(2)]
    by (cases "m s"; cases "fst (m s)") (auto simp: bind_app, blast)
qed

lemma hoare_bind_invariant: "db_keeps I m \<Longrightarrow> (\<And>d. P d \<Longrightarrow> I d) \<Longrightarrow> (\<And>v. hoare I I (k v) R) \<Longrightarrow> hoare I P (bind m k) R"
  unfolding db_keeps_hoare by (rule hoare_bind, erule hoare_pre)

lemma db_keeps_readonly: "readonly m \<Longrightarrow> db_keeps I m"
  by (rule db_keepsI) (metis readonlyD prod.collapse)

lemma hoare_readonly: "readonly m \<Longrightarrow> (\<And>d. P d \<Longrightarrow> I d) \<Longrightarrow> hoare I P m (\<lambda>_. P)"
  by (rule hoareI) (auto dest!: readonlyD)

lemma hoare_bind_readonly: "readonly m \<Longrightarrow> (\<And>d. P d \<Longrightarrow> I d) \<Longrightarrow> (\<And>v. hoare I P (k v) R) \<Longrightarrow> hoare I P (bind m k) R"
  by (rule hoare_bind [OF hoare_readonly])

lemma hoare_ret: "(\<And>d. P d \<Longrightarrow> Q v d) \<Longrightarrow> hoare I P (ret v) Q"
  and hoare_throw: "(\<And>d. P d \<Longrightarrow> I d) \<Longrightarrow> hoare I P (throw e) Q"
  by (simp_all add: hoare_def run)

lemma hoare_if: "(b \<Longrightarrow> hoare I P m1 Q) \<Longrightarrow> (\<not> b \<Longrightarrow> hoare I P m2 Q) \<Longrightarrow> hoare I P (if b then m1 else m2) Q"
  by simp

lemma hoare_option:
  "(v = None \<Longrightarrow> hoare I P m1 Q) \<Longrightarrow> (\<And>w. v = Some w \<Longrightarrow> hoare I P (m2 w) Q) \<Longrightarrow>
     hoare I P (case v of None \<Rightarrow> m1 | Some w \<Rightarrow> m2 w) Q"
  by (simp split: option.splits)

lemma hoare_query_bind: "(\<And>v. hoare I (\<lambda>d. P d \<and> f d = v) (k v) R) \<Longrightarrow> hoare I P (bind (query f) k) R"
  by (simp add: hoare_def run)

lemma hoare_get_db_bind: "(\<And>v. hoare I (\<lambda>d. P d \<and> d = v) (k v) R) \<Longrightarrow> hoare I P (bind get_db k) R"
  by (simp add: hoare_def run)

lemma hoare_draw_bind: "(\<And>v. hoare I P (k v) R) \<Longrightarrow> hoare I P (bind draw k) R"
  by (simp add: hoare_def run)

lemma hoare_require_bind:
  "(b \<Longrightarrow> hoare I P (k ()) R) \<Longrightarrow> (\<And>d. P d \<Longrightarrow> I d) \<Longrightarrow> hoare I P (bind (require b e) k) R"
  by (simp add: hoare_def run)

lemma hoare_some_or_bind:
  "(\<And>w. v = Some w \<Longrightarrow> hoare I P (k w) R) \<Longrightarrow> (\<And>d. P d \<Longrightarrow> I d) \<Longrightarrow> hoare I P (bind (some_or v e) k) R"
  by (cases v) (simp_all add: hoare_def run)

lemma hoare_some_or: "(\<And>d w. v = Some w \<Longrightarrow> P d \<Longrightarrow> Q w d) \<Longrightarrow> (\<And>d. P d \<Longrightarrow> I d) \<Longrightarrow> hoare I P (some_or v e) Q"
  by (cases v) (simp_all add: hoare_def run)

lemma hoare_scope_bind:
  "(\<And>o1. scope_of u = Some o1 \<Longrightarrow> hoare I P (k o1) R) \<Longrightarrow> (\<And>d. P d \<Longrightarrow> I d) \<Longrightarrow> hoare I P (bind (assertOrgScope u) k) R"
  by (cases "scope_of u") (simp_all add: hoare_def run)

lemma hoare_building_bind:
  "(\<And>b. hoare I (\<lambda>d. P d \<and> buildingInOrg d i o1 = Some b) (k b) R) \<Longrightarrow> (\<And>d. P d \<Longrightarrow> I d) \<Longrightarrow>
     hoare I P (bind (building_of_org o1 i) k) R"
  by (auto simp: hoare_def run split: option.splits)

lemma hoare_new_row_bind:
  "(\<And>i t. hoare I (\<lambda>d. P d \<and> i \<notin> set (ids d)) (k i t) R) \<Longrightarrow> (\<And>d. P d \<Longrightarrow> I d) \<Longrightarrow>
     hoare I P (bind (new_row x ids) (\<lambda>(i, t). k i t)) R"
  by (simp add: hoare_def run Let_def)

lemma hoare_unique_bind:
  "(b \<Longrightarrow> hoare I P (k ()) R) \<Longrightarrow> (\<And>d. P d \<Longrightarrow> I d) \<Longrightarrow> hoare I P (bind (unique_key b) k) R"
  and hoare_foreign_bind:
  "(b \<Longrightarrow> hoare I P (k ()) R) \<Longrightarrow> (\<And>d. P d \<Longrightarrow> I d) \<Longrightarrow> hoare I P (bind (foreign_key b) k) R"
  by (simp_all add: hoare_def run)

lemma hoare_write: "(\<And>d. P d \<Longrightarrow> Q () (f d)) \<Longrightarrow> hoare I P (write_db f) Q"
  by (simp add: hoare_def run)

lemma hoare_write_bind:
  "hoare I P' (k ()) R \<Longrightarrow> (\<And>d. P d \<Longrightarrow> P' (f d)) \<Longrightarrow> hoare I P (bind (write_db f) k) R"
  by (simp add: hoare_def run)

lemma hoare_on_duplicate: "hoare I P m Q \<Longrightarrow> hoare I P (on_duplicate msg m) Q"
  by (rule hoareI) (auto simp: on_duplicate_def catch_map_def dest: hoareD split: prod.splits sum.splits)

text \<open>A transaction need not keep the invariant where it throws.\<close>

lemma hoare_transaction:
  "hoare (\<lambda>_. True) P m Q \<Longrightarrow> (\<And>d. P d \<Longrightarrow> I d) \<Longrightarrow> hoare I P (transaction m) Q"
  by (rule hoareI) (auto dest: transaction_InrD hoareD transaction_error_db)

lemma hoare_weaken_error: "hoare I P m Q \<Longrightarrow> hoare (\<lambda>_. True) P m Q"
  by (rule hoareI) (auto dest: hoareD)

text \<open>A loop that keeps the invariant, with the effects it accumulates.\<close>

lemma hoare_for_each: "(\<And>a. a \<in> set as \<Longrightarrow> hoare I P (f a) (\<lambda>_. P)) \<Longrightarrow> (\<And>d. P d \<Longrightarrow> I d) \<Longrightarrow> hoare I P (for_each as f) (\<lambda>_. P)"
proof (induction as)
  case (Cons a as)
  then show ?case by (auto intro!: hoare_bind [where Q = "\<lambda>_. P"] hoare_ret)
qed (simp add: hoare_ret)

lemma db_keeps_for_each_mem: "(\<And>a. a \<in> set as \<Longrightarrow> db_keeps I (f a)) \<Longrightarrow> db_keeps I (for_each as f)"
  unfolding db_keeps_hoare by (rule hoare_for_each)

lemmas hoare_steps [hoare_rules] = hoare_scope_bind hoare_building_bind hoare_query_bind hoare_draw_bind
  hoare_require_bind hoare_some_or_bind hoare_new_row_bind hoare_unique_bind hoare_foreign_bind hoare_get_db_bind

end
