(* ===== verification/Units.thy ===== *)
theory Units
  imports OrgCatalog
begin

text \<open>
  The units module (\<open>modules/units\<close>): input and output objects, repository, service and controller.
  The two input classes share all their fields but \<open>label\<close>, so they extend one record; a field is
  tri-state, because \<open>undefined\<close> leaves a column and \<open>null\<close> clears it.
\<close>

section \<open>Input objects\<close>

record unit_fields =
  udt_floor :: "int js"
  udt_notes :: "string js"
  udt_unitTypeId :: "id js"
  udt_ownerId :: "id js"
  udt_maintenancePayer :: "MaintenancePayer js"
  udt_unitSize :: "rat js"
  udt_unitSizeUnit :: "UnitSizeUnit js"
  udt_bedrooms :: "int js"
  udt_bathrooms :: "int js"
  udt_balcony :: "bool js"
  udt_kitchenType :: "KitchenType js"
  udt_furnishedStatus :: "FurnishedStatus js"
  udt_rentAnnual :: "rat js"
  udt_paymentFrequency :: "PaymentFrequency js"
  udt_securityDepositAmount :: "rat js"
  udt_serviceChargePerUnit :: "rat js"
  udt_vatApplicable :: "bool js"
  udt_electricityMeterNumber :: "string js"
  udt_waterMeterNumber :: "string js"
  udt_gasMeterNumber :: "string js"
  udt_amenityIds :: "id list js"

record create_unit_dto = unit_fields +
  cud_label :: string

record update_unit_dto = unit_fields +
  uud_label :: "string js"

text \<open>\<open>IsUUID('4')\<close>: the version digit and the variant digit.\<close>

definition is_uuid4 :: "string \<Rightarrow> bool" where
  "is_uuid4 v \<longleftrightarrow> is_uuid v \<and> v ! 14 = CHR ''4'' \<and> lower_char (v ! 19) \<in> set ''89ab''"

definition unit_fields_ok :: "'a unit_fields_scheme \<Rightarrow> bool" where
  "unit_fields_ok dto \<longleftrightarrow>
     optional_js (\<lambda>n. 0 \<le> n) (udt_floor dto) \<and>
     optional_js is_uuid (udt_unitTypeId dto) \<and>
     optional_js is_uuid (udt_ownerId dto) \<and>
     optional_js (\<lambda>n. 0 \<le> n) (udt_unitSize dto) \<and>
     optional_js (\<lambda>n. 0 \<le> n) (udt_bedrooms dto) \<and>
     optional_js (\<lambda>n. 0 \<le> n) (udt_bathrooms dto) \<and>
     optional_js (\<lambda>n. 0 \<le> n) (udt_rentAnnual dto) \<and>
     optional_js (\<lambda>n. 0 \<le> n) (udt_securityDepositAmount dto) \<and>
     optional_js (\<lambda>n. 0 \<le> n) (udt_serviceChargePerUnit dto) \<and>
     optional_js (\<lambda>ids. distinct ids \<and> list_all is_uuid4 ids) (udt_amenityIds dto)"

definition create_unit_ok :: "create_unit_dto \<Rightarrow> bool" where
  "create_unit_ok dto \<longleftrightarrow> min_length 1 (cud_label dto) \<and> unit_fields_ok dto"

definition update_unit_ok :: "update_unit_dto \<Rightarrow> bool" where
  "update_unit_ok dto \<longleftrightarrow> optional_js (min_length 1) (uud_label dto) \<and> unit_fields_ok dto"

section \<open>Output objects\<close>

record unit_response =
  unr_id :: id
  unr_buildingId :: id
  unr_label :: string
  unr_floor :: "int option"
  unr_notes :: "string option"
  unr_createdAt :: date
  unr_updatedAt :: date

definition toUnitResponse :: "unit_row \<Rightarrow> unit_response" where
  "toUnitResponse u = \<lparr>unr_id = unt_id u, unr_buildingId = unt_buildingId u, unr_label = unt_label u,
     unr_floor = unt_floor u, unr_notes = unt_notes u, unr_createdAt = unt_createdAt u, unr_updatedAt = unt_updatedAt u\<rparr>"

record unit_basic_response =
  ubr_id :: id
  ubr_label :: string

definition toUnitBasicResponse :: "unit_row \<Rightarrow> unit_basic_response" where
  "toUnitBasicResponse u = \<lparr>ubr_id = unt_id u, ubr_label = unt_label u\<rparr>"

text \<open>\<open>Unit & { amenities: ... }\<close>: the row with its links and their amenities.\<close>

record unit_view =
  uvw_row :: unit_row
  uvw_amenities :: "(unit_amenity \<times> amenity) list"

record unit_detail_response =
  udr_id :: id
  udr_buildingId :: id
  udr_label :: string
  udr_floor :: "int option"
  udr_notes :: "string option"
  udr_unitTypeId :: "id option"
  udr_ownerId :: "id option"
  udr_maintenancePayer :: "MaintenancePayer option"
  udr_unitSize :: "string option"
  udr_unitSizeUnit :: "UnitSizeUnit option"
  udr_bedrooms :: "int option"
  udr_bathrooms :: "int option"
  udr_balcony :: "bool option"
  udr_kitchenType :: "KitchenType option"
  udr_furnishedStatus :: "FurnishedStatus option"
  udr_rentAnnual :: "string option"
  udr_paymentFrequency :: "PaymentFrequency option"
  udr_securityDepositAmount :: "string option"
  udr_serviceChargePerUnit :: "string option"
  udr_vatApplicable :: "bool option"
  udr_electricityMeterNumber :: "string option"
  udr_waterMeterNumber :: "string option"
  udr_gasMeterNumber :: "string option"
  udr_createdAt :: date
  udr_updatedAt :: date
  udr_amenityIds :: "id list"
  udr_amenities :: "(id \<times> string) list"

definition toUnitDetailResponse :: "ext \<Rightarrow> unit_view \<Rightarrow> unit_detail_response" where
  "toUnitDetailResponse x v = (let u = uvw_row v in
     \<lparr>udr_id = unt_id u, udr_buildingId = unt_buildingId u, udr_label = unt_label u,
      udr_floor = unt_floor u,
      udr_notes = unt_notes u,
      udr_unitTypeId = unt_unitTypeId u,
      udr_ownerId = unt_ownerId u,
      udr_maintenancePayer = unt_maintenancePayer u,
      udr_unitSize = map_option (x_decimal x) (unt_unitSize u),
      udr_unitSizeUnit = unt_unitSizeUnit u,
      udr_bedrooms = unt_bedrooms u,
      udr_bathrooms = unt_bathrooms u,
      udr_balcony = unt_balcony u,
      udr_kitchenType = unt_kitchenType u,
      udr_furnishedStatus = unt_furnishedStatus u,
      udr_rentAnnual = map_option (x_decimal x) (unt_rentAnnual u),
      udr_paymentFrequency = unt_paymentFrequency u,
      udr_securityDepositAmount = map_option (x_decimal x) (unt_securityDepositAmount u),
      udr_serviceChargePerUnit = map_option (x_decimal x) (unt_serviceChargePerUnit u),
      udr_vatApplicable = unt_vatApplicable u,
      udr_electricityMeterNumber = unt_electricityMeterNumber u,
      udr_waterMeterNumber = unt_waterMeterNumber u,
      udr_gasMeterNumber = unt_gasMeterNumber u,
      udr_createdAt = unt_createdAt u, udr_updatedAt = unt_updatedAt u,
      udr_amenityIds = map (\<lambda>l. una_amenityId (fst l)) (uvw_amenities v),
      udr_amenities = map (\<lambda>l. (amn_id (snd l), amn_name (snd l))) (uvw_amenities v)\<rparr>)"

section \<open>Repository (\<open>units.repo.ts\<close>)\<close>

definition unit_key :: "unit_row \<Rightarrow> id \<times> string" where
  "unit_key u = (unt_buildingId u, unt_label u)"

definition unit_vacant :: "db \<Rightarrow> unit_row \<Rightarrow> bool" where
  "unit_vacant d u \<longleftrightarrow> \<not> list_ex (\<lambda>r. occ_unitId r = unt_id u \<and> occ_status r = ACTIVE) (occupancies d)"

definition listByBuildingWithAvailability :: "db \<Rightarrow> id \<Rightarrow> bool \<Rightarrow> unit_row list" where
  "listByBuildingWithAvailability d buildingId availableOnly =
     order_desc unt_createdAt (findMany (\<lambda>u. unt_buildingId u = buildingId \<and> (availableOnly \<longrightarrow> unit_vacant d u)) (units d))"

definition units_countByBuilding :: "db \<Rightarrow> id \<Rightarrow> nat" where
  "units_countByBuilding d buildingId = countMany (\<lambda>u. unt_buildingId u = buildingId) (units d)"

definition units_countVacantByBuilding :: "db \<Rightarrow> id \<Rightarrow> nat" where
  "units_countVacantByBuilding d buildingId =
     countMany (\<lambda>u. unt_buildingId u = buildingId \<and> unit_vacant d u) (units d)"

definition unit_findByIdForBuilding :: "db \<Rightarrow> id \<Rightarrow> id \<Rightarrow> unit_row option" where
  "unit_findByIdForBuilding d buildingId unitId =
     findFirst (\<lambda>u. unt_id u = unitId \<and> unt_buildingId u = buildingId) (units d)"

definition unit_links :: "db \<Rightarrow> unit_row \<Rightarrow> (unit_amenity \<times> amenity) list" where
  "unit_links d u = concat (map (\<lambda>l. case findFirst (\<lambda>a. amn_id a = una_amenityId l) (amenities d) of
       None \<Rightarrow> [] | Some a \<Rightarrow> [(l, a)]) (findMany (\<lambda>l. una_unitId l = unt_id u) (unitAmenities d)))"

definition findByIdForBuildingWithAmenities :: "db \<Rightarrow> id \<Rightarrow> id \<Rightarrow> unit_view option" where
  "findByIdForBuildingWithAmenities d buildingId unitId =
     map_option (\<lambda>u. \<lparr>uvw_row = u, uvw_amenities = unit_links d u\<rparr>) (unit_findByIdForBuilding d buildingId unitId)"

text \<open>
  What a \<open>Decimal(12, 2)\<close> column stores of a number is the database's: \<open>x_numeric\<close> gives the stored value, or
  nothing where the write is refused.
\<close>

definition decimal_column :: "ext \<Rightarrow> rat option \<Rightarrow> rat option op" where
  "decimal_column x v = (case v of None \<Rightarrow> ret None
     | Some r \<Rightarrow> bind (some_or (x_numeric x r) (PrismaKnown ''P2020'')) (\<lambda>q. ret (Some q)))"

text \<open>The decimal columns of a row about to be written.\<close>

definition fit_unit :: "ext \<Rightarrow> unit_row \<Rightarrow> unit_row op" where
  "fit_unit x u =
     bind (decimal_column x (unt_unitSize u)) (\<lambda>size.
     bind (decimal_column x (unt_rentAnnual u)) (\<lambda>rent.
     bind (decimal_column x (unt_securityDepositAmount u)) (\<lambda>deposit.
     bind (decimal_column x (unt_serviceChargePerUnit u)) (\<lambda>charge.
     ret (u\<lparr>unt_unitSize := size, unt_rentAnnual := rent, unt_securityDepositAmount := deposit,
            unt_serviceChargePerUnit := charge\<rparr>)))))"

definition unit_references :: "db \<Rightarrow> unit_row \<Rightarrow> bool" where
  "unit_references d u \<longleftrightarrow> findBuilding d (unt_buildingId u) \<noteq> None \<and>
     optional (\<lambda>t. findFirst (\<lambda>v. utp_id v = t) (unitTypes d) \<noteq> None) (unt_unitTypeId u) \<and>
     optional (\<lambda>w. findFirst (\<lambda>v. own_id v = w) (owners d) \<noteq> None) (unt_ownerId u)"

text \<open>\<open>tx.unit.create\<close>, given the row without its id and times.\<close>

definition unit_insert :: "ext \<Rightarrow> unit_row \<Rightarrow> unit_row op" where
  "unit_insert x row =
     bind (new_row x (\<lambda>d. map unt_id (units d))) (\<lambda>(i, now).
     bind (fit_unit x (row\<lparr>unt_id := i, unt_createdAt := now, unt_updatedAt := now\<rparr>)) (\<lambda>u.
     bind get_db (\<lambda>d.
     bind (unique_key (unit_key u \<notin> unit_key ` set (units d))) (\<lambda>_.
     bind (foreign_key (unit_references d u)) (\<lambda>_.
     bind (write_db (\<lambda>d. d\<lparr>units := units d @ [u]\<rparr>)) (\<lambda>_. ret u))))))"

text \<open>\<open>tx.unit.update\<close>: \<open>f\<close> sets the columns of the data object.\<close>

definition unit_write :: "ext \<Rightarrow> id \<Rightarrow> (unit_row \<Rightarrow> unit_row) \<Rightarrow> unit_row op" where
  "unit_write x unitId f =
     bind draw (\<lambda>t.
     bind (query (\<lambda>d. findUnit d unitId)) (\<lambda>found.
     bind (some_or found (PrismaKnown ''P2025'')) (\<lambda>old.
     bind (fit_unit x ((f old)\<lparr>unt_updatedAt := x_clock x t\<rparr>)) (\<lambda>u.
     bind get_db (\<lambda>d.
     bind (unique_key (\<forall>r \<in> set (units d). unit_key r = unit_key u \<longrightarrow> unt_id r = unitId)) (\<lambda>_.
     bind (require (unit_references d u) (PrismaKnown ''P2025'')) (\<lambda>_.
     bind (write_db (\<lambda>d. d\<lparr>units := updateMany (\<lambda>r. unt_id r = unitId) (\<lambda>_. u) (units d)\<rparr>)) (\<lambda>_.
     ret u))))))))"

definition unit_amenity_key :: "unit_amenity \<Rightarrow> id \<times> id" where
  "unit_amenity_key l = (una_unitId l, una_amenityId l)"

text \<open>\<open>tx.unitAmenity.createMany\<close> with \<open>skipDuplicates\<close>.\<close>

definition link_amenities :: "ext \<Rightarrow> id \<Rightarrow> id list \<Rightarrow> unit op" where
  "link_amenities x unitId amenityIds =
     bind draw (\<lambda>t.
     bind get_db (\<lambda>d.
     bind (foreign_key (findUnit d unitId \<noteq> None \<and>
        list_all (\<lambda>i. findFirst (\<lambda>a. amn_id a = i) (amenities d) \<noteq> None) amenityIds)) (\<lambda>_.
     write_db (\<lambda>d. d\<lparr>unitAmenities := createMany_skip unit_amenity_key
        (map (\<lambda>i. \<lparr>una_unitId = unitId, una_amenityId = i, una_createdAt = x_clock x t\<rparr>) amenityIds)
        (unitAmenities d)\<rparr>))))"

section \<open>Service (\<open>units.service.ts\<close>)\<close>

definition assertUnitTypeInOrg :: "id \<Rightarrow> id js \<Rightarrow> unit op" where
  "assertUnitTypeInOrg orgId unitTypeId =
     (case truthy (js_option unitTypeId) of
        None \<Rightarrow> ret ()
      | Some t \<Rightarrow>
          bind (query (\<lambda>d. findFirst (\<lambda>v. utp_id v = t \<and> utp_orgId v = orgId) (unitTypes d))) (\<lambda>unitType.
          require (unitType \<noteq> None) (NotFound ''Unit type not found'')))"

definition assertOwnerInOrg :: "id \<Rightarrow> id js \<Rightarrow> unit op" where
  "assertOwnerInOrg orgId ownerId =
     (case truthy (js_option ownerId) of
        None \<Rightarrow> ret ()
      | Some w \<Rightarrow>
          bind (query (\<lambda>d. findFirst (\<lambda>v. own_id v = w \<and> own_orgId v = orgId) (owners d))) (\<lambda>owner.
          require (owner \<noteq> None) (NotFound ''Owner not found'')))"

definition getDefaultAmenityIds :: "db \<Rightarrow> id \<Rightarrow> id list" where
  "getDefaultAmenityIds d buildingId =
     map amn_id (findMany (\<lambda>a. amn_buildingId a = buildingId \<and> amn_isActive a \<and> amn_isDefault a) (amenities d))"

definition assertAmenityIds :: "id \<Rightarrow> id list \<Rightarrow> unit op" where
  "assertAmenityIds buildingId amenityIds =
     (if amenityIds = [] then ret ()
      else
        bind (query (\<lambda>d. findMany (\<lambda>a. amn_buildingId a = buildingId \<and> amn_isActive a \<and> amn_id a \<in> set amenityIds) (amenities d))) (\<lambda>as.
        require (length as = length amenityIds) (BadRequest ''Amenity does not belong to the same building as the unit'')))"

text \<open>\<open>amenityIds.length\<close> on \<open>null\<close>, and \<open>new Prisma.Decimal(null)\<close>, throw.\<close>

definition not_null :: "'a js \<Rightarrow> bool" where
  "not_null v \<longleftrightarrow> (case v of Null \<Rightarrow> False | _ \<Rightarrow> True)"

definition decimals_given :: "'a unit_fields_scheme \<Rightarrow> bool" where
  "decimals_given dto \<longleftrightarrow> not_null (udt_unitSize dto) \<and> not_null (udt_rentAnnual dto) \<and> not_null (udt_securityDepositAmount dto) \<and> not_null (udt_serviceChargePerUnit dto)"

definition mapUnitData :: "id \<Rightarrow> create_unit_dto \<Rightarrow> unit_row op" where
  "mapUnitData buildingId dto =
     bind (require (decimals_given dto) (JsError ''DecimalError'')) (\<lambda>_.
     ret \<lparr>unt_id = [], unt_buildingId = buildingId, unt_label = cud_label dto,
       unt_unitTypeId = js_option (udt_unitTypeId dto),
       unt_ownerId = js_option (udt_ownerId dto),
       unt_floor = js_option (udt_floor dto),
       unt_notes = js_option (udt_notes dto),
       unt_maintenancePayer = js_option (udt_maintenancePayer dto),
       unt_unitSize = js_option (udt_unitSize dto),
       unt_unitSizeUnit = js_option (udt_unitSizeUnit dto),
       unt_bedrooms = js_option (udt_bedrooms dto),
       unt_bathrooms = js_option (udt_bathrooms dto),
       unt_balcony = js_option (udt_balcony dto),
       unt_kitchenType = js_option (udt_kitchenType dto),
       unt_furnishedStatus = js_option (udt_furnishedStatus dto),
       unt_rentAnnual = js_option (udt_rentAnnual dto),
       unt_paymentFrequency = js_option (udt_paymentFrequency dto),
       unt_securityDepositAmount = js_option (udt_securityDepositAmount dto),
       unt_serviceChargePerUnit = js_option (udt_serviceChargePerUnit dto),
       unt_vatApplicable = js_option (udt_vatApplicable dto),
       unt_electricityMeterNumber = js_option (udt_electricityMeterNumber dto),
       unt_waterMeterNumber = js_option (udt_waterMeterNumber dto),
       unt_gasMeterNumber = js_option (udt_gasMeterNumber dto),
       unt_createdAt = 0, unt_updatedAt = 0\<rparr>)"

text \<open>\<open>connect\<close> on a value, \<open>disconnect\<close> on \<open>null\<close> or the empty string.\<close>

definition set_relation :: "id js \<Rightarrow> id option \<Rightarrow> id option" where
  "set_relation v old = (case v of Undefined \<Rightarrow> old | _ \<Rightarrow> truthy (js_option v))"

definition mapUnitUpdate :: "update_unit_dto \<Rightarrow> unit_row \<Rightarrow> unit_row" where
  "mapUnitUpdate dto u = u\<lparr>unt_label := set_required (uud_label dto) (unt_label u),
     unt_floor := set_field (udt_floor dto) (unt_floor u),
     unt_notes := set_field (udt_notes dto) (unt_notes u),
     unt_unitTypeId := set_relation (udt_unitTypeId dto) (unt_unitTypeId u),
     unt_ownerId := set_relation (udt_ownerId dto) (unt_ownerId u),
     unt_maintenancePayer := set_field (udt_maintenancePayer dto) (unt_maintenancePayer u),
     unt_unitSize := set_field (udt_unitSize dto) (unt_unitSize u),
     unt_unitSizeUnit := set_field (udt_unitSizeUnit dto) (unt_unitSizeUnit u),
     unt_bedrooms := set_field (udt_bedrooms dto) (unt_bedrooms u),
     unt_bathrooms := set_field (udt_bathrooms dto) (unt_bathrooms u),
     unt_balcony := set_field (udt_balcony dto) (unt_balcony u),
     unt_kitchenType := set_field (udt_kitchenType dto) (unt_kitchenType u),
     unt_furnishedStatus := set_field (udt_furnishedStatus dto) (unt_furnishedStatus u),
     unt_rentAnnual := set_field (udt_rentAnnual dto) (unt_rentAnnual u),
     unt_paymentFrequency := set_field (udt_paymentFrequency dto) (unt_paymentFrequency u),
     unt_securityDepositAmount := set_field (udt_securityDepositAmount dto) (unt_securityDepositAmount u),
     unt_serviceChargePerUnit := set_field (udt_serviceChargePerUnit dto) (unt_serviceChargePerUnit u),
     unt_vatApplicable := set_field (udt_vatApplicable dto) (unt_vatApplicable u),
     unt_electricityMeterNumber := set_field (udt_electricityMeterNumber dto) (unt_electricityMeterNumber u),
     unt_waterMeterNumber := set_field (udt_waterMeterNumber dto) (unt_waterMeterNumber u),
     unt_gasMeterNumber := set_field (udt_gasMeterNumber dto) (unt_gasMeterNumber u)\<rparr>"

text \<open>\<open>Object.keys(data).length > 0\<close>: some column is named.\<close>

definition names_column :: "update_unit_dto \<Rightarrow> bool" where
  "names_column dto \<longleftrightarrow> uud_label dto \<noteq> Undefined \<or>
     udt_floor dto \<noteq> Undefined \<or>
     udt_notes dto \<noteq> Undefined \<or>
     udt_unitTypeId dto \<noteq> Undefined \<or>
     udt_ownerId dto \<noteq> Undefined \<or>
     udt_maintenancePayer dto \<noteq> Undefined \<or>
     udt_unitSize dto \<noteq> Undefined \<or>
     udt_unitSizeUnit dto \<noteq> Undefined \<or>
     udt_bedrooms dto \<noteq> Undefined \<or>
     udt_bathrooms dto \<noteq> Undefined \<or>
     udt_balcony dto \<noteq> Undefined \<or>
     udt_kitchenType dto \<noteq> Undefined \<or>
     udt_furnishedStatus dto \<noteq> Undefined \<or>
     udt_rentAnnual dto \<noteq> Undefined \<or>
     udt_paymentFrequency dto \<noteq> Undefined \<or>
     udt_securityDepositAmount dto \<noteq> Undefined \<or>
     udt_serviceChargePerUnit dto \<noteq> Undefined \<or>
     udt_vatApplicable dto \<noteq> Undefined \<or>
     udt_electricityMeterNumber dto \<noteq> Undefined \<or>
     udt_waterMeterNumber dto \<noteq> Undefined \<or>
     udt_gasMeterNumber dto \<noteq> Undefined"

definition units_create :: "ext \<Rightarrow> auth_user option \<Rightarrow> id \<Rightarrow> create_unit_dto \<Rightarrow> unit_row op" where
  "units_create x user buildingId dto =
     bind (assertOrgScope user) (\<lambda>orgId.
     bind (building_of_org orgId buildingId) (\<lambda>_.
     on_duplicate ''Unit label already exists''
       (bind (assertUnitTypeInOrg orgId (udt_unitTypeId dto)) (\<lambda>_.
        bind (assertOwnerInOrg orgId (udt_ownerId dto)) (\<lambda>_.
        bind (require (not_null (udt_amenityIds dto)) (JsError ''TypeError'')) (\<lambda>_.
        bind (query (\<lambda>d. case udt_amenityIds dto of Val ids \<Rightarrow> ids | _ \<Rightarrow> getDefaultAmenityIds d buildingId)) (\<lambda>amenityIds.
        bind (assertAmenityIds buildingId amenityIds) (\<lambda>_.
        transaction
          (bind (mapUnitData buildingId dto) (\<lambda>row.
           bind (unit_insert x row) (\<lambda>u.
           bind (if amenityIds \<noteq> [] then link_amenities x (unt_id u) amenityIds else ret ()) (\<lambda>_.
           ret u))))))))))))"

definition units_list :: "auth_user option \<Rightarrow> id \<Rightarrow> bool option \<Rightarrow> unit_row list op" where
  "units_list user buildingId available =
     bind (assertOrgScope user) (\<lambda>orgId.
     bind (building_of_org orgId buildingId) (\<lambda>_.
     query (\<lambda>d. listByBuildingWithAvailability d buildingId (available = Some True))))"

definition units_findById :: "auth_user option \<Rightarrow> id \<Rightarrow> id \<Rightarrow> unit_view op" where
  "units_findById user buildingId unitId =
     bind (assertOrgScope user) (\<lambda>orgId.
     bind (building_of_org orgId buildingId) (\<lambda>_.
     bind (query (\<lambda>d. findByIdForBuildingWithAmenities d buildingId unitId)) (\<lambda>found.
     some_or found (NotFound ''Unit not found''))))"

definition replace_amenities :: "ext \<Rightarrow> id \<Rightarrow> id list js \<Rightarrow> unit op" where
  "replace_amenities x unitId amenityIds = (case amenityIds of
       Val ids \<Rightarrow>
         bind (write_db (\<lambda>d. d\<lparr>unitAmenities := deleteMany (\<lambda>l. una_unitId l = unitId) (unitAmenities d)\<rparr>)) (\<lambda>_.
         if ids \<noteq> [] then link_amenities x unitId ids else ret ())
     | _ \<Rightarrow> ret ())"

definition units_update_op :: "ext \<Rightarrow> auth_user option \<Rightarrow> id \<Rightarrow> id \<Rightarrow> update_unit_dto \<Rightarrow> unit_view op" where
  "units_update_op x user buildingId unitId dto =
     bind (assertOrgScope user) (\<lambda>orgId.
     bind (building_of_org orgId buildingId) (\<lambda>_.
     bind (query (\<lambda>d. unit_findByIdForBuilding d buildingId unitId)) (\<lambda>found.
     bind (some_or found (NotFound ''Unit not found'')) (\<lambda>u.
     on_duplicate ''Unit label already exists''
       (bind (assertUnitTypeInOrg orgId (udt_unitTypeId dto)) (\<lambda>_.
        bind (assertOwnerInOrg orgId (udt_ownerId dto)) (\<lambda>_.
        bind (case udt_amenityIds dto of
                Undefined \<Rightarrow> ret () | Null \<Rightarrow> throw (JsError ''TypeError'')
              | Val ids \<Rightarrow> assertAmenityIds buildingId ids) (\<lambda>_.
        bind (require (decimals_given dto) (JsError ''DecimalError'')) (\<lambda>_.
        bind (transaction
          (bind (if names_column dto then
                   bind (require (not_null (uud_label dto)) (JsError ''PrismaClientValidationError'')) (\<lambda>_.
                   bind (unit_write x (unt_id u) (mapUnitUpdate dto)) (\<lambda>r. ret (Some r)))
                 else query (\<lambda>d. findUnit d (unt_id u))) (\<lambda>unitRecord.
           bind (require (unitRecord \<noteq> None) (NotFound ''Unit not found'')) (\<lambda>_.
           replace_amenities x (unt_id u) (udt_amenityIds dto))))) (\<lambda>_.
        bind (query (\<lambda>d. findByIdForBuildingWithAmenities d buildingId (unt_id u))) (\<lambda>updated.
        some_or updated (NotFound ''Unit not found''))))))))))))"

definition units_countVacant :: "auth_user option \<Rightarrow> id \<Rightarrow> (nat \<times> nat) op" where
  "units_countVacant user buildingId =
     bind (assertOrgScope user) (\<lambda>orgId.
     bind (building_of_org orgId buildingId) (\<lambda>_.
     query (\<lambda>d. (units_countByBuilding d buildingId, units_countVacantByBuilding d buildingId))))"

section \<open>Controller (\<open>units.controller.ts\<close>)\<close>

definition units_read :: "bool \<Rightarrow> route" where
  "units_read allowResident = BuildingReadAccess allowResident (RequirePermissions [''units.read''] plain_route)"

definition units_write :: route where
  "units_write = BuildingWriteAccess True (RequirePermissions [''units.write''] plain_route)"

definition units_create_route :: "ext \<Rightarrow> env_data \<Rightarrow> request_context \<Rightarrow> id \<Rightarrow> create_unit_dto \<Rightarrow> unit_response op" where
  "units_create_route x e ctx buildingId dto =
     handle (building_guards x e units_write) (at_building ctx buildingId) (\<lambda>user.
     bind (validated (create_unit_ok dto)) (\<lambda>_.
     bind (units_create x user buildingId dto) (\<lambda>u. ret (toUnitResponse u))))"

definition units_list_route :: "ext \<Rightarrow> env_data \<Rightarrow> request_context \<Rightarrow> id \<Rightarrow> bool option \<Rightarrow> unit_response list op" where
  "units_list_route x e ctx buildingId available =
     handle (building_guards x e (units_read False)) (at_building ctx buildingId) (\<lambda>user.
     bind (units_list user buildingId available) (\<lambda>us. ret (map toUnitResponse us)))"

definition units_basic_route :: "ext \<Rightarrow> env_data \<Rightarrow> request_context \<Rightarrow> id \<Rightarrow> unit_basic_response list op" where
  "units_basic_route x e ctx buildingId =
     handle (building_guards x e (units_read True)) (at_building ctx buildingId) (\<lambda>user.
     bind (units_list user buildingId None) (\<lambda>us. ret (map toUnitBasicResponse us)))"

definition units_count_route :: "ext \<Rightarrow> env_data \<Rightarrow> request_context \<Rightarrow> id \<Rightarrow> (nat \<times> nat) op" where
  "units_count_route x e ctx buildingId =
     handle (building_guards x e (units_read False)) (at_building ctx buildingId) (\<lambda>user.
     units_countVacant user buildingId)"

definition units_get_route :: "ext \<Rightarrow> env_data \<Rightarrow> request_context \<Rightarrow> id \<Rightarrow> id \<Rightarrow> unit_detail_response op" where
  "units_get_route x e ctx buildingId unitId =
     handle (building_guards x e (units_read False)) (at_building ctx buildingId) (\<lambda>user.
     bind (units_findById user buildingId unitId) (\<lambda>v. ret (toUnitDetailResponse x v)))"

definition units_update_route ::
  "ext \<Rightarrow> env_data \<Rightarrow> request_context \<Rightarrow> id \<Rightarrow> id \<Rightarrow> update_unit_dto \<Rightarrow> unit_detail_response op" where
  "units_update_route x e ctx buildingId unitId dto =
     handle (building_guards x e units_write) (at_building ctx buildingId) (\<lambda>user.
     bind (validated (update_unit_ok dto)) (\<lambda>_.
     bind (units_update_op x user buildingId unitId dto) (\<lambda>v. ret (toUnitDetailResponse x v))))"

end
