(* ===== verification/Occupancies.thy ===== *)
theory Occupancies
  imports Units
begin

text \<open>
  Occupancies and residents (\<open>modules/occupancies\<close>, \<open>modules/residents\<close>): who lives in a unit. The
  rule of the module, one active occupancy per unit, is checked by a read inside the transaction
  that inserts; the two steps are definitions of their own, so that their interleaving can be
  stated.
\<close>

section \<open>Input and output objects\<close>

record create_occupancy_dto =
  cod_unitId :: id
  cod_residentUserId :: id

definition create_occupancy_ok :: "create_occupancy_dto \<Rightarrow> bool" where
  "create_occupancy_ok dto \<longleftrightarrow> is_uuid (cod_unitId dto) \<and> is_uuid (cod_residentUserId dto)"

text \<open>\<open>Occupancy & { unit: Unit; residentUser: User }\<close>\<close>

record occupancy_view =
  ocv_row :: occupancy
  ocv_unit :: unit_row
  ocv_residentUser :: user

record occupancy_response =
  ocr_id :: id
  ocr_buildingId :: id
  ocr_unitId :: id
  ocr_residentUserId :: id
  ocr_status :: OccupancyStatus
  ocr_startAt :: date
  ocr_endAt :: "date option"
  ocr_unit :: "id \<times> string"
  ocr_resident :: "id \<times> string \<times> string option"

definition toOccupancyResponse :: "occupancy_view \<Rightarrow> occupancy_response" where
  "toOccupancyResponse v = (let r = ocv_row v; u = ocv_residentUser v in
     \<lparr>ocr_id = occ_id r, ocr_buildingId = occ_buildingId r, ocr_unitId = occ_unitId r,
      ocr_residentUserId = occ_residentUserId r, ocr_status = occ_status r, ocr_startAt = occ_startAt r,
      ocr_endAt = occ_endAt r, ocr_unit = (unt_id (ocv_unit v), unt_label (ocv_unit v)),
      ocr_resident = (usr_id u, usr_email u, usr_name u)\<rparr>)"

section \<open>Repository (\<open>occupancies.repo.ts\<close>)\<close>

definition active_in_unit :: "db \<Rightarrow> id \<Rightarrow> occupancy option" where
  "active_in_unit d unitId = findFirst (\<lambda>r. occ_unitId r = unitId \<and> occ_status r = ACTIVE) (occupancies d)"

definition occupancy_views :: "db \<Rightarrow> occupancy \<Rightarrow> occupancy_view list" where
  "occupancy_views d r = (case findUnit d (occ_unitId r) of
       None \<Rightarrow> []
     | Some u \<Rightarrow> (case findUser d (occ_residentUserId r) of
         None \<Rightarrow> [] | Some p \<Rightarrow> [\<lparr>ocv_row = r, ocv_unit = u, ocv_residentUser = p\<rparr>]))"

text \<open>\<open>tx.occupancy.create\<close>: an active occupancy that starts now.\<close>

definition occupancy_insert :: "ext \<Rightarrow> id \<Rightarrow> id \<Rightarrow> id \<Rightarrow> occupancy_view op" where
  "occupancy_insert x buildingId unitId residentUserId =
     bind (new_row x (\<lambda>d. map occ_id (occupancies d))) (\<lambda>(i, now).
     bind get_db (\<lambda>d.
     bind (foreign_key (findBuilding d buildingId \<noteq> None)) (\<lambda>_.
     bind (some_or (findUnit d unitId) (PrismaKnown ''P2003'')) (\<lambda>u.
     bind (some_or (findUser d residentUserId) (PrismaKnown ''P2003'')) (\<lambda>p.
     let r = \<lparr>occ_id = i, occ_buildingId = buildingId, occ_unitId = unitId, occ_residentUserId = residentUserId,
              occ_status = ACTIVE, occ_startAt = now, occ_endAt = None, occ_createdAt = now, occ_updatedAt = now\<rparr> in
     bind (write_db (\<lambda>d. d\<lparr>occupancies := occupancies d @ [r]\<rparr>)) (\<lambda>_.
     ret \<lparr>ocv_row = r, ocv_unit = u, ocv_residentUser = p\<rparr>))))))"

definition createActiveIfVacant :: "ext \<Rightarrow> id \<Rightarrow> id \<Rightarrow> id \<Rightarrow> occupancy_view option op" where
  "createActiveIfVacant x buildingId unitId residentUserId =
     transaction
       (bind (query (\<lambda>d. active_in_unit d unitId)) (\<lambda>existing.
        if existing \<noteq> None then ret None
        else bind (occupancy_insert x buildingId unitId residentUserId) (\<lambda>v. ret (Some v))))"

definition listActiveByBuilding :: "db \<Rightarrow> id \<Rightarrow> occupancy_view list" where
  "listActiveByBuilding d buildingId =
     concat (map (occupancy_views d) (order_desc occ_createdAt
       (findMany (\<lambda>r. occ_buildingId r = buildingId \<and> occ_status r = ACTIVE) (occupancies d))))"

definition countActiveByBuilding :: "db \<Rightarrow> id \<Rightarrow> nat" where
  "countActiveByBuilding d buildingId =
     countMany (\<lambda>r. occ_buildingId r = buildingId \<and> occ_status r = ACTIVE) (occupancies d)"

section \<open>Service (\<open>occupancies.service.ts\<close>)\<close>

definition occupancies_create :: "ext \<Rightarrow> auth_user option \<Rightarrow> id \<Rightarrow> create_occupancy_dto \<Rightarrow> occupancy_view op" where
  "occupancies_create x user buildingId dto =
     bind (assertOrgScope user) (\<lambda>orgId.
     bind (building_of_org orgId buildingId) (\<lambda>_.
     bind (query (\<lambda>d. unit_findByIdForBuilding d buildingId (cod_unitId dto))) (\<lambda>foundUnit.
     bind (some_or foundUnit (BadRequest ''Unit not in building'')) (\<lambda>u.
     bind (query (\<lambda>d. findUser d (cod_residentUserId dto))) (\<lambda>foundUser.
     bind (some_or foundUser (BadRequest ''Resident not in org'')) (\<lambda>resident.
     bind (require (usr_isActive resident \<and> usr_orgId resident = Some orgId) (BadRequest ''Resident not in org'')) (\<lambda>_.
     bind (createActiveIfVacant x buildingId (unt_id u) (usr_id resident)) (\<lambda>created.
     some_or created (Conflict ''Unit is already occupied'')))))))))"

definition occupancies_list :: "auth_user option \<Rightarrow> id \<Rightarrow> occupancy_view list op" where
  "occupancies_list user buildingId =
     bind (assertOrgScope user) (\<lambda>orgId.
     bind (building_of_org orgId buildingId) (\<lambda>_.
     query (\<lambda>d. listActiveByBuilding d buildingId)))"

definition countActive :: "auth_user option \<Rightarrow> id \<Rightarrow> nat op" where
  "countActive user buildingId =
     bind (assertOrgScope user) (\<lambda>orgId.
     bind (building_of_org orgId buildingId) (\<lambda>_.
     query (\<lambda>d. countActiveByBuilding d buildingId)))"

section \<open>Controller (\<open>occupancies.controller.ts\<close>)\<close>

definition occupancies_create_route ::
  "ext \<Rightarrow> env_data \<Rightarrow> request_context \<Rightarrow> id \<Rightarrow> create_occupancy_dto \<Rightarrow> occupancy_response op" where
  "occupancies_create_route x e ctx buildingId dto =
     handle (building_guards x e (BuildingWriteAccess False (RequirePermissions [''occupancy.write''] plain_route)))
       (at_building ctx buildingId) (\<lambda>user.
     bind (validated (create_occupancy_ok dto)) (\<lambda>_.
     bind (occupancies_create x user buildingId dto) (\<lambda>v. ret (toOccupancyResponse v))))"

definition occupancies_list_route :: "ext \<Rightarrow> env_data \<Rightarrow> request_context \<Rightarrow> id \<Rightarrow> occupancy_response list op" where
  "occupancies_list_route x e ctx buildingId =
     handle (building_guards x e (BuildingReadAccess False (RequirePermissions [''occupancy.read''] plain_route)))
       (at_building ctx buildingId) (\<lambda>user.
     bind (occupancies_list user buildingId) (\<lambda>vs. ret (map toOccupancyResponse vs)))"

definition occupancies_count_route :: "ext \<Rightarrow> env_data \<Rightarrow> request_context \<Rightarrow> id \<Rightarrow> nat op" where
  "occupancies_count_route x e ctx buildingId =
     handle (building_guards x e (BuildingReadAccess False (RequirePermissions [''occupancy.read''] plain_route)))
       (at_building ctx buildingId) (\<lambda>user. countActive user buildingId)"

section \<open>Residents: input and output objects\<close>

record create_resident_dto =
  rcd_name :: string
  rcd_email :: string
  rcd_phone :: "string option"
  rcd_password :: "string option"
  rcd_unitId :: id

definition create_resident_ok :: "ext \<Rightarrow> create_resident_dto \<Rightarrow> bool" where
  "create_resident_ok x dto \<longleftrightarrow> min_length 2 (rcd_name dto) \<and> x_isEmail x (rcd_email dto) \<and>
     optional (min_length 8) (rcd_password dto) \<and> is_uuid (rcd_unitId dto)"

record resident_onboarding_response =
  rob_userId :: id
  rob_name :: string
  rob_email :: string
  rob_phone :: "string option"
  rob_unit :: "id \<times> string"
  rob_buildingId :: id
  rob_tempPassword :: "string option"
  rob_mustChangePassword :: bool

record resident_list_item =
  rli_userId :: id
  rli_name :: "string option"
  rli_email :: string
  rli_unit :: "id \<times> string"
  rli_status :: OccupancyStatus
  rli_startAt :: date
  rli_endAt :: "date option"

definition toResidentListItem :: "occupancy_view \<Rightarrow> resident_list_item" where
  "toResidentListItem v = \<lparr>rli_userId = usr_id (ocv_residentUser v), rli_name = usr_name (ocv_residentUser v),
     rli_email = usr_email (ocv_residentUser v), rli_unit = (unt_id (ocv_unit v), unt_label (ocv_unit v)),
     rli_status = occ_status (ocv_row v), rli_startAt = occ_startAt (ocv_row v), rli_endAt = occ_endAt (ocv_row v)\<rparr>"

record resident_me_building =
  rmb_id :: id
  rmb_name :: string
  rmb_city :: string
  rmb_emirate :: "string option"
  rmb_country :: string
  rmb_timezone :: string

record resident_me_occupancy =
  rmo_id :: id
  rmo_status :: OccupancyStatus
  rmo_startAt :: date
  rmo_endAt :: "date option"
  rmo_building :: resident_me_building
  rmo_unit :: "id \<times> string \<times> int option"

record resident_me_response =
  rme_user :: "id \<times> string \<times> string option \<times> string option"
  rme_occupancy :: "resident_me_occupancy option"

definition toResidentMeResponse :: "user \<Rightarrow> (occupancy \<times> building \<times> unit_row) option \<Rightarrow> resident_me_response" where
  "toResidentMeResponse u oc =
     \<lparr>rme_user = (usr_id u, usr_email u, usr_name u, usr_phone u),
      rme_occupancy = map_option (\<lambda>(r, b, n).
        \<lparr>rmo_id = occ_id r, rmo_status = occ_status r, rmo_startAt = occ_startAt r, rmo_endAt = occ_endAt r,
         rmo_building = \<lparr>rmb_id = bld_id b, rmb_name = bld_name b, rmb_city = bld_city b, rmb_emirate = bld_emirate b,
           rmb_country = bld_country b, rmb_timezone = bld_timezone b\<rparr>,
         rmo_unit = (unt_id n, unt_label n, unt_floor n)\<rparr>) oc\<rparr>"

section \<open>Residents: service (\<open>residents.service.ts\<close>)\<close>

text \<open>\<open>tx.userRole.create\<close>\<close>

definition user_role_create :: "id \<Rightarrow> id \<Rightarrow> unit op" where
  "user_role_create userId roleId =
     bind get_db (\<lambda>d.
     bind (unique_key ((userId, roleId) \<notin> user_role_key ` set (userRoles d))) (\<lambda>_.
     bind (foreign_key (findUser d userId \<noteq> None \<and> findRole d roleId \<noteq> None)) (\<lambda>_.
     write_db (\<lambda>d. d\<lparr>userRoles := userRoles d @ [\<lparr>uro_userId = userId, uro_roleId = roleId\<rparr>]\<rparr>))))"

definition onboard_tx :: "ext \<Rightarrow> id \<Rightarrow> id \<Rightarrow> id \<Rightarrow> create_resident_dto \<Rightarrow> string \<Rightarrow> user op" where
  "onboard_tx x orgId buildingId unitId dto passwordHash =
     bind (query (\<lambda>d. active_in_unit d unitId)) (\<lambda>activeOccupancy.
     bind (require (activeOccupancy = None) (Conflict ''Unit is already occupied'')) (\<lambda>_.
     bind (user_create x (rcd_email dto) (Some (rcd_name dto)) (rcd_phone dto) passwordHash (Some orgId) True True) (\<lambda>residentUser.
     bind (query (\<lambda>d. findRoleByKey d ''resident'')) (\<lambda>residentRole.
     bind (case residentRole of None \<Rightarrow> ret () | Some r \<Rightarrow> user_role_create (usr_id residentUser) (rol_id r)) (\<lambda>_.
     bind (occupancy_insert x buildingId unitId (usr_id residentUser)) (\<lambda>_.
     ret residentUser))))))"

definition onboard :: "ext \<Rightarrow> auth_user option \<Rightarrow> id \<Rightarrow> create_resident_dto \<Rightarrow> resident_onboarding_response op" where
  "onboard x user buildingId dto =
     bind (assertOrgScope user) (\<lambda>orgId.
     bind (building_of_org orgId buildingId) (\<lambda>_.
     bind (query (\<lambda>d. unit_findByIdForBuilding d buildingId (rcd_unitId dto))) (\<lambda>foundUnit.
     bind (some_or foundUnit (BadRequest ''Unit not in building'')) (\<lambda>u.
     bind (query (\<lambda>d. findUserByEmail d (rcd_email dto))) (\<lambda>existing.
     bind (require (existing = None) (Conflict ''Email already in use'')) (\<lambda>_.
     bind (case rcd_password dto of None \<Rightarrow> generateTempPassword x | Some p \<Rightarrow> ret p) (\<lambda>tempPassword.
     bind (argon2_hash x tempPassword) (\<lambda>passwordHash.
     bind (transaction (onboard_tx x orgId buildingId (unt_id u) dto passwordHash)) (\<lambda>residentUser.
     ret \<lparr>rob_userId = usr_id residentUser, rob_name = coalesce (usr_name residentUser) (rcd_name dto),
          rob_email = usr_email residentUser, rob_phone = usr_phone residentUser,
          rob_unit = (unt_id u, unt_label u), rob_buildingId = buildingId,
          rob_tempPassword = (if truthy (rcd_password dto) \<noteq> None then None else Some tempPassword),
          rob_mustChangePassword = True\<rparr>)))))))))"

definition residents_list :: "auth_user option \<Rightarrow> id \<Rightarrow> occupancy_view list op" where
  "residents_list user buildingId =
     bind (assertOrgScope user) (\<lambda>orgId.
     bind (building_of_org orgId buildingId) (\<lambda>_.
     query (\<lambda>d. concat (map (occupancy_views d) (order_desc occ_createdAt
       (findMany (\<lambda>r. occ_buildingId r = buildingId) (occupancies d)))))))"

text \<open>The newest active occupancy of the user in a building of the org, with building and unit.\<close>

definition current_occupancy :: "db \<Rightarrow> id \<Rightarrow> id \<Rightarrow> (occupancy \<times> building \<times> unit_row) option" where
  "current_occupancy d userId orgId =
     (case order_desc occ_createdAt (findMany (\<lambda>r. occ_residentUserId r = userId \<and> occ_status r = ACTIVE \<and>
             buildingInOrg d (occ_buildingId r) orgId \<noteq> None) (occupancies d)) of
        [] \<Rightarrow> None
      | r # _ \<Rightarrow> (case (buildingInOrg d (occ_buildingId r) orgId, findUnit d (occ_unitId r)) of
          (Some b, Some u) \<Rightarrow> Some (r, b, u) | _ \<Rightarrow> None))"

definition getCurrentResidentProfile :: "auth_user option \<Rightarrow> (user \<times> (occupancy \<times> building \<times> unit_row) option) op" where
  "getCurrentResidentProfile user =
     bind (assertOrgScope user) (\<lambda>orgId.
     bind (requireSub user) (\<lambda>userId.
     bind (query (\<lambda>d. findUser d userId)) (\<lambda>found.
     bind (some_or found (Unauthorized ''Unauthorized'')) (\<lambda>residentUser.
     bind (require (usr_orgId residentUser = Some orgId) (Unauthorized ''Unauthorized'')) (\<lambda>_.
     bind (query (\<lambda>d. current_occupancy d userId orgId)) (\<lambda>oc.
     ret (residentUser, oc)))))))"

section \<open>Residents: controllers\<close>

definition residents_create_route ::
  "ext \<Rightarrow> env_data \<Rightarrow> request_context \<Rightarrow> id \<Rightarrow> create_resident_dto \<Rightarrow> resident_onboarding_response op" where
  "residents_create_route x e ctx buildingId dto =
     handle (building_guards x e (BuildingWriteAccess True (RequirePermissions [''residents.write''] plain_route)))
       (at_building ctx buildingId) (\<lambda>user.
     bind (validated (create_resident_ok x dto)) (\<lambda>_. onboard x user buildingId dto))"

definition residents_list_route :: "ext \<Rightarrow> env_data \<Rightarrow> request_context \<Rightarrow> id \<Rightarrow> resident_list_item list op" where
  "residents_list_route x e ctx buildingId =
     handle (building_guards x e (BuildingReadAccess False (RequirePermissions [''residents.read''] plain_route)))
       (at_building ctx buildingId) (\<lambda>user.
     bind (residents_list user buildingId) (\<lambda>vs. ret (map toResidentListItem vs)))"

definition resident_profile_route :: "ext \<Rightarrow> env_data \<Rightarrow> request_context \<Rightarrow> resident_me_response op" where
  "resident_profile_route x e ctx =
     handle (org_guards x e) ctx (\<lambda>user.
     bind (getCurrentResidentProfile user) (\<lambda>(u, oc). ret (toResidentMeResponse u oc)))"

end
