(* ===== verification/Assignments.thy ===== *)
theory Assignments
  imports Buildings
begin

text \<open>
  The building-assignments module: who manages, administers or staffs a building
  (\<open>modules/building-assignments\<close>).
\<close>

section \<open>Input and output objects\<close>

record create_assignment_dto =
  cba_userId :: id
  cba_type :: BuildingAssignmentType

text \<open>\<open>IsUUID()\<close> accepts any version, in the shape the org override is tested for too.\<close>

definition create_assignment_ok :: "create_assignment_dto \<Rightarrow> bool" where
  "create_assignment_ok dto \<longleftrightarrow> is_uuid (cba_userId dto)"

record assignment_user =
  asu_id :: id
  asu_email :: string
  asu_name :: "string option"

record assignment_response =
  asr_id :: id
  asr_buildingId :: id
  asr_userId :: id
  asr_type :: BuildingAssignmentType
  asr_user :: assignment_user
  asr_createdAt :: date
  asr_updatedAt :: date

definition toAssignmentUser :: "user \<Rightarrow> assignment_user" where
  "toAssignmentUser u = \<lparr>asu_id = usr_id u, asu_email = usr_email u, asu_name = usr_name u\<rparr>"

definition toBuildingAssignmentResponse :: "assignment \<times> user \<Rightarrow> assignment_response" where
  "toBuildingAssignmentResponse au = (case au of (a, u) \<Rightarrow>
     \<lparr>asr_id = asg_id a, asr_buildingId = asg_buildingId a, asr_userId = asg_userId a, asr_type = asg_type a,
      asr_user = toAssignmentUser u, asr_createdAt = asg_createdAt a, asr_updatedAt = asg_updatedAt a\<rparr>)"

section \<open>Repository (\<open>building-assignments.repo.ts\<close>)\<close>

definition assignment_key :: "assignment \<Rightarrow> id \<times> id \<times> BuildingAssignmentType" where
  "assignment_key a = (asg_buildingId a, asg_userId a, asg_type a)"

text \<open>\<open>include: { user: true }\<close>: the row with its user, which the foreign key makes exist.\<close>

definition with_user :: "db \<Rightarrow> assignment \<Rightarrow> (assignment \<times> user) list" where
  "with_user d a = (case findUser d (asg_userId a) of None \<Rightarrow> [] | Some u \<Rightarrow> [(a, u)])"

definition assignment_create :: "ext \<Rightarrow> id \<Rightarrow> id \<Rightarrow> BuildingAssignmentType \<Rightarrow> (assignment \<times> user) op" where
  "assignment_create x buildingId userId ty =
     bind (new_row x (\<lambda>d. map asg_id (assignments d))) (\<lambda>(i, now).
     bind get_db (\<lambda>d.
     bind (unique_key ((buildingId, userId, ty) \<notin> assignment_key ` set (assignments d))) (\<lambda>_.
     bind (foreign_key (findBuilding d buildingId \<noteq> None)) (\<lambda>_.
     bind (some_or (findUser d userId) (PrismaKnown ''P2003'')) (\<lambda>u.
     let a = \<lparr>asg_id = i, asg_buildingId = buildingId, asg_userId = userId, asg_type = ty,
              asg_createdAt = now, asg_updatedAt = now\<rparr> in
     bind (write_db (\<lambda>d. d\<lparr>assignments := assignments d @ [a]\<rparr>)) (\<lambda>_. ret (a, u)))))))"

definition assignments_listByBuilding :: "db \<Rightarrow> id \<Rightarrow> (assignment \<times> user) list" where
  "assignments_listByBuilding d buildingId =
     concat (map (with_user d) (order_desc asg_createdAt (findMany (\<lambda>a. asg_buildingId a = buildingId) (assignments d))))"

definition assignment_findById :: "db \<Rightarrow> id \<Rightarrow> assignment option" where
  "assignment_findById d i = findFirst (\<lambda>a. asg_id a = i) (assignments d)"

section \<open>Service (\<open>building-assignments.service.ts\<close>)\<close>

definition ensureAdminRoleForBuildingAdminAssignment :: "id \<Rightarrow> BuildingAssignmentType \<Rightarrow> unit op" where
  "ensureAdminRoleForBuildingAdminAssignment userId ty =
     (if ty \<noteq> BUILDING_ADMIN then ret ()
      else
        bind (query (\<lambda>d. findRoleByKey d ''admin'')) (\<lambda>found.
        bind (some_or found (BadRequest ''admin role not configured'')) (\<lambda>adminRole.
        createUserRoles userId [rol_id adminRole])))"

definition assignments_create :: "ext \<Rightarrow> auth_user option \<Rightarrow> id \<Rightarrow> create_assignment_dto \<Rightarrow> (assignment \<times> user) op" where
  "assignments_create x user buildingId dto =
     bind (assertOrgScope user) (\<lambda>orgId.
     bind (building_of_org orgId buildingId) (\<lambda>_.
     bind (query (\<lambda>d. findUser d (cba_userId dto))) (\<lambda>found.
     bind (some_or found (BadRequest ''User not in org'')) (\<lambda>targetUser.
     bind (require (usr_isActive targetUser \<and> usr_orgId targetUser = Some orgId) (BadRequest ''User not in org'')) (\<lambda>_.
     on_duplicate ''Assignment already exists''
       (bind (assignment_create x buildingId (usr_id targetUser) (cba_type dto)) (\<lambda>assignment.
        bind (ensureAdminRoleForBuildingAdminAssignment (usr_id targetUser) (cba_type dto)) (\<lambda>_.
        ret assignment))))))))"

definition assignments_list :: "auth_user option \<Rightarrow> id \<Rightarrow> (assignment \<times> user) list op" where
  "assignments_list user buildingId =
     bind (assertOrgScope user) (\<lambda>orgId.
     bind (building_of_org orgId buildingId) (\<lambda>_.
     query (\<lambda>d. assignments_listByBuilding d buildingId)))"

section \<open>Controller (\<open>building-assignments.controller.ts\<close>)\<close>

definition assignments_create_route ::
  "ext \<Rightarrow> env_data \<Rightarrow> request_context \<Rightarrow> id \<Rightarrow> create_assignment_dto \<Rightarrow> assignment_response op" where
  "assignments_create_route x e ctx buildingId dto =
     handle (building_guards x e (BuildingWriteAccess True (RequirePermissions [''building.assignments.write''] plain_route)))
       (at_building ctx buildingId) (\<lambda>user.
     bind (validated (create_assignment_ok dto)) (\<lambda>_.
     bind (assignments_create x user buildingId dto) (\<lambda>a. ret (toBuildingAssignmentResponse a))))"

definition assignments_list_route :: "ext \<Rightarrow> env_data \<Rightarrow> request_context \<Rightarrow> id \<Rightarrow> assignment_response list op" where
  "assignments_list_route x e ctx buildingId =
     handle (building_guards x e (BuildingReadAccess False (RequirePermissions [''building.assignments.read''] plain_route)))
       (at_building ctx buildingId) (\<lambda>user.
     bind (assignments_list user buildingId) (\<lambda>as. ret (map toBuildingAssignmentResponse as)))"

section \<open>Lemmas\<close>

lemma assignment_create_Inr:
  assumes "assignment_create x b u ty s = (Inr (a, v), t)"
  shows "st_db t = (st_db s)\<lparr>assignments := assignments (st_db s) @ [a]\<rparr>"
    "asg_buildingId a = b" "asg_userId a = u" "asg_type a = ty" "findUser (st_db s) u = Some v"
    "(b, u, ty) \<notin> assignment_key ` set (assignments (st_db s))" "asg_id a \<notin> asg_id ` set (assignments (st_db s))"
    "b \<in> bld_id ` set (buildings (st_db s))"
  using assms by (auto simp: assignment_create_def run find_by_id_None Let_def split: if_splits option.splits)

definition assignments_ok :: "db \<Rightarrow> bool" where
  "assignments_ok d \<longleftrightarrow> distinct (map asg_id (assignments d)) \<and> distinct (map assignment_key (assignments d)) \<and>
     asg_buildingId ` set (assignments d) \<subseteq> bld_id ` set (buildings d) \<and>
     asg_userId ` set (assignments d) \<subseteq> usr_id ` set (users d)"

lemma assignments_keeps_create [inv]: "db_keeps assignments_ok (assignment_create x b u ty)"
proof (rule db_keepsI)
  fix s :: st assume ok: "assignments_ok (st_db s)"
  show "assignments_ok (st_db (snd (assignment_create x b u ty s)))"
    using ok by (auto simp: assignment_create_def run Let_def assignments_ok_def assignment_key_def find_by_id_None
        dest!: findUser_SomeD split: if_splits option.splits)
qed

lemma assignments_keeps_userRoles [inv]: "db_keeps assignments_ok (createUserRoles u rs)"
  unfolding createUserRoles_def
  by (intro inv db_keeps_write) (simp_all add: assignments_ok_def)

lemma on_duplicate_Inr: "on_duplicate msg m s = (Inr v, t) \<longleftrightarrow> m s = (Inr v, t)"
  by (auto simp: on_duplicate_def catch_map_def split: prod.splits sum.splits)

lemma assignments_keeps_service: "db_keeps assignments_ok (assignments_create x user b dto)"
  unfolding assignments_create_def ensureAdminRoleForBuildingAdminAssignment_def by (intro inv)

lemma createUserRoles_Inr:
  "createUserRoles u rs s = (Inr (), t) \<Longrightarrow>
     st_db t = (st_db s)\<lparr>userRoles := createMany_skip user_role_key
       (map (\<lambda>r. \<lparr>uro_userId = u, uro_roleId = r\<rparr>) rs) (userRoles (st_db s))\<rparr>"
  unfolding createUserRoles_def by (auto simp: run split: if_splits)

lemma user_role_key_row [simp]: "user_role_key \<lparr>uro_userId = u, uro_roleId = r\<rparr> = (u, r)"
  by (simp add: user_role_key_def)

text \<open>
  What an assignment that succeeds has done: the target is an active member of the caller's org,
  the row is there, and a building admin has the \<open>admin\<close> role.
\<close>

lemma assignments_create_Inr:
  assumes "assignments_create x user b dto s = (Inr (a, v), t)"
  obtains orgId where "scope_of user = Some orgId" "findUser (st_db s) (cba_userId dto) = Some v" "usr_isActive v"
    "usr_orgId v = Some orgId" "buildingInOrg (st_db s) b orgId \<noteq> None"
    "assignments (st_db t) = assignments (st_db s) @ [a]"
    "asg_buildingId a = b" "asg_userId a = usr_id v" "asg_type a = cba_type dto"
    "cba_type dto = BUILDING_ADMIN \<Longrightarrow> \<exists>r. findRoleByKey (st_db s) ''admin'' = Some r \<and>
       (usr_id v, rol_id r) \<in> user_role_key ` set (userRoles (st_db t))"
proof -
  obtain orgId where o1: "scope_of user = Some orgId"
    using assms by (cases "scope_of user") (simp_all add: assignments_create_def run)
  obtain bld where bld: "buildingInOrg (st_db s) b orgId = Some bld"
    using assms o1 by (cases "buildingInOrg (st_db s) b orgId") (simp_all add: assignments_create_def run)
  obtain w where w: "findUser (st_db s) (cba_userId dto) = Some w"
    using assms o1 bld by (cases "findUser (st_db s) (cba_userId dto)") (simp_all add: assignments_create_def run)
  have act: "usr_isActive w" "usr_orgId w = Some orgId"
    using assms o1 bld w by (simp_all add: assignments_create_def run split: if_splits)
  obtain s1 where s1: "assignment_create x b (usr_id w) (cba_type dto) s = (Inr (a, v), s1)"
      "ensureAdminRoleForBuildingAdminAssignment (usr_id w) (cba_type dto) s1 = (Inr (), t)"
    using assms o1 bld w act
    by (auto simp: assignments_create_def run on_duplicate_Inr bind_Inr_iff)
  note c = assignment_create_Inr [OF s1(1)]
  have i: "usr_id w = cba_userId dto" using findUser_SomeD [OF w] by simp
  then have v: "v = w" using c(5) w by simp
  have admin: "\<exists>r. findRoleByKey (st_db s) ''admin'' = Some r \<and>
       (usr_id v, rol_id r) \<in> user_role_key ` set (userRoles (st_db t))" if ty: "cba_type dto = BUILDING_ADMIN"
  proof -
    obtain r where r: "findRoleByKey (st_db s1) ''admin'' = Some r" "createUserRoles (usr_id w) [rol_id r] s1 = (Inr (), t)"
      using s1(2) ty by (cases "findRoleByKey (st_db s1) ''admin''")
        (simp_all add: ensureAdminRoleForBuildingAdminAssignment_def run)
    have "findRoleByKey (st_db s) ''admin'' = Some r" using r(1) c(1) by (simp add: findRoleByKey_def)
    moreover have "(usr_id w, rol_id r) \<in> user_role_key ` set (userRoles (st_db t))"
      using createUserRoles_Inr [OF r(2)] by simp
    ultimately show ?thesis using v by simp
  qed
  have "assignments (st_db t) = assignments (st_db s1)"
    using db_keepsD [of "\<lambda>d. assignments d = assignments (st_db s1)", of "ensureAdminRoleForBuildingAdminAssignment (usr_id w) (cba_type dto)" s1]
      s1(2) by (simp add: ensureAdminRoleForBuildingAdminAssignment_def createUserRoles_def inv db_keeps_write)
  moreover have "buildingInOrg (st_db s) b orgId \<noteq> None" using bld by simp
  ultimately show thesis using c v o1 w act admin by (intro that) simp_all
qed

end
