(* ===== verification/Provision.thy ===== *)
theory Provision
  imports Occupancies Assignments
begin

text \<open>
  \<open>modules/users/org-users-provision.service.ts\<close>: one call that creates or links a user of an org and
  grants org roles, building assignments and a unit, inside one transaction.
\<close>

section \<open>Input and output objects\<close>

record provision_identity =
  pid_email :: string
  pid_name :: "string option"
  pid_password :: "string option"
  pid_sendInvite :: "bool option"

record assignment_grant =
  agr_buildingId :: id
  agr_type :: BuildingAssignmentType

datatype grant_mode = ADD_UNIT | MOVE_UNIT

record resident_grant =
  rgr_buildingId :: id
  rgr_unitId :: id
  rgr_mode :: "grant_mode option"

record provision_grants =
  pgr_orgRoleKeys :: "string list option"
  pgr_buildingAssignments :: "assignment_grant list option"
  pgr_resident :: "resident_grant option"

datatype if_email_exists = LINK | ERROR_IF_EXISTS

record provision_mode =
  pmo_ifEmailExists :: "if_email_exists option"
  pmo_requireSameOrg :: "bool option"
  pmo_atomic :: "bool option"
  pmo_idempotent :: "bool option"

record provision_dto =
  pdt_identity :: provision_identity
  pdt_grants :: "provision_grants option"
  pdt_mode :: "provision_mode option"

definition provision_identity_ok :: "ext \<Rightarrow> provision_identity \<Rightarrow> bool" where
  "provision_identity_ok x i \<longleftrightarrow> x_isEmail x (pid_email i) \<and> optional (min_length 2) (pid_name i) \<and>
     optional (min_length 8) (pid_password i)"

definition assignment_grant_ok :: "assignment_grant \<Rightarrow> bool" where
  "assignment_grant_ok g \<longleftrightarrow> is_uuid (agr_buildingId g)"

definition resident_grant_ok :: "resident_grant \<Rightarrow> bool" where
  "resident_grant_ok g \<longleftrightarrow> is_uuid (rgr_buildingId g) \<and> is_uuid (rgr_unitId g)"

definition provision_grants_ok :: "provision_grants \<Rightarrow> bool" where
  "provision_grants_ok g \<longleftrightarrow> optional (list_all assignment_grant_ok) (pgr_buildingAssignments g) \<and>
     optional resident_grant_ok (pgr_resident g)"

definition provision_ok :: "ext \<Rightarrow> provision_dto \<Rightarrow> bool" where
  "provision_ok x dto \<longleftrightarrow> provision_identity_ok x (pdt_identity dto) \<and> optional provision_grants_ok (pdt_grants dto)"

record provisioned_assignment =
  pva_id :: id
  pva_buildingId :: id
  pva_type :: BuildingAssignmentType

record provisioned_resident =
  pvr_occupancyId :: id
  pvr_unitId :: id
  pvr_buildingId :: id

record provision_response =
  pvs_user :: "id \<times> string \<times> string option"
  pvs_created :: bool
  pvs_linkedExisting :: bool
  pvs_orgRoleKeys :: "string list"
  pvs_buildingAssignments :: "provisioned_assignment list"
  pvs_resident :: "provisioned_resident option"

section \<open>Helpers\<close>

definition normalizeEmail :: "string \<Rightarrow> string" where
  "normalizeEmail email = toLowerCase (trim email)"

definition dedupeStrings :: "string list \<Rightarrow> string list" where
  "dedupeStrings values = uniq (map trim values)"

fun assignment_type_str :: "BuildingAssignmentType \<Rightarrow> string" where
  "assignment_type_str MANAGER = ''MANAGER''"
| "assignment_type_str STAFF = ''STAFF''"
| "assignment_type_str BUILDING_ADMIN = ''BUILDING_ADMIN''"

definition dedupe_key :: "assignment_grant \<Rightarrow> string" where
  "dedupe_key g = agr_buildingId g @ '':'' @ assignment_type_str (agr_type g)"

text \<open>The loop with its set of keys seen.\<close>

fun dedupe_loop :: "string list \<Rightarrow> assignment_grant list \<Rightarrow> assignment_grant list" where
  "dedupe_loop seen [] = []"
| "dedupe_loop seen (g # gs) =
     (if dedupe_key g \<in> set seen then dedupe_loop seen gs else g # dedupe_loop (dedupe_key g # seen) gs)"

definition dedupeAssignments :: "assignment_grant list \<Rightarrow> assignment_grant list" where
  "dedupeAssignments gs = dedupe_loop [] gs"

definition hasUsersWritePermission :: "db \<Rightarrow> id option \<Rightarrow> bool" where
  "hasUsersWritePermission d userId = (case truthy userId of
       None \<Rightarrow> False
     | Some u \<Rightarrow> ''users.write'' \<in> set (getUserEffectivePermissions d u))"

text \<open>The buildings the grants name, as the insertion-ordered set the code builds.\<close>

definition target_buildings :: "assignment_grant list \<Rightarrow> resident_grant option \<Rightarrow> id list" where
  "target_buildings gs r =
     (let ids = foldl (\<lambda>acc g. set_add (agr_buildingId g) acc) [] gs in
      case r of None \<Rightarrow> ids | Some g \<Rightarrow> set_add (rgr_buildingId g) ids)"

definition assertManagerProvisioningAllowed ::
  "id \<Rightarrow> string list \<Rightarrow> assignment_grant list \<Rightarrow> resident_grant option \<Rightarrow> bool \<Rightarrow> unit op" where
  "assertManagerProvisioningAllowed actorId orgRoleKeys gs r requireSameOrg =
     bind (require requireSameOrg (Forbidden ''Managers must provision within their org'')) (\<lambda>_.
     bind (require (orgRoleKeys = []) (Forbidden ''Managers cannot assign org roles'')) (\<lambda>_.
     bind (require (gs \<noteq> [] \<or> r \<noteq> None) (Forbidden ''Managers must assign a building role or resident'')) (\<lambda>_.
     bind (require (list_all (\<lambda>g. agr_type g \<in> {MANAGER, STAFF}) gs)
       (Forbidden ''Managers can only assign MANAGER or STAFF building roles'')) (\<lambda>_.
     let targetBuildingIds = target_buildings gs r in
     if targetBuildingIds = [] then ret ()
     else
       bind (query (\<lambda>d. findMany (\<lambda>a. asg_userId a = actorId \<and> asg_buildingId a \<in> set targetBuildingIds \<and>
            asg_type a \<in> {MANAGER, BUILDING_ADMIN}) (assignments d))) (\<lambda>actorAssignments.
       let allowed = map asg_buildingId actorAssignments in
       require (list_all (\<lambda>b. b \<in> set allowed) targetBuildingIds) (Forbidden ''Not assigned to target building''))))))"

section \<open>The grants\<close>

definition applyOrgRoles :: "id \<Rightarrow> string list \<Rightarrow> string list op" where
  "applyOrgRoles userId roleKeys =
     (if roleKeys = [] then ret []
      else
        bind (query (\<lambda>d. findMany (\<lambda>r. rol_key r \<in> set roleKeys) (roles d))) (\<lambda>rs.
        let missing = filter (\<lambda>k. \<not> list_ex (\<lambda>r. rol_key r = k) rs) roleKeys in
        bind (require (missing = []) (BadRequest (''Unknown role keys: '' @ join '', '' missing))) (\<lambda>_.
        bind (createUserRoles userId (map rol_id rs)) (\<lambda>_.
        ret (map rol_key rs)))))"

text \<open>\<open>upsert\<close> on the unique key: an existing row gets the same type and a new \<open>updatedAt\<close>.\<close>

definition assignment_upsert :: "ext \<Rightarrow> id \<Rightarrow> id \<Rightarrow> BuildingAssignmentType \<Rightarrow> assignment op" where
  "assignment_upsert x buildingId userId ty =
     bind (query (\<lambda>d. findFirst (\<lambda>a. assignment_key a = (buildingId, userId, ty)) (assignments d))) (\<lambda>found.
     case found of
       Some a \<Rightarrow>
         bind draw (\<lambda>t.
         let f = (\<lambda>a. a\<lparr>asg_type := ty, asg_updatedAt := x_clock x t\<rparr>) in
         bind (write_db (\<lambda>d. d\<lparr>assignments := updateMany (\<lambda>q. assignment_key q = (buildingId, userId, ty)) f (assignments d)\<rparr>)) (\<lambda>_.
         ret (f a)))
     | None \<Rightarrow> bind (assignment_create x buildingId userId ty) (\<lambda>(a, _). ret a))"

definition applyBuildingAssignments :: "ext \<Rightarrow> id \<Rightarrow> id \<Rightarrow> assignment_grant list \<Rightarrow> provisioned_assignment list op" where
  "applyBuildingAssignments x orgId userId gs =
     for_each gs (\<lambda>g.
       bind (building_of_org orgId (agr_buildingId g)) (\<lambda>_.
       bind (assignment_upsert x (agr_buildingId g) userId (agr_type g)) (\<lambda>a.
       ret \<lparr>pva_id = asg_id a, pva_buildingId = asg_buildingId a, pva_type = asg_type a\<rparr>)))"

definition ensureAdminRoleForBuildingAdmins :: "id \<Rightarrow> assignment_grant list \<Rightarrow> unit op" where
  "ensureAdminRoleForBuildingAdmins userId gs =
     (if \<not> list_ex (\<lambda>g. agr_type g = BUILDING_ADMIN) gs then ret ()
      else
        bind (query (\<lambda>d. findRoleByKey d ''admin'')) (\<lambda>found.
        bind (some_or found (BadRequest ''admin role not configured'')) (\<lambda>adminRole.
        createUserRoles userId [rol_id adminRole])))"

text \<open>
  \<open>SELECT ... FOR UPDATE\<close> reads the row and locks it to the end of the transaction. A lone transaction
  sees only the read; what the lock does between transactions is in the theory of interleavings.
\<close>

definition lockUnit :: "id \<Rightarrow> unit op" where
  "lockUnit unitId = bind (query (\<lambda>d. findUnit d unitId)) (\<lambda>_. ret ())"

text \<open>What \<open>MOVE\<close> ends: the user's other active occupancies in the building.\<close>

definition moves_out :: "id \<Rightarrow> id \<Rightarrow> id \<Rightarrow> occupancy \<Rightarrow> bool" where
  "moves_out userId buildingId unitId r \<longleftrightarrow> occ_residentUserId r = userId \<and> occ_buildingId r = buildingId \<and>
     occ_status r = ACTIVE \<and> occ_unitId r \<noteq> unitId"

definition end_others :: "ext \<Rightarrow> id \<Rightarrow> id \<Rightarrow> id \<Rightarrow> unit op" where
  "end_others x userId buildingId unitId =
     bind draw (\<lambda>t.
     write_db (\<lambda>d. d\<lparr>occupancies := updateMany (moves_out userId buildingId unitId)
       (\<lambda>r. r\<lparr>occ_status := ENDED, occ_endAt := Some (x_clock x t), occ_updatedAt := x_clock x t\<rparr>) (occupancies d)\<rparr>))"

text \<open>The second half of \<open>applyResidentGrant\<close>, once the occupancy of this user in the unit is known.\<close>

definition place_resident :: "ext \<Rightarrow> id \<Rightarrow> resident_grant \<Rightarrow> id \<Rightarrow> occupancy option \<Rightarrow> provisioned_resident option op" where
  "place_resident x userId g unitId existingForUserUnit =
     bind (if rgr_mode g = Some MOVE_UNIT then end_others x userId (rgr_buildingId g) unitId else ret ()) (\<lambda>_.
     bind (case existingForUserUnit of
             Some r \<Rightarrow> ret r
           | None \<Rightarrow> bind (occupancy_insert x (rgr_buildingId g) unitId userId) (\<lambda>v. ret (ocv_row v))) (\<lambda>r.
     ret (Some \<lparr>pvr_occupancyId = occ_id r, pvr_unitId = occ_unitId r, pvr_buildingId = occ_buildingId r\<rparr>)))"

definition applyResidentGrant :: "ext \<Rightarrow> id \<Rightarrow> id \<Rightarrow> resident_grant option \<Rightarrow> provisioned_resident option op" where
  "applyResidentGrant x orgId userId residentGrant = (case residentGrant of
       None \<Rightarrow> ret None
     | Some g \<Rightarrow>
         bind (building_of_org orgId (rgr_buildingId g)) (\<lambda>_.
         bind (query (\<lambda>d. unit_findByIdForBuilding d (rgr_buildingId g) (rgr_unitId g))) (\<lambda>foundUnit.
         bind (some_or foundUnit (BadRequest ''Unit not in building'')) (\<lambda>u.
         bind (lockUnit (unt_id u)) (\<lambda>_.
         bind (query (\<lambda>d. active_in_unit d (unt_id u))) (\<lambda>existingForUnit.
         bind (require (case existingForUnit of None \<Rightarrow> True | Some r \<Rightarrow> occ_residentUserId r = userId)
           (Conflict ''Unit is already occupied'')) (\<lambda>_.
         bind (case existingForUnit of
                 Some r \<Rightarrow> ret (Some r)
               | None \<Rightarrow> query (\<lambda>d. findFirst (\<lambda>r. occ_unitId r = unt_id u \<and> occ_residentUserId r = userId \<and>
                   occ_status r = ACTIVE) (occupancies d))) (\<lambda>existingForUserUnit.
         place_resident x userId g (unt_id u) existingForUserUnit))))))))"

section \<open>The operation\<close>

text \<open>The user a provisioning is about: the one with the e-mail, linked, or a new one.\<close>

definition link_user :: "ext \<Rightarrow> id \<Rightarrow> if_email_exists \<Rightarrow> bool \<Rightarrow> user \<Rightarrow> user op" where
  "link_user x orgId ifEmailExists requireSameOrg found =
     bind (require (ifEmailExists \<noteq> ERROR_IF_EXISTS) (Conflict ''Email already in use'')) (\<lambda>_.
     bind (if usr_orgId found \<noteq> Some orgId then
             (if truthy (usr_orgId found) = None \<and> \<not> requireSameOrg then
                user_update x (usr_id found) (\<lambda>u. u\<lparr>usr_orgId := Some orgId\<rparr>)
              else throw (BadRequest ''User not in org''))
           else ret found) (\<lambda>targetUser.
     bind (require (truthy (usr_orgId targetUser) \<noteq> None) (BadRequest ''User not in org'')) (\<lambda>_.
     bind (require (usr_isActive targetUser) (BadRequest ''User not active'')) (\<lambda>_.
     ret targetUser))))"

definition new_user :: "ext \<Rightarrow> id \<Rightarrow> string \<Rightarrow> provision_identity \<Rightarrow> user op" where
  "new_user x orgId normalizedEmail identity =
     bind (some_or (truthy (map_option trim (pid_name identity))) (BadRequest ''Name required'')) (\<lambda>name.
     bind (require (2 \<le> length name) (BadRequest ''Name required'')) (\<lambda>_.
     bind (require (truthy (pid_password identity) \<noteq> None \<or> pid_sendInvite identity = Some True)
       (BadRequest ''Password or sendInvite required'')) (\<lambda>_.
     bind (case pid_password identity of Some p \<Rightarrow> ret p | None \<Rightarrow> generateTempPassword x) (\<lambda>password.
     bind (argon2_hash x password) (\<lambda>passwordHash.
     user_create x normalizedEmail (Some name) None passwordHash (Some orgId) True True)))))"

definition findUserByEmailInsensitive :: "db \<Rightarrow> string \<Rightarrow> user option" where
  "findUserByEmailInsensitive d email =
     findFirst (\<lambda>u. toLowerCase (usr_email u) = toLowerCase email) (users d)"

definition provision_tx :: "ext \<Rightarrow> id \<Rightarrow> id option \<Rightarrow> bool \<Rightarrow> provision_dto \<Rightarrow> provision_response op" where
  "provision_tx x orgId actorId hasUsersWrite dto =
     (let identity = pdt_identity dto;
          normalizedEmail = normalizeEmail (pid_email identity);
          ifEmailExists = coalesce (case pdt_mode dto of None \<Rightarrow> None | Some m \<Rightarrow> pmo_ifEmailExists m) LINK;
          requireSameOrg = coalesce (case pdt_mode dto of None \<Rightarrow> None | Some m \<Rightarrow> pmo_requireSameOrg m) True;
          orgRoleKeys = dedupeStrings (coalesce (case pdt_grants dto of None \<Rightarrow> None | Some g \<Rightarrow> pgr_orgRoleKeys g) []);
          gs = dedupeAssignments (coalesce (case pdt_grants dto of None \<Rightarrow> None | Some g \<Rightarrow> pgr_buildingAssignments g) []);
          residentGrant = (case pdt_grants dto of None \<Rightarrow> None | Some g \<Rightarrow> pgr_resident g) in
      bind (if hasUsersWrite then ret ()
            else bind (some_or (truthy actorId) (Forbidden ''Unauthorized'')) (\<lambda>actor.
                 assertManagerProvisioningAllowed actor orgRoleKeys gs residentGrant requireSameOrg)) (\<lambda>_.
      bind (query (\<lambda>d. findUserByEmailInsensitive d normalizedEmail)) (\<lambda>found.
      bind (case found of
              Some u \<Rightarrow> link_user x orgId ifEmailExists requireSameOrg u
            | None \<Rightarrow> new_user x orgId normalizedEmail identity) (\<lambda>targetUser.
      bind (applyOrgRoles (usr_id targetUser) orgRoleKeys) (\<lambda>appliedRoleKeys.
      bind (applyBuildingAssignments x orgId (usr_id targetUser) gs) (\<lambda>appliedAssignments.
      bind (ensureAdminRoleForBuildingAdmins (usr_id targetUser) gs) (\<lambda>_.
      bind (applyResidentGrant x orgId (usr_id targetUser) residentGrant) (\<lambda>appliedResident.
      ret \<lparr>pvs_user = (usr_id targetUser, usr_email targetUser, usr_name targetUser),
           pvs_created = (found = None), pvs_linkedExisting = (found \<noteq> None), pvs_orgRoleKeys = appliedRoleKeys,
           pvs_buildingAssignments = appliedAssignments, pvs_resident = appliedResident\<rparr>))))))))"

definition provision :: "ext \<Rightarrow> auth_user option \<Rightarrow> provision_dto \<Rightarrow> provision_response op" where
  "provision x user dto =
     bind (assertOrgScope user) (\<lambda>orgId.
     let actorId = map_option aut_sub user in
     bind (query (\<lambda>d. hasUsersWritePermission d actorId)) (\<lambda>hasUsersWrite.
     bind (require (''super_admin'' \<notin> set (dedupeStrings (coalesce (case pdt_grants dto of None \<Rightarrow> None | Some g \<Rightarrow> pgr_orgRoleKeys g) [])))
       (BadRequest ''super_admin role cannot be assigned'')) (\<lambda>_.
     transaction (provision_tx x orgId actorId hasUsersWrite dto))))"

definition provision_route :: "ext \<Rightarrow> env_data \<Rightarrow> request_context \<Rightarrow> provision_dto \<Rightarrow> provision_response op" where
  "provision_route x e ctx dto =
     handle (org_guards x e) ctx (\<lambda>user.
     bind (validated (provision_ok x dto)) (\<lambda>_. provision x user dto))"

end
