(* ===== verification/Platform.thy ===== *)
theory Platform
  imports Occupancies
begin

text \<open>
  The platform module (\<open>modules/platform\<close>): orgs and their first administrators, behind the platform key
  or a platform user's permissions.
\<close>

section \<open>Input and output objects\<close>

record create_org_dto =
  cog_name :: string
  cog_businessName :: "string option"
  cog_businessType :: "OrgBusinessType option"
  cog_tradeLicenseNumber :: "string option"
  cog_vatRegistrationNumber :: "string option"
  cog_registeredOfficeAddress :: "string option"
  cog_city :: "string option"
  cog_officePhoneNumber :: "string option"
  cog_businessEmailAddress :: "string option"
  cog_website :: "string option"
  cog_ownerName :: "string option"

definition create_org_ok :: "ext \<Rightarrow> create_org_dto \<Rightarrow> bool" where
  "create_org_ok x dto \<longleftrightarrow> min_length 2 (cog_name dto) \<and> optional (x_isEmail x) (cog_businessEmailAddress dto) \<and>
     optional (x_isUrl x) (cog_website dto)"

record create_org_admin_dto =
  coa_name :: string
  coa_email :: string
  coa_password :: "string option"

definition create_org_admin_ok :: "ext \<Rightarrow> create_org_admin_dto \<Rightarrow> bool" where
  "create_org_admin_ok x dto \<longleftrightarrow> min_length 2 (coa_name dto) \<and> x_isEmail x (coa_email dto) \<and>
     optional (min_length 8) (coa_password dto)"

record org_response =
  ors_id :: id
  ors_name :: string
  ors_createdAt :: date
  ors_updatedAt :: date

definition toOrgResponse :: "org \<Rightarrow> org_response" where
  "toOrgResponse v = \<lparr>ors_id = org_id v, ors_name = org_name v, ors_createdAt = org_createdAt v, ors_updatedAt = org_updatedAt v\<rparr>"

record org_admin_response =
  oar_userId :: id
  oar_email :: string
  oar_tempPassword :: "string option"
  oar_mustChangePassword :: bool

record org_admin_summary =
  oas_userId :: id
  oas_email :: string
  oas_name :: "string option"
  oas_orgId :: id
  oas_orgName :: string
  oas_isActive :: bool
  oas_mustChangePassword :: bool
  oas_createdAt :: date
  oas_updatedAt :: date

definition toOrgAdminSummary :: "user \<times> org option \<Rightarrow> org_admin_summary op" where
  "toOrgAdminSummary uo = (case uo of (u, v) \<Rightarrow>
     bind (some_or v (JsError ''Org not found'')) (\<lambda>v.
     ret \<lparr>oas_userId = usr_id u, oas_email = usr_email u, oas_name = usr_name u, oas_orgId = org_id v,
          oas_orgName = org_name v, oas_isActive = usr_isActive u, oas_mustChangePassword = usr_mustChangePassword u,
          oas_createdAt = usr_createdAt u, oas_updatedAt = usr_updatedAt u\<rparr>))"

section \<open>Service (\<open>platform-orgs.service.ts\<close>)\<close>

definition listOrgs :: "db \<Rightarrow> org list" where
  "listOrgs d = order_desc org_createdAt (orgs d)"

definition is_org_admin :: "db \<Rightarrow> id \<Rightarrow> bool" where
  "is_org_admin d userId \<longleftrightarrow> ''org_admin'' \<in> set (getRoleKeys d userId)"

definition with_org :: "db \<Rightarrow> user \<Rightarrow> user \<times> org option" where
  "with_org d u = (u, case usr_orgId u of None \<Rightarrow> None | Some o1 \<Rightarrow> findOrg d o1)"

definition listOrgAdmins :: "db \<Rightarrow> id \<Rightarrow> (user \<times> org option) list" where
  "listOrgAdmins d orgId =
     map (with_org d) (order_desc usr_createdAt
       (findMany (\<lambda>u. usr_orgId u = Some orgId \<and> is_org_admin d (usr_id u)) (users d)))"

definition listAllOrgAdmins :: "db \<Rightarrow> (user \<times> org option) list" where
  "listAllOrgAdmins d =
     map (with_org d) (order_desc usr_createdAt
       (findMany (\<lambda>u. usr_orgId u \<noteq> None \<and> is_org_admin d (usr_id u)) (users d)))"

definition findOrgById :: "db \<Rightarrow> id \<Rightarrow> org option" where
  "findOrgById d orgId = findOrg d orgId"

definition org_create :: "ext \<Rightarrow> create_org_dto \<Rightarrow> org op" where
  "org_create x dto =
     bind (new_row x (\<lambda>d. map org_id (orgs d))) (\<lambda>(i, now).
     let v = \<lparr>org_id = i, org_name = cog_name dto, org_logoUrl = None, org_businessName = cog_businessName dto,
              org_businessType = cog_businessType dto, org_tradeLicenseNumber = cog_tradeLicenseNumber dto,
              org_vatRegistrationNumber = cog_vatRegistrationNumber dto,
              org_registeredOfficeAddress = cog_registeredOfficeAddress dto, org_city = cog_city dto,
              org_officePhoneNumber = cog_officePhoneNumber dto,
              org_businessEmailAddress = cog_businessEmailAddress dto, org_website = cog_website dto,
              org_ownerName = cog_ownerName dto, org_createdAt = now, org_updatedAt = now\<rparr> in
     bind (write_db (\<lambda>d. d\<lparr>orgs := orgs d @ [v]\<rparr>)) (\<lambda>_. ret v))"

text \<open>Three writes in a row, not a transaction: a failure after the first leaves it.\<close>

definition createOrgAdmin :: "ext \<Rightarrow> id \<Rightarrow> create_org_admin_dto \<Rightarrow> org_admin_response op" where
  "createOrgAdmin x orgId dto =
     bind (query (\<lambda>d. findOrg d orgId)) (\<lambda>found.
     bind (some_or found (NotFound ''Org not found'')) (\<lambda>_.
     bind (query (\<lambda>d. findUserByEmail d (coa_email dto))) (\<lambda>existing.
     bind (require (existing = None) (Conflict ''Email already in use'')) (\<lambda>_.
     bind (case coa_password dto of Some p \<Rightarrow> ret p | None \<Rightarrow> generateTempPassword x) (\<lambda>tempPassword.
     bind (argon2_hash x tempPassword) (\<lambda>passwordHash.
     bind (user_create x (coa_email dto) (Some (coa_name dto)) None passwordHash (Some orgId) True True) (\<lambda>user.
     bind (query (\<lambda>d. findRoleByKey d ''org_admin'')) (\<lambda>foundRole.
     bind (some_or foundRole (BadRequest ''ORG_ADMIN role not configured'')) (\<lambda>role.
     bind (user_role_create (usr_id user) (rol_id role)) (\<lambda>_.
     ret \<lparr>oar_userId = usr_id user, oar_email = usr_email user,
          oar_tempPassword = (if truthy (coa_password dto) \<noteq> None then None else Some tempPassword),
          oar_mustChangePassword = True\<rparr>))))))))))"

section \<open>Controllers\<close>

definition platform_guards :: "ext \<Rightarrow> env_data \<Rightarrow> string \<Rightarrow> guard list" where
  "platform_guards x e p = [PlatformAuthGuard x e (RequirePermissions [p] plain_route)]"

definition platform_create_route :: "ext \<Rightarrow> env_data \<Rightarrow> request_context \<Rightarrow> create_org_dto \<Rightarrow> org_response op" where
  "platform_create_route x e ctx dto =
     handle (platform_guards x e ''platform.org.create'') ctx (\<lambda>_.
     bind (validated (create_org_ok x dto)) (\<lambda>_.
     bind (org_create x dto) (\<lambda>v. ret (toOrgResponse v))))"

definition platform_list_route :: "ext \<Rightarrow> env_data \<Rightarrow> request_context \<Rightarrow> org_response list op" where
  "platform_list_route x e ctx =
     handle (platform_guards x e ''platform.org.read'') ctx (\<lambda>_.
     bind (query listOrgs) (\<lambda>vs. ret (map toOrgResponse vs)))"

definition platform_create_admin_route ::
  "ext \<Rightarrow> env_data \<Rightarrow> request_context \<Rightarrow> id \<Rightarrow> create_org_admin_dto \<Rightarrow> org_admin_response op" where
  "platform_create_admin_route x e ctx orgId dto =
     handle (platform_guards x e ''platform.org.admin.create'') ctx (\<lambda>_.
     bind (validated (create_org_admin_ok x dto)) (\<lambda>_. createOrgAdmin x orgId dto))"

definition platform_list_admins_route :: "ext \<Rightarrow> env_data \<Rightarrow> request_context \<Rightarrow> id \<Rightarrow> org_admin_summary list op" where
  "platform_list_admins_route x e ctx orgId =
     handle (platform_guards x e ''platform.org.admin.read'') ctx (\<lambda>_.
     bind (query (\<lambda>d. listOrgAdmins d orgId)) (\<lambda>admins.
     bind (if admins = [] then
             bind (query (\<lambda>d. findOrgById d orgId)) (\<lambda>found. require (found \<noteq> None) (NotFound ''Org not found''))
           else ret ()) (\<lambda>_.
     for_each admins toOrgAdminSummary)))"

definition platform_all_admins_route :: "ext \<Rightarrow> env_data \<Rightarrow> request_context \<Rightarrow> org_admin_summary list op" where
  "platform_all_admins_route x e ctx =
     handle (platform_guards x e ''platform.org.admin.read'') ctx (\<lambda>_.
     bind (query listAllOrgAdmins) (\<lambda>admins. for_each admins toOrgAdminSummary))"

section \<open>Lemmas\<close>

text \<open>Who passes: the holder of the platform key, or a platform user with the permissions.\<close>

definition platform_key_given :: "env_data \<Rightarrow> request_context \<Rightarrow> bool" where
  "platform_key_given e ctx \<longleftrightarrow> truthy (PLATFORM_API_KEY e) \<noteq> None \<and> header_first (ctx_platformKey ctx) = PLATFORM_API_KEY e"

lemma PlatformAuthGuard_Inr:
  assumes "PlatformAuthGuard x e r ctx s = (Inr c, t)"
  shows "platform_key_given e ctx \<and> c = ctx \<and> t = s \<or>
     (\<exists>u p tok. bearer_token (coalesce (ctx_authorization ctx) []) = Some tok \<and>
        x_jwtVerify x (st_tick s) (JWT_ACCESS_SECRET e) tok = Some p \<and>
        findUser (st_db s) (jwt_sub p) = Some u \<and> usr_isActive u \<and> usr_orgId u = None \<and>
        coalesce (rt_permissions r) [] \<noteq> [] \<and>
        (\<forall>k \<in> set (coalesce (rt_permissions r) []).
           k \<in> set (coalesce (ctx_effectivePermissions ctx) (getUserEffectivePermissions (st_db s) (usr_id u)))))"
proof (cases "platform_key_given e ctx")
  case True
  then show ?thesis using assms by (simp add: PlatformAuthGuard_def platform_key_given_def run)
next
  case False
  then have nk: "\<not> (truthy (PLATFORM_API_KEY e) \<noteq> None \<and> header_first (ctx_platformKey ctx) = PLATFORM_API_KEY e)"
    by (simp add: platform_key_given_def)
  obtain h where h: "truthy (ctx_authorization ctx) = Some h"
    using assms nk by (cases "truthy (ctx_authorization ctx)") (auto simp: PlatformAuthGuard_def run)
  obtain tok where tok: "bearer_token h = Some tok"
    using assms nk h by (cases "bearer_token h") (auto simp: PlatformAuthGuard_def run)
  obtain p where p: "x_jwtVerify x (st_tick s) (JWT_ACCESS_SECRET e) tok = Some p"
    using assms nk h tok by (cases "x_jwtVerify x (st_tick s) (JWT_ACCESS_SECRET e) tok") (auto simp: PlatformAuthGuard_def run)
  obtain u where u: "findUser (st_db s) (jwt_sub p) = Some u"
    using assms nk h tok p by (cases "findUser (st_db s) (jwt_sub p)") (auto simp: PlatformAuthGuard_def run)
  have "usr_isActive u \<and> usr_orgId u = None \<and> coalesce (rt_permissions r) [] \<noteq> [] \<and>
      (\<forall>k \<in> set (coalesce (rt_permissions r) []).
         k \<in> set (coalesce (ctx_effectivePermissions ctx) (getUserEffectivePermissions (st_db s) (usr_id u))))"
    using assms nk h tok p u by (auto simp: PlatformAuthGuard_def run Let_def list_all_iff split: if_splits)
  then show ?thesis using h tok p u by (auto simp: truthy_Some_iff)
qed

lemma user_role_create_Inr:
  assumes "user_role_create u r s = (Inr (), t)"
  shows "st_db t = (st_db s)\<lparr>userRoles := userRoles (st_db s) @ [\<lparr>uro_userId = u, uro_roleId = r\<rparr>]\<rparr>"
    "u \<in> usr_id ` set (users (st_db s))" "r \<in> rol_id ` set (roles (st_db s))"
  using assms by (auto simp: user_role_create_def run find_by_id_None split: if_splits)

lemma createOrgAdmin_Inr:
  assumes "createOrgAdmin x o1 dto s = (Inr res, t)"
  obtains u r where "st_db t = (st_db s)\<lparr>users := users (st_db s) @ [u],
      userRoles := userRoles (st_db s) @ [\<lparr>uro_userId = usr_id u, uro_roleId = rol_id r\<rparr>]\<rparr>"
    "findRoleByKey (st_db s) ''org_admin'' = Some r" "usr_orgId u = Some o1" "usr_email u = coa_email dto"
    "usr_isActive u" "usr_mustChangePassword u" "oar_userId res = usr_id u"
    "coa_email dto \<notin> usr_email ` set (users (st_db s))" "usr_id u \<notin> usr_id ` set (users (st_db s))"
proof -
  obtain v where v: "findOrg (st_db s) o1 = Some v"
    using assms by (cases "findOrg (st_db s) o1") (simp_all add: createOrgAdmin_def run)
  have e: "findUserByEmail (st_db s) (coa_email dto) = None"
    using assms v by (simp add: createOrgAdmin_def run split: if_splits)
  obtain u s1 s2 h where u: "user_create x (coa_email dto) (Some (coa_name dto)) None h (Some o1) True True s1 = (Inr u, s2)"
      "st_db s1 = st_db s"
    and rest: "bind (query (\<lambda>d. findRoleByKey d ''org_admin'')) (\<lambda>foundRole.
      bind (some_or foundRole (BadRequest ''ORG_ADMIN role not configured'')) (\<lambda>role.
      bind (user_role_create (usr_id u) (rol_id role)) (\<lambda>_. ret (oar_userId_update (\<lambda>_. usr_id u) res)))) s2 =
        (Inr (oar_userId_update (\<lambda>_. usr_id u) res), t)" "oar_userId res = usr_id u"
    using assms v e
    by (cases "coa_password dto")
      (auto simp: createOrgAdmin_def run generateTempPassword_def bind_Inr_iff ret_run split: option.splits)
  note c = user_create_Inr [OF u(1)]
  obtain r where r: "findRoleByKey (st_db s2) ''org_admin'' = Some r"
      "user_role_create (usr_id u) (rol_id r) s2 = (Inr (), t)"
    using rest(1) by (cases "findRoleByKey (st_db s2) ''org_admin''") (auto simp: run bind_Inr_iff ret_run)
  have "findRoleByKey (st_db s) ''org_admin'' = Some r" using r(1) c(1) u(2) by (simp add: findRoleByKey_def)
  with c u(2) rest(2) user_role_create_Inr(1) [OF r(2)] show thesis by (intro that [of u r]) simp_all
qed

text \<open>Every administrator the platform lists belongs to the org and holds the role.\<close>

lemma set_listOrgAdmins:
  "(u, v) \<in> set (listOrgAdmins d o1) \<longleftrightarrow> u \<in> set (users d) \<and> usr_orgId u = Some o1 \<and> is_org_admin d (usr_id u) \<and> v = findOrg d o1"
  by (auto simp: listOrgAdmins_def with_org_def)

end
