(* ===== verification/Tenancy.thy ===== *)
theory Tenancy
  imports Hoare Provision Platform
begin

text \<open>
  The invariant that keeps the tenants apart and the units singly occupied, and the operations that
  touch it: users, buildings, units, assignments, occupancies, onboarding and provisioning.
\<close>

section \<open>The invariant\<close>

text \<open>The user is in the org of the building.\<close>

definition same_org :: "db \<Rightarrow> id \<Rightarrow> id \<Rightarrow> bool" where
  "same_org d u b \<longleftrightarrow> (\<exists>v \<in> set (users d). \<exists>w \<in> set (buildings d).
     usr_id v = u \<and> bld_id w = b \<and> usr_orgId v = Some (bld_orgId w))"

definition unit_in_building :: "db \<Rightarrow> id \<Rightarrow> id \<Rightarrow> bool" where
  "unit_in_building d u b \<longleftrightarrow> (\<exists>v \<in> set (units d). unt_id v = u \<and> unt_buildingId v = b)"

definition single_occupancy :: "db \<Rightarrow> bool" where
  "single_occupancy d \<longleftrightarrow> distinct (map occ_unitId (filter (\<lambda>r. occ_status r = ACTIVE) (occupancies d)))"

definition tenant_ok :: "db \<Rightarrow> bool" where
  "tenant_ok d \<longleftrightarrow> distinct (map usr_id (users d)) \<and> distinct (map bld_id (buildings d)) \<and>
     [] \<notin> bld_orgId ` set (buildings d) \<and> distinct (map unt_id (units d)) \<and>
     (\<forall>a \<in> set (assignments d). same_org d (asg_userId a) (asg_buildingId a)) \<and>
     (\<forall>r \<in> set (occupancies d). same_org d (occ_residentUserId r) (occ_buildingId r) \<and>
        unit_in_building d (occ_unitId r) (occ_buildingId r)) \<and>
     single_occupancy d"

lemma tenant_okD:
  "tenant_ok d \<Longrightarrow> a \<in> set (assignments d) \<Longrightarrow> same_org d (asg_userId a) (asg_buildingId a)"
  "tenant_ok d \<Longrightarrow> r \<in> set (occupancies d) \<Longrightarrow> same_org d (occ_residentUserId r) (occ_buildingId r)"
  "tenant_ok d \<Longrightarrow> r \<in> set (occupancies d) \<Longrightarrow> unit_in_building d (occ_unitId r) (occ_buildingId r)"
  "tenant_ok d \<Longrightarrow> single_occupancy d"
  by (simp_all add: tenant_ok_def)

section \<open>Writes that keep it\<close>

lemma same_org_mono:
  "same_org d u b \<Longrightarrow> set (users d) \<subseteq> set (users e) \<Longrightarrow> set (buildings d) \<subseteq> set (buildings e) \<Longrightarrow> same_org e u b"
  unfolding same_org_def by blast

lemma tenant_frame:
  "tenant_ok d \<Longrightarrow> users e = users d \<Longrightarrow> buildings e = buildings d \<Longrightarrow> units e = units d \<Longrightarrow>
     assignments e = assignments d \<Longrightarrow> occupancies e = occupancies d \<Longrightarrow> tenant_ok e"
  by (simp add: tenant_ok_def same_org_def unit_in_building_def single_occupancy_def)

lemma tenant_add_user:
  assumes "tenant_ok d" "usr_id u \<notin> usr_id ` set (users d)" shows "tenant_ok (d\<lparr>users := users d @ [u]\<rparr>)"
  using assms by (auto simp: tenant_ok_def unit_in_building_def single_occupancy_def intro: same_org_mono)

lemma tenant_add_building:
  assumes "tenant_ok d" "bld_id b \<notin> bld_id ` set (buildings d)" "bld_orgId b \<noteq> []"
  shows "tenant_ok (d\<lparr>buildings := buildings d @ [b]\<rparr>)"
  using assms by (auto simp: tenant_ok_def unit_in_building_def single_occupancy_def intro: same_org_mono)

lemma tenant_add_unit:
  assumes "tenant_ok d" "unt_id u \<notin> unt_id ` set (units d)" shows "tenant_ok (d\<lparr>units := units d @ [u]\<rparr>)"
  using assms by (auto simp: tenant_ok_def unit_in_building_def single_occupancy_def same_org_def)

text \<open>A user keeps its id, and its org once it has one.\<close>

lemma same_org_update_users:
  assumes "same_org d u b" "[] \<notin> bld_orgId ` set (buildings d)"
    and "\<And>v. v \<in> set (users d) \<Longrightarrow> p v \<Longrightarrow> usr_id (g v) = usr_id v \<and> (truthy (usr_orgId v) \<noteq> None \<longrightarrow> usr_orgId (g v) = usr_orgId v)"
  shows "same_org (d\<lparr>users := updateMany p g (users d)\<rparr>) u b"
proof -
  obtain v w where v: "v \<in> set (users d)" "usr_id v = u" "usr_orgId v = Some (bld_orgId w)"
    and w: "w \<in> set (buildings d)" "bld_id w = b" using assms(1) by (auto simp: same_org_def)
  have "bld_orgId w \<noteq> []" using w(1) assms(2) by force
  then have "truthy (usr_orgId v) \<noteq> None" using v(3) by (simp add: truthy_def)
  then have "usr_id (if p v then g v else v) = u" "usr_orgId (if p v then g v else v) = Some (bld_orgId w)"
    using assms(3) [OF v(1)] v by auto
  moreover have "(if p v then g v else v) \<in> set (updateMany p g (users d))" using v(1) by (auto simp: set_updateMany)
  ultimately show ?thesis using w unfolding same_org_def by auto
qed

lemma map_updateMany_on:
  "(\<And>v. v \<in> set t \<Longrightarrow> p v \<Longrightarrow> k (g v) = k v) \<Longrightarrow> map k (updateMany p g t) = map k t"
  by (induction t) (auto simp: updateMany_def)

lemma tenant_update_users:
  assumes "tenant_ok d"
    and "\<And>v. v \<in> set (users d) \<Longrightarrow> p v \<Longrightarrow> usr_id (g v) = usr_id v \<and> (truthy (usr_orgId v) \<noteq> None \<longrightarrow> usr_orgId (g v) = usr_orgId v)"
  shows "tenant_ok (d\<lparr>users := updateMany p g (users d)\<rparr>)"
proof -
  have "map usr_id (updateMany p g (users d)) = map usr_id (users d)"
    using assms(2) by (intro map_updateMany_on) blast
  moreover have "same_org (d\<lparr>users := updateMany p g (users d)\<rparr>) u b" if "same_org d u b" for u b
    using that assms by (intro same_org_update_users) (auto simp: tenant_ok_def)
  ultimately show ?thesis
    using assms(1) by (simp add: tenant_ok_def unit_in_building_def single_occupancy_def)
qed

text \<open>A unit keeps its id and its building.\<close>

lemma tenant_update_units:
  assumes "tenant_ok d"
    and "\<And>v. v \<in> set (units d) \<Longrightarrow> p v \<Longrightarrow> unt_id (g v) = unt_id v \<and> unt_buildingId (g v) = unt_buildingId v"
  shows "tenant_ok (d\<lparr>units := updateMany p g (units d)\<rparr>)"
proof -
  have "map unt_id (updateMany p g (units d)) = map unt_id (units d)"
    using assms(2) by (intro map_updateMany_on) blast
  moreover have "unit_in_building (d\<lparr>units := updateMany p g (units d)\<rparr>) u b" if m: "unit_in_building d u b" for u b
  proof -
    obtain v where "v \<in> set (units d)" "unt_id v = u" "unt_buildingId v = b" using m by (auto simp: unit_in_building_def)
    moreover from this have "unt_id (if p v then g v else v) = u" "unt_buildingId (if p v then g v else v) = b"
      using assms(2) [of v] by auto
    moreover have "(if p v then g v else v) \<in> set (updateMany p g (units d))" using calculation(1) by (auto simp: set_updateMany)
    ultimately show ?thesis unfolding unit_in_building_def by auto
  qed
  ultimately show ?thesis
    using assms(1) by (simp add: tenant_ok_def same_org_def single_occupancy_def)
qed

lemma tenant_assignments:
  assumes "tenant_ok d" "\<And>a. a \<in> set as \<Longrightarrow> same_org d (asg_userId a) (asg_buildingId a)"
  shows "tenant_ok (d\<lparr>assignments := as\<rparr>)"
  using assms by (simp add: tenant_ok_def same_org_def unit_in_building_def single_occupancy_def)

lemma active_in_unit_None:
  "active_in_unit d u = None \<longleftrightarrow> u \<notin> occ_unitId ` set (filter (\<lambda>r. occ_status r = ACTIVE) (occupancies d))"
  by (auto simp: active_in_unit_def findFirst_None_iff)

lemma single_occupancy_add:
  assumes "single_occupancy d" "active_in_unit d (occ_unitId r) = None"
  shows "single_occupancy (d\<lparr>occupancies := occupancies d @ [r]\<rparr>)"
  using assms by (simp add: single_occupancy_def active_in_unit_None)

lemma tenant_add_occupancy:
  assumes "tenant_ok d" "active_in_unit d (occ_unitId r) = None"
    and "same_org d (occ_residentUserId r) (occ_buildingId r)" "unit_in_building d (occ_unitId r) (occ_buildingId r)"
  shows "tenant_ok (d\<lparr>occupancies := occupancies d @ [r]\<rparr>)"
  using assms single_occupancy_add [OF _ assms(2)] by (auto simp: tenant_ok_def same_org_def unit_in_building_def)

text \<open>Ending occupancies frees units.\<close>

lemma ended_active:
  "(\<And>r. occ_status (g r) = ENDED) \<Longrightarrow>
     filter (\<lambda>r. occ_status r = ACTIVE) (updateMany p g rs) = filter (\<lambda>r. occ_status r = ACTIVE \<and> \<not> p r) rs"
  by (induction rs) (auto simp: updateMany_def)

lemma tenant_end_occupancies:
  assumes "tenant_ok d"
    and "\<And>r. occ_status (g r) = ENDED \<and> occ_unitId (g r) = occ_unitId r \<and> occ_buildingId (g r) = occ_buildingId r \<and>
      occ_residentUserId (g r) = occ_residentUserId r"
  shows "tenant_ok (d\<lparr>occupancies := updateMany p g (occupancies d)\<rparr>)"
proof -
  have "distinct (map occ_unitId (filter (\<lambda>r. occ_status r = ACTIVE \<and> \<not> p r) (occupancies d)))"
    using assms(1) distinct_map_filter [of occ_unitId "filter (\<lambda>r. occ_status r = ACTIVE) (occupancies d)" "\<lambda>r. \<not> p r"]
    by (simp add: tenant_ok_def single_occupancy_def conj_commute)
  then show ?thesis
    using assms by (auto simp: tenant_ok_def single_occupancy_def ended_active same_org_def unit_in_building_def set_updateMany)
qed

section \<open>Operations on users and buildings\<close>

lemma tenant_user_create [inv]: "db_keeps tenant_ok (user_create x e n p h o1 a m)"
  unfolding db_keeps_hoare user_create_def Let_def
  by (intro hoare_rules hoare_write_bind [where P' = tenant_ok] hoare_ret)
    (auto intro: tenant_add_user)

lemma tenant_user_update:
  assumes "\<And>v. usr_id (f v) = usr_id v \<and> usr_orgId (f v) = usr_orgId v"
  shows "db_keeps tenant_ok (user_update x i f)"
  unfolding user_update_def Let_def
  by (intro inv db_keeps_write tenant_update_users) (use assms in simp_all)

lemma tenant_userRoles [inv]: "db_keeps tenant_ok (createUserRoles u rs)"
  unfolding createUserRoles_def by (intro inv db_keeps_write) (auto elim: tenant_frame)

lemma tenant_user_role_create [inv]: "db_keeps tenant_ok (user_role_create u r)"
  unfolding user_role_create_def by (intro inv db_keeps_write) (auto elim: tenant_frame)

lemma tenant_createInOrg [inv]: "db_keeps tenant_ok (createInOrg x user dto)"
  unfolding createInOrg_def Let_def by (intro inv)

lemma scope_nonempty: "scope_of u = Some o1 \<Longrightarrow> o1 \<noteq> []"
  by (auto simp: scope_of_def truthy_Some_iff)

lemma hoare_building_create:
  assumes "o1 \<noteq> []" shows "hoare tenant_ok tenant_ok (building_create x o1 data) (\<lambda>_. tenant_ok)"
  unfolding building_create_def Let_def
  by (intro hoare_rules hoare_write_bind [where P' = tenant_ok] hoare_ret)
    (use assms in \<open>auto intro: tenant_add_building\<close>)

lemma tenant_buildings_create [inv]: "db_keeps tenant_ok (buildings_create x user dto)"
  unfolding db_keeps_hoare buildings_create_def
  by (intro hoare_rules hoare_building_create) (auto dest: scope_nonempty)

section \<open>Assignments\<close>

lemma buildingInOrg_mem: "buildingInOrg d b o1 = Some w \<Longrightarrow> w \<in> set (buildings d) \<and> bld_id w = b \<and> bld_orgId w = o1"
  unfolding buildingInOrg_def by (drule findFirst_SomeD) simp

lemma same_orgI:
  "findUser d i = Some v \<Longrightarrow> usr_orgId v = Some o1 \<Longrightarrow> buildingInOrg d b o1 = Some w \<Longrightarrow> same_org d i b"
  by (auto simp: same_org_def dest!: findUser_SomeD buildingInOrg_mem)

lemma same_org_found:
  "findUser d i = Some v \<Longrightarrow> usr_orgId v = Some o1 \<Longrightarrow> buildingInOrg d b o1 = Some w \<Longrightarrow> same_org d (usr_id v) b"
  using same_orgI findUser_SomeD by metis

lemma hoare_assignment_create:
  "hoare tenant_ok (\<lambda>d. tenant_ok d \<and> same_org d u b) (assignment_create x b u ty) (\<lambda>_. tenant_ok)"
  unfolding assignment_create_def Let_def
  by (intro hoare_rules hoare_write_bind [where P' = tenant_ok] hoare_ret)
    (auto intro!: tenant_assignments dest: tenant_okD)

lemma tenant_assignments_create [inv]: "db_keeps tenant_ok (assignments_create x user b dto)"
proof -
  have tail: "hoare tenant_ok tenant_ok (bind (ensureAdminRoleForBuildingAdminAssignment u ty) (\<lambda>_. ret v)) (\<lambda>_. tenant_ok)" for u ty v
    unfolding db_keeps_hoare [symmetric] ensureAdminRoleForBuildingAdminAssignment_def by (intro inv)
  show ?thesis
    unfolding db_keeps_hoare assignments_create_def
    by (intro hoare_rules hoare_on_duplicate hoare_bind [OF hoare_pre [OF hoare_assignment_create]] tail)
      (auto simp: findUser_SomeD intro: same_orgI dest: findUser_SomeD)
qed

section \<open>Occupancies\<close>

text \<open>What an insert needs: the unit is vacant and in the building, and the resident in the org.\<close>

definition can_move_in :: "db \<Rightarrow> id \<Rightarrow> id \<Rightarrow> id \<Rightarrow> bool" where
  "can_move_in d b u p \<longleftrightarrow> active_in_unit d u = None \<and> same_org d p b \<and> unit_in_building d u b"

lemma hoare_occupancy_insert:
  "hoare tenant_ok (\<lambda>d. tenant_ok d \<and> can_move_in d b u p) (occupancy_insert x b u p) (\<lambda>_. tenant_ok)"
  unfolding occupancy_insert_def Let_def
  by (intro hoare_rules hoare_write_bind [where P' = tenant_ok] hoare_ret)
    (auto simp: can_move_in_def intro: tenant_add_occupancy)

lemma unit_of_building: "unit_findByIdForBuilding d b u = Some v \<Longrightarrow> unt_id v = u \<and> unit_in_building d u b"
  unfolding unit_findByIdForBuilding_def unit_in_building_def by (drule findFirst_SomeD) auto

lemma hoare_createActiveIfVacant:
  "hoare tenant_ok (\<lambda>d. tenant_ok d \<and> same_org d p b \<and> unit_in_building d u b) (createActiveIfVacant x b u p) (\<lambda>_. tenant_ok)"
  unfolding createActiveIfVacant_def
  by (intro hoare_transaction hoare_rules hoare_if hoare_ret
      hoare_bind [OF hoare_pre [OF hoare_weaken_error [OF hoare_occupancy_insert]]])
    (auto simp: can_move_in_def)

lemma tenant_occupancies_create [inv]: "db_keeps tenant_ok (occupancies_create x user b dto)"
  unfolding db_keeps_hoare occupancies_create_def
  by (intro hoare_rules hoare_some_or hoare_bind [OF hoare_pre [OF hoare_createActiveIfVacant]])
    (auto dest: unit_of_building intro: same_org_found)

text \<open>Onboarding: the vacancy and the unit stay what they were while the user and its role are created.\<close>

lemma hoare_user_create:
  "hoare tenant_ok (\<lambda>d. tenant_ok d \<and> active_in_unit d i = None \<and> unit_in_building d i b \<and> buildingInOrg d b o1 = Some w)
     (user_create x e n p h (Some o1) a m)
     (\<lambda>v d. tenant_ok d \<and> can_move_in d b i (usr_id v))"
proof (rule hoareI)
  fix s v t
  assume s: "tenant_ok (st_db s) \<and> active_in_unit (st_db s) i = None \<and> unit_in_building (st_db s) i b \<and>
      buildingInOrg (st_db s) b o1 = Some w"
    and r: "user_create x e n p h (Some o1) a m s = (Inr v, t)"
  have "tenant_ok (st_db t)" using db_keepsD [OF tenant_user_create, of s] s r by (metis snd_conv)
  moreover have "same_org (st_db t) (usr_id v) b"
    using user_create_Inr(1,5) [OF r] s buildingInOrg_mem by (fastforce simp: same_org_def)
  ultimately show "tenant_ok (st_db t) \<and> can_move_in (st_db t) b i (usr_id v)"
    using user_create_Inr(1) [OF r] s by (simp add: can_move_in_def active_in_unit_def unit_in_building_def)
next
  fix s err t
  assume "tenant_ok (st_db s) \<and> active_in_unit (st_db s) i = None \<and> unit_in_building (st_db s) i b \<and>
      buildingInOrg (st_db s) b o1 = Some w" "user_create x e n p h (Some o1) a m s = (Inl err, t)"
  then show "tenant_ok (st_db t)" using db_keepsD [OF tenant_user_create, of s] by (metis snd_conv)
qed

lemma hoare_role_then_move_in:
  "hoare tenant_ok (\<lambda>d. tenant_ok d \<and> can_move_in d b i p) (user_role_create u r) (\<lambda>_ d. tenant_ok d \<and> can_move_in d b i p)"
  unfolding user_role_create_def
  by (intro hoare_rules hoare_write)
    (auto elim: tenant_frame simp: can_move_in_def active_in_unit_def same_org_def unit_in_building_def)

lemma hoare_resident_role:
  "hoare tenant_ok (\<lambda>d. tenant_ok d \<and> can_move_in d b i u)
     (case ro of None \<Rightarrow> ret () | Some r \<Rightarrow> user_role_create u (rol_id r)) (\<lambda>_ d. tenant_ok d \<and> can_move_in d b i u)"
  by (intro hoare_option hoare_ret hoare_role_then_move_in)

lemma hoare_onboard_tx:
  "hoare tenant_ok (\<lambda>d. tenant_ok d \<and> unit_in_building d i b \<and> buildingInOrg d b o1 = Some w)
     (onboard_tx x o1 b i dto h) (\<lambda>_. tenant_ok)"
  unfolding onboard_tx_def
  apply (intro hoare_query_bind hoare_require_bind)
   apply (rule hoare_bind [OF hoare_pre [OF hoare_user_create [where w = w and i = i and b = b]]])
    apply simp
   apply (intro hoare_query_bind)
   apply (rule hoare_bind [OF hoare_pre [OF hoare_resident_role [where b = b and i = i]]])
    apply simp
   apply (rule hoare_bind [OF hoare_occupancy_insert])
   apply (rule hoare_ret, assumption)
  apply simp
  done

lemma tenant_onboard [inv]: "db_keeps tenant_ok (onboard x user b dto)"
proof -
  have tx: "hoare tenant_ok (\<lambda>d. tenant_ok d \<and> unit_in_building d i b \<and> buildingInOrg d b o1 = Some w)
      (transaction (onboard_tx x o1 b i dto h)) (\<lambda>_. tenant_ok)" for i o1 w h
    by (rule hoare_transaction [OF hoare_weaken_error [OF hoare_onboard_tx]]) simp
  show ?thesis
    unfolding db_keeps_hoare onboard_def
    apply (intro hoare_scope_bind hoare_building_bind hoare_query_bind hoare_some_or_bind hoare_require_bind)
         apply (rule hoare_bind_readonly)
           apply (intro frame)
          apply simp
         apply (rule hoare_bind_readonly)
           apply (intro frame)
          apply simp
         apply (rule hoare_bind [OF hoare_pre [OF tx]])
          apply (force dest: unit_of_building)
         apply (rule hoare_ret, assumption)
        apply simp_all
    done
qed

section \<open>Provisioning\<close>

text \<open>Linking gives an org only to a user that has none.\<close>

lemma tenant_link_update:
  assumes "tenant_ok (st_db s)" "found \<in> set (users (st_db s))" "truthy (usr_orgId found) = None"
  shows "tenant_ok (st_db (snd (user_update x (usr_id found) (\<lambda>u. u\<lparr>usr_orgId := Some o1\<rparr>) s)))"
proof -
  have "truthy (usr_orgId v) = None" if "v \<in> set (users (st_db s))" "usr_id v = usr_id found" for v
  proof -
    have "v = found" using that assms(1,2) by (auto simp: tenant_ok_def distinct_map inj_on_def)
    then show ?thesis using assms(3) by simp
  qed
  then have "tenant_ok ((st_db s)\<lparr>users := updateMany (\<lambda>r. usr_id r = usr_id found)
      (\<lambda>u. u\<lparr>usr_orgId := Some o1, usr_updatedAt := z\<rparr>) (users (st_db s))\<rparr>)" for z
    using assms(1) by (intro tenant_update_users) simp_all
  then show ?thesis using assms(1) by (simp add: user_update_def run split: option.splits)
qed

lemma hoare_link_user:
  "hoare tenant_ok (\<lambda>d. tenant_ok d \<and> findUserByEmailInsensitive d e = Some found) (link_user x o1 ie same found) (\<lambda>_. tenant_ok)"
proof -
  have upd: "hoare tenant_ok (\<lambda>d. tenant_ok d \<and> found \<in> set (users d))
      (user_update x (usr_id found) (\<lambda>u. u\<lparr>usr_orgId := Some o1\<rparr>)) (\<lambda>_. tenant_ok)" if "truthy (usr_orgId found) = None"
    by (rule hoareI) (use tenant_link_update [OF _ _ that] in \<open>metis snd_conv\<close>)+
  show ?thesis
    unfolding link_user_def
    apply (rule hoare_require_bind)
     apply (rule hoare_bind [where Q = "\<lambda>_. tenant_ok"])
      apply (intro hoare_if hoare_throw hoare_ret hoare_pre [OF upd])
         apply (auto simp: findUserByEmailInsensitive_def dest: findFirst_SomeD)[4]
     apply (intro hoare_require_bind hoare_ret)
        apply simp_all
    done
qed

lemma tenant_new_user [inv]: "db_keeps tenant_ok (new_user x o1 e ident)"
  unfolding new_user_def by (intro inv)

lemma tenant_applyOrgRoles [inv]: "db_keeps tenant_ok (applyOrgRoles u ks)"
  unfolding applyOrgRoles_def Let_def by (intro inv)

lemma tenant_ensureAdmin [inv]: "db_keeps tenant_ok (ensureAdminRoleForBuildingAdmins u gs)"
  unfolding ensureAdminRoleForBuildingAdmins_def by (intro inv)

text \<open>The target user of a provisioning is in the org: it was linked or created there.\<close>

definition in_org :: "db \<Rightarrow> id \<Rightarrow> id \<Rightarrow> bool" where
  "in_org d o1 u \<longleftrightarrow> (\<exists>v \<in> set (users d). usr_id v = u \<and> usr_orgId v = Some o1)"

lemma in_org_same: "in_org d o1 u \<Longrightarrow> buildingInOrg d b o1 = Some w \<Longrightarrow> same_org d u b"
  by (auto simp: in_org_def same_org_def dest: buildingInOrg_mem)

lemma link_user_in_org:
  assumes "link_user x o1 ie same found s = (Inr u, t)" "found \<in> set (users (st_db s))"
  shows "in_org (st_db t) o1 (usr_id u)"
proof (cases "usr_orgId found = Some o1")
  case True
  then show ?thesis using assms by (auto simp: link_user_def run in_org_def split: if_splits)
next
  case False
  then obtain t1 where "user_update x (usr_id found) (\<lambda>u. u\<lparr>usr_orgId := Some o1\<rparr>) s = (Inr u, t1)" "t = t1"
    using assms(1) by (auto simp: link_user_def run bind_Inr_iff split: if_splits)
  then have u: "user_update x (usr_id found) (\<lambda>u. u\<lparr>usr_orgId := Some o1\<rparr>) s = (Inr u, t)" by simp
  obtain v where v: "findUser (st_db s) (usr_id found) = Some v"
    using u by (cases "findUser (st_db s) (usr_id found)") (simp_all add: user_update_def run)
  let ?g = "\<lambda>u. u\<lparr>usr_orgId := Some o1, usr_updatedAt := x_clock x (st_tick s)\<rparr>"
  have t: "u = ?g v" "users (st_db t) = updateMany (\<lambda>r. usr_id r = usr_id found) ?g (users (st_db s))"
    using u v by (auto simp: user_update_def run)
  have "?g v \<in> set (users (st_db t))"
    unfolding t(2) set_updateMany using findUser_SomeD [OF v] by (auto intro!: image_eqI [of _ _ v])
  then show ?thesis unfolding in_org_def t(1) by (rule bexI [rotated]) simp
qed

lemma user_create_in_org: "user_create x e n p h (Some o1) a m s = (Inr u, t) \<Longrightarrow> in_org (st_db t) o1 (usr_id u)"
  unfolding in_org_def by (rule bexI [of _ u]) (simp_all add: user_create_Inr)

lemma new_user_in_org: "new_user x o1 e ident s = (Inr u, t) \<Longrightarrow> in_org (st_db t) o1 (usr_id u)"
  unfolding new_user_def
  by (auto simp: run bind_Inr_iff intro: user_create_in_org split: if_splits option.splits)

lemma in_org_roles:
  "hoare tenant_ok (\<lambda>d. tenant_ok d \<and> in_org d o1 p) (createUserRoles u rs) (\<lambda>_ d. tenant_ok d \<and> in_org d o1 p)"
  unfolding createUserRoles_def
  by (intro hoare_rules hoare_write) (auto elim: tenant_frame simp: in_org_def)

text \<open>Each of the grants keeps the invariant and the user in the org.\<close>

definition target_ok :: "id \<Rightarrow> id \<Rightarrow> db \<Rightarrow> bool" where
  "target_ok o1 u d \<longleftrightarrow> tenant_ok d \<and> in_org d o1 u"

lemma target_tenant: "target_ok o1 u d \<Longrightarrow> tenant_ok d"
  and target_assigned: "target_ok o1 u d \<Longrightarrow> a \<in> set (assignments d) \<Longrightarrow> same_org d (asg_userId a) (asg_buildingId a)"
  by (simp_all add: target_ok_def tenant_okD)

lemma target_roles: "hoare tenant_ok (target_ok o1 u) (createUserRoles v rs) (\<lambda>_. target_ok o1 u)"
  using in_org_roles unfolding target_ok_def [abs_def] .

lemma target_applyOrgRoles: "hoare tenant_ok (target_ok o1 u) (applyOrgRoles v ks) (\<lambda>_. target_ok o1 u)"
  unfolding applyOrgRoles_def Let_def
  by (intro hoare_if hoare_rules hoare_ret hoare_bind [OF hoare_pre [OF target_roles]]) (auto dest: target_tenant)

lemma target_ensureAdmin:
  "hoare tenant_ok (target_ok o1 u) (ensureAdminRoleForBuildingAdmins v gs) (\<lambda>_. target_ok o1 u)"
  unfolding ensureAdminRoleForBuildingAdmins_def
  by (intro hoare_if hoare_rules hoare_ret hoare_pre [OF target_roles]) (auto dest: target_tenant)

lemma target_assignments:
  "target_ok o1 u d \<Longrightarrow> (\<And>a. a \<in> set as \<Longrightarrow> same_org d (asg_userId a) (asg_buildingId a)) \<Longrightarrow>
     target_ok o1 u (d\<lparr>assignments := as\<rparr>)"
  by (simp add: target_ok_def tenant_assignments in_org_def)

lemma target_assignment_create:
  "hoare tenant_ok (\<lambda>d. target_ok o1 u d \<and> same_org d p b) (assignment_create x b p ty) (\<lambda>_. target_ok o1 u)"
  unfolding assignment_create_def Let_def
  by (intro hoare_rules hoare_write_bind [where P' = "target_ok o1 u"] hoare_ret)
    (auto intro!: target_assignments dest: target_tenant target_assigned)

lemma target_assignment_upsert:
  "hoare tenant_ok (\<lambda>d. target_ok o1 u d \<and> same_org d p b) (assignment_upsert x b p ty) (\<lambda>_. target_ok o1 u)"
proof -
  have update: "target_ok o1 u (d\<lparr>assignments := updateMany q (\<lambda>a. a\<lparr>asg_type := ty, asg_updatedAt := z\<rparr>) (assignments d)\<rparr>)"
    if "target_ok o1 u d" for d q z
    using that target_tenant [OF that] tenant_okD(1) by (intro target_assignments) (auto simp: set_updateMany)
  have create: "hoare tenant_ok (\<lambda>d. target_ok o1 u d \<and> same_org d p b)
      (bind (assignment_create x b p ty) (\<lambda>(a, _). ret a)) (\<lambda>_. target_ok o1 u)"
    by (rule hoare_bind [OF target_assignment_create]) (auto intro: hoare_ret split: prod.split)
  show ?thesis
    unfolding assignment_upsert_def Let_def
    by (intro hoare_query_bind hoare_option hoare_draw_bind hoare_write_bind [where P' = "target_ok o1 u"] hoare_ret
        hoare_pre [OF create]) (auto intro: update)
qed

lemma target_applyBuildingAssignments:
  "hoare tenant_ok (target_ok o1 u) (applyBuildingAssignments x o1 u gs) (\<lambda>_. target_ok o1 u)"
  unfolding applyBuildingAssignments_def
  apply (rule hoare_for_each)
   apply (intro hoare_building_bind)
    apply (rule hoare_bind [OF hoare_pre [OF target_assignment_upsert]])
     apply (auto simp: target_ok_def dest: in_org_same)[1]
    apply (auto intro: hoare_ret dest: target_tenant)
  done

text \<open>Ending the other occupancies leaves a vacant unit vacant.\<close>

lemma end_others_keeps:
  "hoare tenant_ok (\<lambda>d. tenant_ok d \<and> can_move_in d b u p) (end_others x p b u) (\<lambda>_ d. tenant_ok d \<and> can_move_in d b u p)"
  unfolding end_others_def
  by (intro hoare_draw_bind hoare_write)
    (auto intro!: tenant_end_occupancies simp: can_move_in_def active_in_unit_None ended_active same_org_def unit_in_building_def)

lemma tenant_end_others [inv]: "db_keeps tenant_ok (end_others x p b u)"
  unfolding end_others_def by (intro inv db_keeps_write tenant_end_occupancies) simp_all

lemma place_resident_kept: "db_keeps tenant_ok (place_resident x p g u (Some q))"
  unfolding place_resident_def option.case by (intro inv)

lemma place_resident_moved:
  "hoare tenant_ok (\<lambda>d. tenant_ok d \<and> can_move_in d (rgr_buildingId g) u p) (place_resident x p g u None) (\<lambda>_. tenant_ok)"
  unfolding place_resident_def option.case
  apply (rule hoare_bind [where Q = "\<lambda>_ d. tenant_ok d \<and> can_move_in d (rgr_buildingId g) u p"])
   apply (intro hoare_if hoare_ret end_others_keeps, assumption)
  apply (rule hoare_bind [where Q = "\<lambda>_. tenant_ok"])
   apply (rule hoare_bind [OF hoare_occupancy_insert])
   apply (rule hoare_ret, assumption)
  apply (rule hoare_ret, assumption)
  done

lemma hoare_place_resident:
  "hoare tenant_ok (\<lambda>d. tenant_ok d \<and> (q = None \<longrightarrow> can_move_in d (rgr_buildingId g) u p)) (place_resident x p g u q) (\<lambda>_. tenant_ok)"
proof (cases q)
  case None
  then show ?thesis using place_resident_moved by simp
next
  case (Some r)
  then show ?thesis using place_resident_kept unfolding db_keeps_hoare by simp
qed

lemma hoare_applyResidentGrant:
  "hoare tenant_ok (target_ok o1 p) (applyResidentGrant x o1 p g) (\<lambda>_. tenant_ok)"
proof (cases g)
  case None
  then show ?thesis by (simp add: applyResidentGrant_def hoare_ret target_tenant)
next
  case (Some r)
  have move_in: "can_move_in d (rgr_buildingId r) (unt_id u) p"
    if "target_ok o1 p d" "buildingInOrg d (rgr_buildingId r) o1 = Some w" "active_in_unit d (unt_id u) = None"
      "unit_findByIdForBuilding d (rgr_buildingId r) (rgr_unitId r) = Some u" for d w u
    using that unit_of_building by (auto simp: can_move_in_def target_ok_def dest: in_org_same)
  show ?thesis
    unfolding applyResidentGrant_def Some option.case lockUnit_def
    apply (intro hoare_building_bind hoare_query_bind hoare_some_or_bind)
      apply (rule hoare_bind_readonly, intro frame, blast dest: target_tenant)
      apply (intro hoare_query_bind hoare_require_bind)
       apply (rule hoare_bind [OF _ hoare_place_resident])
       apply (intro hoare_option hoare_ret hoareI)
         apply (auto simp: run intro: move_in dest: target_tenant)
    done
qed

lemma provision_target:
  "hoare tenant_ok (\<lambda>d. tenant_ok d \<and> findUserByEmailInsensitive d e = found)
     (case found of Some u \<Rightarrow> link_user x o1 ie same u | None \<Rightarrow> new_user x o1 e ident)
     (\<lambda>u. target_ok o1 (usr_id u))"
proof (cases found)
  case None
  have "hoare tenant_ok tenant_ok (new_user x o1 e ident) (\<lambda>_. tenant_ok)"
    unfolding db_keeps_hoare [symmetric] by (rule tenant_new_user)
  then have "hoare tenant_ok tenant_ok (new_user x o1 e ident) (\<lambda>u. target_ok o1 (usr_id u))"
    by (intro hoareI) (auto simp: target_ok_def dest: hoareD intro: new_user_in_org)
  then show ?thesis unfolding None option.case by (rule hoare_pre) simp
next
  case (Some u)
  have "hoare tenant_ok (\<lambda>d. tenant_ok d \<and> findUserByEmailInsensitive d e = Some u) (link_user x o1 ie same u)
      (\<lambda>v. target_ok o1 (usr_id v))"
  proof (rule hoareI)
    fix s v t
    assume s: "tenant_ok (st_db s) \<and> findUserByEmailInsensitive (st_db s) e = Some u" and r: "link_user x o1 ie same u s = (Inr v, t)"
    then have "u \<in> set (users (st_db s))" by (auto simp: findUserByEmailInsensitive_def dest: findFirst_SomeD)
    then show "target_ok o1 (usr_id v) (st_db t)"
      using hoareD(1) [OF hoare_link_user s r] link_user_in_org [OF r] by (simp add: target_ok_def)
  next
    fix s err t
    assume "tenant_ok (st_db s) \<and> findUserByEmailInsensitive (st_db s) e = Some u" "link_user x o1 ie same u s = (Inl err, t)"
    then show "tenant_ok (st_db t)" by (rule hoareD(2) [OF hoare_link_user])
  qed
  then show ?thesis unfolding Some option.case .
qed

lemma readonly_assertManager [frame]: "readonly (assertManagerProvisioningAllowed a ks gs r same)"
  unfolding assertManagerProvisioningAllowed_def Let_def by (intro frame)

lemma tenant_provision_tx: "db_keeps tenant_ok (provision_tx x o1 actor w dto)"
  unfolding db_keeps_hoare provision_tx_def Let_def
  apply (rule hoare_bind_readonly, intro frame, assumption)
  apply (rule hoare_query_bind)
  apply (rule hoare_bind [OF provision_target])
  apply (rule hoare_bind [OF target_applyOrgRoles])
  apply (rule hoare_bind [OF target_applyBuildingAssignments])
  apply (rule hoare_bind [OF target_ensureAdmin])
  apply (rule hoare_bind [OF hoare_applyResidentGrant])
  apply (rule hoare_ret, assumption)
  done

lemma tenant_provision [inv]: "db_keeps tenant_ok (provision x user dto)"
  unfolding provision_def Let_def by (intro inv tenant_provision_tx)

section \<open>Units\<close>

text \<open>What a write sees after its columns are rounded.\<close>

lemma readonly_fit_unit [frame]: "readonly (fit_unit x u)"
  unfolding fit_unit_def decimal_column_def by (intro frame)

lemma fit_unit_Inr: "fit_unit x u s = (Inr v, t) \<Longrightarrow>
  t = s \<and> unt_id v = unt_id u \<and> unt_buildingId v = unt_buildingId u \<and> unt_label v = unt_label u"
  unfolding fit_unit_def decimal_column_def
  by (auto simp: run bind_Inr_iff split: option.splits)

lemma hoare_fit_unit_bind:
  "(\<And>v. unt_id v = unt_id u \<Longrightarrow> unt_buildingId v = unt_buildingId u \<Longrightarrow> unt_label v = unt_label u \<Longrightarrow> hoare I P (k v) R) \<Longrightarrow>
     (\<And>d. P d \<Longrightarrow> I d) \<Longrightarrow> hoare I P (bind (fit_unit x u) k) R"
proof (rule hoare_bind [where Q = "\<lambda>v d. P d \<and> unt_id v = unt_id u \<and> unt_buildingId v = unt_buildingId u \<and> unt_label v = unt_label u"])
  assume i: "\<And>d. P d \<Longrightarrow> I d"
  show "hoare I P (fit_unit x u) (\<lambda>v d. P d \<and> unt_id v = unt_id u \<and> unt_buildingId v = unt_buildingId u \<and> unt_label v = unt_label u)"
  proof (rule hoareI)
    fix s v t assume "P (st_db s)" "fit_unit x u s = (Inr v, t)"
    then show "P (st_db t) \<and> unt_id v = unt_id u \<and> unt_buildingId v = unt_buildingId u \<and> unt_label v = unt_label u"
      using fit_unit_Inr by blast
  next
    fix s e t assume p: "P (st_db s)" and "fit_unit x u s = (Inl e, t)"
    then have "st_db t = st_db s" using readonlyD [OF readonly_fit_unit] by blast
    then show "I (st_db t)" using i p by simp
  qed
next
  fix v assume k: "\<And>v. unt_id v = unt_id u \<Longrightarrow> unt_buildingId v = unt_buildingId u \<Longrightarrow> unt_label v = unt_label u \<Longrightarrow> hoare I P (k v) R"
  show "hoare I (\<lambda>d. P d \<and> unt_id v = unt_id u \<and> unt_buildingId v = unt_buildingId u \<and> unt_label v = unt_label u) (k v) R"
  proof (cases "unt_id v = unt_id u \<and> unt_buildingId v = unt_buildingId u \<and> unt_label v = unt_label u")
    case True
    then show ?thesis using hoare_pre [OF k [of v]] by simp
  next
    case False
    then show ?thesis by (auto simp: hoare_def)
  qed
qed

lemma mapUnitUpdate_keys [simp]:
  "unt_id (mapUnitUpdate dto u) = unt_id u" "unt_buildingId (mapUnitUpdate dto u) = unt_buildingId u"
  by (simp_all add: mapUnitUpdate_def)

lemma tenant_unit_insert [inv]: "db_keeps tenant_ok (unit_insert x row)"
  unfolding db_keeps_hoare unit_insert_def
  by (intro hoare_rules hoare_fit_unit_bind hoare_write_bind [where P' = tenant_ok] hoare_ret)
    (auto intro: tenant_add_unit)

lemma tenant_unit_write [inv]: "db_keeps tenant_ok (unit_write x i (mapUnitUpdate dto))"
proof -
  have "tenant_ok (d\<lparr>units := updateMany (\<lambda>r. unt_id r = i) (\<lambda>_. v) (units d)\<rparr>)"
    if d: "tenant_ok d" "findUnit d i = Some w" and v: "unt_id v = unt_id w" "unt_buildingId v = unt_buildingId w" for d v w
  proof -
    have w: "w \<in> set (units d)" "unt_id w = i" using findUnit_SomeD [OF d(2)] by auto
    then have "q = w" if "q \<in> set (units d)" "unt_id q = i" for q
      using that d(1) by (auto simp: tenant_ok_def distinct_map inj_on_def)
    then show ?thesis using v w(2) by (intro tenant_update_units [OF d(1)]) auto
  qed
  then show ?thesis
    unfolding db_keeps_hoare unit_write_def
    by (intro hoare_rules hoare_fit_unit_bind hoare_write_bind [where P' = tenant_ok] hoare_ret) auto
qed

lemma tenant_link_amenities [inv]: "db_keeps tenant_ok (link_amenities x u ids)"
  unfolding link_amenities_def by (intro inv db_keeps_write) (auto elim: tenant_frame)

lemma readonly_unit_checks [frame]:
  "readonly (assertUnitTypeInOrg o1 v)" "readonly (assertOwnerInOrg o1 v)" "readonly (assertAmenityIds b ids)"
  "readonly (mapUnitData b cdto)"
  unfolding assertUnitTypeInOrg_def assertOwnerInOrg_def assertAmenityIds_def mapUnitData_def by (intro frame)+

lemmas inv_unit_checks [inv] = readonly_unit_checks [THEN db_keeps_readonly]

lemma tenant_units_create [inv]: "db_keeps tenant_ok (units_create x user b dto)"
  unfolding units_create_def by (intro inv)

lemma inv_js [inv]:
  "db_keeps I m1 \<Longrightarrow> db_keeps I m2 \<Longrightarrow> (\<And>v. db_keeps I (m3 v)) \<Longrightarrow>
     db_keeps I (case w of Undefined \<Rightarrow> m1 | Null \<Rightarrow> m2 | Val v \<Rightarrow> m3 v)"
  by (simp split: js.splits)

lemma tenant_replace_amenities [inv]: "db_keeps tenant_ok (replace_amenities x i ids)"
  unfolding replace_amenities_def by (intro inv db_keeps_write) (auto elim: tenant_frame)

lemma tenant_units_update [inv]: "db_keeps tenant_ok (units_update_op x user b i dto)"
  unfolding units_update_op_def by (intro inv)

section \<open>Accounts\<close>

lemma tenant_updates [inv]:
  "db_keeps tenant_ok (users_repo_updateProfile x i data)" "db_keeps tenant_ok (updateRefreshTokenHash x i h)"
  "db_keeps tenant_ok (updatePasswordHash x i h)"
  unfolding users_repo_updateProfile_def updateRefreshTokenHash_def updatePasswordHash_def
  by (rule tenant_user_update, simp)+

lemma tenant_sign_in [inv]: "db_keeps tenant_ok (sign_in x e u)"
  unfolding sign_in_def issueTokens_def saveRefreshToken_def by (intro inv)

lemma tenant_accounts [inv]:
  "db_keeps tenant_ok (users_updateProfile x i data)" "db_keeps tenant_ok (changePassword x i cur new)"
  "db_keeps tenant_ok (register x e rdto)" "db_keeps tenant_ok (login x e ldto)" "db_keeps tenant_ok (refresh x e i tok)"
  unfolding users_updateProfile_def changePassword_def register_def auth_createUser_def login_def refresh_def
  by (intro inv)+

lemma tenant_platform [inv]: "db_keeps tenant_ok (createOrgAdmin x o1 adto)" "db_keeps tenant_ok (org_create x odto)"
  unfolding createOrgAdmin_def org_create_def Let_def by (intro inv db_keeps_write; auto elim: tenant_frame)+

end
