(* ===== verification/System.thy ===== *)
theory System
  imports Tenancy RequestFacts NotificationFacts OrgCatalog
begin

text \<open>
  The backend as one machine: every operation of the services that can change the database, with the
  caller and the input it gets, and the handling of a pending event, as steps of one system. The
  invariants of the components are invariants of the machine.
\<close>

section \<open>What an invariant has to do with which tables\<close>

text \<open>
  An invariant over the tables of users, buildings, units, assignments, occupancies and requests is
  untouched by the operations that write to other tables only.
\<close>

locale side_tables =
  fixes I :: "db \<Rightarrow> bool"
  assumes side: "I d \<Longrightarrow> users e = users d \<Longrightarrow> buildings e = buildings d \<Longrightarrow> units e = units d \<Longrightarrow>
    assignments e = assignments d \<Longrightarrow> occupancies e = occupancies d \<Longrightarrow> requests e = requests d \<Longrightarrow> I e"
begin

lemma side_access [inv]:
  "db_keeps I (createRole x k n desc b)" "db_keeps I (createRolePermissions r ps)" "db_keeps I (createUserRoles u rs)"
  "db_keeps I (createUserPermissions u os)" "db_keeps I (replaceRolePermissions r ps)" "db_keeps I (replaceUserRoles u rs)"
  "db_keeps I (replaceUserPermissions u os)" "db_keeps I (user_role_create u r)"
  unfolding createRole_def createRolePermissions_def createUserRoles_def createUserPermissions_def
    replaceRolePermissions_def replaceUserRoles_def replaceUserPermissions_def user_role_create_def Let_def
  by (intro inv db_keeps_write; auto elim: side)+

lemma side_access_services [inv]:
  "db_keeps I (roles_create x cdto)" "db_keeps I (setRolePermissions r ks mode)"
  "db_keeps I (assignRoles u rs mode)" "db_keeps I (setPermissionOverrides u os)"
  unfolding roles_create_def setRolePermissions_def assignRoles_def setPermissionOverrides_def
    addRolePermissions_def addUserRoles_def Let_def
  by (intro inv)+

lemma side_catalog [inv]:
  "db_keeps I (amenities_create x user b adto)" "db_keeps I (amenities_update_op x user b i udto)"
  "db_keeps I (owners_create x user odto)" "db_keeps I (unit_types_create x user tdto)"
  "db_keeps I (org_updateProfile x o1 pdto)" "db_keeps I (link_amenities x u ids)" "db_keeps I (org_create x gdto)"
  unfolding amenities_create_def amenities_update_op_def amenity_create_def amenity_update_def owners_create_def
    owners_repo_create_def unit_types_create_def unit_types_repo_create_def org_updateProfile_def org_update_def
    link_amenities_def org_create_def Let_def
  by (intro inv db_keeps_write; auto elim: side)+

lemma side_requests [inv]:
  "db_keeps I (createAttachments x i o1 u as)" "db_keeps I (createComment x i o1 u m)"
  "db_keeps I (addResidentComment x user i m)" "db_keeps I (addBuildingComment x user b i m)"
  "db_keeps I (addBuildingAttachments x user b i as)"
  unfolding addResidentComment_def addBuildingComment_def addBuildingAttachments_def createAttachments_def
    createComment_def assertBuildingInOrg_def Let_def
  by (intro inv db_keeps_write; auto elim: side)+

lemma side_updateNotifications [inv]: "db_keeps I (updateNotifications p f)"
  unfolding updateNotifications_def by (intro inv db_keeps_write; auto elim: side)

lemma side_notifications [inv]:
  "db_keeps I (createForUsers x inp)" "db_keeps I (markRead x i u o1)" "db_keeps I (markAllRead x u o1)"
  "db_keeps I (dismiss x i u o1)" "db_keeps I (undismiss i u o1)"
  unfolding createForUsers_def createManyAndReturn_def notification_create_def markRead_def markAllRead_def dismiss_def
    undismiss_def repo_markRead_def repo_markAllRead_def repo_markDismissed_def repo_clearDismissed_def Let_def
  by (intro inv db_keeps_write; auto elim: side)+

lemma side_on_event [inv]: "db_keeps I (on_event x e p)"
proof -
  obtain title body where "on_event x e p = notify x p (\<lambda>d. event_recipients e d p) (event_type e) title body"
    using on_event_alt by blast
  then show ?thesis by (simp add: notify_def inv)
qed

end

text \<open>An invariant that does not look at the requests is untouched by the request operations.\<close>

locale core_invariant = side_tables +
  assumes core: "I d \<Longrightarrow> users e = users d \<Longrightarrow> buildings e = buildings d \<Longrightarrow> units e = units d \<Longrightarrow>
    assignments e = assignments d \<Longrightarrow> occupancies e = occupancies d \<Longrightarrow> I e"
begin

lemma core_request_writes [inv]: "db_keeps I (createRequest x dt)" "db_keeps I (updateById x i f)"
  unfolding createRequest_def updateById_def Let_def by (intro inv db_keeps_write; auto elim: core)+

lemma core_requests [inv]:
  "db_keeps I (createResidentRequest x user cdto)" "db_keeps I (updateResidentRequest x user i udto)"
  "db_keeps I (cancelResidentRequest x user i)" "db_keeps I (assignRequest x user b i staff)"
  "db_keeps I (updateRequestStatus x user b i st)" "db_keeps I (cancelBuildingRequest x user b i)"
  unfolding createResidentRequest_def updateResidentRequest_def cancelResidentRequest_def assignRequest_def
    updateRequestStatus_def cancelBuildingRequest_def createRequestWithAttachments_def createRequestWithAttachmentsInTx_def
    assertBuildingInOrg_def Let_def
  by (intro inv)+

end

text \<open>An invariant of the requests is untouched by everything else.\<close>

locale request_invariant = side_tables +
  assumes only_requests: "I d \<Longrightarrow> requests e = requests d \<Longrightarrow> I e"
begin

lemma keeps_users [inv]: "db_keeps I (user_create x e n p h o1 a m)" "db_keeps I (user_update x i f)"
  unfolding user_create_def user_update_def Let_def by (intro inv db_keeps_write; auto elim: only_requests)+

lemma keeps_accounts [inv]:
  "db_keeps I (register x e rdto)" "db_keeps I (login x e ldto)" "db_keeps I (refresh x e i tok)"
  "db_keeps I (changePassword x i cur new)" "db_keeps I (users_updateProfile x i data)"
  "db_keeps I (createInOrg x user idto)" "db_keeps I (createOrgAdmin x o1 adto)"
  unfolding register_def login_def refresh_def changePassword_def users_updateProfile_def createInOrg_def
    createOrgAdmin_def sign_in_def issueTokens_def saveRefreshToken_def updateRefreshTokenHash_def
    updatePasswordHash_def auth_createUser_def users_repo_updateProfile_def Let_def
  by (intro inv)+

lemma keeps_writes [inv]:
  "db_keeps I (building_create x o1 bdata)" "db_keeps I (assignment_create x b u ty)" "db_keeps I (assignment_upsert x b u ty)"
  "db_keeps I (unit_insert x row)" "db_keeps I (unit_write x i f)" "db_keeps I (replace_amenities x i ids)"
  "db_keeps I (occupancy_insert x b i u)" "db_keeps I (end_others x u b i)"
  unfolding building_create_def assignment_create_def assignment_upsert_def unit_insert_def unit_write_def
    fit_unit_def decimal_column_def replace_amenities_def occupancy_insert_def end_others_def Let_def
  by (intro inv db_keeps_write; auto elim: only_requests)+

lemma keeps_property [inv]:
  "db_keeps I (buildings_create x user bdto)" "db_keeps I (assignments_create x user b asdto)"
  "db_keeps I (units_create x user b cdto)" "db_keeps I (units_update_op x user b i updto)"
  "db_keeps I (occupancies_create x user b odto)" "db_keeps I (onboard x user b rdto)"
  unfolding buildings_create_def assignments_create_def ensureAdminRoleForBuildingAdminAssignment_def units_create_def
    units_update_op_def occupancies_create_def createActiveIfVacant_def onboard_def onboard_tx_def
  by (intro inv)+

lemma keeps_provision [inv]: "db_keeps I (provision x user pdto)"
  unfolding provision_def provision_tx_def assertManagerProvisioningAllowed_def link_user_def new_user_def
    applyOrgRoles_def applyBuildingAssignments_def ensureAdminRoleForBuildingAdmins_def applyResidentGrant_def
    place_resident_def lockUnit_def Let_def
  by (intro inv)

end

interpretation tenant: core_invariant tenant_ok
  by unfold_locales (auto elim: tenant_frame)

interpretation reqs: request_invariant "\<lambda>d. requests d = R" for R
  by unfold_locales simp_all

section \<open>The machine\<close>

text \<open>
  A call of a service with the caller the guards attached (or any other) and its input, or the
  handling of the \<open>n\<close>-th pending event.
\<close>

datatype sys_op =
    Register register_dto
  | Login login_dto
  | Refresh id string
  | ChangePassword id string string
  | CreateInOrg "auth_user option" create_org_user_dto
  | UpdateProfile id update_user_profile_dto
  | CreateRole create_role_dto
  | SetRolePermissions id "string list" "update_mode option"
  | AssignRoles id "id list" "update_mode option"
  | SetOverrides id "(string \<times> PermissionEffect) list"
  | CreateOrg create_org_dto
  | CreateOrgAdmin id create_org_admin_dto
  | UpdateOrg id update_org_profile_dto
  | CreateBuilding "auth_user option" create_building_dto
  | CreateAmenity "auth_user option" id create_amenity_dto
  | UpdateAmenity "auth_user option" id id update_amenity_dto
  | CreateOwner "auth_user option" create_owner_dto
  | CreateUnitType "auth_user option" create_unit_type_dto
  | CreateAssignment "auth_user option" id create_assignment_dto
  | CreateUnit "auth_user option" id create_unit_dto
  | UpdateUnit "auth_user option" id id update_unit_dto
  | CreateOccupancy "auth_user option" id create_occupancy_dto
  | Onboard "auth_user option" id create_resident_dto
  | Provision_user "auth_user option" provision_dto
  | CreateRequest "auth_user option" create_resident_request_dto
  | UpdateRequest "auth_user option" id update_resident_request_dto
  | CancelRequest "auth_user option" id
  | CommentRequest "auth_user option" id string
  | AssignRequest "auth_user option" id id id
  | SetRequestStatus "auth_user option" id id RequestStatus
  | CancelBuildingRequest "auth_user option" id id
  | CommentBuildingRequest "auth_user option" id id string
  | AttachToRequest "auth_user option" id id "attachment_input list"
  | NotifyUsers create_input
  | ReadNotification id id id
  | ReadAllNotifications id id
  | DismissNotification id id id
  | UndismissNotification id id id
  | Dispatch nat

definition void :: "'a op \<Rightarrow> unit op" where
  "void m = bind m (\<lambda>_. ret ())"

fun run_op :: "ext \<Rightarrow> env_data \<Rightarrow> sys_op \<Rightarrow> unit op" where
  "run_op x e (Register dto) = void (register x e dto)"
| "run_op x e (Login dto) = void (login x e dto)"
| "run_op x e (Refresh i token) = void (refresh x e i token)"
| "run_op x e (ChangePassword i cur new) = void (changePassword x i cur new)"
| "run_op x e (CreateInOrg user dto) = void (createInOrg x user dto)"
| "run_op x e (UpdateProfile i dto) = void (users_updateProfile x i dto)"
| "run_op x e (CreateRole dto) = void (roles_create x dto)"
| "run_op x e (SetRolePermissions r ks mode) = void (setRolePermissions r ks mode)"
| "run_op x e (AssignRoles u rs mode) = void (assignRoles u rs mode)"
| "run_op x e (SetOverrides u os) = void (setPermissionOverrides u os)"
| "run_op x e (CreateOrg dto) = void (org_create x dto)"
| "run_op x e (CreateOrgAdmin o1 dto) = void (createOrgAdmin x o1 dto)"
| "run_op x e (UpdateOrg o1 dto) = void (org_updateProfile x o1 dto)"
| "run_op x e (CreateBuilding user dto) = void (buildings_create x user dto)"
| "run_op x e (CreateAmenity user b dto) = void (amenities_create x user b dto)"
| "run_op x e (UpdateAmenity user b i dto) = void (amenities_update_op x user b i dto)"
| "run_op x e (CreateOwner user dto) = void (owners_create x user dto)"
| "run_op x e (CreateUnitType user dto) = void (unit_types_create x user dto)"
| "run_op x e (CreateAssignment user b dto) = void (assignments_create x user b dto)"
| "run_op x e (CreateUnit user b dto) = void (units_create x user b dto)"
| "run_op x e (UpdateUnit user b i dto) = void (units_update_op x user b i dto)"
| "run_op x e (CreateOccupancy user b dto) = void (occupancies_create x user b dto)"
| "run_op x e (Onboard user b dto) = void (onboard x user b dto)"
| "run_op x e (Provision_user user dto) = void (provision x user dto)"
| "run_op x e (CreateRequest user dto) = void (createResidentRequest x user dto)"
| "run_op x e (UpdateRequest user i dto) = void (updateResidentRequest x user i dto)"
| "run_op x e (CancelRequest user i) = void (cancelResidentRequest x user i)"
| "run_op x e (CommentRequest user i msg) = void (addResidentComment x user i msg)"
| "run_op x e (AssignRequest user b i staff) = void (assignRequest x user b i staff)"
| "run_op x e (SetRequestStatus user b i st) = void (updateRequestStatus x user b i st)"
| "run_op x e (CancelBuildingRequest user b i) = void (cancelBuildingRequest x user b i)"
| "run_op x e (CommentBuildingRequest user b i msg) = void (addBuildingComment x user b i msg)"
| "run_op x e (AttachToRequest user b i as) = void (addBuildingAttachments x user b i as)"
| "run_op x e (NotifyUsers inp) = void (createForUsers x inp)"
| "run_op x e (ReadNotification i u o1) = markRead x i u o1"
| "run_op x e (ReadAllNotifications u o1) = markAllRead x u o1"
| "run_op x e (DismissNotification i u o1) = dismiss x i u o1"
| "run_op x e (UndismissNotification i u o1) = undismiss i u o1"
| "run_op x e (Dispatch n) = (\<lambda>s. (Inr (), dispatch x n s))"

text \<open>A run: each operation starts in the state the one before left, whether it failed or not.\<close>

fun run_ops :: "ext \<Rightarrow> env_data \<Rightarrow> sys_op list \<Rightarrow> st \<Rightarrow> st" where
  "run_ops x e [] s = s"
| "run_ops x e (o1 # os) s = run_ops x e os (snd (run_op x e o1 s))"

subsection \<open>Invariants of the machine\<close>

lemma inv_void [inv]: "db_keeps I m \<Longrightarrow> db_keeps I (void m)"
  unfolding void_def by (intro inv)

lemma db_keeps_dispatch:
  assumes "\<And>e p. db_keeps I (on_event x e p)"
  shows "db_keeps I (\<lambda>s. (Inr (), dispatch x n s))"
proof (rule db_keepsI)
  fix s :: st assume i: "I (st_db s)"
  obtain e p where ep: "st_events s ! n = (e, p)" by (cases "st_events s ! n")
  show "I (st_db (snd (Inr (), dispatch x n s)))"
    using db_keepsD [OF assms, of "s\<lparr>st_events := take n (st_events s) @ drop (Suc n) (st_events s)\<rparr>" e p] i ep
    by (simp add: dispatch_def)
qed

lemma tenant_run_op: "db_keeps tenant_ok (run_op x e op)"
  by (cases op) (simp_all add: inv tenant.side_notifications db_keeps_dispatch)

lemma sound_void: "sound m \<Longrightarrow> sound (void m)"
  unfolding sound_def void_def bind_app by (auto simp: run split: prod.split sum.split)

lemma sound_run_op: "sound (run_op x e op)"
  by (cases op) (auto simp: sound_request_ops [THEN sound_void] inv db_keeps_dispatch intro!: sound_frame)

text \<open>Any run from a good database ends in a good one.\<close>

lemma tenant_run_ops: "tenant_ok (st_db s) \<Longrightarrow> tenant_ok (st_db (run_ops x e ops s))"
  by (induction ops arbitrary: s) (auto intro: db_keepsD [OF tenant_run_op])

text \<open>What a run can make of one request.\<close>

definition request_moved :: "request \<Rightarrow> request \<Rightarrow> bool" where
  "request_moved r q \<longleftrightarrow> same_request r q \<and> status_step\<^sup>*\<^sup>* (req_status r) (req_status q)"

lemma same_request_trans: "same_request a b \<Longrightarrow> same_request b c \<Longrightarrow> same_request a c"
  by (simp add: same_request_def)

lemma run_ops_requests:
  "requests_ok (st_db s) \<Longrightarrow> requests_ok (st_db (run_ops x e ops s)) \<and>
     (\<forall>r \<in> set (requests (st_db s)). \<exists>q \<in> set (requests (st_db (run_ops x e ops s))). request_moved r q)"
proof (induction ops arbitrary: s)
  case Nil
  then show ?case by (auto simp: request_moved_def same_request_def)
next
  case (Cons p ops)
  define t where "t = snd (run_op x e p s)"
  have t: "requests_ok (st_db t)" "evolves (st_db s) (st_db t)"
    using sound_run_op [of x e p] Cons.prems unfolding sound_def t_def by blast+
  have "\<exists>q \<in> set (requests (st_db (run_ops x e ops t))). request_moved r q" if r: "r \<in> set (requests (st_db s))" for r
  proof -
    obtain r1 where r1: "r1 \<in> set (requests (st_db t))" "same_request r r1" "status_step\<^sup>*\<^sup>* (req_status r) (req_status r1)"
      using t(2) r unfolding evolves_def by (metis r_into_rtranclp rtranclp.rtrancl_refl)
    then obtain q where "q \<in> set (requests (st_db (run_ops x e ops t)))" "request_moved r1 q"
      using Cons.IH [OF t(1)] by blast
    then show ?thesis using r1 same_request_trans unfolding request_moved_def by (metis rtranclp_trans)
  qed
  then show ?case using Cons.IH [OF t(1)] by (simp add: t_def)
qed

text \<open>A request that is closed stays as it was closed, and progress is never lost.\<close>

lemma steps_from_closed: "status_step\<^sup>*\<^sup>* a b \<Longrightarrow> a = COMPLETED \<or> a = CANCELED \<Longrightarrow> b = a"
  by (induction rule: rtranclp_induct) (auto simp: from_closed)

lemma steps_progress: "status_step\<^sup>*\<^sup>* a b \<Longrightarrow> progress a \<le> progress b"
  by (induction rule: rtranclp_induct) (auto dest: status_step_progress)

end
