(* ===== verification/Interleaving.thy ===== *)
theory Interleaving
  imports System
begin

text \<open>
  The transactions that put a resident in a unit, interleaved. Three places of the code check that a
  unit is vacant and insert an occupancy: \<open>createActiveIfVacant\<close>, the onboarding of a resident, and
  the resident grant of a provisioning. Only the last one locks the row of the unit first. A check
  reads what is committed, an insertion is seen by others at the commit, and a row lock is held to
  the end of its transaction; nothing else orders the transactions, as the schema has no unique key
  on active occupancies.
\<close>

section \<open>The two halves of a placing\<close>

datatype placing =
    MoveIn id id id
  | Onboarding id id id create_resident_dto string
  | Grant id id resident_grant

primrec placing_unit :: "placing \<Rightarrow> id" where
  "placing_unit (MoveIn b i u) = i"
| "placing_unit (Onboarding o1 b i dto h) = i"
| "placing_unit (Grant u i g) = i"

primrec takes_lock :: "placing \<Rightarrow> bool" where
  "takes_lock (MoveIn b i u) = False"
| "takes_lock (Onboarding o1 b i dto h) = False"
| "takes_lock (Grant u i g) = True"

text \<open>What follows the check, up to the commit, given what the check read.\<close>

text \<open>\<open>createActiveIfVacant\<close> after its read.\<close>

definition finish_move_in :: "ext \<Rightarrow> id \<Rightarrow> id \<Rightarrow> id \<Rightarrow> occupancy option \<Rightarrow> unit op" where
  "finish_move_in x b i u existing = (if existing \<noteq> None then ret () else void (occupancy_insert x b i u))"

text \<open>The transaction of \<open>onboard\<close> after its read.\<close>

definition finish_onboarding :: "ext \<Rightarrow> id \<Rightarrow> id \<Rightarrow> id \<Rightarrow> create_resident_dto \<Rightarrow> string \<Rightarrow> occupancy option \<Rightarrow> unit op" where
  "finish_onboarding x orgId b i dto h existing =
     bind (require (existing = None) (Conflict ''Unit is already occupied'')) (\<lambda>_.
     bind (user_create x (rcd_email dto) (Some (rcd_name dto)) (rcd_phone dto) h (Some orgId) True True) (\<lambda>residentUser.
     bind (query (\<lambda>d. findRoleByKey d ''resident'')) (\<lambda>residentRole.
     bind (case residentRole of None \<Rightarrow> ret () | Some r \<Rightarrow> user_role_create (usr_id residentUser) (rol_id r)) (\<lambda>_.
     void (occupancy_insert x b i (usr_id residentUser))))))"

text \<open>\<open>applyResidentGrant\<close> after its read of the unit's occupancy.\<close>

definition finish_grant :: "ext \<Rightarrow> id \<Rightarrow> id \<Rightarrow> resident_grant \<Rightarrow> occupancy option \<Rightarrow> unit op" where
  "finish_grant x u i g existing =
     bind (require (case existing of None \<Rightarrow> True | Some r \<Rightarrow> occ_residentUserId r = u)
       (Conflict ''Unit is already occupied'')) (\<lambda>_.
     bind (case existing of
             Some r \<Rightarrow> ret (Some r)
           | None \<Rightarrow> query (\<lambda>d. findFirst (\<lambda>r. occ_unitId r = i \<and> occ_residentUserId r = u \<and> occ_status r = ACTIVE)
               (occupancies d))) (\<lambda>mine.
     void (place_resident x u g i mine)))"

primrec finish_placing :: "ext \<Rightarrow> placing \<Rightarrow> occupancy option \<Rightarrow> unit op" where
  "finish_placing x (MoveIn b i u) existing = finish_move_in x b i u existing"
| "finish_placing x (Onboarding orgId b i dto h) existing = finish_onboarding x orgId b i dto h existing"
| "finish_placing x (Grant u i g) existing = finish_grant x u i g existing"

declare finish_move_in_def [simp] finish_onboarding_def [simp] finish_grant_def [simp]

text \<open>The halves put together without a step between them are the code's transactions.\<close>

definition whole_placing :: "ext \<Rightarrow> placing \<Rightarrow> unit op" where
  "whole_placing x p = transaction (bind (query (\<lambda>d. active_in_unit d (placing_unit p))) (finish_placing x p))"

lemma run_void [run]: "void m s = (case m s of (Inl e, t) \<Rightarrow> (Inl e, t) | (Inr v, t) \<Rightarrow> (Inr (), t))"
  by (simp add: void_def bind_app run split: prod.split sum.split)

lemma void_transaction: "void (transaction m) = transaction (void m)"
  by (rule ext) (simp add: void_def transaction_app bind_app run split: prod.split sum.split)

lemma bind_assoc: "bind (bind m k) h = bind m (\<lambda>v. bind (k v) h)"
  by (rule ext) (simp add: run)

lemma bind_ret_left: "bind (ret v) k = k v"
  by (rule ext) (simp add: run)

lemma void_bind: "void (bind m k) = bind m (\<lambda>v. void (k v))"
  by (simp add: void_def bind_assoc)

lemma whole_MoveIn: "whole_placing x (MoveIn b i u) = void (createActiveIfVacant x b i u)"
proof -
  have "finish_placing x (MoveIn b i u) = (\<lambda>v. void (if v \<noteq> None then ret None else bind (occupancy_insert x b i u) (\<lambda>v. ret (Some v))))"
    by (rule ext) (simp add: void_def bind_assoc bind_ret_left)
  then show ?thesis by (simp add: whole_placing_def createActiveIfVacant_def void_transaction void_bind)
qed

lemma whole_Onboarding: "whole_placing x (Onboarding o1 b i dto h) = void (transaction (onboard_tx x o1 b i dto h))"
  unfolding whole_placing_def onboard_tx_def void_transaction void_bind
  by (simp add: void_def bind_assoc bind_ret_left, intro arg_cong [where f = transaction] arg_cong [where f = "bind m" for m] ext)
    (simp add: void_def)

lemma whole_Grant:
  assumes "buildingInOrg (st_db s) (rgr_buildingId g) o1 = Some b"
    and "unit_findByIdForBuilding (st_db s) (rgr_buildingId g) (rgr_unitId g) = Some w"
  shows "whole_placing x (Grant u (unt_id w) g) s = void (transaction (applyResidentGrant x o1 u (Some g))) s"
  using assms unfolding whole_placing_def void_transaction
  by (simp add: transaction_app applyResidentGrant_def lockUnit_def void_bind run)

section \<open>The system\<close>

datatype phase = Waiting | Locked | Checked "occupancy option" | Finished

record world =
  wld_st :: st
  wld_lock :: "id \<Rightarrow> nat option"
  wld_phase :: "nat \<Rightarrow> phase"

definition start_world :: "st \<Rightarrow> world" where
  "start_world s = \<lparr>wld_st = s, wld_lock = (\<lambda>_. None), wld_phase = (\<lambda>_. Waiting)\<rparr>"

text \<open>The operations that place a resident are split into steps; all others are one step.\<close>

definition places_resident :: "sys_op \<Rightarrow> bool" where
  "places_resident p = (case p of CreateOccupancy u b dto \<Rightarrow> True | Onboard u b dto \<Rightarrow> True | Provision_user u dto \<Rightarrow> True | _ \<Rightarrow> False)"

text \<open>The lock is a read to the transaction that takes it.\<close>

lemma lockUnit_state [simp]: "snd (lockUnit i s) = s"
  by (simp add: lockUnit_def run)

text \<open>An insertion that refers to a unit waits for the transaction that has the unit locked.\<close>

inductive world_step :: "ext \<Rightarrow> env_data \<Rightarrow> placing list \<Rightarrow> world \<Rightarrow> world \<Rightarrow> bool" for x e ps where
  take_lock: "i < length ps \<Longrightarrow> takes_lock (ps ! i) \<Longrightarrow> wld_phase w i = Waiting \<Longrightarrow> wld_lock w (placing_unit (ps ! i)) = None \<Longrightarrow>
    world_step x e ps w (w\<lparr>wld_st := snd (lockUnit (placing_unit (ps ! i)) (wld_st w)),
      wld_lock := (wld_lock w)(placing_unit (ps ! i) := Some i), wld_phase := (wld_phase w)(i := Locked)\<rparr>)"
| check: "i < length ps \<Longrightarrow> wld_phase w i = (if takes_lock (ps ! i) then Locked else Waiting) \<Longrightarrow>
    world_step x e ps w (w\<lparr>wld_phase := (wld_phase w)(i := Checked (active_in_unit (st_db (wld_st w)) (placing_unit (ps ! i))))\<rparr>)"
| finish: "i < length ps \<Longrightarrow> wld_phase w i = Checked ex \<Longrightarrow> wld_lock w (placing_unit (ps ! i)) \<in> {None, Some i} \<Longrightarrow>
    world_step x e ps w (w\<lparr>wld_st := snd (transaction (finish_placing x (ps ! i) ex) (wld_st w)),
      wld_lock := (wld_lock w)(placing_unit (ps ! i) := None), wld_phase := (wld_phase w)(i := Finished)\<rparr>)"
| other: "\<not> places_resident p \<Longrightarrow> world_step x e ps w (w\<lparr>wld_st := snd (run_op x e p (wld_st w))\<rparr>)"

definition world_reach :: "ext \<Rightarrow> env_data \<Rightarrow> placing list \<Rightarrow> world \<Rightarrow> world \<Rightarrow> bool" where
  "world_reach x e ps = (world_step x e ps)\<^sup>*\<^sup>*"

section \<open>Locked transactions\<close>

definition vacant :: "id set \<Rightarrow> db \<Rightarrow> bool" where
  "vacant V d \<longleftrightarrow> single_occupancy d \<and> (\<forall>v \<in> V. active_in_unit d v = None)"

lemma vacant_insert: "vacant (insert i V) d \<longleftrightarrow> vacant V d \<and> active_in_unit d i = None"
  by (auto simp: vacant_def)

lemma vacant_end_others [inv]: "db_keeps (vacant V) (end_others x u b i)"
proof -
  have "vacant V (d\<lparr>occupancies := updateMany p g (occupancies d)\<rparr>)" if v: "vacant V d" and g: "\<And>r. occ_status (g r) = ENDED" for d p g
  proof -
    have a: "filter (\<lambda>r. occ_status r = ACTIVE) (updateMany p g (occupancies d)) =
        filter (\<lambda>r. \<not> p r) (filter (\<lambda>r. occ_status r = ACTIVE) (occupancies d))"
      unfolding ended_active [of g, OF g] by (simp add: conj_commute)
    have "single_occupancy (d\<lparr>occupancies := updateMany p g (occupancies d)\<rparr>)"
      using v distinct_map_filter [of occ_unitId "filter (\<lambda>r. occ_status r = ACTIVE) (occupancies d)" "\<lambda>r. \<not> p r"]
      unfolding vacant_def single_occupancy_def by (simp add: a)
    moreover have "active_in_unit (d\<lparr>occupancies := updateMany p g (occupancies d)\<rparr>) w = None" if "active_in_unit d w = None" for w
      using that unfolding active_in_unit_None by (auto simp: a)
    ultimately show ?thesis using v by (simp add: vacant_def)
  qed
  then show ?thesis unfolding end_others_def by (intro inv db_keeps_write) simp
qed

lemma vacant_add:
  "vacant V d \<Longrightarrow> active_in_unit d (occ_unitId r) = None \<Longrightarrow> occ_unitId r \<notin> V \<Longrightarrow> vacant V (d\<lparr>occupancies := occupancies d @ [r]\<rparr>)"
  by (auto simp: vacant_def active_in_unit_None intro: single_occupancy_add)

lemma hoare_vacant_insert:
  assumes "i \<notin> V"
  shows "hoare (\<lambda>_. True) (vacant (insert i V)) (occupancy_insert x b i u) (\<lambda>_. vacant V)"
  unfolding occupancy_insert_def Let_def
  by (intro hoare_rules hoare_write_bind [where P' = "vacant V"] hoare_ret) (auto simp: vacant_insert assms intro!: vacant_add)

lemma hoare_void: "hoare I P m (\<lambda>_. R) \<Longrightarrow> hoare I P (void m) (\<lambda>_. R)"
  unfolding void_def by (rule hoare_bind, assumption) (simp add: hoare_def run)

lemma hoare_vacant_place:
  assumes "i \<notin> V"
  shows "hoare (\<lambda>_. True) (\<lambda>d. vacant V d \<and> (mine = None \<longrightarrow> active_in_unit d i = None)) (place_resident x u g i mine) (\<lambda>_. vacant V)"
proof -
  let ?P = "case mine of None \<Rightarrow> vacant (insert i V) | Some r \<Rightarrow> vacant V"
  have "hoare (\<lambda>_. True) ?P (end_others x u b i) (\<lambda>_. ?P)" for b
    by (cases mine) (simp_all add: hoare_weaken_error [OF vacant_end_others [unfolded db_keeps_hoare]])
  moreover have "hoare (\<lambda>_. True) ?P (case mine of Some r \<Rightarrow> ret r | None \<Rightarrow> bind (occupancy_insert x b i u) (\<lambda>v. ret (ocv_row v)))
      (\<lambda>_. vacant V)" for b
    by (cases mine) (auto intro!: hoare_ret hoare_bind [OF hoare_vacant_insert] assms)
  ultimately have "hoare (\<lambda>_. True) ?P (place_resident x u g i mine) (\<lambda>_. vacant V)"
    unfolding place_resident_def
    by (intro hoare_bind [where Q = "\<lambda>_. ?P"] hoare_bind [where Q = "\<lambda>_. vacant V"] hoare_if hoare_ret) simp_all
  then show ?thesis by (rule hoare_pre) (auto simp: vacant_insert split: option.split)
qed

lemma hoare_snd: "hoare I P m (\<lambda>_. I) \<Longrightarrow> P (st_db s) \<Longrightarrow> I (st_db (snd (m s)))"
  unfolding hoare_def by (cases "m s"; cases "fst (m s)") (auto dest!: spec [of _ s])

text \<open>A grant that finishes after its check saw the unit vacant, or occupied.\<close>

lemma vacant_finish_Grant:
  assumes "i \<notin> V" "vacant V (st_db s)" "ex = None \<longrightarrow> active_in_unit (st_db s) i = None"
  shows "vacant V (st_db (snd (transaction (finish_placing x (Grant u i g) ex) s)))"
proof -
  have "hoare (\<lambda>_. True) (\<lambda>d. vacant V d \<and> (ex = None \<longrightarrow> active_in_unit d i = None)) (finish_placing x (Grant u i g) ex) (\<lambda>_. vacant V)"
    by (cases ex) (auto intro!: hoare_rules hoare_void hoare_pre [OF hoare_vacant_place [OF assms(1)]] simp: bind_ret_left)
  then have "hoare (vacant V) (\<lambda>d. vacant V d \<and> (ex = None \<longrightarrow> active_in_unit d i = None)) (transaction (finish_placing x (Grant u i g) ex)) (\<lambda>_. vacant V)"
    by (rule hoare_transaction) simp
  from hoare_snd [OF this] show ?thesis using assms(2,3) by simp
qed

text \<open>The other operations leave the occupancies alone.\<close>

interpretation occs: core_invariant "\<lambda>d. occupancies d = R" for R
  by unfold_locales simp_all

lemma occs_writes [inv]:
  "db_keeps (\<lambda>d. occupancies d = R) (user_create x e n p h o1 a m)" "db_keeps (\<lambda>d. occupancies d = R) (user_update x i f)"
  "db_keeps (\<lambda>d. occupancies d = R) (building_create x oz bdata)" "db_keeps (\<lambda>d. occupancies d = R) (assignment_create x b u ty)"
  "db_keeps (\<lambda>d. occupancies d = R) (unit_insert x row)" "db_keeps (\<lambda>d. occupancies d = R) (unit_write x i k)"
  "db_keeps (\<lambda>d. occupancies d = R) (replace_amenities x i ids)"
  unfolding user_create_def user_update_def building_create_def assignment_create_def unit_insert_def unit_write_def
    fit_unit_def decimal_column_def replace_amenities_def Let_def
  by (intro inv db_keeps_write; simp)+

lemma occs_services [inv]:
  "db_keeps (\<lambda>d. occupancies d = R) (register x e rdto)" "db_keeps (\<lambda>d. occupancies d = R) (login x e ldto)"
  "db_keeps (\<lambda>d. occupancies d = R) (refresh x e i tok)" "db_keeps (\<lambda>d. occupancies d = R) (changePassword x i cur new)"
  "db_keeps (\<lambda>d. occupancies d = R) (users_updateProfile x i data)" "db_keeps (\<lambda>d. occupancies d = R) (createInOrg x user idto)"
  "db_keeps (\<lambda>d. occupancies d = R) (createOrgAdmin x o1 adto)" "db_keeps (\<lambda>d. occupancies d = R) (buildings_create x user bdto)"
  "db_keeps (\<lambda>d. occupancies d = R) (assignments_create x user b asdto)" "db_keeps (\<lambda>d. occupancies d = R) (units_create x user b cdto)"
  "db_keeps (\<lambda>d. occupancies d = R) (units_update_op x user b i updto)"
  unfolding register_def login_def refresh_def changePassword_def users_updateProfile_def createInOrg_def
    createOrgAdmin_def sign_in_def issueTokens_def saveRefreshToken_def updateRefreshTokenHash_def
    updatePasswordHash_def auth_createUser_def users_repo_updateProfile_def buildings_create_def assignments_create_def
    ensureAdminRoleForBuildingAdminAssignment_def units_create_def units_update_op_def Let_def
  by (intro inv)+

lemma occs_run_op:
  "\<not> places_resident p \<Longrightarrow> db_keeps (\<lambda>d. occupancies d = R) (run_op x e p)"
  by (cases p) (simp_all add: places_resident_def inv occs.side_notifications db_keeps_dispatch)

section \<open>When every placing locks\<close>

definition in_flight :: "phase \<Rightarrow> bool" where
  "in_flight f \<longleftrightarrow> f \<noteq> Waiting \<and> f \<noteq> Finished"

text \<open>
  A transaction in flight holds the lock of its unit, a lock is held by a transaction in flight, and
  a unit that was seen vacant is still vacant.
\<close>

definition world_ok :: "placing list \<Rightarrow> world \<Rightarrow> bool" where
  "world_ok ps w \<longleftrightarrow> single_occupancy (st_db (wld_st w)) \<and>
     (\<forall>i. i < length ps \<longrightarrow> in_flight (wld_phase w i) \<longrightarrow> wld_lock w (placing_unit (ps ! i)) = Some i) \<and>
     (\<forall>i. i < length ps \<longrightarrow> wld_phase w i = Checked None \<longrightarrow> active_in_unit (st_db (wld_st w)) (placing_unit (ps ! i)) = None)"

lemma world_ok_start: "single_occupancy (st_db s) \<Longrightarrow> world_ok ps (start_world s)"
  by (simp add: world_ok_def start_world_def in_flight_def)

lemma world_ok_step:
  assumes "list_all takes_lock ps" "world_step x e ps w w'" "world_ok ps w"
  shows "world_ok ps w'"
  using assms(2,3)
proof (cases rule: world_step.cases)
  case (take_lock i)
  then show ?thesis using assms(3) unfolding world_ok_def in_flight_def by auto
next
  case (check i)
  then have l: "takes_lock (ps ! i)" using assms(1) by (simp add: list_all_length)
  have "placing_unit (ps ! j) = placing_unit (ps ! i) \<Longrightarrow> in_flight (wld_phase w j) \<Longrightarrow> j < length ps \<Longrightarrow> j = i" for j
    using assms(3) check(2,3) l unfolding world_ok_def in_flight_def by (metis option.inject phase.distinct(1,9))
  then show ?thesis using assms(3) check l unfolding world_ok_def in_flight_def by auto
next
  case (finish i ex)
  then obtain u b g where p: "ps ! i = Grant u b g" using assms(1) by (cases "ps ! i") (auto simp: list_all_length)
  let ?V = "{placing_unit (ps ! j) |j. j < length ps \<and> j \<noteq> i \<and> wld_phase w j = Checked None}"
  have fl: "in_flight (wld_phase w j)" if "wld_phase w j = Checked y" for j y using that by (simp add: in_flight_def)
  have lock: "wld_lock w (placing_unit (ps ! j)) = Some j" if "j < length ps" "in_flight (wld_phase w j)" for j
    using assms(3) that by (simp add: world_ok_def)
  have "b \<notin> ?V" using lock [OF finish(2) fl [OF finish(3)]] lock fl p by fastforce
  moreover have "vacant ?V (st_db (wld_st w))" using assms(3) by (auto simp: world_ok_def vacant_def)
  moreover have "ex = None \<longrightarrow> active_in_unit (st_db (wld_st w)) b = None"
    using assms(3) finish(2,3) p unfolding world_ok_def by fastforce
  ultimately have v: "vacant ?V (st_db (snd (transaction (finish_placing x (ps ! i) ex) (wld_st w))))"
    unfolding p by (rule vacant_finish_Grant)
  moreover have "placing_unit (ps ! j) \<noteq> b" if "j < length ps" "j \<noteq> i" "in_flight (wld_phase w j)" for j
    using lock [OF that(1,3)] lock [OF finish(2) fl [OF finish(3)]] p that(2) by auto
  ultimately show ?thesis
    using lock p unfolding world_ok_def vacant_def finish(1) by (auto simp: in_flight_def)
next
  case (other p)
  have "occupancies (st_db (snd (run_op x e p (wld_st w)))) = occupancies (st_db (wld_st w))"
    using db_keepsD [OF occs_run_op [OF other(2)]] by blast
  then show ?thesis using assms(3) unfolding world_ok_def other(1) by (simp add: single_occupancy_def active_in_unit_def)
qed

text \<open>Grants that run at the same time, with anything else between, leave one active occupancy per unit.\<close>

lemma locked_placings_safe:
  assumes "list_all takes_lock ps" "single_occupancy (st_db s)" "world_reach x e ps (start_world s) w"
  shows "single_occupancy (st_db (wld_st w))"
proof -
  have "world_ok ps w" using assms(3) unfolding world_reach_def
    by (induction rule: rtranclp_induct) (auto intro: world_ok_start assms(2) world_ok_step [OF assms(1)])
  then show ?thesis by (simp add: world_ok_def)
qed

section \<open>When a placing does not lock\<close>

text \<open>Two residents moved into one vacant unit: both checks before both insertions.\<close>

lemma unlocked_race:
  assumes vac: "active_in_unit (st_db s) i = None"
    and keys: "findBuilding (st_db s) b \<noteq> None" "findUnit (st_db s) i \<noteq> None" "findUser (st_db s) u \<noteq> None" "findUser (st_db s) v \<noteq> None"
    and fresh: "x_uuid x (st_tick s) \<notin> occ_id ` set (occupancies (st_db s))"
      "x_uuid x (Suc (st_tick s)) \<notin> insert (x_uuid x (st_tick s)) (occ_id ` set (occupancies (st_db s)))"
  shows "\<exists>w. world_reach x e [MoveIn b i u, MoveIn b i v] (start_world s) w \<and> \<not> single_occupancy (st_db (wld_st w))"
proof -
  let ?ps = "[MoveIn b i u, MoveIn b i v]"
  let ?fin = "\<lambda>j w. w\<lparr>wld_st := snd (transaction (finish_placing x (?ps ! j) None) (wld_st w)),
      wld_lock := (wld_lock w)(i := None), wld_phase := (wld_phase w)(j := Finished)\<rparr>"
  define w2 where "w2 = (start_world s)\<lparr>wld_phase := (\<lambda>_. Waiting)(0 := Checked None, 1 := Checked None)\<rparr>"
  have "world_step x e ?ps (start_world s) ((start_world s)\<lparr>wld_phase := (\<lambda>_. Waiting)(0 := Checked None)\<rparr>)"
    using world_step.check [of 0 ?ps "start_world s" x e] vac by (simp add: start_world_def)
  moreover have "world_step x e ?ps ((start_world s)\<lparr>wld_phase := (\<lambda>_. Waiting)(0 := Checked None)\<rparr>) w2"
    using world_step.check [of 1 ?ps "(start_world s)\<lparr>wld_phase := (\<lambda>_. Waiting)(0 := Checked None)\<rparr>" x e] vac
    by (simp add: start_world_def w2_def)
  moreover have "world_step x e ?ps w2 (?fin 0 w2)"
    using world_step.finish [of 0 ?ps w2 None x e] by (simp add: w2_def start_world_def)
  moreover have "world_step x e ?ps (?fin 0 w2) (?fin 1 (?fin 0 w2))"
    using world_step.finish [of 1 ?ps "?fin 0 w2" None x e] by (simp add: w2_def start_world_def)
  ultimately have "world_reach x e ?ps (start_world s) (?fin 1 (?fin 0 w2))"
    unfolding world_reach_def by (meson rtranclp.rtrancl_into_rtrancl rtranclp.rtrancl_refl)
  moreover have "\<not> single_occupancy (st_db (wld_st (?fin 1 (?fin 0 w2))))"
    using keys fresh by (auto simp: w2_def start_world_def single_occupancy_def occupancy_insert_def run transaction_app
      Let_def findBuilding_def findUnit_def findUser_def)
  ultimately show ?thesis by blast
qed

end
