(* ===== verification/RequestRaces.thy ===== *)
theory RequestRaces
  imports Interleaving
begin

text \<open>
  The operations that change a stored request, interleaved. Each one reads the request, decides on
  what it read, and writes by the request's id; under the default isolation of PostgreSQL (read
  committed) the transaction around it holds no lock between the read and the write, and the write has
  no condition on the status. Here each operation is split at
  that point. The steps of several operations may come in any order; a run in which no two operations
  on the same request overlap is called serial.
\<close>

section \<open>The two halves of an operation\<close>

text \<open>What an operation writes, with the values it took from the row it read.\<close>

datatype change =
    Edit string "string option"
  | CancelIt
  | AssignTo id
  | MoveTo RequestStatus "date option"

record planned =
  pln_id :: id
  pln_change :: change
  pln_actor :: id
  pln_event :: "event_name option"

datatype update =
    EditOwn "auth_user option" id update_resident_request_dto
  | CancelOwn "auth_user option" id
  | AssignStaff "auth_user option" id id id
  | MoveStatus "auth_user option" id id RequestStatus
  | CancelManaged "auth_user option" id id

primrec update_target :: "update \<Rightarrow> id" where
  "update_target (EditOwn user i dto) = i"
| "update_target (CancelOwn user i) = i"
| "update_target (AssignStaff user b i u) = i"
| "update_target (MoveStatus user b i status) = i"
| "update_target (CancelManaged user b i) = i"

text \<open>The reads and checks of each operation, up to its write.\<close>

definition plan_edit :: "auth_user option \<Rightarrow> id \<Rightarrow> update_resident_request_dto \<Rightarrow> planned op" where
  "plan_edit user requestId dto =
     bind (caller user) (\<lambda>(orgId, userId).
     bind (query (\<lambda>d. findByIdForCreator d orgId userId requestId)) (\<lambda>found.
     bind (some_or found (NotFound ''Request not found'')) (\<lambda>v.
     let request = rqv_row v in
     bind (require (req_status request = OPEN) (Conflict ''Request cannot be edited'')) (\<lambda>_.
     bind (require (truthy (js_option (urr_title dto)) \<noteq> None \<or> urr_description dto \<noteq> Undefined)
       (BadRequest ''No changes provided'')) (\<lambda>_.
     ret \<lparr>pln_id = req_id request,
          pln_change = Edit (coalesce (js_option (urr_title dto)) (req_title request))
            (case js_option (urr_description dto) of Some v \<Rightarrow> Some v | None \<Rightarrow> req_description request),
          pln_actor = userId, pln_event = None\<rparr>)))))"

definition plan_cancel_own :: "auth_user option \<Rightarrow> id \<Rightarrow> planned op" where
  "plan_cancel_own user requestId =
     bind (caller user) (\<lambda>(orgId, userId).
     bind (query (\<lambda>d. findByIdForCreator d orgId userId requestId)) (\<lambda>found.
     bind (some_or found (NotFound ''Request not found'')) (\<lambda>v.
     let request = rqv_row v in
     bind (require (\<not> (req_status request = COMPLETED \<or> req_status request = CANCELED))
       (Conflict ''Request cannot be canceled'')) (\<lambda>_.
     ret \<lparr>pln_id = req_id request, pln_change = CancelIt, pln_actor = userId, pln_event = Some EV_CANCELED\<rparr>))))"

definition plan_assign :: "auth_user option \<Rightarrow> id \<Rightarrow> id \<Rightarrow> id \<Rightarrow> planned op" where
  "plan_assign user buildingId requestId staffUserId =
     bind (caller user) (\<lambda>(orgId, userId).
     bind (assertBuildingInOrg buildingId orgId) (\<lambda>_.
     bind (query (\<lambda>d. getBuildingAssignmentType d buildingId userId)) (\<lambda>assignmentType.
     bind (require (assignmentType \<noteq> Some STAFF) (Forbidden ''Staff cannot assign requests'')) (\<lambda>_.
     bind (query (\<lambda>d. findByIdForBuilding d orgId buildingId requestId)) (\<lambda>found.
     bind (some_or found (NotFound ''Request not found'')) (\<lambda>v.
     let request = rqv_row v in
     bind (require (req_status request = OPEN \<or> req_status request = ASSIGNED)
       (Conflict ''Request is not open or assigned'')) (\<lambda>_.
     bind (query (\<lambda>d. findUser d staffUserId)) (\<lambda>foundUser.
     bind (some_or foundUser (BadRequest ''Staff user not in org'')) (\<lambda>staffUser.
     bind (require (usr_isActive staffUser \<and> usr_orgId staffUser = Some orgId) (BadRequest ''Staff user not in org'')) (\<lambda>_.
     bind (query (\<lambda>d. findStaffAssignment d buildingId (usr_id staffUser))) (\<lambda>staffAssignment.
     bind (require (staffAssignment \<noteq> None) (BadRequest ''Staff user not assigned to building'')) (\<lambda>_.
     ret \<lparr>pln_id = req_id request, pln_change = AssignTo (usr_id staffUser), pln_actor = userId,
          pln_event = Some EV_ASSIGNED\<rparr>))))))))))))"

definition plan_status :: "auth_user option \<Rightarrow> id \<Rightarrow> id \<Rightarrow> RequestStatus \<Rightarrow> planned op" where
  "plan_status user buildingId requestId status =
     bind (caller user) (\<lambda>(orgId, userId).
     bind (assertBuildingInOrg buildingId orgId) (\<lambda>_.
     bind (query (\<lambda>d. getBuildingAssignmentType d buildingId userId)) (\<lambda>assignmentType.
     bind (query (\<lambda>d. findByIdForBuilding d orgId buildingId requestId)) (\<lambda>found.
     bind (some_or found (NotFound ''Request not found'')) (\<lambda>v.
     let request = rqv_row v in
     bind (require (status \<in> set (MAINTENANCE_STATUS_TRANSITIONS (req_status request)))
       (Conflict ''Invalid status transition'')) (\<lambda>_.
     bind (require (\<not> (assignmentType = Some STAFF \<and> req_assignedToUserId request \<noteq> Some userId))
       (Forbidden ''Forbidden'')) (\<lambda>_.
     ret \<lparr>pln_id = req_id request, pln_change = MoveTo status (req_completedAt request), pln_actor = userId,
          pln_event = Some EV_STATUS_CHANGED\<rparr>)))))))"

definition plan_cancel_managed :: "auth_user option \<Rightarrow> id \<Rightarrow> id \<Rightarrow> planned op" where
  "plan_cancel_managed user buildingId requestId =
     bind (caller user) (\<lambda>(orgId, userId).
     bind (assertBuildingInOrg buildingId orgId) (\<lambda>_.
     bind (query (\<lambda>d. getBuildingAssignmentType d buildingId userId)) (\<lambda>assignmentType.
     bind (if assignmentType = None then
             bind (query (\<lambda>d. hasGlobalPermission d userId ''requests.update_status'')) (\<lambda>hasPermission.
             require hasPermission (Forbidden ''Forbidden''))
           else ret ()) (\<lambda>_.
     bind (require (assignmentType \<noteq> Some STAFF) (Forbidden ''Staff cannot cancel requests'')) (\<lambda>_.
     bind (query (\<lambda>d. findByIdForBuilding d orgId buildingId requestId)) (\<lambda>found.
     bind (some_or found (NotFound ''Request not found'')) (\<lambda>v.
     let request = rqv_row v in
     bind (require (\<not> (req_status request = COMPLETED \<or> req_status request = CANCELED))
       (Conflict ''Request cannot be canceled'')) (\<lambda>_.
     ret \<lparr>pln_id = req_id request, pln_change = CancelIt, pln_actor = userId, pln_event = Some EV_CANCELED\<rparr>))))))))"

primrec plan :: "update \<Rightarrow> planned op" where
  "plan (EditOwn user i dto) = plan_edit user i dto"
| "plan (CancelOwn user i) = plan_cancel_own user i"
| "plan (AssignStaff user b i u) = plan_assign user b i u"
| "plan (MoveStatus user b i status) = plan_status user b i status"
| "plan (CancelManaged user b i) = plan_cancel_managed user b i"

text \<open>The write, the commit, and the event after it.\<close>

definition write_edit :: "ext \<Rightarrow> id \<Rightarrow> string \<Rightarrow> string option \<Rightarrow> request_view op" where
  "write_edit x i title description =
     updateById x i (\<lambda>r. r\<lparr>req_title := title, req_description := description\<rparr>)"

definition write_cancel :: "ext \<Rightarrow> id \<Rightarrow> request_view op" where
  "write_cancel x i =
     bind draw (\<lambda>t. updateById x i (\<lambda>r. r\<lparr>req_status := CANCELED, req_canceledAt := Some (x_clock x t)\<rparr>))"

definition write_assign :: "ext \<Rightarrow> id \<Rightarrow> id \<Rightarrow> request_view op" where
  "write_assign x i staffId =
     bind draw (\<lambda>t. updateById x i (\<lambda>r. r\<lparr>req_assignedToUserId := Some staffId,
       req_assignedAt := Some (x_clock x t), req_status := ASSIGNED\<rparr>))"

definition write_status :: "ext \<Rightarrow> id \<Rightarrow> RequestStatus \<Rightarrow> date option \<Rightarrow> request_view op" where
  "write_status x i status before =
     bind (if status = COMPLETED then bind draw (\<lambda>t. ret (Some (x_clock x t))) else ret before) (\<lambda>completedAt.
     updateById x i (\<lambda>r. r\<lparr>req_status := status, req_completedAt := completedAt\<rparr>))"

primrec write_change :: "ext \<Rightarrow> id \<Rightarrow> change \<Rightarrow> request_view op" where
  "write_change x i (Edit title description) = write_edit x i title description"
| "write_change x i CancelIt = write_cancel x i"
| "write_change x i (AssignTo staffId) = write_assign x i staffId"
| "write_change x i (MoveTo status before) = write_status x i status before"

lemmas write_defs [simp] = write_edit_def write_cancel_def write_assign_def write_status_def

definition commit_change :: "ext \<Rightarrow> planned \<Rightarrow> request_view op" where
  "commit_change x p =
     bind (transaction (write_change x (pln_id p) (pln_change p))) (\<lambda>updated.
     bind (case pln_event p of None \<Rightarrow> ret () | Some ev \<Rightarrow> emitEvent ev updated (pln_actor p) None None) (\<lambda>_.
     ret updated))"

primrec whole_update :: "ext \<Rightarrow> update \<Rightarrow> request_view op" where
  "whole_update x (EditOwn user i dto) = updateResidentRequest x user i dto"
| "whole_update x (CancelOwn user i) = cancelResidentRequest x user i"
| "whole_update x (AssignStaff user b i u) = assignRequest x user b i u"
| "whole_update x (MoveStatus user b i status) = updateRequestStatus x user b i status"
| "whole_update x (CancelManaged user b i) = cancelBuildingRequest x user b i"

text \<open>The halves put together without a step between them are the operation.\<close>

lemma transaction_query: "transaction (bind (query f) k) = bind (query f) (\<lambda>v. transaction (k v))"
  by (rule ext) (simp add: transaction_app query_run)

lemma transaction_some_or: "transaction (bind (some_or v e) k) = bind (some_or v e) (\<lambda>w. transaction (k w))"
  by (rule ext) (simp add: transaction_app bind_some_or split: option.split)

lemma transaction_require: "transaction (bind (require b e) k) = bind (require b e) (\<lambda>w. transaction (k w))"
  by (rule ext) (simp add: transaction_app bind_require)

lemma transaction_updateById: "transaction (updateById x i f) = updateById x i f"
  by (rule ext) (simp add: transaction_app updateById_run Let_def split: option.split)

lemma bind_ret_right: "bind m ret = m"
  by (rule ext) (simp add: bind_app ret_run split: prod.split sum.split)

lemma case_prod_bind: "bind (case p of (a, b) \<Rightarrow> f a b) k = (case p of (a, b) \<Rightarrow> bind (f a b) k)"
  by (cases p) simp

lemma transaction_prod: "transaction (case p of (a, b) \<Rightarrow> f a b) = (case p of (a, b) \<Rightarrow> transaction (f a b))"
  by (cases p) simp

lemma whole_update_split: "whole_update x q = bind (plan q) (commit_change x)"
  by (cases q)
    (simp_all add: plan_edit_def plan_cancel_own_def plan_assign_def plan_status_def plan_cancel_managed_def
      updateResidentRequest_def cancelResidentRequest_def assignRequest_def updateRequestStatus_def cancelBuildingRequest_def
      commit_change_def transaction_query transaction_some_or transaction_require transaction_updateById
      bind_assoc bind_ret_left bind_ret_right case_prod_bind Let_def)

section \<open>Reading changes nothing\<close>

definition looks :: "'a op \<Rightarrow> bool" where
  "looks m \<longleftrightarrow> (\<forall>s. snd (m s) = s)"

lemma looksD: "looks m \<Longrightarrow> m s = (r, t) \<Longrightarrow> t = s"
  unfolding looks_def by (metis snd_conv)

lemma looks_bind: "looks m \<Longrightarrow> (\<And>v. looks (k v)) \<Longrightarrow> looks (bind m k)"
  unfolding looks_def bind_app by (simp split: prod.split sum.split) (metis snd_conv)

lemma looks_leaves:
  "looks (ret v)" "looks (require b e)" "looks (some_or w e)" "looks (query f)" "looks (assertOrgScope user)" "looks (requireSub user)"
  by (auto simp: looks_def ret_run require_def some_or_def query_run assertOrgScope_def requireSub_def throw_def run split: option.split)

lemma looks_plan: "looks (plan q)"
  by (cases q)
    (auto simp: plan_edit_def plan_cancel_own_def plan_assign_def plan_status_def plan_cancel_managed_def caller_def
      assertBuildingInOrg_def Let_def split: prod.split intro!: looks_bind looks_leaves)

section \<open>The system\<close>

datatype stage = Idle | Planned planned | Settled

record race =
  rce_st :: st
  rce_stage :: "nat \<Rightarrow> stage"

definition start_race :: "st \<Rightarrow> race" where
  "start_race s = \<lparr>rce_st = s, rce_stage = (\<lambda>_. Idle)\<rparr>"

text \<open>The operations that change a stored request are split; all others are one step.\<close>

definition changes_request :: "sys_op \<Rightarrow> bool" where
  "changes_request p = (case p of UpdateRequest user i dto \<Rightarrow> True | CancelRequest user i \<Rightarrow> True | AssignRequest user b i u \<Rightarrow> True
     | SetRequestStatus user b i status \<Rightarrow> True | CancelBuildingRequest user b i \<Rightarrow> True | _ \<Rightarrow> False)"

text \<open>No operation on the request has read it and not yet written.\<close>

definition quiet :: "update list \<Rightarrow> race \<Rightarrow> id \<Rightarrow> bool" where
  "quiet us w i \<longleftrightarrow> (\<forall>j < length us. \<forall>p. rce_stage w j = Planned p \<longrightarrow> pln_id p \<noteq> i)"

inductive race_step :: "bool \<Rightarrow> ext \<Rightarrow> env_data \<Rightarrow> update list \<Rightarrow> race \<Rightarrow> race \<Rightarrow> bool" for serial x e us where
  read: "j < length us \<Longrightarrow> rce_stage w j = Idle \<Longrightarrow> (serial \<Longrightarrow> quiet us w (update_target (us ! j))) \<Longrightarrow>
    plan (us ! j) (rce_st w) = (Inr p, t) \<Longrightarrow>
    race_step serial x e us w (w\<lparr>rce_st := t, rce_stage := (rce_stage w)(j := Planned p)\<rparr>)"
| refuse: "j < length us \<Longrightarrow> rce_stage w j = Idle \<Longrightarrow> plan (us ! j) (rce_st w) = (Inl err, t) \<Longrightarrow>
    race_step serial x e us w (w\<lparr>rce_st := t, rce_stage := (rce_stage w)(j := Settled)\<rparr>)"
| commit: "j < length us \<Longrightarrow> rce_stage w j = Planned p \<Longrightarrow>
    race_step serial x e us w (w\<lparr>rce_st := snd (commit_change x p (rce_st w)), rce_stage := (rce_stage w)(j := Settled)\<rparr>)"
| meanwhile: "\<not> changes_request p \<Longrightarrow> race_step serial x e us w (w\<lparr>rce_st := snd (run_op x e p (rce_st w))\<rparr>)"

definition race_reach :: "bool \<Rightarrow> ext \<Rightarrow> env_data \<Rightarrow> update list \<Rightarrow> race \<Rightarrow> race \<Rightarrow> bool" where
  "race_reach serial x e us = (race_step serial x e us)\<^sup>*\<^sup>*"

section \<open>What a planned change relies on\<close>

text \<open>The row allows the change as far as its status and dates go.\<close>

primrec allows :: "request \<Rightarrow> change \<Rightarrow> bool" where
  "allows r (Edit title description) \<longleftrightarrow> True"
| "allows r CancelIt \<longleftrightarrow> req_status r \<noteq> COMPLETED \<and> req_status r \<noteq> CANCELED"
| "allows r (AssignTo u) \<longleftrightarrow> req_status r = OPEN \<or> req_status r = ASSIGNED"
| "allows r (MoveTo status before) \<longleftrightarrow> status \<in> set (MAINTENANCE_STATUS_TRANSITIONS (req_status r)) \<and> before = req_completedAt r"

lemma found_row:
  "findByIdForCreator d o1 u i = Some v \<Longrightarrow> rqv_row v \<in> set (requests d) \<and> req_id (rqv_row v) = i"
  "findByIdForBuilding d o1 b i = Some v \<Longrightarrow> rqv_row v \<in> set (requests d) \<and> req_id (rqv_row v) = i"
  by (auto dest: findByIdForCreator_SomeD(2,3) findByIdForBuilding_SomeD(2,3))

lemma plan_Inr:
  assumes "plan q s = (Inr p, t)"
  shows "t = s" "pln_id p = update_target q"
    "\<exists>r \<in> set (requests (st_db s)). req_id r = pln_id p \<and> allows r (pln_change p)"
proof -
  show "t = s" by (rule looksD [OF looks_plan assms])
  have "pln_id p = update_target q \<and> (\<exists>r \<in> set (requests (st_db s)). req_id r = pln_id p \<and> allows r (pln_change p))"
  proof (cases q)
    case (EditOwn user i dto)
    with assms show ?thesis
      by (auto simp: plan_edit_def caller_run query_run bind_some_or bind_require ret_run Let_def
          split: option.splits if_splits dest!: found_row(1))
  next
    case (CancelOwn user i)
    with assms show ?thesis
      by (auto simp: plan_cancel_own_def caller_run query_run bind_some_or bind_require ret_run Let_def
          split: option.splits if_splits dest!: found_row(1))
  next
    case (AssignStaff user b i u)
    with assms show ?thesis
      by (auto simp: plan_assign_def caller_run assertBuildingInOrg_run query_run bind_some_or bind_require ret_run Let_def
          split: option.splits if_splits dest!: found_row(2))
  next
    case (MoveStatus user b i status)
    with assms show ?thesis
      by (auto simp: plan_status_def caller_run assertBuildingInOrg_run query_run bind_some_or bind_require ret_run Let_def
          split: option.splits if_splits dest!: found_row(2))
  next
    case (CancelManaged user b i)
    with assms show ?thesis
      by (auto simp: plan_cancel_managed_def caller_run assertBuildingInOrg_run query_run bind_some_or bind_require ret_run Let_def
          bind_if bind_bind bind_ret split: option.splits if_splits dest!: found_row(2))
  qed
  then show "pln_id p = update_target q" "\<exists>r \<in> set (requests (st_db s)). req_id r = pln_id p \<and> allows r (pln_change p)"
    by blast+
qed

section \<open>What a commit does\<close>

text \<open>The effect of a change on the row, at a time.\<close>

primrec changed :: "date \<Rightarrow> change \<Rightarrow> request \<Rightarrow> request" where
  "changed now (Edit title description) r = r\<lparr>req_title := title, req_description := description\<rparr>"
| "changed now CancelIt r = r\<lparr>req_status := CANCELED, req_canceledAt := Some now\<rparr>"
| "changed now (AssignTo u) r = r\<lparr>req_assignedToUserId := Some u, req_assignedAt := Some now, req_status := ASSIGNED\<rparr>"
| "changed now (MoveTo status before) r =
     r\<lparr>req_status := status, req_completedAt := (if status = COMPLETED then Some now else before)\<rparr>"

lemma changed_fun:
  "changed now (Edit title description) = (\<lambda>r. r\<lparr>req_title := title, req_description := description\<rparr>)"
  "changed now CancelIt = (\<lambda>r. r\<lparr>req_status := CANCELED, req_canceledAt := Some now\<rparr>)"
  "changed now (AssignTo u) = (\<lambda>r. r\<lparr>req_assignedToUserId := Some u, req_assignedAt := Some now, req_status := ASSIGNED\<rparr>)"
  "changed now (MoveTo status before) =
     (\<lambda>r. r\<lparr>req_status := status, req_completedAt := (if status = COMPLETED then Some now else before)\<rparr>)"
  by (rule ext, simp)+

lemma commit_change_app:
  assumes "findFirst (\<lambda>r. req_id r = pln_id p) (requests (st_db s)) = Some r"
  shows "\<exists>v k. fst (commit_change x p s) = Inr v \<and>
     st_db (snd (commit_change x p s)) = revise (x_clock x k) (pln_id p) (changed (x_clock x (st_tick s)) (pln_change p)) (st_db s) \<and>
     st_events (snd (commit_change x p s)) = st_events s @
       (case pln_event p of None \<Rightarrow> [] | Some ev \<Rightarrow> [(ev, event_of v (pln_actor p) None None)])"
  using assms
  by (cases "pln_change p"; cases "pln_event p")
    (auto simp: commit_change_def bind_app [of "transaction m" for m] transaction_app updateById_run bind_bind bind_ret draw_run
      emitEvent_run ret_run Let_def changed_fun)

lemma changed_ok:
  "same_request r (changed now c r)"
  "allows r c \<Longrightarrow> req_status (changed now c r) = req_status r \<or> status_step (req_status r) (req_status (changed now c r))"
  "allows r c \<Longrightarrow> lifecycle_ok r \<Longrightarrow> lifecycle_ok (changed now c r)"
proof -
  show "same_request r (changed now c r)" by (cases c) (simp_all add: same_request_def)
  assume a: "allows r c"
  show "req_status (changed now c r) = req_status r \<or> status_step (req_status r) (req_status (changed now c r))"
    using a by (cases c) (auto intro: status_step.intros transitions_step)
  assume "lifecycle_ok r"
  with a show "lifecycle_ok (changed now c r)"
    by (cases c; cases "req_status r") (auto simp: lifecycle_ok_def)
qed

lemma same_rows_off: "req_id r \<noteq> i \<Longrightarrow> (\<And>q. req_id (f q) = req_id q) \<Longrightarrow> r \<in> set (requests d) \<Longrightarrow> r \<in> set (requests (revise now i f d))"
  by (auto simp: revise_def set_updateMany image_iff)

lemma commit_ok:
  assumes "requests_ok (st_db s)" "r \<in> set (requests (st_db s))" "req_id r = pln_id p" "allows r (pln_change p)"
    and d_def: "d = st_db (snd (commit_change x p s))"
  shows "requests_ok d \<and> evolves (st_db s) d \<and> (\<forall>q \<in> set (requests (st_db s)). req_id q \<noteq> pln_id p \<longrightarrow> q \<in> set (requests d))"
proof -
  have "findFirst (\<lambda>r. req_id r = pln_id p) (requests (st_db s)) \<noteq> None" using assms(2,3) by (auto simp: findFirst_None_key intro: rev_image_eqI)
  then obtain q where "findFirst (\<lambda>r. req_id r = pln_id p) (requests (st_db s)) = Some q" by blast
  from commit_change_app [OF this] obtain k where
    d: "d = revise (x_clock x k) (pln_id p) (changed (x_clock x (st_tick s)) (pln_change p)) (st_db s)"
    unfolding d_def by blast
  have i: "req_id (changed (x_clock x (st_tick s)) (pln_change p) q) = req_id q" for q
    using changed_ok(1) [of q] by (simp add: same_request_def)
  have "requests_ok d \<and> evolves (st_db s) d"
    unfolding d by (rule revise_sound [OF assms(1-3) changed_ok(1) changed_ok(2,3) [OF assms(4)]])
  moreover have "q \<in> set (requests d)" if "q \<in> set (requests (st_db s))" "req_id q \<noteq> pln_id p" for q
    unfolding d by (rule same_rows_off [OF that(2) i that(1)])
  ultimately show ?thesis by simp
qed

section \<open>The other operations only add requests\<close>

interpretation rows: request_invariant "\<lambda>d. R \<subseteq> set (requests d)" for R
  by unfold_locales simp_all

lemma rows_create [inv]: "db_keeps (\<lambda>d. R \<subseteq> set (requests d)) (createResidentRequest x user dto)"
proof (rule db_keepsI)
  fix s :: st assume R: "R \<subseteq> set (requests (st_db s))"
  show "R \<subseteq> set (requests (st_db (snd (createResidentRequest x user dto s))))"
  proof (cases "createResidentRequest x user dto s")
    case (Pair r t)
    show ?thesis
    proof (cases r)
      case (Inl e)
      then have "st_db t = st_db s" using Pair by (auto intro: atomicD atomic_requests)
      then show ?thesis using R Pair by simp
    next
      case (Inr v)
      then have "createResidentRequest x user dto s = (Inr v, t)" using Pair by simp
      then have "requests (st_db t) = requests (st_db s) @ [rqv_row v]" by (rule createResidentRequest_Inr)
      then show ?thesis using R Pair by auto
    qed
  qed
qed

lemma rows_run_op: "\<not> changes_request p \<Longrightarrow> db_keeps (\<lambda>d. R \<subseteq> set (requests d)) (run_op x e p)"
  by (cases p) (simp_all add: changes_request_def inv rows.side_notifications db_keeps_dispatch)

section \<open>Serial runs follow the status machine\<close>

text \<open>
  In a serial run two planned changes are on different requests, and the row of a planned change still
  allows it, since nothing else writes to it.
\<close>

definition race_ok :: "update list \<Rightarrow> race \<Rightarrow> bool" where
  "race_ok us w \<longleftrightarrow> requests_ok (st_db (rce_st w)) \<and>
     (\<forall>j < length us. \<forall>p. rce_stage w j = Planned p \<longrightarrow>
        (\<exists>r \<in> set (requests (st_db (rce_st w))). req_id r = pln_id p \<and> allows r (pln_change p)) \<and>
        (\<forall>k < length us. \<forall>q. rce_stage w k = Planned q \<longrightarrow> pln_id q = pln_id p \<longrightarrow> k = j))"

lemma race_ok_start: "requests_ok (st_db s) \<Longrightarrow> race_ok us (start_race s)"
  by (simp add: race_ok_def start_race_def)

lemma race_ok_step:
  assumes "race_step True x e us w w'" "race_ok us w"
  shows "race_ok us w' \<and> evolves (st_db (rce_st w)) (st_db (rce_st w'))"
  using assms(1)
proof (cases rule: race_step.cases)
  case (read j p t)
  note p = plan_Inr [OF read(5)]
  have "quiet us w (pln_id p)" using read(4) p(2) by simp
  then have "race_ok us w'" using assms(2) p read(1,3) unfolding race_ok_def quiet_def by auto
  then show ?thesis using read(1) p(1) by (simp add: evolves_refl)
next
  case (refuse j err t)
  have "t = rce_st w" by (rule looksD [OF looks_plan refuse(4)])
  then show ?thesis using assms(2) refuse(1) unfolding race_ok_def by (auto simp: evolves_refl)
next
  case (commit j p)
  let ?d = "st_db (snd (commit_change x p (rce_st w)))"
  obtain r where r: "r \<in> set (requests (st_db (rce_st w)))" "req_id r = pln_id p" "allows r (pln_change p)"
    using assms(2) commit(2,3) unfolding race_ok_def by blast
  have ok: "requests_ok (st_db (rce_st w))" using assms(2) by (simp add: race_ok_def)
  have c: "requests_ok ?d" "evolves (st_db (rce_st w)) ?d"
    "\<And>q. q \<in> set (requests (st_db (rce_st w))) \<Longrightarrow> req_id q \<noteq> pln_id p \<Longrightarrow> q \<in> set (requests ?d)"
    using commit_ok [OF ok r refl, of x] by blast+
  have off: "pln_id q \<noteq> pln_id p" if "k < length us" "rce_stage w k = Planned q" "k \<noteq> j" for k q
    using assms(2) commit(2,3) that unfolding race_ok_def by blast
  have "\<exists>q \<in> set (requests ?d). req_id q = pln_id p' \<and> allows q (pln_change p')"
    if k: "k < length us" "rce_stage w k = Planned p'" "k \<noteq> j" for k p'
  proof -
    obtain q where "q \<in> set (requests (st_db (rce_st w)))" "req_id q = pln_id p'" "allows q (pln_change p')"
      using assms(2) k(1,2) unfolding race_ok_def by blast
    then show ?thesis using c(3) [of q] off [OF k] by auto
  qed
  then have "race_ok us w'" using assms(2) c(1) commit(1) unfolding race_ok_def by auto
  then show ?thesis using c(2) commit(1) by simp
next
  case (meanwhile p)
  let ?d = "st_db (snd (run_op x e p (rce_st w)))"
  have "set (requests (st_db (rce_st w))) \<subseteq> set (requests ?d)" using db_keepsD [OF rows_run_op [OF meanwhile(2)]] by blast
  moreover have "requests_ok ?d" "evolves (st_db (rce_st w)) ?d"
    using sound_run_op [of x e p] assms(2) unfolding sound_def race_ok_def by blast+
  ultimately show ?thesis using assms(2) meanwhile(1) unfolding race_ok_def by (auto 4 4)
qed

lemma moved_trans: "request_moved a b \<Longrightarrow> request_moved b c \<Longrightarrow> request_moved a c"
  unfolding request_moved_def using same_request_trans by (metis rtranclp_trans)

lemma evolves_moved: "evolves d e \<Longrightarrow> r \<in> set (requests d) \<Longrightarrow> \<exists>q \<in> set (requests e). request_moved r q"
  unfolding evolves_def request_moved_def by (metis r_into_rtranclp rtranclp.rtrancl_refl)

lemma serial_race_safe:
  assumes "requests_ok (st_db s)" "race_reach True x e us (start_race s) w"
  shows "race_ok us w \<and> (\<forall>r \<in> set (requests (st_db s)). \<exists>q \<in> set (requests (st_db (rce_st w))). request_moved r q)"
  using assms(2) unfolding race_reach_def
proof (induction rule: rtranclp_induct)
  case base
  then show ?case using race_ok_start [OF assms(1)] by (auto simp: start_race_def request_moved_def same_request_def)
next
  case (step w w')
  have "race_ok us w'" "evolves (st_db (rce_st w)) (st_db (rce_st w'))"
    using race_ok_step [OF step.hyps(2)] step.IH by blast+
  then show ?case using step.IH by (meson evolves_moved moved_trans)
qed

section \<open>What every run keeps\<close>

text \<open>In whatever order the steps come, no request is lost or changes its identity.\<close>

definition remembers :: "db \<Rightarrow> db \<Rightarrow> bool" where
  "remembers d e \<longleftrightarrow> (\<forall>r \<in> set (requests d). \<exists>q \<in> set (requests e). same_request r q)"

lemma remembers_refl: "requests e = requests d \<Longrightarrow> remembers d e"
  by (auto simp: remembers_def same_request_def)

lemma remembers_trans: "remembers a b \<Longrightarrow> remembers b c \<Longrightarrow> remembers a c"
  unfolding remembers_def by (meson same_request_trans)

lemma remembers_revise:
  assumes "\<And>r. same_request r (f r)"
  shows "remembers d (revise now i f d)"
proof -
  have "\<exists>q \<in> set (requests (revise now i f d)). same_request r q" if r: "r \<in> set (requests d)" for r
  proof -
    let ?q = "if req_id r = i then (f r)\<lparr>req_updatedAt := now\<rparr> else r"
    have "?q \<in> set (requests (revise now i f d))" using r by (auto simp: revise_def set_updateMany image_iff)
    moreover have "same_request r ?q" using assms [of r] by (simp add: same_request_def)
    ultimately show ?thesis by blast
  qed
  then show ?thesis by (simp add: remembers_def)
qed

lemma commit_change_missing:
  assumes "findFirst (\<lambda>r. req_id r = pln_id p) (requests (st_db s)) = None"
  shows "st_db (snd (commit_change x p s)) = st_db s"
  using assms
  by (cases "pln_change p")
    (auto simp: commit_change_def bind_app [of "transaction m" for m] transaction_app updateById_run bind_bind bind_ret draw_run Let_def)

lemma remembers_commit: "remembers (st_db s) (st_db (snd (commit_change x p s)))"
proof (cases "findFirst (\<lambda>r. req_id r = pln_id p) (requests (st_db s))")
  case None
  then show ?thesis by (simp add: commit_change_missing remembers_refl)
next
  case (Some r)
  from commit_change_app [OF this, of x] show ?thesis using remembers_revise [OF changed_ok(1)] by auto
qed

lemma remembers_step: "race_step serial x e us w w' \<Longrightarrow> remembers (st_db (rce_st w)) (st_db (rce_st w'))"
proof (erule race_step.cases, goal_cases)
  case (1 j w p t)
  then show ?case using plan_Inr(1) [OF 1(6)] by (simp add: remembers_refl)
next
  case (2 j w err t)
  then show ?case using looksD [OF looks_plan 2(5)] by (simp add: remembers_refl)
next
  case (3 j w p)
  then show ?case by (simp add: remembers_commit)
next
  case (4 p w)
  have "set (requests (st_db (rce_st w))) \<subseteq> set (requests (st_db (snd (run_op x e p (rce_st w)))))"
    using db_keepsD [OF rows_run_op [OF 4(3)]] by blast
  then show ?case using 4 by (auto simp: remembers_def same_request_def)
qed

lemma race_remembers: "race_reach serial x e us (start_race s) w \<Longrightarrow> remembers (st_db s) (st_db (rce_st w))"
  unfolding race_reach_def
  by (induction rule: rtranclp_induct) (auto simp: start_race_def intro: remembers_refl remembers_trans remembers_step)

section \<open>An overlap that breaks the status machine\<close>

text \<open>
  A resident cancels while staff complete: both read the request in progress, the completion commits,
  and the cancellation then overwrites it.
\<close>

lemma stale_cancel:
  assumes fin: "plan (MoveStatus staff b i COMPLETED) s = (Inr p, s1)" and stop: "plan (CancelOwn user i) s = (Inr q, s2)"
    and pq: "pln_change p = MoveTo COMPLETED before" "pln_change q = CancelIt"
  shows "\<exists>w1 w2. race_reach False x e [MoveStatus staff b i COMPLETED, CancelOwn user i] (start_race s) w1 \<and>
    race_reach False x e [MoveStatus staff b i COMPLETED, CancelOwn user i] w1 w2 \<and>
    (\<exists>r \<in> set (requests (st_db (rce_st w1))). req_id r = i \<and> req_status r = COMPLETED) \<and>
    (\<exists>r \<in> set (requests (st_db (rce_st w2))). req_id r = i \<and> req_status r = CANCELED \<and> req_completedAt r \<noteq> None)"
proof -
  let ?us = "[MoveStatus staff b i COMPLETED, CancelOwn user i]"
  let ?R = "race_step False x e ?us"
  let ?w0 = "\<lparr>rce_st = s, rce_stage = (\<lambda>_. Idle)(0 := Planned p)\<rparr>"
  let ?wb = "\<lparr>rce_st = s, rce_stage = (\<lambda>_. Idle)(0 := Planned p, 1 := Planned q)\<rparr>"
  let ?sa = "snd (commit_change x p s)" and ?sb = "snd (commit_change x q (snd (commit_change x p s)))"
  let ?w1 = "\<lparr>rce_st = ?sa, rce_stage = (\<lambda>_. Idle)(0 := Settled, 1 := Planned q)\<rparr>"
  let ?w2 = "\<lparr>rce_st = ?sb, rce_stage = (\<lambda>_. Idle)(0 := Settled, 1 := Settled)\<rparr>"
  note ids = plan_Inr(1,2) [OF fin] plan_Inr(1,2) [OF stop]
  have "?R (start_race s) ?w0"
    using race_step.read [of 0 ?us "start_race s" False p s1 x e] fin ids by (simp add: start_race_def)
  moreover have "?R ?w0 ?wb"
    using race_step.read [of 1 ?us ?w0 False q s2 x e] stop ids by (simp add: fun_upd_def)
  moreover have "?R ?wb ?w1"
    using race_step.commit [of 0 ?us ?wb p False x e] by (simp add: fun_upd_twist)
  ultimately have r1: "race_reach False x e ?us (start_race s) ?w1"
    unfolding race_reach_def by (meson rtranclp.rtrancl_into_rtrancl rtranclp.rtrancl_refl)
  have "?R ?w1 ?w2" using race_step.commit [of 1 ?us ?w1 q False x e] by simp
  then have r2: "race_reach False x e ?us ?w1 ?w2" unfolding race_reach_def by blast
  obtain r where r: "r \<in> set (requests (st_db s))" "req_id r = i" using plan_Inr(3) [OF fin] ids by auto
  then have "findFirst (\<lambda>r. req_id r = pln_id p) (requests (st_db s)) \<noteq> None"
    using ids by (auto simp: findFirst_None_key intro: rev_image_eqI)
  then obtain a k where a: "st_db ?sa = revise (x_clock x k) i (changed a (MoveTo COMPLETED before)) (st_db s)"
    using commit_change_app [of p s _ x] ids pq by auto
  let ?r1 = "(changed a (MoveTo COMPLETED before) r)\<lparr>req_updatedAt := x_clock x k\<rparr>"
  have r1_in: "?r1 \<in> set (requests (st_db ?sa))" using r unfolding a by (auto simp: revise_def set_updateMany image_iff)
  then have "findFirst (\<lambda>r. req_id r = pln_id q) (requests (st_db ?sa)) \<noteq> None"
    using ids r by (auto simp: findFirst_None_key intro: rev_image_eqI)
  then obtain c l where c: "st_db ?sb = revise (x_clock x l) i (changed c CancelIt) (st_db ?sa)"
    using commit_change_app [of q ?sa _ x] ids pq by auto
  let ?r2 = "(changed c CancelIt ?r1)\<lparr>req_updatedAt := x_clock x l\<rparr>"
  have r2_in: "?r2 \<in> set (requests (st_db ?sb))"
    using r1_in r(2) unfolding c revise_def by (auto simp: set_updateMany image_iff intro: bexI [of _ ?r1])
  show ?thesis
  proof (intro exI conjI bexI)
    show "race_reach False x e ?us (start_race s) ?w1" "race_reach False x e ?us ?w1 ?w2" by (rule r1 r2)+
    show "?r1 \<in> set (requests (st_db (rce_st ?w1)))" "?r2 \<in> set (requests (st_db (rce_st ?w2)))" using r1_in r2_in by simp_all
  qed (use r(2) in simp_all)
qed

end
