(* ===== verification/Infra.thy ===== *)
theory Infra
  imports Guards DateTime "HOL-Library.AList"
begin

text \<open>
  What surrounds the modules: the request metrics with their sliding windows, the HTTP exception
  filter, the logging and metrics interceptors, the S3 storage adapter, the queue connection, the
  health endpoint and the settings of the server. The storage client, the URL signer and the
  floating-point product of the percentile computation are arguments.
\<close>

section \<open>Request metrics (\<open>request-metrics.service.ts\<close>)\<close>

text \<open>The \<open>Map\<close> of samples, in insertion order; \<open>set\<close> keeps the place of a key that is there.\<close>

type_synonym samples = "(string \<times> rat list) list"

definition max_samples :: "env \<Rightarrow> int" where
  "max_samples e = coalesce (REQUEST_METRICS_SAMPLE_SIZE e) 300"

definition record_sample :: "env \<Rightarrow> string \<Rightarrow> rat \<Rightarrow> samples \<Rightarrow> samples" where
  "record_sample e routeKey durationMs m =
     (if \<not> REQUEST_METRICS_ENABLED e then m
      else
        let bucket = coalesce (map_of m routeKey) [] @ [durationMs];
            kept = (if int (length bucket) > max_samples e then tl bucket else bucket)
        in AList.update routeKey kept m)"

text \<open>\<open>Math.round\<close>, and the position of a quantile; \<open>mul\<close> is the floating-point product.\<close>

definition math_round :: "rat \<Rightarrow> int" where
  "math_round v = \<lfloor>v + 1 / 2\<rfloor>"

definition percentile_position :: "(nat \<Rightarrow> rat \<Rightarrow> rat) \<Rightarrow> nat \<Rightarrow> rat \<Rightarrow> int" where
  "percentile_position mul n quantile = min (int n - 1) (max 0 (\<lceil>mul n quantile\<rceil> - 1))"

definition percentile :: "(nat \<Rightarrow> rat \<Rightarrow> rat) \<Rightarrow> rat list \<Rightarrow> rat \<Rightarrow> int" where
  "percentile mul sorted_values quantile =
     (if sorted_values = [] then 0
      else math_round (sorted_values ! nat (percentile_position mul (length sorted_values) quantile)))"

record metrics_log =
  mlg_route :: string
  mlg_count :: nat
  mlg_p50 :: int
  mlg_p95 :: int
  mlg_p99 :: int

definition flush_route :: "(nat \<Rightarrow> rat \<Rightarrow> rat) \<Rightarrow> string \<Rightarrow> rat list \<Rightarrow> metrics_log" where
  "flush_route mul routeKey vs = (let ordered = sort vs in
     \<lparr>mlg_route = routeKey, mlg_count = length vs, mlg_p50 = percentile mul ordered (1 / 2),
      mlg_p95 = percentile mul ordered (95 / 100), mlg_p99 = percentile mul ordered (99 / 100)\<rparr>)"

text \<open>The log lines, and the emptied map.\<close>

definition flush :: "(nat \<Rightarrow> rat \<Rightarrow> rat) \<Rightarrow> samples \<Rightarrow> metrics_log list \<times> samples" where
  "flush mul m = (map (\<lambda>(k, vs). flush_route mul k vs) (filter (\<lambda>(k, vs). vs \<noteq> []) m), [])"

definition metrics_timer :: "env \<Rightarrow> int option" where
  "metrics_timer e = (if \<not> REQUEST_METRICS_ENABLED e then None else Some (coalesce (REQUEST_METRICS_INTERVAL_MS e) 60000))"

subsection \<open>A window over the history\<close>

text \<open>
  The specification: after any sequence of recordings, the bucket of a route holds the last
  \<open>max_samples\<close> durations recorded for it, in order.
\<close>

fun record_all :: "env \<Rightarrow> (string \<times> rat) list \<Rightarrow> samples \<Rightarrow> samples" where
  "record_all e [] m = m"
| "record_all e ((k, v) # rs) m = record_all e rs (record_sample e k v m)"

definition window :: "nat \<Rightarrow> 'a list \<Rightarrow> 'a list" where
  "window n xs = drop (length xs - n) xs"

definition of_route :: "string \<Rightarrow> (string \<times> rat) list \<Rightarrow> rat list" where
  "of_route k rs = map snd (filter (\<lambda>r. fst r = k) rs)"

lemma length_window: "length (window n xs) = min n (length xs)"
  by (auto simp: window_def)

lemma window_snoc:
  assumes "0 < n"
  shows "window n (xs @ [v]) = (let ys = window n xs @ [v] in if length ys > n then tl ys else ys)"
proof (cases "length xs < n")
  case True
  then show ?thesis by (simp add: window_def)
next
  case False
  define w where "w = drop (length xs - n) xs"
  have len: "length w = n" using False by (simp add: w_def)
  have "drop (Suc (length xs - n)) (xs @ [v]) = tl (drop (length xs - n) (xs @ [v]))"
    by (simp only: drop_Suc drop_tl)
  moreover have "drop (length xs - n) (xs @ [v]) = w @ [v]" by (simp add: w_def)
  moreover have "length (xs @ [v]) - n = Suc (length xs - n)" using False by simp
  ultimately have "window n (xs @ [v]) = tl (w @ [v])" unfolding window_def by argo
  then show ?thesis using len by (simp add: window_def w_def [symmetric] Let_def)
qed

lemma record_sample_window:
  assumes "REQUEST_METRICS_ENABLED e" "0 < max_samples e"
    and "\<And>k. coalesce (map_of m k) [] = window (nat (max_samples e)) (h k)"
  shows "coalesce (map_of (record_sample e k v m) j) [] =
    window (nat (max_samples e)) (if j = k then h k @ [v] else h j)"
proof -
  have "int (length (window (nat (max_samples e)) (h k) @ [v])) > max_samples e \<longleftrightarrow>
      length (window (nat (max_samples e)) (h k) @ [v]) > nat (max_samples e)"
    using assms(2) by auto
  then show ?thesis
    using assms(2,3) window_snoc [of "nat (max_samples e)" "h k" v] assms(1)
    by (simp add: record_sample_def Let_def update_conv')
qed

lemma record_all_window:
  assumes "REQUEST_METRICS_ENABLED e" "0 < max_samples e"
    and "\<And>k. coalesce (map_of m k) [] = window (nat (max_samples e)) (h k)"
  shows "coalesce (map_of (record_all e rs m) k) [] = window (nat (max_samples e)) (h k @ of_route k rs)"
  using assms(3)
proof (induction rs arbitrary: m h)
  case (Cons r rs)
  obtain j v where r: "r = (j, v)" by (cases r)
  have "coalesce (map_of (record_sample e j v m) i) [] =
      window (nat (max_samples e)) (if i = j then h j @ [v] else h i)" for i
    by (rule record_sample_window) (use assms(1,2) Cons.prems in auto)
  from Cons.IH [OF this] show ?case by (simp add: r of_route_def)
qed (simp add: of_route_def)

lemma record_all_keys: "distinct (map fst m) \<Longrightarrow> distinct (map fst (record_all e rs m))"
  by (induction rs arbitrary: m) (auto simp: record_sample_def Let_def distinct_update)

lemma max_samples_pos: "envSchema_ok (env_data.truncate e) \<Longrightarrow> 0 < max_samples e"
  by (auto simp: max_samples_def envSchema_ok_def positive_opt_def env_data.truncate_def coalesce_def split: option.splits)

text \<open>A percentile is a rounded sample, and a higher quantile gives no smaller one.\<close>

lemma percentile_position_less: "0 < n \<Longrightarrow> nat (percentile_position mul n q) < n"
  by (auto simp: percentile_position_def)

lemma percentile_mem: "vs \<noteq> [] \<Longrightarrow> percentile mul vs q \<in> math_round ` set vs"
  using percentile_position_less [of "length vs"] by (simp add: percentile_def)

lemma percentile_mono:
  assumes "sorted vs" "mul (length vs) p \<le> mul (length vs) q"
  shows "percentile mul vs p \<le> percentile mul vs q"
proof (cases "vs = []")
  case False
  have "\<lceil>mul (length vs) p\<rceil> \<le> \<lceil>mul (length vs) q\<rceil>" using assms(2) by (rule ceiling_mono)
  then have "nat (percentile_position mul (length vs) p) \<le> nat (percentile_position mul (length vs) q)"
    by (simp add: percentile_position_def)
  then have "vs ! nat (percentile_position mul (length vs) p) \<le> vs ! nat (percentile_position mul (length vs) q)"
    using False percentile_position_less [of "length vs" mul q] by (intro sorted_nth_mono [OF assms(1)]) simp_all
  then show ?thesis using False by (simp add: percentile_def math_round_def floor_mono)
qed (simp add: percentile_def)

subsection \<open>The nearest rank\<close>

text \<open>
  The specification of a percentile, with no sorting: a sample such that at least \<open>c\<close> samples are not
  larger and fewer than \<open>c\<close> are smaller, for the rank \<open>c\<close> asked for.
\<close>

definition nearest_rank :: "rat list \<Rightarrow> rat \<Rightarrow> rat \<Rightarrow> bool" where
  "nearest_rank vs c v \<longleftrightarrow> v \<in> set vs \<and> c \<le> of_nat (length (filter (\<lambda>w. w \<le> v) vs)) \<and>
     of_nat (length (filter (\<lambda>w. w < v) vs)) < c"

text \<open>What the floating-point product is relied on for: it is monotone and stays within the length.\<close>

definition product_ok :: "(nat \<Rightarrow> rat \<Rightarrow> rat) \<Rightarrow> bool" where
  "product_ok mul \<longleftrightarrow> (\<forall>n p q. 0 < n \<longrightarrow> 0 < p \<longrightarrow> p \<le> q \<longrightarrow> q \<le> 1 \<longrightarrow>
     0 < mul n p \<and> mul n p \<le> mul n q \<and> mul n q \<le> of_nat n)"

lemma sorted_counts:
  assumes "sorted (vs :: rat list)" "i < length vs"
  shows "Suc i \<le> length (filter (\<lambda>w. w \<le> vs ! i) vs)" "length (filter (\<lambda>w. w < vs ! i) vs) \<le> i"
proof -
  have split: "length (filter P vs) = length (filter P (take k vs)) + length (filter P (drop k vs))" for P and k
    by (metis append_take_drop_id filter_append length_append)
  have "w \<le> vs ! i" if "w \<in> set (take (Suc i) vs)" for w
    using that assms by (auto simp: in_set_conv_nth intro!: sorted_nth_mono)
  then have "filter (\<lambda>w. w \<le> vs ! i) (take (Suc i) vs) = take (Suc i) vs" by (simp add: filter_id_conv)
  then show "Suc i \<le> length (filter (\<lambda>w. w \<le> vs ! i) vs)" using split [of _ "Suc i"] assms(2) by simp
  have "vs ! i \<le> w" if "w \<in> set (drop i vs)" for w
    using that assms by (auto simp: in_set_conv_nth intro!: sorted_nth_mono)
  then have "filter (\<lambda>w. w < vs ! i) (drop i vs) = []" by (fastforce simp: filter_empty_conv)
  then have "length (filter (\<lambda>w. w < vs ! i) vs) = length (filter (\<lambda>w. w < vs ! i) (take i vs))" using split [of _ i] by simp
  also have "\<dots> \<le> i" using length_filter_le [of _ "take i vs"] assms(2) by simp
  finally show "length (filter (\<lambda>w. w < vs ! i) vs) \<le> i" .
qed

lemma percentile_nearest_rank:
  assumes "vs \<noteq> []" "0 < mul (length vs) q" "mul (length vs) q \<le> of_nat (length vs)"
  shows "\<exists>v. percentile mul (sort vs) q = math_round v \<and> nearest_rank vs (mul (length vs) q) v"
proof -
  let ?c = "mul (length vs) q" and ?p = "nat (percentile_position mul (length vs) q)"
  have c0: "0 < \<lceil>?c\<rceil>" "\<lceil>?c\<rceil> \<le> int (length vs)" using assms(2,3) by (simp_all add: ceiling_le_iff)
  then have "percentile_position mul (length vs) q = \<lceil>?c\<rceil> - 1" by (simp add: percentile_position_def)
  then have p: "int ?p = \<lceil>?c\<rceil> - 1" "?p < length vs" using c0 by linarith+
  have count: "length (filter P (sort vs)) = length (filter P vs)" for P by (simp add: filter_sort)
  note c = sorted_counts [OF sorted_sort, of ?p vs, unfolded count]
  have "?c \<le> of_int \<lceil>?c\<rceil>" "of_int \<lceil>?c\<rceil> < ?c + 1" using ceiling_correct [of ?c] by linarith+
  moreover have "of_int \<lceil>?c\<rceil> = of_nat ?p + (1 :: rat)" using p(1) by (metis add.commute diff_add_cancel of_int_1 of_int_add of_int_of_nat_eq)
  ultimately have "?c \<le> of_nat ?p + 1" "of_nat ?p < ?c" by simp_all
  moreover have "of_nat (Suc ?p) \<le> (of_nat (length (filter (\<lambda>w. w \<le> sort vs ! ?p) vs)) :: rat)"
    "of_nat (length (filter (\<lambda>w. w < sort vs ! ?p) vs)) \<le> (of_nat ?p :: rat)"
    using c p(2) by (simp_all only: of_nat_le_iff length_sort)
  moreover have "sort vs ! ?p \<in> set vs" using p(2) by (metis length_sort nth_mem set_sort)
  ultimately have "nearest_rank vs ?c (sort vs ! ?p)" unfolding nearest_rank_def by simp
  moreover have "percentile mul (sort vs) q = math_round (sort vs ! ?p)"
  proof -
    have "sort vs \<noteq> []" using assms(1) by (metis length_0_conv length_sort)
    then show ?thesis by (simp add: percentile_def)
  qed
  ultimately show ?thesis by blast
qed

text \<open>The lines of a flush: one per route recorded since the last one, over its window.\<close>

lemma flush_lines:
  assumes "REQUEST_METRICS_ENABLED e" "0 < max_samples e"
  shows "l \<in> set (fst (flush mul (record_all e rs []))) \<longleftrightarrow>
      (\<exists>k \<in> fst ` set rs. l = flush_route mul k (window (nat (max_samples e)) (of_route k rs)))"
    "distinct (map mlg_route (fst (flush mul (record_all e rs []))))"
proof -
  let ?m = "record_all e rs []" and ?w = "\<lambda>k. window (nat (max_samples e)) (of_route k rs)"
  have keys: "distinct (map fst ?m)" by (rule record_all_keys) simp
  have at: "coalesce (map_of ?m k) [] = ?w k" for k
    using record_all_window [OF assms, of "[]" "\<lambda>_. []" rs k] by (simp add: window_def)
  have nonempty: "?w k \<noteq> [] \<longleftrightarrow> k \<in> fst ` set rs" for k
  proof -
    have "?w k = [] \<longleftrightarrow> of_route k rs = []" 
      using assms(2) by (cases "of_route k rs") (simp_all add: length_0_conv [symmetric] length_window min_def del: length_0_conv)
    then show ?thesis by (auto simp: of_route_def filter_empty_conv)
  qed
  have mem: "(k, vs) \<in> set ?m \<and> vs \<noteq> [] \<longleftrightarrow> k \<in> fst ` set rs \<and> vs = ?w k" for k vs
  proof (cases "map_of ?m k")
    case None
    then have "(k, vs) \<notin> set ?m" using map_of_eq_Some_iff [OF keys, of k vs] by simp
    moreover have "?w k = []" using at [of k] None by (simp add: coalesce_def)
    ultimately show ?thesis using nonempty [of k] by simp
  next
    case (Some ws)
    then have "(k, vs) \<in> set ?m \<longleftrightarrow> vs = ws" using map_of_eq_Some_iff [OF keys, of k vs] by auto
    moreover have "?w k = ws" using at [of k] Some by (simp add: coalesce_def)
    ultimately show ?thesis using nonempty [of k] by metis
  qed
  show "l \<in> set (fst (flush mul ?m)) \<longleftrightarrow> (\<exists>k \<in> fst ` set rs. l = flush_route mul k (?w k))"
  proof
    assume "l \<in> set (fst (flush mul ?m))"
    then obtain k vs where "(k, vs) \<in> set ?m \<and> vs \<noteq> []" "l = flush_route mul k vs" by (auto simp: flush_def)
    then show "\<exists>k \<in> fst ` set rs. l = flush_route mul k (?w k)" unfolding mem by blast
  next
    assume "\<exists>k \<in> fst ` set rs. l = flush_route mul k (?w k)"
    then obtain k where "(k, ?w k) \<in> set ?m \<and> ?w k \<noteq> []" "l = flush_route mul k (?w k)" using mem by blast
    then show "l \<in> set (fst (flush mul ?m))" by (auto simp: flush_def)
  qed
  have "map mlg_route (fst (flush mul ?m)) = map fst (filter (\<lambda>(k, vs). vs \<noteq> []) ?m)"
    by (auto simp: flush_def flush_route_def Let_def split_def)
  then show "distinct (map mlg_route (fst (flush mul ?m)))" using keys by (simp add: distinct_map_filter)
qed

lemma flush_percentiles:
  assumes "REQUEST_METRICS_ENABLED e" "envSchema_ok (env_data.truncate e)" "product_ok mul"
    and "flush mul (record_all e rs []) = (lines, m)"
  shows "m = [] \<and> distinct (map mlg_route lines) \<and> mlg_route ` set lines = fst ` set rs \<and>
    (\<forall>l \<in> set lines. let vs = window (nat (max_samples e)) (of_route (mlg_route l) rs); n = length vs in
       mlg_count l = n \<and> 0 < n \<and> int n \<le> max_samples e \<and> mlg_p50 l \<le> mlg_p95 l \<and> mlg_p95 l \<le> mlg_p99 l \<and>
       (\<exists>v. mlg_p50 l = math_round v \<and> nearest_rank vs (mul n (1 / 2)) v) \<and>
       (\<exists>v. mlg_p95 l = math_round v \<and> nearest_rank vs (mul n (95 / 100)) v) \<and>
       (\<exists>v. mlg_p99 l = math_round v \<and> nearest_rank vs (mul n (99 / 100)) v))"
proof -
  have pos: "0 < max_samples e" using assms(2) by (rule max_samples_pos)
  let ?w = "\<lambda>k. window (nat (max_samples e)) (of_route k rs)"
  have lines: "l \<in> set lines \<longleftrightarrow> (\<exists>k \<in> fst ` set rs. l = flush_route mul k (?w k))" and "distinct (map mlg_route lines)" for l
    using flush_lines(1) [OF assms(1) pos, of l mul rs] flush_lines(2) [OF assms(1) pos, of mul rs] assms(4) by simp_all
  have route: "mlg_route (flush_route mul k vs) = k" for k vs by (simp add: flush_route_def Let_def)
  have "mlg_route ` set lines = fst ` set rs"
  proof (rule set_eqI, rule iffI)
    fix k assume "k \<in> mlg_route ` set lines"
    then show "k \<in> fst ` set rs" unfolding image_iff [of k mlg_route] lines Bex_def using route by metis
  next
    fix k assume "k \<in> fst ` set rs"
    then have "flush_route mul k (?w k) \<in> set lines" unfolding lines by blast
    then show "k \<in> mlg_route ` set lines" using route by (metis imageI)
  qed
  moreover have "let vs = ?w (mlg_route l); n = length vs in
       mlg_count l = n \<and> 0 < n \<and> int n \<le> max_samples e \<and> mlg_p50 l \<le> mlg_p95 l \<and> mlg_p95 l \<le> mlg_p99 l \<and>
       (\<exists>v. mlg_p50 l = math_round v \<and> nearest_rank vs (mul n (1 / 2)) v) \<and>
       (\<exists>v. mlg_p95 l = math_round v \<and> nearest_rank vs (mul n (95 / 100)) v) \<and>
       (\<exists>v. mlg_p99 l = math_round v \<and> nearest_rank vs (mul n (99 / 100)) v)" if l: "l \<in> set lines" for l
  proof -
    obtain k where k: "k \<in> fst ` set rs" "l = flush_route mul k (?w k)"
      using l unfolding lines by blast
    have "of_route k rs \<noteq> []" using k(1) by (auto simp: of_route_def filter_empty_conv)
    then have n: "0 < length (?w k)" "int (length (?w k)) \<le> max_samples e" using pos by (simp_all add: length_window)
    then have ne: "?w k \<noteq> []" by simp
    have ok: "0 < mul (length (?w k)) p" "mul (length (?w k)) p \<le> mul (length (?w k)) q" "mul (length (?w k)) q \<le> of_nat (length (?w k))"
      if "0 < p" "p \<le> q" "q \<le> 1" for p q using assms(3) n(1) that by (simp_all add: product_ok_def)
    have rank: "\<exists>v. percentile mul (sort (?w k)) q = math_round v \<and> nearest_rank (?w k) (mul (length (?w k)) q) v"
      if "0 < q" "q \<le> 1" for q
      by (rule percentile_nearest_rank [OF ne]) (use ok [of q q] that in simp_all)
    have mono: "percentile mul (sort (?w k)) p \<le> percentile mul (sort (?w k)) q" if "0 < p" "p \<le> q" "q \<le> 1" for p q
      by (rule percentile_mono) (use ok(2) [OF that] in simp_all)
    show ?thesis
      using n rank [of "1 / 2"] rank [of "95 / 100"] rank [of "99 / 100"] mono [of "1 / 2" "95 / 100"] mono [of "95 / 100" "99 / 100"]
      unfolding k(2) route Let_def by (simp add: flush_route_def Let_def)
  qed
  moreover have "m = []" using assms(4) by (simp add: flush_def)
  ultimately show ?thesis using \<open>distinct (map mlg_route lines)\<close> by blast
qed

section \<open>HTTP exceptions (\<open>http-exception.filter.ts\<close>)\<close>

text \<open>
  An exception as the filter sees it: an \<open>HttpException\<close> with its status, name, message and the
  response object it carries (a string, or an object of which only \<open>error\<close> and \<open>message\<close> are read),
  or anything else.
\<close>

datatype http_payload = PayloadText string | PayloadObject "json option" "json option"

record http_exception =
  hxc_status :: int
  hxc_name :: string
  hxc_message :: string
  hxc_payload :: http_payload

datatype exception = HttpExc http_exception | OtherExc

record error_response =
  ers_code :: string
  ers_message :: string
  ers_details :: "json list option"
  ers_requestId :: "string option"

text \<open>\<open>typeof requestId === 'string' ? requestId : undefined\<close>\<close>

definition plain_request_id :: "header option \<Rightarrow> string option" where
  "plain_request_id requestId = (case requestId of Some (HeaderOne v) \<Rightarrow> Some v | _ \<Rightarrow> None)"

definition mapHttpException :: "http_exception \<Rightarrow> header option \<Rightarrow> error_response" where
  "mapHttpException exc requestId = (case hxc_payload exc of
       PayloadText t \<Rightarrow> \<lparr>ers_code = hxc_name exc, ers_message = t, ers_details = None, ers_requestId = plain_request_id requestId\<rparr>
     | PayloadObject err msg \<Rightarrow>
         \<lparr>ers_code = (case err of Some (JStr c) \<Rightarrow> c | _ \<Rightarrow> hxc_name exc),
          ers_message = (case msg of Some (JArr l) \<Rightarrow> ''Validation failed'' | Some (JStr t) \<Rightarrow> t | _ \<Rightarrow> hxc_message exc),
          ers_details = (case msg of Some (JArr l) \<Rightarrow> Some l | _ \<Rightarrow> None), ers_requestId = plain_request_id requestId\<rparr>)"

text \<open>The status and the body of the response; \<open>requestId || headers['x-request-id']\<close> is the id.\<close>

definition filter_request_id :: "string option \<Rightarrow> header option \<Rightarrow> header option" where
  "filter_request_id requestId hdr = (case truthy requestId of Some v \<Rightarrow> Some (HeaderOne v) | None \<Rightarrow> hdr)"

definition HttpExceptionFilter_catch :: "exception \<Rightarrow> string option \<Rightarrow> header option \<Rightarrow> int \<times> error_response" where
  "HttpExceptionFilter_catch exc requestId hdr = (let rid = filter_request_id requestId hdr in
     case exc of
       HttpExc h \<Rightarrow> (hxc_status h, mapHttpException h rid)
     | OtherExc \<Rightarrow> (500, \<lparr>ers_code = ''INTERNAL_SERVER_ERROR'', ers_message = ''Internal server error'',
         ers_details = None, ers_requestId = plain_request_id rid\<rparr>))"

text \<open>Details are shown exactly for a list of validation messages, and then the message is fixed.\<close>

lemma filter_details:
  "ers_details (snd (HttpExceptionFilter_catch exc rid hdr)) = Some l \<longleftrightarrow>
     (\<exists>h err. exc = HttpExc h \<and> hxc_payload h = PayloadObject err (Some (JArr l)))"
  by (auto simp: HttpExceptionFilter_catch_def mapHttpException_def Let_def split: exception.splits http_payload.splits
      option.splits json.splits)

section \<open>Interceptors\<close>

record request_log =
  rlg_requestId :: string
  rlg_method :: string
  rlg_path :: string
  rlg_statusCode :: int
  rlg_durationMs :: int
  rlg_failed :: bool

record http_request =
  hrq_method :: string
  hrq_originalUrl :: "string option"
  hrq_url :: string
  hrq_routePath :: "string option"
  hrq_path :: "string option"

text \<open>
  \<open>logging.interceptor.ts\<close>: the request gets an id, the handler runs, and one line is logged on
  either outcome; \<open>status\<close> is the status of the response at that moment. The second component is the
  header \<open>x-request-id\<close>.
\<close>

definition LoggingInterceptor_intercept ::
  "ext \<Rightarrow> http_request \<Rightarrow> int \<Rightarrow> request_context \<Rightarrow> (request_context \<Rightarrow> 'a op) \<Rightarrow> st \<Rightarrow> (error + 'a) \<times> st \<times> string \<times> request_log" where
  "LoggingInterceptor_intercept x rq status ctx next_handler s0 =
     (let start = x_clock x (st_tick s0);
          s1 = s0\<lparr>st_tick := Suc (st_tick s0)\<rparr>;
          requestId = coalesce (truthy (ctx_requestId ctx)) (x_uuid x (st_tick s1));
          s2 = (if truthy (ctx_requestId ctx) = None then s1\<lparr>st_tick := Suc (st_tick s1)\<rparr> else s1)
      in case next_handler (ctx\<lparr>ctx_requestId := Some requestId\<rparr>) s2 of (r, s3) \<Rightarrow>
        (r, s3\<lparr>st_tick := Suc (st_tick s3)\<rparr>, requestId,
         \<lparr>rlg_requestId = requestId, rlg_method = hrq_method rq,
          rlg_path = coalesce (truthy (hrq_originalUrl rq)) (hrq_url rq), rlg_statusCode = status,
          rlg_durationMs = x_clock x (st_tick s3) - start, rlg_failed = (case r of Inl e \<Rightarrow> True | Inr v \<Rightarrow> False)\<rparr>))"

text \<open>\<open>request-metrics.interceptor.ts\<close>: the key of the route, and the record on either outcome.\<close>

definition route_key :: "http_request \<Rightarrow> string" where
  "route_key rq = hrq_method rq @ '' '' @
     (case hrq_routePath rq of Some p \<Rightarrow> p | None \<Rightarrow> coalesce (hrq_path rq) (hrq_url rq))"

definition RequestMetricsInterceptor_intercept :: "env \<Rightarrow> http_request \<Rightarrow> rat \<Rightarrow> 'a op \<Rightarrow> st \<times> samples \<Rightarrow> (error + 'a) \<times> st \<times> samples" where
  "RequestMetricsInterceptor_intercept e rq elapsedNs next_handler sm =
     (case next_handler (fst sm) of (r, s1) \<Rightarrow>
        (r, s1, record_sample e (route_key rq) (elapsedNs / 1000000) (snd sm)))"

text \<open>Logging changes nothing a handler does; the id it hands down is never empty when ids are not.\<close>

lemma logging_request_id:
  assumes "\<And>t. x_uuid x t \<noteq> []"
    and "LoggingInterceptor_intercept x rq status ctx k s = (r, t, rid, l)"
  shows "rid \<noteq> [] \<and> rlg_requestId l = rid \<and> (\<forall>v. ctx_requestId ctx = Some v \<longrightarrow> v \<noteq> [] \<longrightarrow> rid = v) \<and>
    (rlg_failed l \<longleftrightarrow> (\<exists>e. r = Inl e)) \<and>
    (\<exists>s2 s3. st_db s2 = st_db s \<and> k (ctx\<lparr>ctx_requestId := Some rid\<rparr>) s2 = (r, s3) \<and> st_db t = st_db s3)"
proof -
  have rid: "rid = coalesce (truthy (ctx_requestId ctx)) (x_uuid x (Suc (st_tick s)))"
    using assms(2) by (auto simp: LoggingInterceptor_intercept_def Let_def split: prod.splits)
  then have "rid \<noteq> []" using assms(1) by (cases "truthy (ctx_requestId ctx)") (auto simp: truthy_Some_iff)
  moreover have "ctx_requestId ctx = Some v \<longrightarrow> v \<noteq> [] \<longrightarrow> rid = v" for v using rid by (simp add: truthy_def)
  moreover have "rlg_requestId l = rid" "rlg_failed l \<longleftrightarrow> (\<exists>e. r = Inl e)"
    using assms(2) by (auto simp: LoggingInterceptor_intercept_def Let_def split: prod.splits sum.splits if_splits)
  moreover have "\<exists>s2 s3. st_db s2 = st_db s \<and> k (ctx\<lparr>ctx_requestId := Some rid\<rparr>) s2 = (r, s3) \<and> st_db t = st_db s3"
  proof -
    let ?s2 = "if truthy (ctx_requestId ctx) = None then s\<lparr>st_tick := Suc (Suc (st_tick s))\<rparr> else s\<lparr>st_tick := Suc (st_tick s)\<rparr>"
    obtain s3 where "k (ctx\<lparr>ctx_requestId := Some rid\<rparr>) ?s2 = (r, s3)" "t = s3\<lparr>st_tick := Suc (st_tick s3)\<rparr>"
      using assms(2) unfolding rid by (auto simp: LoggingInterceptor_intercept_def Let_def split: prod.splits if_splits)
    then show ?thesis by (intro exI [of _ ?s2] exI [of _ s3]) simp
  qed
  ultimately show ?thesis by blast
qed

text \<open>
  \<open>logger.module.ts\<close>: the logger gives the request its id before the interceptor sees it, the one the
  client sent or a new one, and \<open>prisma.service.ts\<close>: the statements a connection starts with.
\<close>

definition genReqId :: "ext \<Rightarrow> header option \<Rightarrow> string op" where
  "genReqId x hdr = (case plain_request_id hdr of
       Some v \<Rightarrow> if length v > 0 then ret v else bind draw (\<lambda>t. ret (x_uuid x t))
     | None \<Rightarrow> bind draw (\<lambda>t. ret (x_uuid x t)))"

definition onModuleInit_statements :: "env \<Rightarrow> string list" where
  "onModuleInit_statements e = (if PRISMA_APPLY_SESSION_TIMEOUTS e
     then map (\<lambda>(name, ms). ''SET '' @ name @ '' = '' @ [CHR 0x27] @ ms @ [CHR 0x27])
       [(''statement_timeout'', ''8000ms''), (''lock_timeout'', ''3000ms''), (''idle_in_transaction_session_timeout'', ''30000ms'')]
     else [])"

text \<open>A non-empty id sent by the client goes through logger and interceptor unchanged to the handler.\<close>

lemma client_request_id:
  assumes "v \<noteq> []"
  shows "genReqId x (Some (HeaderOne v)) s = (Inr v, s) \<and>
    fst (snd (snd (LoggingInterceptor_intercept x rq status (ctx\<lparr>ctx_requestId := Some v\<rparr>) k s))) = v"
  using assms by (simp add: genReqId_def plain_request_id_def ret_run LoggingInterceptor_intercept_def Let_def truthy_def split: prod.splits)

section \<open>Storage (\<open>storage.service.ts\<close>, \<open>s3.adapter.ts\<close>)\<close>

record put_object_input =
  poi_key :: string
  poi_body :: string
  poi_contentType :: "string option"

record signed_url_input =
  sui_key :: string
  sui_expiresInSeconds :: "int option"

text \<open>The commands handed to the client, which is outside.\<close>

datatype s3_command =
    PutObjectCommand "string option" string string "string option"
  | GetObjectCommand "string option" string
  | DeleteObjectCommand "string option" string

text \<open>The client's settings: the region, the endpoint and the credentials.\<close>

definition s3_client :: "env_data \<Rightarrow> string \<times> string option \<times> (string \<times> string) option" where
  "s3_client e = (coalesce (truthy (STORAGE_REGION e)) ''auto'', STORAGE_ENDPOINT e,
     (case (truthy (STORAGE_ACCESS_KEY_ID e), truthy (STORAGE_SECRET_ACCESS_KEY e)) of
        (Some i, Some k) \<Rightarrow> Some (i, k) | _ \<Rightarrow> None))"

definition ensureConfigured :: "env_data \<Rightarrow> ('s, unit) act" where
  "ensureConfigured e = require (truthy (STORAGE_BUCKET e) \<noteq> None \<and> truthy (STORAGE_ENDPOINT e) \<noteq> None \<and>
     truthy (STORAGE_ACCESS_KEY_ID e) \<noteq> None \<and> truthy (STORAGE_SECRET_ACCESS_KEY e) \<noteq> None)
     (NotImplemented ''Storage adapter not configured'')"

text \<open>The state is the list of commands sent.\<close>

definition putObject :: "env_data \<Rightarrow> put_object_input \<Rightarrow> (s3_command list, unit) act" where
  "putObject e inp = bind (ensureConfigured e) (\<lambda>_.
     modify (\<lambda>sent. sent @ [PutObjectCommand (STORAGE_BUCKET e) (poi_key inp) (poi_body inp) (poi_contentType inp)]))"

definition getSignedUrl :: "(s3_command \<Rightarrow> int \<Rightarrow> string) \<Rightarrow> env_data \<Rightarrow> signed_url_input \<Rightarrow> (s3_command list, string) act" where
  "getSignedUrl signer e inp = bind (ensureConfigured e) (\<lambda>_.
     ret (signer (GetObjectCommand (STORAGE_BUCKET e) (sui_key inp)) (coalesce (sui_expiresInSeconds inp) 900)))"

definition deleteObject :: "env_data \<Rightarrow> string \<Rightarrow> (s3_command list, unit) act" where
  "deleteObject e key = bind (ensureConfigured e) (\<lambda>_. modify (\<lambda>sent. sent @ [DeleteObjectCommand (STORAGE_BUCKET e) key]))"

text \<open>Without credentials nothing is sent; with them the client has them.\<close>

lemma storage_unconfigured:
  assumes "snd (snd (s3_client e)) = None"
  shows "putObject e pin sent = (Inl (NotImplemented ''Storage adapter not configured''), sent) \<and>
    getSignedUrl signer e gin sent = (Inl (NotImplemented ''Storage adapter not configured''), sent) \<and>
    deleteObject e key sent = (Inl (NotImplemented ''Storage adapter not configured''), sent)"
  using assms by (auto simp: s3_client_def putObject_def getSignedUrl_def deleteObject_def ensureConfigured_def run split: option.splits)

section \<open>Queue, health and server\<close>

text \<open>\<open>queue.module.ts\<close>: host, port and password of the connection, when the queue is on.\<close>

definition queue_connection :: "env \<Rightarrow> (string \<times> int \<times> string option) option" where
  "queue_connection e = (if \<not> QUEUE_ENABLED e then None
     else Some (coalesce (truthy (QUEUE_HOST e)) ''127.0.0.1'',
       (case QUEUE_PORT e of Some p \<Rightarrow> if p = 0 then 6379 else p | None \<Rightarrow> 6379), QUEUE_PASSWORD e))"

text \<open>The default queue exists exactly on a connection, which is outside.\<close>

definition queue_default :: "'c option \<Rightarrow> (string \<times> 'c) option" where
  "queue_default connection = map_option (\<lambda>c. (''default'', c)) connection"

text \<open>\<open>health.controller.ts\<close>\<close>

definition getHealth :: "ext \<Rightarrow> (string \<times> string) op" where
  "getHealth x = bind draw (\<lambda>t. ret (''ok'', toISOString (x_clock x t)))"

text \<open>
  \<open>main.ts\<close>: the port, where the raw variable is a number already checked by the schema, the body
  limit and the timeouts (request, headers, keep-alive). \<open>app.module.ts\<close>: time to live in
  milliseconds and limit of the throttler.
\<close>

record server_settings =
  svr_port :: int
  svr_bodyLimit :: string
  svr_timeoutMs :: int
  svr_headersTimeoutMs :: int
  svr_keepAliveTimeoutMs :: int

definition bootstrap :: "env_data \<Rightarrow> server_settings" where
  "bootstrap e = \<lparr>svr_port = (if PORT e \<noteq> 0 then PORT e else 3000), svr_bodyLimit = coalesce (HTTP_BODY_LIMIT e) ''1mb'',
     svr_timeoutMs = coalesce (HTTP_SERVER_TIMEOUT_MS e) 30000,
     svr_headersTimeoutMs = coalesce (HTTP_HEADERS_TIMEOUT_MS e) 35000,
     svr_keepAliveTimeoutMs = coalesce (HTTP_KEEP_ALIVE_TIMEOUT_MS e) 5000\<rparr>"

text \<open>
  What \<open>main.ts\<close> puts around every route: the middleware in the order of its registration, the path prefix,
  and the pipes, filters and interceptors, of which the first runs outermost.
\<close>

datatype middleware = Helmet | Compression | JsonBody string | UrlencodedBody bool string
datatype global_pipe = ValidationPipe
datatype global_filter = HttpExceptionFilter
datatype global_interceptor = LoggingInterceptor | RequestMetricsInterceptor

record http_setup =
  hst_trustProxy :: bool
  hst_corsAnyOrigin :: bool
  hst_middleware :: "middleware list"
  hst_globalPrefix :: string
  hst_pipes :: "global_pipe list"
  hst_filters :: "global_filter list"
  hst_interceptors :: "global_interceptor list"

definition http_app :: "env_data \<Rightarrow> http_setup" where
  "http_app e = \<lparr>hst_trustProxy = True, hst_corsAnyOrigin = True,
     hst_middleware = [Helmet, Compression, JsonBody (coalesce (HTTP_BODY_LIMIT e) ''1mb''),
       UrlencodedBody True (coalesce (HTTP_BODY_LIMIT e) ''1mb'')],
     hst_globalPrefix = ''api'', hst_pipes = [ValidationPipe], hst_filters = [HttpExceptionFilter],
     hst_interceptors = [LoggingInterceptor, RequestMetricsInterceptor]\<rparr>"

definition throttler :: "env_data \<Rightarrow> int \<times> int" where
  "throttler e = (coalesce (THROTTLE_TTL e) 60 * 1000, coalesce (THROTTLE_LIMIT e) 300)"

end
