(* ===== verification/ProvisionFacts.thy ===== *)
theory ProvisionFacts
  imports Tenancy
begin

text \<open>
  What a provisioning does: the removal of duplicate grants, what a caller without \<open>users.write\<close> can
  reach with it, and where the resident lives afterwards.
\<close>

section \<open>Duplicate grants\<close>

lemma append_sep_eq:
  "c \<notin> set a \<Longrightarrow> c \<notin> set b \<Longrightarrow> a @ c # x = b @ c # y \<longleftrightarrow> a = b \<and> x = y"
proof (induction a arbitrary: b)
  case Nil
  then show ?case by (cases b) auto
next
  case (Cons e a)
  then show ?case by (cases b) auto
qed

text \<open>The key of a grant tells it apart: no type contains a colon.\<close>

lemma dedupe_key_inj: "dedupe_key g = dedupe_key h \<longleftrightarrow> g = h"
proof
  assume "dedupe_key g = dedupe_key h"
  then have "rev (dedupe_key g) = rev (dedupe_key h)" by simp
  then have k: "rev (assignment_type_str (agr_type g)) @ CHR '':'' # rev (agr_buildingId g) =
      rev (assignment_type_str (agr_type h)) @ CHR '':'' # rev (agr_buildingId h)"
    by (simp add: dedupe_key_def)
  have no: "CHR '':'' \<notin> set (rev (assignment_type_str ty))" for ty by (cases ty) simp_all
  have parts: "rev (assignment_type_str (agr_type g)) = rev (assignment_type_str (agr_type h)) \<and>
      rev (agr_buildingId g) = rev (agr_buildingId h)"
    using k append_sep_eq [OF no no] by simp
  moreover have "agr_type g = agr_type h"
    using parts by (cases "agr_type g"; cases "agr_type h") simp_all
  ultimately show "g = h" by (cases g; cases h) simp
qed simp

lemma dedupe_loop_uniq: "dedupe_loop (map dedupe_key seen) gs = filter (\<lambda>g. g \<notin> set seen) (uniq gs)"
proof (induction gs arbitrary: seen)
  case (Cons g gs)
  have mem: "dedupe_key g \<in> set (map dedupe_key seen) \<longleftrightarrow> g \<in> set seen" by (auto simp: dedupe_key_inj)
  show ?case
  proof (cases "g \<in> set seen")
    case True
    then have "filter (\<lambda>h. h \<notin> set seen) (filter (\<lambda>y. y \<noteq> g) (uniq gs)) = filter (\<lambda>h. h \<notin> set seen) (uniq gs)"
      unfolding filter_filter by (intro filter_cong) auto
    then show ?thesis using True mem Cons.IH by simp
  next
    case False
    then show ?thesis using mem Cons.IH [of "g # seen"] by (simp add: conj_commute)
  qed
qed simp

lemma dedupeAssignments_uniq: "dedupeAssignments gs = uniq gs"
  using dedupe_loop_uniq [of "[]" gs] by (simp add: dedupeAssignments_def)

lemma set_target_buildings:
  "set (target_buildings gs r) = agr_buildingId ` set gs \<union> (case r of None \<Rightarrow> {} | Some g \<Rightarrow> {rgr_buildingId g})"
proof -
  have "set (foldl (\<lambda>acc g. set_add (agr_buildingId g) acc) ids gs) = set ids \<union> agr_buildingId ` set gs" for ids
    by (induction gs arbitrary: ids) auto
  then show ?thesis by (auto simp: target_buildings_def Let_def split: option.splits)
qed

lemma ret_Inr_iff: "ret v s = (Inr w, t) \<longleftrightarrow> w = v \<and> t = s"
  by (auto simp: run)

section \<open>Callers without users.write\<close>

text \<open>The buildings a user runs: it is assigned there as manager or building admin.\<close>

definition runs :: "db \<Rightarrow> id \<Rightarrow> id \<Rightarrow> bool" where
  "runs d u b \<longleftrightarrow> (\<exists>a \<in> set (assignments d). asg_userId a = u \<and> asg_buildingId a = b \<and> asg_type a \<in> {MANAGER, BUILDING_ADMIN})"

lemma assertManager_Inr:
  assumes "assertManagerProvisioningAllowed actor ks gs r same s = (Inr v, t)"
  shows "t = s" "same" "ks = []" "\<forall>g \<in> set gs. agr_type g \<in> {MANAGER, STAFF} \<and> runs (st_db s) actor (agr_buildingId g)"
    "case r of None \<Rightarrow> gs \<noteq> [] | Some g \<Rightarrow> runs (st_db s) actor (rgr_buildingId g)"
proof -
  have base: "same \<and> ks = [] \<and> (gs \<noteq> [] \<or> r \<noteq> None) \<and> list_all (\<lambda>g. agr_type g \<in> {MANAGER, STAFF}) gs"
    using assms by (auto simp: assertManagerProvisioningAllowed_def run split: if_splits)
  have "t = s \<and> (target_buildings gs r \<noteq> [] \<longrightarrow> (\<forall>b \<in> set (target_buildings gs r). runs (st_db s) actor b))"
    using assms base
    by (auto simp: assertManagerProvisioningAllowed_def run Let_def list_all_iff runs_def split: if_splits)
  then have "t = s" and all: "\<forall>b \<in> set (target_buildings gs r). runs (st_db s) actor b" by (auto simp: set_empty)
  show "t = s" "same" "ks = []" using base \<open>t = s\<close> by simp_all
  show "\<forall>g \<in> set gs. agr_type g \<in> {MANAGER, STAFF} \<and> runs (st_db s) actor (agr_buildingId g)"
    using base all by (auto simp: set_target_buildings list_all_iff)
  show "case r of None \<Rightarrow> gs \<noteq> [] | Some g \<Rightarrow> runs (st_db s) actor (rgr_buildingId g)"
    using base all by (auto simp: set_target_buildings split: option.splits)
qed

text \<open>The grants a caller asked for, after the defaults and the removal of duplicates.\<close>

definition asked_roles :: "provision_dto \<Rightarrow> string list" where
  "asked_roles dto = dedupeStrings (coalesce (case pdt_grants dto of None \<Rightarrow> None | Some g \<Rightarrow> pgr_orgRoleKeys g) [])"

definition asked_assignments :: "provision_dto \<Rightarrow> assignment_grant list" where
  "asked_assignments dto = uniq (coalesce (case pdt_grants dto of None \<Rightarrow> None | Some g \<Rightarrow> pgr_buildingAssignments g) [])"

definition asked_resident :: "provision_dto \<Rightarrow> resident_grant option" where
  "asked_resident dto = (case pdt_grants dto of None \<Rightarrow> None | Some g \<Rightarrow> pgr_resident g)"

text \<open>The steps of a provisioning that succeeds.\<close>

lemma provision_Inr:
  assumes "provision x user dto s = (Inr r, t)"
  obtains o1 actor found u s1 s2 s3 s4 s5 where "scope_of user = Some o1" "actor = map_option aut_sub user"
    "''super_admin'' \<notin> set (asked_roles dto)"
    "hasUsersWritePermission (st_db s) actor \<or> (\<exists>a. truthy actor = Some a \<and>
       (\<exists>same. assertManagerProvisioningAllowed a (asked_roles dto) (asked_assignments dto) (asked_resident dto) same s = (Inr (), s)))"
    "found = findUserByEmailInsensitive (st_db s) (normalizeEmail (pid_email (pdt_identity dto)))"
    "\<exists>ie same. (case found of Some u \<Rightarrow> link_user x o1 ie same u
        | None \<Rightarrow> new_user x o1 (normalizeEmail (pid_email (pdt_identity dto))) (pdt_identity dto)) s = (Inr u, s1)"
    "\<exists>ks. applyOrgRoles (usr_id u) (asked_roles dto) s1 = (Inr ks, s2) \<and> pvs_orgRoleKeys r = ks"
    "\<exists>as. applyBuildingAssignments x o1 (usr_id u) (asked_assignments dto) s2 = (Inr as, s3) \<and> pvs_buildingAssignments r = as"
    "ensureAdminRoleForBuildingAdmins (usr_id u) (asked_assignments dto) s3 = (Inr (), s4)"
    "applyResidentGrant x o1 (usr_id u) (asked_resident dto) s4 = (Inr (pvs_resident r), t)"
    "pvs_user r = (usr_id u, usr_email u, usr_name u)" "pvs_created r = (found = None)" "pvs_linkedExisting r = (found \<noteq> None)"
proof -
  obtain o1 where o1: "scope_of user = Some o1" using assms by (cases "scope_of user") (simp_all add: provision_def run)
  let ?actor = "map_option aut_sub user"
  let ?w = "hasUsersWritePermission (st_db s) ?actor"
  have tx: "provision_tx x o1 ?actor ?w dto s = (Inr r, t)" and no: "''super_admin'' \<notin> set (asked_roles dto)"
    using assms o1 by (auto simp: provision_def run Let_def transaction_Inr_iff asked_roles_def split: if_splits)
  let ?e = "normalizeEmail (pid_email (pdt_identity dto))"
  let ?found = "findUserByEmailInsensitive (st_db s) ?e"
  let ?same = "coalesce (case pdt_mode dto of None \<Rightarrow> None | Some m \<Rightarrow> pmo_requireSameOrg m) True"
  let ?ie = "coalesce (case pdt_mode dto of None \<Rightarrow> None | Some m \<Rightarrow> pmo_ifEmailExists m) LINK"
  note tx' = tx [unfolded provision_tx_def Let_def dedupeAssignments_uniq, folded asked_roles_def asked_assignments_def asked_resident_def]
  obtain s0 where chk: "(if ?w then ret () else bind (some_or (truthy ?actor) (Forbidden ''Unauthorized'')) (\<lambda>actor.
        assertManagerProvisioningAllowed actor (asked_roles dto) (asked_assignments dto) (asked_resident dto) ?same)) s = (Inr (), s0)"
    and rest: "bind (query (\<lambda>d. findUserByEmailInsensitive d ?e)) (\<lambda>found.
      bind (case found of Some u \<Rightarrow> link_user x o1 ?ie ?same u | None \<Rightarrow> new_user x o1 ?e (pdt_identity dto)) (\<lambda>targetUser.
      bind (applyOrgRoles (usr_id targetUser) (asked_roles dto)) (\<lambda>appliedRoleKeys.
      bind (applyBuildingAssignments x o1 (usr_id targetUser) (asked_assignments dto)) (\<lambda>appliedAssignments.
      bind (ensureAdminRoleForBuildingAdmins (usr_id targetUser) (asked_assignments dto)) (\<lambda>_.
      bind (applyResidentGrant x o1 (usr_id targetUser) (asked_resident dto)) (\<lambda>appliedResident.
      ret \<lparr>pvs_user = (usr_id targetUser, usr_email targetUser, usr_name targetUser),
           pvs_created = (found = None), pvs_linkedExisting = (found \<noteq> None), pvs_orgRoleKeys = appliedRoleKeys,
           pvs_buildingAssignments = appliedAssignments, pvs_resident = appliedResident\<rparr>)))))) s0 = (Inr r, t)"
    using tx' by (auto simp: bind_Inr_iff)
  have check: "s0 = s \<and> (?w \<or> (\<exists>a. truthy ?actor = Some a \<and>
       (\<exists>same. assertManagerProvisioningAllowed a (asked_roles dto) (asked_assignments dto) (asked_resident dto) same s = (Inr (), s))))"
  proof (cases ?w)
    case False
    then obtain a where a: "truthy ?actor = Some a"
      "assertManagerProvisioningAllowed a (asked_roles dto) (asked_assignments dto) (asked_resident dto) ?same s = (Inr (), s0)"
      using chk by (cases "truthy ?actor") (simp_all add: run)
    then show ?thesis using assertManager_Inr(1) [OF a(2)] by blast
  qed (use chk in \<open>simp add: run\<close>)
  obtain u s1 ks s2 as s3 s4 ar where st: "(case ?found of Some u \<Rightarrow> link_user x o1 ?ie ?same u
        | None \<Rightarrow> new_user x o1 ?e (pdt_identity dto)) s = (Inr u, s1)"
    "applyOrgRoles (usr_id u) (asked_roles dto) s1 = (Inr ks, s2)"
    "applyBuildingAssignments x o1 (usr_id u) (asked_assignments dto) s2 = (Inr as, s3)"
    "ensureAdminRoleForBuildingAdmins (usr_id u) (asked_assignments dto) s3 = (Inr (), s4)"
    "applyResidentGrant x o1 (usr_id u) (asked_resident dto) s4 = (Inr ar, t)"
    "r = \<lparr>pvs_user = (usr_id u, usr_email u, usr_name u),
           pvs_created = (?found = None), pvs_linkedExisting = (?found \<noteq> None), pvs_orgRoleKeys = ks,
           pvs_buildingAssignments = as, pvs_resident = ar\<rparr>"
    using rest unfolding conjunct1 [OF check] query_run(2) bind_Inr_iff ret_Inr_iff
    by (elim exE conjE) (rule that, simp_all)
  show thesis
    by (rule that [OF o1 refl no _ refl, of u s1 s2 s3 s4]) (use check st in auto)
qed

subsection \<open>What such a caller can change\<close>

text \<open>
  Every assignment after the call has the key of one before or is one of the grants: for a building
  its caller runs, as manager or staff. The roles are the same.
\<close>

definition only_grants :: "user_role list \<Rightarrow> assignment list \<Rightarrow> id \<Rightarrow> assignment_grant list \<Rightarrow> db \<Rightarrow> bool" where
  "only_grants urs as u gs d \<longleftrightarrow> userRoles d = urs \<and>
     (\<forall>a \<in> set (assignments d). assignment_key a \<in> assignment_key ` set as \<or>
        asg_userId a = u \<and> (\<exists>g \<in> set gs. agr_buildingId g = asg_buildingId a \<and> agr_type g = asg_type a))"

lemma only_grants_frame: "only_grants urs as u gs d \<Longrightarrow> userRoles e = userRoles d \<Longrightarrow> assignments e = assignments d \<Longrightarrow> only_grants urs as u gs e"
  by (simp add: only_grants_def)

lemma only_grants_upsert:
  assumes "g \<in> set gs"
  shows "db_keeps (only_grants urs as u gs) (assignment_upsert x (agr_buildingId g) u (agr_type g))"
proof -
  have add: "only_grants urs as u gs (d\<lparr>assignments := assignments d @ [\<lparr>asg_id = i, asg_buildingId = agr_buildingId g,
      asg_userId = u, asg_type = agr_type g, asg_createdAt = n, asg_updatedAt = n\<rparr>]\<rparr>)" if "only_grants urs as u gs d" for d i n
    using that assms by (auto simp: only_grants_def)
  have create: "db_keeps (only_grants urs as u gs) (assignment_create x (agr_buildingId g) u (agr_type g))"
    unfolding assignment_create_def Let_def by (intro inv db_keeps_write add)
  have update: "only_grants urs as u gs (d\<lparr>assignments := updateMany (\<lambda>q. assignment_key q = (agr_buildingId g, u, agr_type g))
      (\<lambda>a. a\<lparr>asg_type := agr_type g, asg_updatedAt := z\<rparr>) (assignments d)\<rparr>)" if "only_grants urs as u gs d" for d z
    using that assms by (fastforce simp: only_grants_def set_updateMany assignment_key_def)
  have create': "db_keeps (only_grants urs as u gs) (bind (assignment_create x (agr_buildingId g) u (agr_type g)) (\<lambda>(a, _). ret a))"
    by (intro inv create)
  show ?thesis
    unfolding assignment_upsert_def Let_def by (intro inv db_keeps_write update create')
qed

lemma only_grants_applyBuildingAssignments:
  "db_keeps (only_grants urs as u gs) (applyBuildingAssignments x o1 u gs)"
  unfolding applyBuildingAssignments_def
  by (rule db_keeps_for_each_mem) (intro inv only_grants_upsert)

lemma only_grants_users:
  "db_keeps (only_grants urs as u gs) (user_create x e n p h ow a m)" "db_keeps (only_grants urs as u gs) (user_update x i f)"
  "db_keeps (only_grants urs as u gs) (occupancy_insert x b i v)" "db_keeps (only_grants urs as u gs) (end_others x v b i)"
  unfolding user_create_def user_update_def occupancy_insert_def end_others_def Let_def
  by (intro inv db_keeps_write; auto elim: only_grants_frame)+

lemma only_grants_target:
  "db_keeps (only_grants urs as u gs) (link_user x o1 ie same v)" "db_keeps (only_grants urs as u gs) (new_user x o1 e ident)"
  "db_keeps (only_grants urs as u gs) (applyResidentGrant x o1 w r)"
  unfolding link_user_def new_user_def applyResidentGrant_def place_resident_def lockUnit_def
  by (intro inv only_grants_users)+

lemma runs_mono: "set (assignments d) \<subseteq> set (assignments e) \<Longrightarrow> runs d u b \<Longrightarrow> runs e u b"
  by (auto simp: runs_def)

text \<open>A caller without \<open>users.write\<close>: no role is given, and every new assignment is one it may give.\<close>

lemma provision_manager:
  assumes "provision x user dto s = (Inr r, t)" "sub_of user = Some actor"
    and "''users.write'' \<notin> set (getUserEffectivePermissions (st_db s) actor)"
  shows "userRoles (st_db t) = userRoles (st_db s) \<and>
    (\<forall>a \<in> set (assignments (st_db t)). assignment_key a \<in> assignment_key ` set (assignments (st_db s)) \<or>
       asg_type a \<in> {MANAGER, STAFF} \<and> runs (st_db s) actor (asg_buildingId a)) \<and>
    (case asked_resident dto of None \<Rightarrow> True | Some g \<Rightarrow> runs (st_db s) actor (rgr_buildingId g))"
  using assms(1)
proof (rule provision_Inr)
  fix o1 ac found u s1 s2 s3 s4
  assume chk: "hasUsersWritePermission (st_db s) ac \<or> (\<exists>a. truthy ac = Some a \<and>
       (\<exists>same. assertManagerProvisioningAllowed a (asked_roles dto) (asked_assignments dto) (asked_resident dto) same s = (Inr (), s)))"
    and ac: "ac = map_option aut_sub user"
    and st: "\<exists>ie same. (case found of Some u \<Rightarrow> link_user x o1 ie same u
        | None \<Rightarrow> new_user x o1 (normalizeEmail (pid_email (pdt_identity dto))) (pdt_identity dto)) s = (Inr u, s1)"
    "\<exists>ks. applyOrgRoles (usr_id u) (asked_roles dto) s1 = (Inr ks, s2) \<and> pvs_orgRoleKeys r = ks"
    "\<exists>as. applyBuildingAssignments x o1 (usr_id u) (asked_assignments dto) s2 = (Inr as, s3) \<and> pvs_buildingAssignments r = as"
    "ensureAdminRoleForBuildingAdmins (usr_id u) (asked_assignments dto) s3 = (Inr (), s4)"
    "applyResidentGrant x o1 (usr_id u) (asked_resident dto) s4 = (Inr (pvs_resident r), t)"
  have "truthy ac = Some actor" using assms(2) ac by (simp add: sub_of_def)
  then have no: "\<not> hasUsersWritePermission (st_db s) ac" using assms(3) by (simp add: hasUsersWritePermission_def)
  then obtain same where m: "assertManagerProvisioningAllowed actor (asked_roles dto) (asked_assignments dto) (asked_resident dto) same s = (Inr (), s)"
    using chk \<open>truthy ac = Some actor\<close> by auto
  note m' = assertManager_Inr [OF m]
  let ?I = "only_grants (userRoles (st_db s)) (assignments (st_db s)) (usr_id u) (asked_assignments dto)"
  have "db_keeps ?I (case found of Some u \<Rightarrow> link_user x o1 ie same u
        | None \<Rightarrow> new_user x o1 (normalizeEmail (pid_email (pdt_identity dto))) (pdt_identity dto))" for ie same
    by (intro inv only_grants_target)
  moreover have "?I (st_db s)" by (simp add: only_grants_def)
  ultimately have 1: "?I (st_db s1)" using st(1) db_keepsD by (metis snd_conv)
  have 2: "s2 = s1" using st(2) m'(3) by (auto simp: applyOrgRoles_def run)
  have 3: "?I (st_db s3)" using st(3) 1 2 db_keepsD [OF only_grants_applyBuildingAssignments] by (metis snd_conv)
  have 4: "s4 = s3" using st(4) m'(4) by (auto simp: ensureAdminRoleForBuildingAdmins_def list_ex_iff run split: if_splits)
  have 5: "?I (st_db t)" using st(5) 3 4 db_keepsD [OF only_grants_target(3)] by (metis snd_conv)
  have res: "case asked_resident dto of None \<Rightarrow> True | Some g \<Rightarrow> runs (st_db s) actor (rgr_buildingId g)"
    using m'(5) by (simp split: option.splits)
  show ?thesis
    using 5 m'(4) res by (fastforce simp: only_grants_def)
qed

section \<open>Where the resident lives\<close>

lemma occupancy_insert_Inr:
  assumes "occupancy_insert x b i u s = (Inr v, t)"
  shows "st_db t = (st_db s)\<lparr>occupancies := occupancies (st_db s) @ [ocv_row v]\<rparr>"
    "occ_unitId (ocv_row v) = i" "occ_buildingId (ocv_row v) = b" "occ_residentUserId (ocv_row v) = u"
    "occ_status (ocv_row v) = ACTIVE" "occ_id (ocv_row v) \<notin> occ_id ` set (occupancies (st_db s))"
    "findUnit (st_db s) i = Some (ocv_unit v)" "findUser (st_db s) u = Some (ocv_residentUser v)"
  using assms by (auto simp: occupancy_insert_def run Let_def split: if_splits option.splits)

text \<open>The user lives in the unit; after a move, nowhere else in the building.\<close>

definition lives_in :: "db \<Rightarrow> id \<Rightarrow> id \<Rightarrow> id \<Rightarrow> bool" where
  "lives_in d u i oc \<longleftrightarrow> (\<exists>q \<in> set (occupancies d). occ_id q = oc \<and> occ_residentUserId q = u \<and> occ_unitId q = i \<and> occ_status q = ACTIVE)"

definition only_unit_of :: "db \<Rightarrow> id \<Rightarrow> id \<Rightarrow> id \<Rightarrow> bool" where
  "only_unit_of d u b i \<longleftrightarrow> (\<forall>q \<in> set (occupancies d). occ_residentUserId q = u \<and> occ_buildingId q = b \<and> occ_status q = ACTIVE \<longrightarrow> occ_unitId q = i)"

lemma end_others_run:
  assumes "end_others x u b i s = (Inr (), s1)"
  shows "only_unit_of (st_db s1) u b i"
    and "{q \<in> set (occupancies (st_db s1)). occ_unitId q = i} = {q \<in> set (occupancies (st_db s)). occ_unitId q = i}"
proof -
  let ?f = "\<lambda>r. r\<lparr>occ_status := ENDED, occ_endAt := Some (x_clock x (st_tick s)), occ_updatedAt := x_clock x (st_tick s)\<rparr>"
  have t: "set (occupancies (st_db s1)) = (\<lambda>r. if moves_out u b i r then ?f r else r) ` set (occupancies (st_db s))"
    using assms by (auto simp: end_others_def run set_updateMany)
  show "only_unit_of (st_db s1) u b i" unfolding only_unit_of_def
  proof (intro ballI impI)
    fix q assume q: "q \<in> set (occupancies (st_db s1))" "occ_residentUserId q = u \<and> occ_buildingId q = b \<and> occ_status q = ACTIVE"
    obtain r where r: "q = (if moves_out u b i r then ?f r else r)" using q(1) unfolding t by (rule imageE)
    show "occ_unitId q = i"
    proof (cases "moves_out u b i r")
      case True
      then show ?thesis using r q(2) by simp
    next
      case False
      then have "q = r" using r by simp
      then show ?thesis using False q(2) by (simp add: moves_out_def)
    qed
  qed
  have "occ_unitId (if moves_out u b i r then ?f r else r) = occ_unitId r" for r by simp
  moreover have "(if moves_out u b i r then ?f r else r) = r" if "occ_unitId r = i" for r using that by (simp add: moves_out_def)
  ultimately show "{q \<in> set (occupancies (st_db s1)). occ_unitId q = i} = {q \<in> set (occupancies (st_db s)). occ_unitId q = i}"
    unfolding t by (smt (verit, best) Collect_cong image_iff)
qed

lemma place_resident_Inr:
  assumes "place_resident x u g i ex s = (Inr r, t)"
    and "\<And>q. ex = Some q \<Longrightarrow> q \<in> set (occupancies (st_db s)) \<and> occ_residentUserId q = u \<and> occ_unitId q = i \<and> occ_status q = ACTIVE"
  shows "\<exists>p. r = Some p \<and> pvr_unitId p = i \<and> lives_in (st_db t) u i (pvr_occupancyId p) \<and>
    (rgr_mode g = Some MOVE_UNIT \<longrightarrow> only_unit_of (st_db t) u (rgr_buildingId g) i)"
proof -
  obtain s1 where s1: "(if rgr_mode g = Some MOVE_UNIT then end_others x u (rgr_buildingId g) i else ret ()) s = (Inr (), s1)"
    and rest: "bind (case ex of Some r \<Rightarrow> ret r
          | None \<Rightarrow> bind (occupancy_insert x (rgr_buildingId g) i u) (\<lambda>v. ret (ocv_row v)))
        (\<lambda>r. ret (Some \<lparr>pvr_occupancyId = occ_id r, pvr_unitId = occ_unitId r, pvr_buildingId = occ_buildingId r\<rparr>)) s1 = (Inr r, t)"
    using assms(1) unfolding place_resident_def bind_Inr_iff by auto
  have moved: "rgr_mode g = Some MOVE_UNIT \<longrightarrow> only_unit_of (st_db s1) u (rgr_buildingId g) i"
    and same: "{q \<in> set (occupancies (st_db s1)). occ_unitId q = i} = {q \<in> set (occupancies (st_db s)). occ_unitId q = i}"
    using s1 end_others_run [of x u "rgr_buildingId g" i s s1] by (simp_all add: run split: if_splits)
  show ?thesis
  proof (cases ex)
    case (Some q)
    then have "q \<in> {q \<in> set (occupancies (st_db s)). occ_unitId q = i}" using assms(2) by simp
    then have "q \<in> set (occupancies (st_db s1))" using same by blast
    then show ?thesis using rest Some moved assms(2) by (auto simp: run lives_in_def)
  next
    case None
    then obtain v where v: "occupancy_insert x (rgr_buildingId g) i u s1 = (Inr v, t)"
      "r = Some \<lparr>pvr_occupancyId = occ_id (ocv_row v), pvr_unitId = occ_unitId (ocv_row v), pvr_buildingId = occ_buildingId (ocv_row v)\<rparr>"
      using rest by (auto simp: run bind_Inr_iff)
    show ?thesis
      using v(2) occupancy_insert_Inr [OF v(1)] moved by (auto simp: lives_in_def only_unit_of_def)
  qed
qed

lemma applyResidentGrant_Inr:
  assumes "applyResidentGrant x o1 u (Some g) s = (Inr r, t)"
  shows "\<exists>p. r = Some p \<and> pvr_unitId p = rgr_unitId g \<and> lives_in (st_db t) u (rgr_unitId g) (pvr_occupancyId p) \<and>
    (rgr_mode g = Some MOVE_UNIT \<longrightarrow> only_unit_of (st_db t) u (rgr_buildingId g) (rgr_unitId g))"
proof -
  obtain b where b: "buildingInOrg (st_db s) (rgr_buildingId g) o1 = Some b"
    using assms by (cases "buildingInOrg (st_db s) (rgr_buildingId g) o1") (simp_all add: applyResidentGrant_def run)
  obtain w where w: "unit_findByIdForBuilding (st_db s) (rgr_buildingId g) (rgr_unitId g) = Some w"
    using assms b by (cases "unit_findByIdForBuilding (st_db s) (rgr_buildingId g) (rgr_unitId g)") (simp_all add: applyResidentGrant_def run)
  have i: "unt_id w = rgr_unitId g" using unit_of_building [OF w] by simp
  let ?a = "active_in_unit (st_db s) (rgr_unitId g)"
  let ?f = "findFirst (\<lambda>r. occ_unitId r = rgr_unitId g \<and> occ_residentUserId r = u \<and> occ_status r = ACTIVE) (occupancies (st_db s))"
  have mine: "(case ?a of None \<Rightarrow> True | Some q \<Rightarrow> occ_residentUserId q = u)"
    and place: "place_resident x u g (rgr_unitId g) (case ?a of None \<Rightarrow> ?f | Some q \<Rightarrow> Some q) s = (Inr r, t)"
    using assms b w i by (auto simp: applyResidentGrant_def lockUnit_def run split: if_splits option.splits)
  have "q \<in> set (occupancies (st_db s)) \<and> occ_residentUserId q = u \<and> occ_unitId q = rgr_unitId g \<and> occ_status q = ACTIVE"
    if "(case ?a of None \<Rightarrow> ?f | Some q \<Rightarrow> Some q) = Some q" for q
    using that mine by (auto simp: active_in_unit_def dest!: findFirst_SomeD split: option.splits)
  with place show ?thesis by (rule place_resident_Inr)
qed

end
