(* ===== verification/Escalation.thy ===== *)
theory Escalation
  imports System ProvisionFacts
begin

text \<open>
  Who can become a super admin. Every service that gives roles refuses \<open>super_admin\<close> or gives a fixed
  role, except \<open>assignRoles\<close>: without it no run of the machine makes one. The tables of access control
  stay well formed under every operation.
\<close>

section \<open>Operations beside the access tables\<close>

locale access_tables =
  fixes I :: "db \<Rightarrow> bool"
  assumes access: "I d \<Longrightarrow> usr_id ` set (users e) = usr_id ` set (users d) \<Longrightarrow> roles e = roles d \<Longrightarrow>
    permissions e = permissions d \<Longrightarrow> rolePermissions e = rolePermissions d \<Longrightarrow> userRoles e = userRoles d \<Longrightarrow>
    userPermissions e = userPermissions d \<Longrightarrow> I e"
begin

lemma access_user_update [inv]:
  assumes "\<And>u. usr_id (f u) = usr_id u" shows "db_keeps I (user_update x i f)"
proof -
  have ids: "usr_id ` set (updateMany p g us) = usr_id ` set us" if "\<And>u. usr_id (g u) = usr_id u" for p g us
    using map_updateMany [of usr_id g p us] that by (metis set_map)
  have "I (d\<lparr>users := updateMany p g (users d)\<rparr>)" if "I d" "\<And>u. usr_id (g u) = usr_id u" for d p g
    using ids [OF that(2)] by (intro access [OF that(1)]) simp_all
  then show ?thesis
    unfolding user_update_def Let_def using assms by (intro inv db_keeps_write; simp)
qed

lemma access_writes [inv]:
  "db_keeps I (building_create x o1 bdata)" "db_keeps I (assignment_create x b u ty)" "db_keeps I (assignment_upsert x b u ty)"
  "db_keeps I (unit_insert x row)" "db_keeps I (unit_write x i f)" "db_keeps I (replace_amenities x i ids)"
  "db_keeps I (link_amenities x i as)" "db_keeps I (occupancy_insert x b i u)" "db_keeps I (end_others x u b i)"
  "db_keeps I (createRequest x dt)" "db_keeps I (updateById x i h)" "db_keeps I (createAttachments x i o1 u atts)"
  "db_keeps I (createComment x i o1 u m)" "db_keeps I (updateNotifications p k)" "db_keeps I (notification_create x inp)"
  unfolding building_create_def assignment_create_def assignment_upsert_def unit_insert_def unit_write_def
    fit_unit_def decimal_column_def replace_amenities_def link_amenities_def occupancy_insert_def end_others_def
    createRequest_def updateById_def createAttachments_def createComment_def updateNotifications_def notification_create_def Let_def
  by (intro inv db_keeps_write; auto elim: access)+

lemma access_catalog [inv]:
  "db_keeps I (amenities_create x user b adto)" "db_keeps I (amenities_update_op x user b i udto)"
  "db_keeps I (owners_create x user odto)" "db_keeps I (unit_types_create x user tdto)"
  "db_keeps I (org_updateProfile x o1 pdto)" "db_keeps I (org_create x gdto)" "db_keeps I (buildings_create x user bdto)"
  unfolding amenities_create_def amenities_update_op_def amenity_create_def amenity_update_def owners_create_def
    owners_repo_create_def unit_types_create_def unit_types_repo_create_def org_updateProfile_def org_update_def
    org_create_def buildings_create_def Let_def
  by (intro inv db_keeps_write; auto elim: access)+

lemma access_sessions [inv]:
  "db_keeps I (sign_in x e u)" "db_keeps I (login x e ldto)" "db_keeps I (refresh x e i tok)"
  "db_keeps I (changePassword x i cur new)" "db_keeps I (users_updateProfile x i data)"
  unfolding sign_in_def login_def refresh_def changePassword_def users_updateProfile_def
    issueTokens_def saveRefreshToken_def updateRefreshTokenHash_def updatePasswordHash_def users_repo_updateProfile_def Let_def
  by (intro inv; simp)+

lemma access_property [inv]:
  "db_keeps I (units_create x user b cdto)" "db_keeps I (units_update_op x user b i updto)"
  "db_keeps I (occupancies_create x user b odto)" "db_keeps I (applyBuildingAssignments x o1 u gs)"
  "db_keeps I (applyResidentGrant x o1 u r)" "db_keeps I (link_user x o1 ie same v)"
  unfolding units_create_def units_update_op_def occupancies_create_def createActiveIfVacant_def
    applyBuildingAssignments_def applyResidentGrant_def place_resident_def lockUnit_def link_user_def
  by (intro inv; simp)+

lemma access_requests [inv]:
  "db_keeps I (createResidentRequest x user rdto)" "db_keeps I (updateResidentRequest x user i udto)"
  "db_keeps I (cancelResidentRequest x user i)" "db_keeps I (assignRequest x user b i staff)"
  "db_keeps I (updateRequestStatus x user b i st)" "db_keeps I (cancelBuildingRequest x user b i)"
  "db_keeps I (addResidentComment x user i m)" "db_keeps I (addBuildingComment x user b i m)"
  "db_keeps I (addBuildingAttachments x user b i as)"
  unfolding createResidentRequest_def updateResidentRequest_def cancelResidentRequest_def assignRequest_def
    updateRequestStatus_def cancelBuildingRequest_def createRequestWithAttachments_def createRequestWithAttachmentsInTx_def
    addResidentComment_def addBuildingComment_def addBuildingAttachments_def assertBuildingInOrg_def Let_def
  by (intro inv)+

lemma access_notifications [inv]:
  "db_keeps I (createForUsers x inp)" "db_keeps I (markRead x i u o1)" "db_keeps I (markAllRead x u o1)"
  "db_keeps I (dismiss x i u o1)" "db_keeps I (undismiss i u o1)"
  unfolding createForUsers_def createManyAndReturn_def markRead_def markAllRead_def dismiss_def
    undismiss_def repo_markRead_def repo_markAllRead_def repo_markDismissed_def repo_clearDismissed_def Let_def
  by (intro inv)+

lemma access_on_event [inv]: "db_keeps I (on_event x e p)"
proof -
  obtain title body where "on_event x e p = notify x p (\<lambda>d. event_recipients e d p) (event_type e) title body"
    using on_event_alt by blast
  then show ?thesis by (simp add: notify_def inv)
qed

end

section \<open>The holders of a role\<close>

text \<open>
  The access tables are well formed and only the users in \<open>S\<close> hold the role \<open>super_admin\<close>.
\<close>

definition supers_within :: "id set \<Rightarrow> db \<Rightarrow> bool" where
  "supers_within S d \<longleftrightarrow> acl_ok d \<and> (\<forall>u. ''super_admin'' \<in> set (getRoleKeys d u) \<longrightarrow> u \<in> S)"

lemma getRoleKeys_iff: "k \<in> set (getRoleKeys d u) \<longleftrightarrow>
  (\<exists>ur \<in> set (userRoles d). uro_userId ur = u \<and> (\<exists>r \<in> set (roles d). rol_id r = uro_roleId ur \<and> rol_key r = k))"
  by (auto simp: getRoleKeys_def)

interpretation supers: access_tables "supers_within S" for S
  by unfold_locales (simp add: supers_within_def acl_ok_def getRoleKeys_def)

interpretation acl: access_tables acl_ok
  by unfold_locales (simp add: acl_ok_def)

text \<open>Roles that are no super admin role.\<close>

definition plain_roles :: "db \<Rightarrow> id list \<Rightarrow> bool" where
  "plain_roles d rs \<longleftrightarrow> (\<forall>q \<in> set (roles d). rol_id q \<in> set rs \<longrightarrow> rol_key q \<noteq> ''super_admin'')"

lemma supers_grant:
  assumes "supers_within S d" "\<And>ur. ur \<in> set urs \<Longrightarrow> uro_userId ur \<in> usr_id ` set (users d) \<and> uro_roleId ur \<in> rol_id ` set (roles d)"
    and "plain_roles d (map uro_roleId urs)"
  shows "supers_within S (d\<lparr>userRoles := createMany_skip user_role_key urs (userRoles d)\<rparr>)"
proof -
  have sub: "ur \<in> set urs \<union> set (userRoles d)" if "ur \<in> set (createMany_skip user_role_key urs (userRoles d))" for ur
    by (rule subsetD [OF createMany_skip_subset that])
  have "uro_userId ur \<in> S" if "ur \<in> set urs \<union> set (userRoles d)" "r \<in> set (roles d)" "rol_id r = uro_roleId ur"
      "rol_key r = ''super_admin''" for ur r
  proof -
    have "ur \<notin> set urs" using that(2-4) assms(3) unfolding plain_roles_def by force
    then have "''super_admin'' \<in> set (getRoleKeys d (uro_userId ur))" using that unfolding getRoleKeys_iff by blast
    then show ?thesis using assms(1) by (simp add: supers_within_def)
  qed
  moreover have "acl_ok (d\<lparr>userRoles := createMany_skip user_role_key urs (userRoles d)\<rparr>)"
    using assms(1,2) by (intro acl_ok_create_userRoles) (simp_all add: supers_within_def)
  ultimately show ?thesis
    using sub by (simp add: supers_within_def getRoleKeys_iff) metis
qed

lemma hoare_createUserRoles:
  "hoare (supers_within S) (\<lambda>d. supers_within S d \<and> plain_roles d rs) (createUserRoles u rs) (\<lambda>_. supers_within S)"
  unfolding createUserRoles_def
  by (intro hoare_rules hoare_write) (auto simp: find_by_id_None comp_def intro!: supers_grant)

lemma hoare_user_role_create:
  "hoare (supers_within S) (\<lambda>d. supers_within S d \<and> plain_roles d [r]) (user_role_create u r) (\<lambda>_. supers_within S)"
proof -
  have "supers_within S (d\<lparr>userRoles := userRoles d @ [\<lparr>uro_userId = u, uro_roleId = r\<rparr>]\<rparr>)"
    if "supers_within S d" "plain_roles d [r]" "(u, r) \<notin> user_role_key ` set (userRoles d)"
      "u \<in> usr_id ` set (users d)" "r \<in> rol_id ` set (roles d)" for d
    using that by (auto simp: supers_within_def acl_ok_def getRoleKeys_iff plain_roles_def)
  then show ?thesis
    unfolding user_role_create_def by (intro hoare_rules hoare_write) (auto simp: find_by_id_None)
qed

text \<open>A role found by another key is no super admin role.\<close>

lemma plain_by_key:
  assumes "acl_ok d" "findRoleByKey d k = Some r" "k \<noteq> ''super_admin''" shows "plain_roles d [rol_id r]"
proof -
  have r: "r \<in> set (roles d)" "rol_key r = k" using findRoleByKey_SomeD [OF assms(2)] by auto
  have "q = r" if "q \<in> set (roles d)" "rol_id q = rol_id r" for q
    using that r(1) assms(1) by (auto simp: acl_ok_def distinct_map inj_on_def)
  then show ?thesis using r(2) assms(3) by (auto simp: plain_roles_def)
qed

lemma plain_by_keys:
  assumes "acl_ok d" "''super_admin'' \<notin> set ks" shows "plain_roles d (map rol_id (findMany (\<lambda>r. rol_key r \<in> set ks) (roles d)))"
proof -
  have "q = r" if "q \<in> set (roles d)" "r \<in> set (roles d)" "rol_id q = rol_id r" for q r
    using that assms(1) by (auto simp: acl_ok_def distinct_map inj_on_def)
  then show ?thesis using assms(2) by (fastforce simp: plain_roles_def)
qed

section \<open>The services that give roles\<close>

lemma supers_user_create [inv]: "db_keeps (supers_within S) (user_create x e n p h o1 a m)"
proof (rule db_keepsI)
  fix s :: st assume i: "supers_within S (st_db s)"
  have "acl_ok (st_db (snd (user_create x e n p h o1 a m s)))"
    using i db_keepsD [OF acl_keeps_user_create] by (simp add: supers_within_def)
  moreover have "getRoleKeys (st_db (snd (user_create x e n p h o1 a m s))) u = getRoleKeys (st_db s) u" for u
    by (simp add: user_create_def run Let_def getRoleKeys_def)
  ultimately show "supers_within S (st_db (snd (user_create x e n p h o1 a m s)))"
    using i by (simp add: supers_within_def)
qed

lemma supers_acl: "supers_within S d \<Longrightarrow> acl_ok d"
  by (simp add: supers_within_def)

lemma supers_by_key [inv]:
  assumes "k \<noteq> ''super_admin''"
  shows "db_keeps (supers_within S) (bind (query (\<lambda>d. findRoleByKey d k)) (\<lambda>found.
    bind (some_or found e) (\<lambda>r. createUserRoles u [rol_id r])))"
  unfolding db_keeps_hoare
  by (intro hoare_rules hoare_pre [OF hoare_createUserRoles]) (use assms in \<open>auto intro: plain_by_key supers_acl\<close>)

lemma supers_roles_by_keys:
  assumes "''super_admin'' \<notin> set ks"
  shows "hoare (supers_within S) (\<lambda>d. supers_within S d \<and> findMany (\<lambda>r. rol_key r \<in> set ks) (roles d) = rs)
    (createUserRoles u (map rol_id rs)) (\<lambda>_. supers_within S)"
  by (rule hoare_pre [OF hoare_createUserRoles]) (use assms in \<open>auto intro: plain_by_keys supers_acl\<close>)

lemma supers_createInOrg [inv]: "db_keeps (supers_within S) (createInOrg x user dto)"
proof -
  have tx: "hoare (supers_within S) (supers_within S)
      (bind (user_create x e n p h o1 a m) (\<lambda>u. if ks = [] then ret u else
         bind (query (\<lambda>d. findMany (\<lambda>r. rol_key r \<in> set ks) (roles d))) (\<lambda>rs.
         bind (require (length rs = length ks) er) (\<lambda>_.
         bind (createUserRoles (usr_id u) (map rol_id rs)) (\<lambda>_. ret u))))) (\<lambda>_. supers_within S)"
    if "''super_admin'' \<notin> set ks" for e n p h o1 a m ks er
    by (intro hoare_bind_invariant [OF supers_user_create] hoare_if hoare_ret hoare_query_bind hoare_require_bind
        hoare_bind [OF supers_roles_by_keys [OF that]]) simp_all
  show ?thesis
    unfolding db_keeps_hoare createInOrg_def Let_def
    apply (intro hoare_scope_bind hoare_query_bind hoare_require_bind)
       apply (rule hoare_bind_readonly, intro frame, simp)
       apply (rule hoare_bind_readonly, intro frame, simp)
       apply (rule hoare_bind [OF hoare_transaction [OF hoare_weaken_error [OF hoare_pre [OF tx]]]])
          apply (auto intro: hoare_ret)
    done
qed

lemma supers_assignments_create [inv]: "db_keeps (supers_within S) (assignments_create x user b dto)"
  unfolding assignments_create_def ensureAdminRoleForBuildingAdminAssignment_def
  by (intro inv supers.access_writes) simp

lemma supers_resident_role:
  "hoare (supers_within S) (\<lambda>d. supers_within S d \<and> findRoleByKey d ''resident'' = ro)
     (case ro of None \<Rightarrow> ret () | Some r \<Rightarrow> user_role_create u (rol_id r)) (\<lambda>_. supers_within S)"
  by (intro hoare_option hoare_ret hoare_pre [OF hoare_user_role_create]) (auto intro: plain_by_key supers_acl)

lemma supers_onboard [inv]: "db_keeps (supers_within S) (onboard x user b dto)"
proof -
  have tx: "hoare (supers_within S) (supers_within S) (onboard_tx x o1 b i dto h) (\<lambda>_. supers_within S)" for o1 i h
    unfolding onboard_tx_def
    apply (intro hoare_query_bind hoare_require_bind)
     apply (rule hoare_bind_invariant [OF supers_user_create], simp)
     apply (rule hoare_query_bind)
     apply (rule hoare_bind [OF supers_resident_role])
     apply (rule hoare_bind_invariant [OF supers.access_writes(8)], assumption)
     apply (rule hoare_ret, assumption)
    apply simp
    done
  show ?thesis
    unfolding onboard_def by (intro inv) (simp add: db_keeps_hoare tx)
qed

lemma supers_createOrgAdmin [inv]: "db_keeps (supers_within S) (createOrgAdmin x o1 dto)"
proof -
  have give: "hoare (supers_within S) (supers_within S)
     (bind (query (\<lambda>d. findRoleByKey d ''org_admin'')) (\<lambda>found. bind (some_or found er) (\<lambda>r.
        bind (user_role_create u (rol_id r)) (\<lambda>_. ret v)))) (\<lambda>_. supers_within S)" for u er v
    by (intro hoare_rules hoare_bind [OF hoare_pre [OF hoare_user_role_create]] hoare_ret) (auto intro: plain_by_key supers_acl)
  show ?thesis
    unfolding db_keeps_hoare createOrgAdmin_def
    apply (intro hoare_query_bind hoare_some_or_bind hoare_require_bind)
        apply (rule hoare_bind_readonly, intro frame, simp)
        apply (rule hoare_bind_readonly, intro frame, simp)
        apply (rule hoare_bind_invariant [OF supers_user_create], simp)
        apply (rule give)
       apply simp_all
    done
qed

lemma supers_register [inv]: "db_keeps (supers_within S) (register x e dto)"
  unfolding register_def auth_createUser_def by (intro inv)

lemma supers_applyOrgRoles:
  assumes "''super_admin'' \<notin> set ks" shows "db_keeps (supers_within S) (applyOrgRoles u ks)"
  unfolding db_keeps_hoare applyOrgRoles_def Let_def
  by (intro hoare_if hoare_ret hoare_query_bind hoare_require_bind hoare_bind [OF supers_roles_by_keys [OF assms]]) simp_all

lemma supers_ensureAdmin [inv]: "db_keeps (supers_within S) (ensureAdminRoleForBuildingAdmins u gs)"
  unfolding ensureAdminRoleForBuildingAdmins_def by (intro inv supers_by_key) simp

lemma supers_new_user [inv]: "db_keeps (supers_within S) (new_user x o1 e ident)"
  unfolding new_user_def by (intro inv)

lemma supers_provision_tx:
  assumes "''super_admin'' \<notin> set (asked_roles dto)"
  shows "db_keeps (supers_within S) (provision_tx x o1 actor w dto)"
  using assms unfolding provision_tx_def Let_def assertManagerProvisioningAllowed_def asked_roles_def
  by (intro inv supers_applyOrgRoles)

lemma supers_provision [inv]: "db_keeps (supers_within S) (provision x user dto)"
  unfolding db_keeps_hoare provision_def Let_def
  apply (intro hoare_scope_bind hoare_query_bind hoare_require_bind)
     apply (rule hoare_transaction [OF hoare_weaken_error [OF hoare_pre [OF supers_provision_tx [unfolded db_keeps_hoare]]]])
       apply (simp_all add: asked_roles_def)
  done

section \<open>The administration of roles and permissions\<close>

text \<open>The operations on permissions do not touch who holds which role.\<close>

lemma supers_beside_roles:
  assumes "db_keeps acl_ok m" "\<And>R U. db_keeps (\<lambda>d. roles d = R \<and> userRoles d = U) m"
  shows "db_keeps (supers_within S) m"
proof (rule db_keepsI)
  fix s :: st assume i: "supers_within S (st_db s)"
  have "acl_ok (st_db (snd (m s)))" using db_keepsD [OF assms(1)] i by (simp add: supers_within_def)
  moreover have "roles (st_db (snd (m s))) = roles (st_db s) \<and> userRoles (st_db (snd (m s))) = userRoles (st_db s)"
    using db_keepsD [OF assms(2)] by simp
  ultimately show "supers_within S (st_db (snd (m s)))" using i by (simp add: supers_within_def getRoleKeys_def)
qed

lemma supers_permissions [inv]:
  "db_keeps (supers_within S) (setRolePermissions r ks mode)" "db_keeps (supers_within S) (setPermissionOverrides u os)"
  by (rule supers_beside_roles [OF acl_keeps_service(2)],
      unfold setRolePermissions_def addRolePermissions_def replaceRolePermissions_def createRolePermissions_def Let_def,
      intro inv db_keeps_write; simp)
    (rule supers_beside_roles [OF acl_keeps_service(4)],
      unfold setPermissionOverrides_def replaceUserPermissions_def createUserPermissions_def Let_def,
      intro inv db_keeps_write; simp)

text \<open>Nobody holds a role that is being created.\<close>

lemma supers_roles_create [inv]: "db_keeps (supers_within S) (roles_create x dto)"
proof -
  have "supers_within S (d\<lparr>roles := roles d @ [r]\<rparr>)"
    if "supers_within S d" "rol_id r \<notin> set (map rol_id (roles d))" "findRoleByKey d (rol_key r) = None" for d r
  proof -
    have "uro_roleId ur \<noteq> rol_id r" if "ur \<in> set (userRoles d)" for ur
      using that \<open>supers_within S d\<close> \<open>rol_id r \<notin> _\<close> by (metis acl_ok_def image_eqI set_map supers_acl)
    then have "getRoleKeys (d\<lparr>roles := roles d @ [r]\<rparr>) u = getRoleKeys d u" for u
      unfolding getRoleKeys_def by (force simp: findMany_def intro!: arg_cong [where f = concat])
    then show ?thesis using that by (auto simp: supers_within_def acl_ok_def findRoleByKey_def findFirst_None_key)
  qed
  then show ?thesis
    unfolding db_keeps_hoare roles_create_def createRole_def Let_def
    by (intro hoare_bind [where Q = "\<lambda>_. supers_within S"] hoare_rules hoare_write_bind [where P' = "supers_within S"] hoare_ret) auto
qed

section \<open>The machine\<close>

text \<open>With all users allowed the invariant is that of the access tables alone.\<close>

lemma supers_UNIV: "supers_within UNIV = acl_ok"
  by (simp add: supers_within_def fun_eq_iff)

definition assigns_roles :: "sys_op \<Rightarrow> bool" where
  "assigns_roles p = (case p of AssignRoles u rs mode \<Rightarrow> True | _ \<Rightarrow> False)"

lemma supers_run_op: "\<not> assigns_roles p \<Longrightarrow> db_keeps (supers_within S) (run_op x e p)"
  by (cases p) (simp_all add: assigns_roles_def inv db_keeps_dispatch)

lemma acl_run_op: "db_keeps acl_ok (run_op x e p)"
proof (cases "assigns_roles p")
  case True
  then show ?thesis by (cases p) (simp_all add: assigns_roles_def inv)
next
  case False
  then show ?thesis using supers_run_op [where S = UNIV] by (simp add: supers_UNIV)
qed

lemma acl_run_ops: "acl_ok (st_db s) \<Longrightarrow> acl_ok (st_db (run_ops x e ops s))"
  by (induction ops arbitrary: s) (auto intro: db_keepsD [OF acl_run_op])

lemma supers_run_ops:
  "list_all (\<lambda>p. \<not> assigns_roles p) ops \<Longrightarrow> supers_within S (st_db s) \<Longrightarrow> supers_within S (st_db (run_ops x e ops s))"
  by (induction ops arbitrary: s) (auto intro: db_keepsD [OF supers_run_op])

text \<open>No run without \<open>assignRoles\<close> gives anyone the role.\<close>

lemma no_new_super_admin:
  assumes "list_all (\<lambda>p. \<not> assigns_roles p) ops" "acl_ok (st_db s)"
    and "''super_admin'' \<in> set (getRoleKeys (st_db (run_ops x e ops s)) u)"
  shows "''super_admin'' \<in> set (getRoleKeys (st_db s) u)"
  using supers_run_ops [OF assms(1), of "{u. ''super_admin'' \<in> set (getRoleKeys (st_db s) u)}" s x e] assms(2,3)
  by (simp add: supers_within_def)

end
