(* ===== verification/Seed.thy ===== *)
theory Seed
  imports Escalation
begin

text \<open>
  The seed script (\<open>prisma/seed.ts\<close>): the permissions, the roles and which permissions a role has, the
  demo org with its unit types and building, the org admin and the platform admin. The script is the
  only place of the source that says what the roles mean, so its effect on the effective permissions
  is what the other theories' access checks come to in a seeded database.
\<close>

section \<open>The tables of the script\<close>

definition seed_permissions :: "(string \<times> string \<times> string) list" where
  "seed_permissions =
     [(''users.read'', ''Read users'', ''View user records''),
      (''users.write'', ''Manage users'', ''Create/update users''),
      (''roles.read'', ''Read roles'', ''View roles and permissions''),
      (''roles.write'', ''Manage roles'', ''Create/update roles''),
      (''buildings.read'', ''Read buildings'', ''View buildings in the org''),
      (''buildings.write'', ''Manage buildings'', ''Create/update buildings in the org''),
      (''units.read'', ''Read units'', ''View units in a building''),
      (''units.write'', ''Manage units'', ''Create/update units in a building''),
      (''unitTypes.read'', ''Read unit types'', ''View unit types in the org''),
      (''unitTypes.write'', ''Manage unit types'', ''Create/update unit types in the org''),
      (''owners.read'', ''Read owners'', ''View owners in the org''),
      (''owners.write'', ''Manage owners'', ''Create/update owners in the org''),
      (''building.assignments.read'', ''Read building assignments'', ''View building assignments''),
      (''building.assignments.write'', ''Manage building assignments'', ''Create building assignments''),
      (''occupancy.read'', ''Read occupancies'', ''View active occupancies''),
      (''occupancy.write'', ''Manage occupancies'', ''Create occupancies''),
      (''residents.read'', ''Read residents'', ''View building residents''),
      (''residents.write'', ''Manage residents'', ''Onboard residents and assign units''),
      (''requests.read'', ''Read maintenance requests'', ''View maintenance requests''),
      (''requests.write'', ''Manage maintenance requests'', ''Edit maintenance requests''),
      (''requests.assign'', ''Assign maintenance requests'', ''Assign requests to staff''),
      (''requests.update_status'', ''Update maintenance status'', ''Move requests through workflow''),
      (''requests.comment'', ''Comment on maintenance requests'', ''Post comments on requests''),
      (''org.profile.write'', ''Manage org profile'', ''Update org name and branding''),
      (''platform.org.create'', ''Create orgs'', ''Create organizations via platform''),
      (''platform.org.read'', ''Read orgs'', ''List organizations via platform''),
      (''platform.org.admin.create'', ''Create org admins'', ''Create org admins via platform''),
      (''platform.org.admin.read'', ''Read org admins'', ''List org admins via platform'')]"

definition seed_roles :: "(string \<times> string \<times> string) list" where
  "seed_roles =
     [(''super_admin'', ''Super Admin'', ''Full access''),
      (''org_admin'', ''Org Admin'', ''Org administrator''),
      (''admin'', ''Admin'', ''Manage users and roles''),
      (''viewer'', ''Viewer'', ''Read-only access''),
      (''resident'', ''Resident'', ''Resident user''),
      (''platform_superadmin'', ''Platform Superadmin'', ''Platform administrator'')]"

definition rolePermissionMap :: "(string \<times> string list) list" where
  "rolePermissionMap =
     [(''super_admin'', map fst seed_permissions),
      (''org_admin'', [''users.read'', ''users.write'', ''roles.read'', ''buildings.read'', ''buildings.write'',
         ''units.read'', ''units.write'', ''unitTypes.read'', ''unitTypes.write'',
         ''building.assignments.read'', ''building.assignments.write'', ''occupancy.read'',
         ''occupancy.write'', ''residents.read'', ''residents.write'', ''owners.read'',
         ''owners.write'', ''requests.read'', ''requests.write'', ''requests.assign'',
         ''requests.update_status'', ''requests.comment'', ''org.profile.write'']),
      (''admin'', [''users.read'', ''users.write'', ''roles.read'', ''unitTypes.read'', ''owners.read'']),
      (''viewer'', [''users.read'', ''roles.read'']),
      (''resident'', []),
      (''platform_superadmin'', [''platform.org.create'', ''platform.org.read'', ''platform.org.admin.create'',
         ''platform.org.admin.read''])]"

section \<open>Its steps\<close>

text \<open>\<open>permission.upsert\<close> and \<open>role.upsert\<close> by the unique key.\<close>

definition permission_upsert :: "ext \<Rightarrow> string \<times> string \<times> string \<Rightarrow> unit op" where
  "permission_upsert x entry = (case entry of (key, name, description) \<Rightarrow>
     bind (query (\<lambda>d. findFirst (\<lambda>p. prm_key p = key) (permissions d))) (\<lambda>found.
     case found of
       Some p \<Rightarrow> bind draw (\<lambda>t. write_db (\<lambda>d. d\<lparr>permissions := updateMany (\<lambda>q. prm_key q = key)
         (\<lambda>q. q\<lparr>prm_name := name, prm_description := Some description, prm_updatedAt := x_clock x t\<rparr>) (permissions d)\<rparr>))
     | None \<Rightarrow> bind (new_row x (\<lambda>d. map prm_id (permissions d))) (\<lambda>(i, now). write_db (\<lambda>d. d\<lparr>permissions := permissions d @
         [\<lparr>prm_id = i, prm_key = key, prm_name = name, prm_description = Some description, prm_createdAt = now, prm_updatedAt = now\<rparr>]\<rparr>))))"

definition role_upsert :: "ext \<Rightarrow> string \<times> string \<times> string \<Rightarrow> unit op" where
  "role_upsert x entry = (case entry of (key, name, description) \<Rightarrow>
     bind (query (\<lambda>d. findFirst (\<lambda>r. rol_key r = key) (roles d))) (\<lambda>found.
     case found of
       Some r \<Rightarrow> bind draw (\<lambda>t. write_db (\<lambda>d. d\<lparr>roles := updateMany (\<lambda>q. rol_key q = key)
         (\<lambda>q. q\<lparr>rol_name := name, rol_description := Some description, rol_isSystem := True, rol_updatedAt := x_clock x t\<rparr>) (roles d)\<rparr>))
     | None \<Rightarrow> void (createRole x key name (Some description) True)))"

definition seedPermissions :: "ext \<Rightarrow> unit op" where
  "seedPermissions x = void (for_each seed_permissions (permission_upsert x))"

definition seedRoles :: "ext \<Rightarrow> unit op" where
  "seedRoles x = void (for_each seed_roles (role_upsert x))"

text \<open>\<open>new Map(...)\<close> again: the last role of a key; a missing id drops the entry.\<close>

definition roleIdByKey :: "role list \<Rightarrow> string \<Rightarrow> id option" where
  "roleIdByKey rs = map_of (rev (map (\<lambda>r. (rol_key r, rol_id r)) rs))"

definition seed_grants :: "permission list \<Rightarrow> role list \<Rightarrow> role_permission list" where
  "seed_grants permissionRecords roleRecords =
     concat (map (\<lambda>(roleKey, keys). case truthy (roleIdByKey roleRecords roleKey) of
         None \<Rightarrow> []
       | Some roleId \<Rightarrow> map (\<lambda>permissionId. \<lparr>rpm_roleId = roleId, rpm_permissionId = permissionId\<rparr>)
           (List.map_filter (\<lambda>key. truthy (permissionIdByKey permissionRecords key)) keys)) rolePermissionMap)"

definition seedRolePermissions :: "unit op" where
  "seedRolePermissions =
     bind (query (\<lambda>d. findMany (\<lambda>p. prm_key p \<in> set (map fst seed_permissions)) (permissions d))) (\<lambda>permissionRecords.
     bind (query (\<lambda>d. findMany (\<lambda>r. rol_key r \<in> set (map fst seed_roles)) (roles d))) (\<lambda>roleRecords.
     let data = seed_grants permissionRecords roleRecords in
     if data = [] then ret ()
     else write_db (\<lambda>d. d\<lparr>rolePermissions := createMany_skip role_permission_key data (rolePermissions d)\<rparr>)))"

definition demo_org :: create_org_dto where
  "demo_org = \<lparr>cog_name = ''Towerdesk Demo Org'', cog_businessName = None, cog_businessType = None,
     cog_tradeLicenseNumber = None, cog_vatRegistrationNumber = None, cog_registeredOfficeAddress = None,
     cog_city = None, cog_officePhoneNumber = None, cog_businessEmailAddress = None, cog_website = None, cog_ownerName = None\<rparr>"

definition seedOrg :: "ext \<Rightarrow> org op" where
  "seedOrg x =
     bind (query (\<lambda>d. findFirst (\<lambda>o1. org_name o1 = ''Towerdesk Demo Org'') (orgs d))) (\<lambda>existing.
     case existing of Some v \<Rightarrow> ret v | None \<Rightarrow> org_create x demo_org)"

definition unit_type_upsert :: "ext \<Rightarrow> id \<Rightarrow> string \<Rightarrow> unit op" where
  "unit_type_upsert x orgId name =
     bind (query (\<lambda>d. findFirst (\<lambda>u. unit_type_key u = (orgId, name)) (unitTypes d))) (\<lambda>found.
     case found of
       Some u \<Rightarrow> bind draw (\<lambda>t. write_db (\<lambda>d. d\<lparr>unitTypes := updateMany (\<lambda>q. unit_type_key q = (orgId, name))
         (\<lambda>q. q\<lparr>utp_isActive := True, utp_updatedAt := x_clock x t\<rparr>) (unitTypes d)\<rparr>))
     | None \<Rightarrow> void (unit_types_repo_create x orgId \<lparr>cut_name = name, cut_isActive = Some True\<rparr>))"

definition seedUnitTypes :: "ext \<Rightarrow> id \<Rightarrow> unit op" where
  "seedUnitTypes x orgId = void (for_each [''Apartment'', ''Shop'', ''Office'', ''Other''] (unit_type_upsert x orgId))"

text \<open>\<open>user.upsert\<close> by the e-mail; the password is hashed even when the user is there.\<close>

definition seed_user :: "ext \<Rightarrow> string \<Rightarrow> string \<Rightarrow> string \<Rightarrow> id option \<Rightarrow> bool \<Rightarrow> user op" where
  "seed_user x email name passwordHash orgId mustChangePassword =
     bind (query (\<lambda>d. findUserByEmail d email)) (\<lambda>found.
     case found of
       Some u \<Rightarrow> user_update x (usr_id u) (\<lambda>u. u\<lparr>usr_name := Some name, usr_orgId := orgId, usr_isActive := True\<rparr>)
     | None \<Rightarrow> user_create x email (Some name) None passwordHash orgId True mustChangePassword)"

definition give_role :: "string \<Rightarrow> user \<Rightarrow> user op" where
  "give_role key user =
     bind (query (\<lambda>d. findRoleByKey d key)) (\<lambda>found.
     bind (case found of Some r \<Rightarrow> createUserRoles (usr_id user) [rol_id r] | None \<Rightarrow> ret ()) (\<lambda>_. ret user))"

definition seedOrgAdmin :: "ext \<Rightarrow> id \<Rightarrow> user op" where
  "seedOrgAdmin x orgId =
     bind (argon2_hash x ''Admin123!'') (\<lambda>passwordHash.
     bind (seed_user x ''admin@towerdesk.local'' ''Org Admin'' passwordHash (Some orgId) False) (\<lambda>user.
     give_role ''org_admin'' user))"

definition seedPlatformSuperadmin :: "ext \<Rightarrow> env_data \<Rightarrow> user op" where
  "seedPlatformSuperadmin x e =
     bind (argon2_hash x (coalesce (PLATFORM_SUPERADMIN_PASSWORD e) ''Admin123!'')) (\<lambda>passwordHash.
     bind (seed_user x (coalesce (PLATFORM_SUPERADMIN_EMAIL e) ''platform-admin@towerdesk.local'') ''Platform Superadmin''
       passwordHash None True) (\<lambda>user.
     give_role ''platform_superadmin'' user))"

definition seedBuilding :: "ext \<Rightarrow> id \<Rightarrow> building op" where
  "seedBuilding x orgId =
     bind (query (\<lambda>d. findFirst (\<lambda>b. bld_orgId b = orgId \<and> bld_name b = ''Towerdesk HQ'') (buildings d))) (\<lambda>existing.
     case existing of
       Some b \<Rightarrow> ret b
     | None \<Rightarrow> building_create x orgId \<lparr>bcd_name = ''Towerdesk HQ'', bcd_city = ''Dubai'', bcd_emirate = Some ''Dubai'',
         bcd_country = ''ARE'', bcd_timezone = ''Asia/Dubai'', bcd_floors = None, bcd_unitsCount = None\<rparr>)"

text \<open>The script refuses to run in production.\<close>

definition seedAccess :: "ext \<Rightarrow> unit op" where
  "seedAccess x = bind (seedPermissions x) (\<lambda>_. bind (seedRoles x) (\<lambda>_. seedRolePermissions))"

definition seed_main :: "ext \<Rightarrow> env_data \<Rightarrow> unit op" where
  "seed_main x e =
     bind (require (NODE_ENV e \<noteq> ENV_production) (JsError ''Refusing to run seed in production'')) (\<lambda>_.
     bind (seedAccess x) (\<lambda>_.
     bind (seedOrg x) (\<lambda>org.
     bind (seedUnitTypes x (org_id org)) (\<lambda>_.
     bind (seedOrgAdmin x (org_id org)) (\<lambda>_.
     bind (seedPlatformSuperadmin x e) (\<lambda>_.
     bind (seedBuilding x (org_id org)) (\<lambda>_. ret ())))))))"

section \<open>The access tables after the script\<close>

text \<open>What the script makes a role mean.\<close>

definition seeded_keys :: "string \<Rightarrow> string list" where
  "seeded_keys roleKey = coalesce (map_of rolePermissionMap roleKey) []"

text \<open>
  Rows are only added, for the keys of the script, or renamed: ids and keys of what was there stay.
\<close>

definition grown :: "db \<Rightarrow> db \<Rightarrow> bool" where
  "grown d e \<longleftrightarrow> acl_ok e \<and> [] \<notin> rol_id ` set (roles e) \<and> users e = users d \<and> userRoles e = userRoles d \<and> rolePermissions e = rolePermissions d \<and>
     userPermissions e = userPermissions d \<and>
     (\<lambda>p. (prm_id p, prm_key p)) ` set (permissions d) \<subseteq> (\<lambda>p. (prm_id p, prm_key p)) ` set (permissions e) \<and>
     (\<lambda>r. (rol_id r, rol_key r)) ` set (roles d) \<subseteq> (\<lambda>r. (rol_id r, rol_key r)) ` set (roles e) \<and>
     prm_key ` set (permissions e) \<subseteq> prm_key ` set (permissions d) \<union> fst ` set seed_permissions \<and>
     rol_key ` set (roles e) \<subseteq> rol_key ` set (roles d) \<union> fst ` set seed_roles"

lemma grownD:
  assumes "grown d e"
  shows "acl_ok e" "[] \<notin> rol_id ` set (roles e)" "users e = users d" "userRoles e = userRoles d"
    "rolePermissions e = rolePermissions d" "userPermissions e = userPermissions d"
    "(\<lambda>p. (prm_id p, prm_key p)) ` set (permissions d) \<subseteq> (\<lambda>p. (prm_id p, prm_key p)) ` set (permissions e)"
    "(\<lambda>r. (rol_id r, rol_key r)) ` set (roles d) \<subseteq> (\<lambda>r. (rol_id r, rol_key r)) ` set (roles e)"
    "prm_key ` set (permissions e) \<subseteq> prm_key ` set (permissions d) \<union> fst ` set seed_permissions"
    "rol_key ` set (roles e) \<subseteq> rol_key ` set (roles d) \<union> fst ` set seed_roles"
  using assms unfolding grown_def by - (elim conjE, assumption)+

lemma grown_refl: "acl_ok d \<Longrightarrow> [] \<notin> rol_id ` set (roles d) \<Longrightarrow> grown d d"
  by (simp add: grown_def)

lemma image_updateMany: "(\<And>r. k (f r) = k r) \<Longrightarrow> k ` set (updateMany p f t) = k ` set t"
  using map_updateMany [of k f p t] by (metis set_map)

lemma grown_acl: "grown d e \<Longrightarrow> acl_ok e"
  by (simp add: grown_def)

lemma grown_rename_permission:
  assumes "grown d e" "\<And>p. prm_id (f p) = prm_id p \<and> prm_key (f p) = prm_key p"
  shows "grown d (e\<lparr>permissions := updateMany q f (permissions e)\<rparr>)"
proof -
  let ?ps = "updateMany q f (permissions e)"
  have "map prm_id ?ps = map prm_id (permissions e)" "map prm_key ?ps = map prm_key (permissions e)"
    "(\<lambda>p. (prm_id p, prm_key p)) ` set ?ps = (\<lambda>p. (prm_id p, prm_key p)) ` set (permissions e)"
    using assms(2) by (simp_all add: map_updateMany image_updateMany)
  moreover from this(1,2) have "prm_id ` set ?ps = prm_id ` set (permissions e)" "prm_key ` set ?ps = prm_key ` set (permissions e)"
    by (metis set_map)+
  ultimately show ?thesis using assms(1) by (auto simp: grown_def acl_ok_def)
qed

lemma grown_add_permission:
  assumes "grown d e" "prm_id p \<notin> prm_id ` set (permissions e)" "prm_key p \<notin> prm_key ` set (permissions e)" "prm_id p \<noteq> []"
    and "prm_key p \<in> fst ` set seed_permissions"
  shows "grown d (e\<lparr>permissions := permissions e @ [p]\<rparr>)"
  using assms by (auto simp: grown_def acl_ok_def)

lemma grown_rename_role:
  assumes "grown d e" "\<And>r. rol_id (f r) = rol_id r \<and> rol_key (f r) = rol_key r"
  shows "grown d (e\<lparr>roles := updateMany q f (roles e)\<rparr>)"
proof -
  let ?rs = "updateMany q f (roles e)"
  have "map rol_id ?rs = map rol_id (roles e)" "map rol_key ?rs = map rol_key (roles e)"
    "(\<lambda>r. (rol_id r, rol_key r)) ` set ?rs = (\<lambda>r. (rol_id r, rol_key r)) ` set (roles e)"
    using assms(2) by (simp_all add: map_updateMany image_updateMany)
  moreover from this(1,2) have "rol_id ` set ?rs = rol_id ` set (roles e)" "rol_key ` set ?rs = rol_key ` set (roles e)"
    by (metis set_map)+
  ultimately show ?thesis using assms(1) by (auto simp: grown_def acl_ok_def)
qed

lemma grown_add_role:
  assumes "grown d e" "rol_id r \<notin> rol_id ` set (roles e)" "rol_key r \<notin> rol_key ` set (roles e)" "rol_id r \<noteq> []"
    and "rol_key r \<in> fst ` set seed_roles"
  shows "grown d (e\<lparr>roles := roles e @ [r]\<rparr>)"
  using assms by (auto simp: grown_def acl_ok_def)

lemma hoare_new_row_uuid:
  "(\<And>t. hoare I (\<lambda>d. P d \<and> x_uuid x t \<notin> set (ids d)) (k (x_uuid x t) (x_clock x t)) R) \<Longrightarrow> (\<And>d. P d \<Longrightarrow> I d) \<Longrightarrow>
     hoare I P (bind (new_row x ids) (\<lambda>(i, t). k i t)) R"
  by (simp add: hoare_def run Let_def)

lemma hoare_permission_upsert:
  assumes "\<And>t. x_uuid x t \<noteq> []" "fst en \<in> fst ` set seed_permissions"
  shows "hoare (grown d0) (\<lambda>d. grown d0 d \<and> K \<subseteq> prm_key ` set (permissions d)) (permission_upsert x en)
    (\<lambda>_ d. grown d0 d \<and> insert (fst en) K \<subseteq> prm_key ` set (permissions d))"
proof -
  obtain key name desc where en: "en = (key, name, desc)" by (cases en)
  have key: "key \<in> fst ` set seed_permissions" using assms(2) en by simp
  show ?thesis
    unfolding permission_upsert_def en prod.case
    by (intro hoare_query_bind hoare_option hoare_draw_bind hoare_new_row_uuid hoare_write)
      (auto simp: image_updateMany findFirst_None_key assms(1) key intro!: grown_rename_permission grown_add_permission dest: findFirst_SomeD)
qed

lemma hoare_void_conseq: "hoare I P m (\<lambda>_. R) \<Longrightarrow> (\<And>d. R d \<Longrightarrow> Q d) \<Longrightarrow> hoare I P (void m) (\<lambda>_. Q)"
  unfolding void_def by (rule hoare_bind, assumption) (simp add: hoare_def run)

lemma hoare_role_upsert:
  assumes "\<And>t. x_uuid x t \<noteq> []" "fst en \<in> fst ` set seed_roles"
  shows "hoare (grown d0) (\<lambda>d. (grown d0 d \<and> J \<subseteq> prm_key ` set (permissions d)) \<and> K \<subseteq> rol_key ` set (roles d)) (role_upsert x en)
    (\<lambda>_ d. (grown d0 d \<and> J \<subseteq> prm_key ` set (permissions d)) \<and> insert (fst en) K \<subseteq> rol_key ` set (roles d))"
proof -
  obtain key name desc where en: "en = (key, name, desc)" by (cases en)
  have key: "key \<in> fst ` set seed_roles" using assms(2) en by simp
  let ?P = "\<lambda>d. (grown d0 d \<and> J \<subseteq> prm_key ` set (permissions d)) \<and> K \<subseteq> rol_key ` set (roles d)"
  let ?Q = "\<lambda>d. (grown d0 d \<and> J \<subseteq> prm_key ` set (permissions d)) \<and> insert key K \<subseteq> rol_key ` set (roles d)"
  have create: "hoare (grown d0) (\<lambda>d. ?P d \<and> findFirst (\<lambda>r. rol_key r = key) (roles d) = None)
      (createRole x key name (Some desc) True) (\<lambda>_. ?Q)"
    unfolding createRole_def Let_def
    by (intro hoare_new_row_uuid hoare_get_db_bind hoare_unique_bind hoare_write_bind [where P' = ?Q] hoare_ret)
      (auto simp: findFirst_None_key assms(1) key intro!: grown_add_role)
  have rename: "hoare (grown d0) (\<lambda>d. ?P d \<and> findFirst (\<lambda>r. rol_key r = key) (roles d) = Some r)
      (write_db (\<lambda>d. d\<lparr>roles := updateMany (\<lambda>q. rol_key q = key)
         (\<lambda>q. q\<lparr>rol_name := name, rol_description := Some desc, rol_isSystem := True, rol_updatedAt := now\<rparr>) (roles d)\<rparr>)) (\<lambda>_. ?Q)" for r now
    by (intro hoare_write) (auto simp: image_updateMany intro!: grown_rename_role dest: findFirst_SomeD)
  show ?thesis
    unfolding role_upsert_def en prod.case fst_conv
    by (intro hoare_query_bind hoare_option hoare_draw_bind)
      (auto intro!: hoare_conseq [OF rename] hoare_void_conseq [OF hoare_pre [OF create]])
qed

text \<open>A loop of steps that each add an element to a growing set.\<close>

lemma hoare_for_each_adds:
  assumes "\<And>a K. a \<in> set as \<Longrightarrow> hoare I (\<lambda>d. P d \<and> K \<subseteq> S d) (f a) (\<lambda>_ d. P d \<and> insert (g a) K \<subseteq> S d)" "\<And>d. P d \<Longrightarrow> I d"
  shows "hoare I (\<lambda>d. P d \<and> K \<subseteq> S d) (for_each as f) (\<lambda>_ d. P d \<and> g ` set as \<union> K \<subseteq> S d)"
  using assms(1)
proof (induction as arbitrary: K)
  case Nil
  show ?case by (simp add: hoare_ret assms(2))
next
  case (Cons a as)
  have step: "hoare I (\<lambda>d. P d \<and> K \<subseteq> S d) (f a) (\<lambda>_ d. P d \<and> insert (g a) K \<subseteq> S d)" for K by (rule Cons.prems) simp
  have "hoare I (\<lambda>d. P d \<and> insert (g a) K \<subseteq> S d) (for_each as f) (\<lambda>_ d. P d \<and> g ` set as \<union> insert (g a) K \<subseteq> S d)"
    by (rule Cons.IH) (rule Cons.prems, simp)
  then have "hoare I (\<lambda>d. P d \<and> insert (g a) K \<subseteq> S d) (for_each as f) (\<lambda>_ d. P d \<and> g ` set (a # as) \<union> K \<subseteq> S d)"
    by (rule hoare_conseq) auto
  then show ?case
    by (auto intro!: hoare_bind [OF step] hoare_bind [where m = "for_each as f"] hoare_ret assms(2))
qed

text \<open>Where all keys are there, the script's rows are those of its map.\<close>

definition seeded_row :: "db \<Rightarrow> role_permission \<Rightarrow> bool" where
  "seeded_row d rp \<longleftrightarrow> (\<exists>r \<in> set (roles d). \<exists>p \<in> set (permissions d). rpm_roleId rp = rol_id r \<and>
     rpm_permissionId rp = prm_id p \<and> prm_key p \<in> set (seeded_keys (rol_key r)))"

text \<open>The records the script reads: one per seeded key, so the lookups give the rows' ids.\<close>

lemma roleIdByKey_eq:
  assumes "acl_ok d" "r \<in> set (roles d)" "rol_key r \<in> set ks"
  shows "roleIdByKey (findMany (\<lambda>r. rol_key r \<in> set ks) (roles d)) (rol_key r) = Some (rol_id r)"
proof -
  let ?rs = "findMany (\<lambda>r. rol_key r \<in> set ks) (roles d)"
  have "distinct (map rol_key (roles d))" using assms(1) by (simp add: acl_ok_def)
  then have "q = r" if "q \<in> set (roles d)" "rol_key q = rol_key r" for q using that assms(2) by (metis distinct_map_eq)
  then have "(rol_key r, i) \<in> set (map (\<lambda>r. (rol_key r, rol_id r)) ?rs) \<longleftrightarrow> i = rol_id r" for i
    using assms(2,3) by auto
  then show ?thesis unfolding roleIdByKey_def
    using map_of_rev_unique [of "rol_key r" "map (\<lambda>r. (rol_key r, rol_id r)) ?rs" "rol_id r"] by metis
qed

lemma roleIdByKey_SomeD:
  "roleIdByKey rs k = Some i \<Longrightarrow> \<exists>r \<in> set rs. rol_key r = k \<and> rol_id r = i"
  by (auto simp: roleIdByKey_def dest!: map_of_SomeD)

lemma permissionIdByKey_SomeD:
  "permissionIdByKey ps k = Some i \<Longrightarrow> \<exists>p \<in> set ps. prm_key p = k \<and> prm_id p = i"
  by (auto simp: permissionIdByKey_def dest!: map_of_SomeD)

lemma map_keys: "map fst rolePermissionMap = map fst seed_roles"
  by (simp add: rolePermissionMap_def seed_roles_def)

lemma seeded_map: "(rk, ks) \<in> set rolePermissionMap \<longleftrightarrow> rk \<in> set (map fst seed_roles) \<and> ks = seeded_keys rk"
proof -
  have "distinct (map fst rolePermissionMap)" by (simp add: rolePermissionMap_def)
  then have "(rk, ks) \<in> set rolePermissionMap \<longleftrightarrow> map_of rolePermissionMap rk = Some ks" by simp
  then show ?thesis unfolding map_keys [symmetric] seeded_keys_def
    by (cases "map_of rolePermissionMap rk") (auto simp: map_of_eq_None_iff intro: rev_image_eqI)
qed

lemma seeded_keys_known: "k \<in> set (seeded_keys rk) \<Longrightarrow> k \<in> set (map fst seed_permissions) \<and> rk \<in> set (map fst seed_roles)"
proof
  assume k: "k \<in> set (seeded_keys rk)"
  then obtain ks where ks: "map_of rolePermissionMap rk = Some ks" "k \<in> set ks"
    by (cases "map_of rolePermissionMap rk") (auto simp: seeded_keys_def)
  then have m: "(rk, ks) \<in> set rolePermissionMap" by (blast dest: map_of_SomeD)
  have "list_all (\<lambda>(rk, ks). list_all (\<lambda>k. k \<in> set (map fst seed_permissions)) ks) rolePermissionMap"
    by (simp add: rolePermissionMap_def seed_permissions_def)
  then show "k \<in> set (map fst seed_permissions)" using m ks(2) by (auto simp: list_all_iff)
  show "rk \<in> set (map fst seed_roles)" using m unfolding seeded_map by simp
qed

lemma set_seed_grants:
  assumes "acl_ok d" "[] \<notin> rol_id ` set (roles d)"
  shows "rp \<in> set (seed_grants (findMany (\<lambda>p. prm_key p \<in> set (map fst seed_permissions)) (permissions d))
      (findMany (\<lambda>r. rol_key r \<in> set (map fst seed_roles)) (roles d))) \<longleftrightarrow> seeded_row d rp"
proof -
  let ?ps = "findMany (\<lambda>p. prm_key p \<in> set (map fst seed_permissions)) (permissions d)"
  let ?rs = "findMany (\<lambda>r. rol_key r \<in> set (map fst seed_roles)) (roles d)"
  have role: "truthy (roleIdByKey ?rs rk) = Some i \<longleftrightarrow> rk \<in> set (map fst seed_roles) \<and> (\<exists>r \<in> set (roles d). rol_key r = rk \<and> rol_id r = i)" for rk i
  proof
    assume "truthy (roleIdByKey ?rs rk) = Some i"
    then obtain r where "r \<in> set ?rs" "rol_key r = rk" "rol_id r = i"
      using roleIdByKey_SomeD unfolding truthy_Some_iff by blast
    then show "rk \<in> set (map fst seed_roles) \<and> (\<exists>r \<in> set (roles d). rol_key r = rk \<and> rol_id r = i)" unfolding set_findMany by blast
  next
    assume "rk \<in> set (map fst seed_roles) \<and> (\<exists>r \<in> set (roles d). rol_key r = rk \<and> rol_id r = i)"
    then obtain r where r: "r \<in> set (roles d)" "rol_key r = rk" "rol_id r = i" "rol_key r \<in> set (map fst seed_roles)" by blast
    have "i \<noteq> []" using assms(2) r(1,3) by (metis imageI)
    then show "truthy (roleIdByKey ?rs rk) = Some i"
      using roleIdByKey_eq [OF assms(1) r(1,4)] r(2,3) unfolding truthy_Some_iff by metis
  qed
  have perm: "truthy (permissionIdByKey ?ps k) = Some i \<longleftrightarrow> k \<in> set (map fst seed_permissions) \<and> (\<exists>p \<in> set (permissions d). prm_key p = k \<and> prm_id p = i)" for k i
  proof
    assume "truthy (permissionIdByKey ?ps k) = Some i"
    then obtain p where "p \<in> set ?ps" "prm_key p = k" "prm_id p = i"
      using permissionIdByKey_SomeD unfolding truthy_Some_iff by blast
    then show "k \<in> set (map fst seed_permissions) \<and> (\<exists>p \<in> set (permissions d). prm_key p = k \<and> prm_id p = i)" unfolding set_findMany by blast
  next
    assume "k \<in> set (map fst seed_permissions) \<and> (\<exists>p \<in> set (permissions d). prm_key p = k \<and> prm_id p = i)"
    then obtain p where p: "p \<in> set (permissions d)" "prm_key p = k" "prm_id p = i" "prm_key p \<in> set (map fst seed_permissions)" by blast
    have "i \<noteq> []" using acl_ok_permissionD(3) [OF assms(1) p(1) p(1)] p(3) by simp
    moreover have "map fst seed_permissions \<noteq> []" using p(4) by force
    ultimately show "truthy (permissionIdByKey ?ps k) = Some i"
      using permissionIdByKey_eq [OF assms(1) p(1,4)] p(2,3) unfolding truthy_Some_iff findPermissionsByKeys_def by simp
  qed
  have keys: "i \<in> set (List.map_filter (\<lambda>key. truthy (permissionIdByKey ?ps key)) ks) \<longleftrightarrow>
      (\<exists>k \<in> set ks. truthy (permissionIdByKey ?ps k) = Some i)" for i ks
    by (auto simp: List.map_filter_def image_iff intro: rev_bexI)
  have "rp \<in> set (seed_grants ?ps ?rs) \<longleftrightarrow> (\<exists>rk ks. (rk, ks) \<in> set rolePermissionMap \<and>
      truthy (roleIdByKey ?rs rk) = Some (rpm_roleId rp) \<and> (\<exists>k \<in> set ks. truthy (permissionIdByKey ?ps k) = Some (rpm_permissionId rp)))"
    unfolding seed_grants_def keys [symmetric] by (cases rp) (force split: option.splits)
  also have "\<dots> \<longleftrightarrow> seeded_row d rp" (is "?L \<longleftrightarrow> ?R")
  proof
    assume ?L
    then obtain rk r k p where "k \<in> set (seeded_keys rk)" "r \<in> set (roles d)" "rol_key r = rk" "rol_id r = rpm_roleId rp"
      "p \<in> set (permissions d)" "prm_key p = k" "prm_id p = rpm_permissionId rp"
      unfolding seeded_map role perm by auto
    then show ?R unfolding seeded_row_def by (intro bexI [of _ r] bexI [of _ p]) simp_all
  next
    assume ?R
    then obtain r p where rp: "r \<in> set (roles d)" "p \<in> set (permissions d)" "rpm_roleId rp = rol_id r" "rpm_permissionId rp = prm_id p"
      "prm_key p \<in> set (seeded_keys (rol_key r))" unfolding seeded_row_def by blast
    then have "truthy (roleIdByKey ?rs (rol_key r)) = Some (rpm_roleId rp)"
      "truthy (permissionIdByKey ?ps (prm_key p)) = Some (rpm_permissionId rp)"
      "(rol_key r, seeded_keys (rol_key r)) \<in> set rolePermissionMap"
      using seeded_keys_known [OF rp(5)] unfolding role perm seeded_map by auto
    then show ?L using rp(5) by blast
  qed
  finally show ?thesis .
qed

subsection \<open>What it grants\<close>

lemma grown_grants:
  assumes "acl_ok d" "grown d e" shows "role_grants e u k = role_grants d u k"
proof -
  have perm: "(\<exists>p \<in> set (permissions e). prm_id p = i \<and> prm_key p = k) \<longleftrightarrow> (\<exists>p \<in> set (permissions d). prm_id p = i \<and> prm_key p = k)"
    if "i \<in> prm_id ` set (permissions d)" for i
  proof -
    obtain p where p: "p \<in> set (permissions d)" "prm_id p = i" using \<open>i \<in> prm_id ` set (permissions d)\<close> by blast
    have "(prm_id p, prm_key p) \<in> (\<lambda>p. (prm_id p, prm_key p)) ` set (permissions e)"
      using p(1) by (intro subsetD [OF grownD(7) [OF assms(2)]] imageI)
    then obtain q where q: "q \<in> set (permissions e)" "prm_id q = i" "prm_key q = prm_key p" using p(2) by auto
    have one_d: "p' = p" if "p' \<in> set (permissions d)" "prm_id p' = i" for p'
      using that p acl_ok_permissionD(2) [OF assms(1)] by blast
    have one_e: "q' = q" if "q' \<in> set (permissions e)" "prm_id q' = i" for q'
      using that q acl_ok_permissionD(2) [OF grown_acl [OF assms(2)]] by blast
    show ?thesis using one_d one_e p q by metis
  qed
  have old: "rpm_permissionId rp \<in> prm_id ` set (permissions d)" if "rp \<in> set (rolePermissions d)" for rp
    using that assms(1) by (simp add: acl_ok_def)
  have roles: "uro_roleId ur \<in> rol_id ` set (roles d)" "uro_roleId ur \<in> rol_id ` set (roles e)" if "ur \<in> set (userRoles d)" for ur
    using that assms grown_acl [OF assms(2)] by (auto simp: acl_ok_def grown_def)
  have "userRoles e = userRoles d" "rolePermissions e = rolePermissions d" using assms(2) by (simp_all add: grown_def)
  then show ?thesis unfolding role_grants_def using perm old roles by (smt (verit, ccfv_threshold))
qed

lemma grown_role_keys:
  assumes "acl_ok d" "grown d e" shows "set (getRoleKeys e u) = set (getRoleKeys d u)"
proof -
  have "(\<exists>r \<in> set (roles e). rol_id r = i \<and> rol_key r = k) \<longleftrightarrow> (\<exists>r \<in> set (roles d). rol_id r = i \<and> rol_key r = k)"
    if "i \<in> rol_id ` set (roles d)" for i k
  proof -
    obtain r where r: "r \<in> set (roles d)" "rol_id r = i" using \<open>i \<in> rol_id ` set (roles d)\<close> by blast
    have "(rol_id r, rol_key r) \<in> (\<lambda>r. (rol_id r, rol_key r)) ` set (roles e)"
      using r(1) by (intro subsetD [OF grownD(8) [OF assms(2)]] imageI)
    then obtain q where q: "q \<in> set (roles e)" "rol_id q = i" "rol_key q = rol_key r" using r(2) by auto
    have "distinct (map rol_id (roles d))" "distinct (map rol_id (roles e))"
      using assms(1) grown_acl [OF assms(2)] by (simp_all add: acl_ok_def)
    then have "r' = r" if "r' \<in> set (roles d)" "rol_id r' = i" for r' using that r by (metis distinct_map_eq)
    moreover have "q' = q" if "q' \<in> set (roles e)" "rol_id q' = i" for q'
      using that q \<open>distinct (map rol_id (roles e))\<close> by (metis distinct_map_eq)
    ultimately show ?thesis using r q by metis
  qed
  moreover have "uro_roleId ur \<in> rol_id ` set (roles d)" if "ur \<in> set (userRoles d)" for ur
    using that assms(1) by (auto simp: acl_ok_def)
  moreover have "userRoles e = userRoles d" using assms(2) by (simp add: grown_def)
  ultimately show ?thesis by (auto simp: set_eq_iff getRoleKeys_iff)
qed

lemma hoare_seedPermissions:
  assumes "\<And>t. x_uuid x t \<noteq> []"
  shows "hoare (grown d0) (grown d0) (seedPermissions x) (\<lambda>_ d. grown d0 d \<and> set (map fst seed_permissions) \<subseteq> prm_key ` set (permissions d))"
  unfolding seedPermissions_def set_map
  by (rule hoare_void_conseq, rule hoare_pre [where P = "\<lambda>d. grown d0 d \<and> {} \<subseteq> prm_key ` set (permissions d)"],
      rule hoare_for_each_adds [where g = fst], rule hoare_permission_upsert [OF assms]) auto

lemma hoare_seedRoles:
  assumes "\<And>t. x_uuid x t \<noteq> []"
  shows "hoare (grown d0) (\<lambda>d. grown d0 d \<and> J \<subseteq> prm_key ` set (permissions d)) (seedRoles x)
      (\<lambda>_ d. (grown d0 d \<and> J \<subseteq> prm_key ` set (permissions d)) \<and> set (map fst seed_roles) \<subseteq> rol_key ` set (roles d))"
  unfolding seedRoles_def set_map
  by (rule hoare_void_conseq, rule hoare_pre [where P = "\<lambda>d. (grown d0 d \<and> J \<subseteq> prm_key ` set (permissions d)) \<and>
        {} \<subseteq> rol_key ` set (roles d)"],
      rule hoare_for_each_adds [where g = fst], rule hoare_role_upsert [OF assms]) auto

lemma seedAccess_Inr:
  assumes "\<And>t. x_uuid x t \<noteq> []" "acl_ok (st_db s)" "[] \<notin> rol_id ` set (roles (st_db s))" "seedAccess x s = (Inr (), t)"
  obtains e where "grown (st_db s) e" "set (map fst seed_permissions) \<subseteq> prm_key ` set (permissions e)"
    "set (map fst seed_roles) \<subseteq> rol_key ` set (roles e)"
    "st_db t = e\<lparr>rolePermissions := rolePermissions (st_db t)\<rparr>"
    "\<And>rp. rp \<in> set (rolePermissions (st_db t)) \<longleftrightarrow> rp \<in> set (rolePermissions e) \<or> seeded_row e rp"
proof -
  obtain s1 s2 where s1: "seedPermissions x s = (Inr (), s1)" and s2: "seedRoles x s1 = (Inr (), s2)"
    and s3: "seedRolePermissions s2 = (Inr (), t)"
    using assms(4) unfolding seedAccess_def bind_Inr_iff by auto
  define e where "e = st_db s2"
  have e: "grown (st_db s) e" "set (map fst seed_permissions) \<subseteq> prm_key ` set (permissions e)"
      "set (map fst seed_roles) \<subseteq> rol_key ` set (roles e)"
    using hoareD(1) [OF hoare_seedRoles [OF assms(1)] _ s2] hoareD(1) [OF hoare_seedPermissions [OF assms(1)] _ s1]
      grown_refl [OF assms(2,3)] unfolding e_def by blast+
  let ?data = "seed_grants (findMany (\<lambda>p. prm_key p \<in> set (map fst seed_permissions)) (permissions e))
      (findMany (\<lambda>r. rol_key r \<in> set (map fst seed_roles)) (roles e))"
  have rows: "rp \<in> set ?data \<longleftrightarrow> seeded_row e rp" for rp
    by (rule set_seed_grants) (use e(1) in \<open>simp_all add: grown_def\<close>)
  have t: "st_db t = e\<lparr>rolePermissions := createMany_skip role_permission_key ?data (rolePermissions e)\<rparr>"
    using s3 unfolding seedRolePermissions_def query_run(2) Let_def e_def [symmetric]
    by (cases "?data = []") (simp_all add: ret_run write_db_run(1) e_def [symmetric], insert e_def, auto)
  have inj: "role_permission_key a = role_permission_key b \<longleftrightarrow> a = b" for a b by (auto simp: role_permission_key_def)
  have "rp \<in> set (rolePermissions (st_db t)) \<longleftrightarrow> rp \<in> set (rolePermissions e) \<or> seeded_row e rp" for rp
  proof -
    let ?new = "createMany_skip role_permission_key ?data (rolePermissions e)"
    have mem: "rp \<in> set l \<longleftrightarrow> role_permission_key rp \<in> role_permission_key ` set l" for l
      unfolding image_iff inj by simp
    have "rp \<in> set ?new \<longleftrightarrow> rp \<in> set ?data \<or> rp \<in> set (rolePermissions e)"
      unfolding mem [of ?new] mem [of ?data] mem [of "rolePermissions e"] createMany_skip_keys by blast
    then show ?thesis unfolding t rows by auto
  qed
  with e t that show thesis by simp
qed

text \<open>
  The permissions of the users before and after: exactly those the map gives to their roles come
  in addition, whatever the database held.
\<close>

lemma seedAccess_grants:
  assumes "\<And>t. x_uuid x t \<noteq> []" "acl_ok (st_db s)" "[] \<notin> rol_id ` set (roles (st_db s))" "seedAccess x s = (Inr (), t)"
  shows "role_grants (st_db t) u k \<longleftrightarrow> role_grants (st_db s) u k \<or>
    (\<exists>rk \<in> set (getRoleKeys (st_db s) u). k \<in> set (seeded_keys rk))"
  using assms
proof (rule seedAccess_Inr)
  fix e
  assume e: "grown (st_db s) e" "set (map fst seed_permissions) \<subseteq> prm_key ` set (permissions e)"
    "st_db t = e\<lparr>rolePermissions := rolePermissions (st_db t)\<rparr>"
    and rows: "\<And>rp. rp \<in> set (rolePermissions (st_db t)) \<longleftrightarrow> rp \<in> set (rolePermissions e) \<or> seeded_row e rp"
  have same: "userRoles (st_db t) = userRoles e" "permissions (st_db t) = permissions e" "roles (st_db t) = roles e"
    by (subst e(3), simp)+
  have acl: "acl_ok e" by (rule grown_acl [OF e(1)])
  have "role_grants (st_db t) u k \<longleftrightarrow> role_grants e u k \<or> (\<exists>ur \<in> set (userRoles e). uro_userId ur = u \<and>
      (\<exists>r \<in> set (roles e). rol_id r = uro_roleId ur \<and> k \<in> set (seeded_keys (rol_key r))))" (is "_ \<longleftrightarrow> _ \<or> ?new")
  proof -
    have "role_grants (st_db t) u k \<longleftrightarrow> role_grants e u k \<or> (\<exists>ur \<in> set (userRoles e). \<exists>rp. \<exists>p \<in> set (permissions e).
        uro_userId ur = u \<and> seeded_row e rp \<and> rpm_roleId rp = uro_roleId ur \<and> rpm_permissionId rp = prm_id p \<and> prm_key p = k \<and>
        uro_roleId ur \<in> rol_id ` set (roles e))"
      unfolding role_grants_def same using rows by blast
    also have "(\<exists>ur \<in> set (userRoles e). \<exists>rp. \<exists>p \<in> set (permissions e).
        uro_userId ur = u \<and> seeded_row e rp \<and> rpm_roleId rp = uro_roleId ur \<and> rpm_permissionId rp = prm_id p \<and> prm_key p = k \<and>
        uro_roleId ur \<in> rol_id ` set (roles e)) \<longleftrightarrow> ?new" (is "?L \<longleftrightarrow> _")
    proof
      assume ?L
      then obtain ur rp p where 1: "ur \<in> set (userRoles e)" "p \<in> set (permissions e)" "uro_userId ur = u" "seeded_row e rp"
        "rpm_roleId rp = uro_roleId ur" "rpm_permissionId rp = prm_id p" "prm_key p = k" by blast
      then obtain r q where "r \<in> set (roles e)" "q \<in> set (permissions e)" "rpm_roleId rp = rol_id r" "rpm_permissionId rp = prm_id q"
        "prm_key q \<in> set (seeded_keys (rol_key r))" unfolding seeded_row_def by blast
      moreover have "q = p" using acl_ok_permissionD(2) [OF acl \<open>q \<in> _\<close> 1(2)] 1(6) \<open>rpm_permissionId rp = prm_id q\<close> by simp
      ultimately show ?new using 1 by metis
    next
      assume ?new
      then obtain ur r where 1: "ur \<in> set (userRoles e)" "uro_userId ur = u" "r \<in> set (roles e)" "rol_id r = uro_roleId ur"
        "k \<in> set (seeded_keys (rol_key r))" by blast
      then obtain p where p: "p \<in> set (permissions e)" "prm_key p = k" using seeded_keys_known e(2) by (metis imageE subsetD)
      have "seeded_row e \<lparr>rpm_roleId = uro_roleId ur, rpm_permissionId = prm_id p\<rparr>"
        unfolding seeded_row_def using 1 p by (intro bexI [of _ r] bexI [of _ p]) simp_all
      moreover have "uro_roleId ur \<in> rol_id ` set (roles e)" using 1(3,4) by (metis imageI)
      ultimately show ?L using 1 p
        by (intro bexI [of _ ur] exI [of _ "\<lparr>rpm_roleId = uro_roleId ur, rpm_permissionId = prm_id p\<rparr>"] bexI [of _ p]) simp_all
    qed
    finally show ?thesis .
  qed
  also have "?new \<longleftrightarrow> (\<exists>rk \<in> set (getRoleKeys e u). k \<in> set (seeded_keys rk))"
    unfolding Bex_def getRoleKeys_iff by blast
  finally show ?thesis unfolding grown_grants [OF assms(2) e(1)] grown_role_keys [OF assms(2) e(1)] .
qed

text \<open>The tables stay well formed through the whole script, whether it ends or throws.\<close>

definition access_ok :: "db \<Rightarrow> bool" where
  "access_ok d \<longleftrightarrow> acl_ok d \<and> [] \<notin> rol_id ` set (roles d)"

interpretation seeds: access_tables access_ok
  by unfold_locales (simp add: access_ok_def acl_ok_def)

lemma db_keeps_grown:
  assumes "\<And>d0. hoare (grown d0) (grown d0) m (\<lambda>_. grown d0)" shows "db_keeps access_ok m"
proof (rule db_keepsI)
  fix s :: st assume "access_ok (st_db s)"
  then have g: "grown (st_db s) (st_db s)" by (simp add: access_ok_def grown_refl)
  obtain r t where m: "m s = (r, t)" by (cases "m s")
  have "grown (st_db s) (st_db t)" using hoareD [OF assms g] m by (cases r) auto
  then show "access_ok (st_db (snd (m s)))" by (simp add: m access_ok_def grown_def)
qed

lemma access_seedAccess:
  assumes "\<And>t. x_uuid x t \<noteq> []" shows "db_keeps access_ok (seedAccess x)"
proof -
  have "access_ok (d\<lparr>rolePermissions := createMany_skip role_permission_key
      (seed_grants (findMany (\<lambda>p. prm_key p \<in> set (map fst seed_permissions)) (permissions d))
        (findMany (\<lambda>r. rol_key r \<in> set (map fst seed_roles)) (roles d))) (rolePermissions d)\<rparr>)" if "access_ok d" for d
  proof -
    have d: "acl_ok d" "[] \<notin> rol_id ` set (roles d)" using \<open>access_ok d\<close> by (simp_all add: access_ok_def)
    have "rpm_roleId rp \<in> rol_id ` set (roles d) \<and> rpm_permissionId rp \<in> prm_id ` set (permissions d)" if "seeded_row d rp" for rp
      using that unfolding seeded_row_def by auto
    then have "acl_ok (d\<lparr>rolePermissions := createMany_skip role_permission_key
      (seed_grants (findMany (\<lambda>p. prm_key p \<in> set (map fst seed_permissions)) (permissions d))
        (findMany (\<lambda>r. rol_key r \<in> set (map fst seed_roles)) (roles d))) (rolePermissions d)\<rparr>)"
      by (intro acl_ok_create_rolePermissions d(1)) (simp only: set_seed_grants [OF d])
    then show ?thesis using d(2) by (simp add: access_ok_def)
  qed
  then have "hoare access_ok access_ok seedRolePermissions (\<lambda>_. access_ok)"
    unfolding seedRolePermissions_def Let_def
    by (intro hoare_query_bind hoare_if hoare_ret hoare_write) auto
  then have "db_keeps access_ok seedRolePermissions" by (simp add: db_keeps_hoare)
  moreover have "db_keeps access_ok (seedPermissions x)"
    by (rule db_keeps_grown, rule hoare_conseq [OF hoare_seedPermissions [OF assms]]) auto
  moreover have "db_keeps access_ok (seedRoles x)"
    by (rule db_keeps_grown, rule hoare_conseq [OF hoare_seedRoles [OF assms, where J = "{}"]]) auto
  ultimately show ?thesis unfolding seedAccess_def by (intro inv)
qed

lemma access_from_acl: "db_keeps acl_ok m \<Longrightarrow> (\<And>R. db_keeps (\<lambda>d. roles d = R) m) \<Longrightarrow> db_keeps access_ok m"
  unfolding access_ok_def db_keeps_def keeps_def by metis

lemma access_seed_user: "db_keeps access_ok (seed_user x e n h o1 m)"
proof -
  have "db_keeps access_ok (user_create x e (Some n) None h o1 True m)"
    by (rule access_from_acl [OF acl_keeps_user_create], unfold user_create_def Let_def, intro inv db_keeps_write) simp
  then show ?thesis unfolding seed_user_def by (intro inv seeds.access_user_update) simp_all
qed

lemma access_give_role: "db_keeps access_ok (give_role k u)"
proof -
  have "db_keeps access_ok (createUserRoles u rs)" for u rs
    by (rule access_from_acl [OF acl_keeps_createUserRoles], unfold createUserRoles_def, intro inv db_keeps_write) simp
  then show ?thesis unfolding give_role_def by (intro inv)
qed

lemma access_seed_main:
  assumes "\<And>t. x_uuid x t \<noteq> []" shows "db_keeps access_ok (seed_main x e)"
proof -
  have "db_keeps access_ok (unit_type_upsert x o1 n)" for o1 n
    unfolding unit_type_upsert_def unit_types_repo_create_def Let_def
    by (intro inv db_keeps_write; auto elim: seeds.access)
  then have types: "db_keeps access_ok (seedUnitTypes x o1)" for o1
    unfolding seedUnitTypes_def by (intro inv)
  have "db_keeps access_ok (seedOrg x)" unfolding seedOrg_def by (intro inv)
  moreover have "db_keeps access_ok (seedBuilding x o1)" for o1 unfolding seedBuilding_def by (intro inv)
  moreover have "db_keeps access_ok (seedOrgAdmin x o1)" "db_keeps access_ok (seedPlatformSuperadmin x e)" for o1
    unfolding seedOrgAdmin_def seedPlatformSuperadmin_def by (intro inv access_seed_user access_give_role)+
  ultimately show ?thesis unfolding seed_main_def by (intro inv access_seedAccess assms types)
qed

subsection \<open>The roles' own permissions, and a second run\<close>

text \<open>The ids and keys of the rows, and what a role of the database has, whoever holds it.\<close>

definition role_pairs :: "db \<Rightarrow> (id \<times> string) set" where
  "role_pairs d = (\<lambda>r. (rol_id r, rol_key r)) ` set (roles d)"

definition permission_pairs :: "db \<Rightarrow> (id \<times> string) set" where
  "permission_pairs d = (\<lambda>p. (prm_id p, prm_key p)) ` set (permissions d)"

lemma role_pairs_iff: "(i, k) \<in> role_pairs d \<longleftrightarrow> (\<exists>r \<in> set (roles d). rol_id r = i \<and> rol_key r = k)"
  by (auto simp: role_pairs_def)

lemma permission_pairs_iff: "(i, k) \<in> permission_pairs d \<longleftrightarrow> (\<exists>p \<in> set (permissions d). prm_id p = i \<and> prm_key p = k)"
  by (auto simp: permission_pairs_def)

lemma pair_keys:
  "k \<in> rol_key ` set (roles d) \<longleftrightarrow> (\<exists>i. (i, k) \<in> role_pairs d)" "k \<in> prm_key ` set (permissions d) \<longleftrightarrow> (\<exists>i. (i, k) \<in> permission_pairs d)"
  "i \<in> rol_id ` set (roles d) \<longleftrightarrow> (\<exists>k. (i, k) \<in> role_pairs d)" "i \<in> prm_id ` set (permissions d) \<longleftrightarrow> (\<exists>k. (i, k) \<in> permission_pairs d)"
  by (auto simp: role_pairs_def permission_pairs_def)

lemma grown_pairs:
  assumes "grown d e"
  shows "(i, k) \<in> role_pairs d \<Longrightarrow> (i, k) \<in> role_pairs e" "(i, k) \<in> permission_pairs d \<Longrightarrow> (i, k) \<in> permission_pairs e"
  unfolding role_pairs_def permission_pairs_def
  by (rule subsetD [OF grownD(8) [OF assms]], assumption) (rule subsetD [OF grownD(7) [OF assms]], assumption)

definition role_has :: "db \<Rightarrow> string \<Rightarrow> string \<Rightarrow> bool" where
  "role_has d rk k \<longleftrightarrow> (\<exists>r \<in> set (roles d). \<exists>p \<in> set (permissions d). rol_key r = rk \<and> prm_key p = k \<and>
     \<lparr>rpm_roleId = rol_id r, rpm_permissionId = prm_id p\<rparr> \<in> set (rolePermissions d))"

lemma role_has_pairs:
  "role_has d rk k \<longleftrightarrow> (\<exists>rp \<in> set (rolePermissions d). (rpm_roleId rp, rk) \<in> role_pairs d \<and> (rpm_permissionId rp, k) \<in> permission_pairs d)"
    (is "_ \<longleftrightarrow> ?R")
proof
  assume "role_has d rk k"
  then obtain r p where *: "r \<in> set (roles d)" "p \<in> set (permissions d)" "rol_key r = rk" "prm_key p = k"
    "\<lparr>rpm_roleId = rol_id r, rpm_permissionId = prm_id p\<rparr> \<in> set (rolePermissions d)" unfolding role_has_def by blast
  show ?R by (rule bexI [OF _ *(5)]) (use *(1-4) in \<open>auto simp: role_pairs_iff permission_pairs_iff\<close>)
next
  assume ?R
  then obtain rp r p where *: "rp \<in> set (rolePermissions d)" "r \<in> set (roles d)" "p \<in> set (permissions d)"
    "rpm_roleId rp = rol_id r" "rol_key r = rk" "rpm_permissionId rp = prm_id p" "prm_key p = k"
    unfolding role_pairs_iff permission_pairs_iff by metis
  have "rp = \<lparr>rpm_roleId = rol_id r, rpm_permissionId = prm_id p\<rparr>" using *(4,6) by (cases rp) simp
  with * show "role_has d rk k" unfolding role_has_def by blast
qed

lemma seeded_row_pairs:
  "seeded_row d rp \<longleftrightarrow> (\<exists>rk k. (rpm_roleId rp, rk) \<in> role_pairs d \<and> (rpm_permissionId rp, k) \<in> permission_pairs d \<and>
     k \<in> set (seeded_keys rk))"
  unfolding seeded_row_def role_pairs_iff permission_pairs_iff by metis

text \<open>Ids and keys of well-formed tables determine each other.\<close>

lemma pairs_unique:
  assumes "acl_ok d"
  shows "(i, k) \<in> role_pairs d \<Longrightarrow> (i, k') \<in> role_pairs d \<Longrightarrow> k' = k" "(i, k) \<in> role_pairs d \<Longrightarrow> (j, k) \<in> role_pairs d \<Longrightarrow> j = i"
    "(i, k) \<in> permission_pairs d \<Longrightarrow> (i, k') \<in> permission_pairs d \<Longrightarrow> k' = k"
    "(i, k) \<in> permission_pairs d \<Longrightarrow> (j, k) \<in> permission_pairs d \<Longrightarrow> j = i"
  unfolding role_pairs_iff permission_pairs_iff using assms by (auto simp: acl_ok_def dest: distinct_map_eq)

lemma grown_role_has:
  assumes "acl_ok d" "grown d e"
  shows "role_has e rk k \<longleftrightarrow> role_has d rk k"
proof -
  have acl: "acl_ok e" by (rule grown_acl [OF assms(2)])
  have "(rpm_roleId rp, rk) \<in> role_pairs e \<longleftrightarrow> (rpm_roleId rp, rk) \<in> role_pairs d"
    "(rpm_permissionId rp, k) \<in> permission_pairs e \<longleftrightarrow> (rpm_permissionId rp, k) \<in> permission_pairs d"
    if "rp \<in> set (rolePermissions d)" for rp
  proof -
    have "rpm_roleId rp \<in> rol_id ` set (roles d)" "rpm_permissionId rp \<in> prm_id ` set (permissions d)"
      using that assms(1) by (auto simp: acl_ok_def)
    then obtain rk0 k0 where "(rpm_roleId rp, rk0) \<in> role_pairs d" "(rpm_permissionId rp, k0) \<in> permission_pairs d"
      unfolding pair_keys by blast
    then show "(rpm_roleId rp, rk) \<in> role_pairs e \<longleftrightarrow> (rpm_roleId rp, rk) \<in> role_pairs d"
      "(rpm_permissionId rp, k) \<in> permission_pairs e \<longleftrightarrow> (rpm_permissionId rp, k) \<in> permission_pairs d"
      using pairs_unique(1,3) [OF acl] grown_pairs [OF assms(2)] by metis+
  qed
  moreover have "rolePermissions e = rolePermissions d" using assms(2) by (simp add: grown_def)
  ultimately show ?thesis unfolding role_has_pairs by auto
qed

text \<open>Every role of the script has its permissions, whether the script found or created it.\<close>

lemma seedAccess_roles:
  assumes "\<And>t. x_uuid x t \<noteq> []" "acl_ok (st_db s)" "[] \<notin> rol_id ` set (roles (st_db s))" "seedAccess x s = (Inr (), t)"
  shows "role_has (st_db t) rk k \<longleftrightarrow> role_has (st_db s) rk k \<or> k \<in> set (seeded_keys rk)"
  using assms
proof (rule seedAccess_Inr)
  fix e
  assume e: "grown (st_db s) e" "set (map fst seed_permissions) \<subseteq> prm_key ` set (permissions e)"
    "set (map fst seed_roles) \<subseteq> rol_key ` set (roles e)" "st_db t = e\<lparr>rolePermissions := rolePermissions (st_db t)\<rparr>"
    and rows: "\<And>rp. rp \<in> set (rolePermissions (st_db t)) \<longleftrightarrow> rp \<in> set (rolePermissions e) \<or> seeded_row e rp"
  have same: "permissions (st_db t) = permissions e" "roles (st_db t) = roles e" by (subst e(4), simp)+
  then have pairs: "role_pairs (st_db t) = role_pairs e" "permission_pairs (st_db t) = permission_pairs e"
    by (simp_all add: role_pairs_def permission_pairs_def)
  have acl: "acl_ok e" by (rule grown_acl [OF e(1)])
  have "(\<exists>rp. seeded_row e rp \<and> (rpm_roleId rp, rk) \<in> role_pairs e \<and> (rpm_permissionId rp, k) \<in> permission_pairs e) \<longleftrightarrow>
      k \<in> set (seeded_keys rk)"
  proof
    assume "\<exists>rp. seeded_row e rp \<and> (rpm_roleId rp, rk) \<in> role_pairs e \<and> (rpm_permissionId rp, k) \<in> permission_pairs e"
    then show "k \<in> set (seeded_keys rk)" unfolding seeded_row_pairs using pairs_unique(1,3) [OF acl] by metis
  next
    assume k: "k \<in> set (seeded_keys rk)"
    then obtain i j where "(i, rk) \<in> role_pairs e" "(j, k) \<in> permission_pairs e"
      using seeded_keys_known [OF k] subsetD [OF e(2)] subsetD [OF e(3)] unfolding pair_keys by blast
    with k show "\<exists>rp. seeded_row e rp \<and> (rpm_roleId rp, rk) \<in> role_pairs e \<and> (rpm_permissionId rp, k) \<in> permission_pairs e"
      unfolding seeded_row_pairs by (intro exI [of _ "\<lparr>rpm_roleId = i, rpm_permissionId = j\<rparr>"]) auto
  qed
  then have "role_has (st_db t) rk k \<longleftrightarrow> role_has e rk k \<or> k \<in> set (seeded_keys rk)"
    unfolding role_has_pairs pairs using rows by blast
  then show ?thesis unfolding grown_role_has [OF assms(2) e(1)] .
qed

text \<open>Which roles and permissions the script leaves, and that it leaves who has which role alone.\<close>

lemma seedAccess_tables:
  assumes "\<And>t. x_uuid x t \<noteq> []" "acl_ok (st_db s)" "[] \<notin> rol_id ` set (roles (st_db s))" "seedAccess x s = (Inr (), t)"
  shows "rol_key ` set (roles (st_db t)) = rol_key ` set (roles (st_db s)) \<union> fst ` set seed_roles"
    "prm_key ` set (permissions (st_db t)) = prm_key ` set (permissions (st_db s)) \<union> fst ` set seed_permissions"
    "\<And>i k. (i, k) \<in> role_pairs (st_db s) \<Longrightarrow> (i, k) \<in> role_pairs (st_db t)"
    "\<And>i k. (i, k) \<in> permission_pairs (st_db s) \<Longrightarrow> (i, k) \<in> permission_pairs (st_db t)"
    "users (st_db t) = users (st_db s)" "userRoles (st_db t) = userRoles (st_db s)"
    "userPermissions (st_db t) = userPermissions (st_db s)"
    "\<And>rp. rp \<in> set (rolePermissions (st_db t)) \<longleftrightarrow> rp \<in> set (rolePermissions (st_db s)) \<or> seeded_row (st_db t) rp"
proof -
  obtain e where e: "grown (st_db s) e" "set (map fst seed_permissions) \<subseteq> prm_key ` set (permissions e)"
    "set (map fst seed_roles) \<subseteq> rol_key ` set (roles e)" "st_db t = e\<lparr>rolePermissions := rolePermissions (st_db t)\<rparr>"
    and rows: "\<And>rp. rp \<in> set (rolePermissions (st_db t)) \<longleftrightarrow> rp \<in> set (rolePermissions e) \<or> seeded_row e rp"
    using seedAccess_Inr [OF assms] by metis
  have same: "permissions (st_db t) = permissions e" "roles (st_db t) = roles e" "users (st_db t) = users e"
    "userRoles (st_db t) = userRoles e" "userPermissions (st_db t) = userPermissions e" by (subst e(4), simp)+
  have role_keys: "rol_key ` set (roles (st_db s)) \<subseteq> rol_key ` set (roles e)"
    by (rule subsetI) (unfold pair_keys, blast dest: grown_pairs(1) [OF e(1)])
  have permission_keys: "prm_key ` set (permissions (st_db s)) \<subseteq> prm_key ` set (permissions e)"
    by (rule subsetI) (unfold pair_keys, blast dest: grown_pairs(2) [OF e(1)])
  show "rol_key ` set (roles (st_db t)) = rol_key ` set (roles (st_db s)) \<union> fst ` set seed_roles"
    "prm_key ` set (permissions (st_db t)) = prm_key ` set (permissions (st_db s)) \<union> fst ` set seed_permissions"
    unfolding same by (intro subset_antisym Un_least grownD(9,10) [OF e(1)] role_keys permission_keys e(2,3) [unfolded set_map])+
  show "(i, k) \<in> role_pairs (st_db t)" if "(i, k) \<in> role_pairs (st_db s)" for i k
    using grown_pairs(1) [OF e(1) that] by (simp add: role_pairs_def same)
  show "(i, k) \<in> permission_pairs (st_db t)" if "(i, k) \<in> permission_pairs (st_db s)" for i k
    using grown_pairs(2) [OF e(1) that] by (simp add: permission_pairs_def same)
  show "users (st_db t) = users (st_db s)" "userRoles (st_db t) = userRoles (st_db s)"
    "userPermissions (st_db t) = userPermissions (st_db s)"
    unfolding same by (rule grownD(3,4,6) [OF e(1)])+
  fix rp show "rp \<in> set (rolePermissions (st_db t)) \<longleftrightarrow> rp \<in> set (rolePermissions (st_db s)) \<or> seeded_row (st_db t) rp"
    using rows grownD(5) [OF e(1)] unfolding seeded_row_def same by simp
qed

text \<open>Running the script again leaves every role, permission and grant: it only rewrites names and times.\<close>

lemma seedAccess_again:
  assumes "\<And>t. x_uuid x t \<noteq> []" "access_ok (st_db s)" "seedAccess x s = (Inr (), t)" "seedAccess x t = (Inr (), w)"
  shows "role_pairs (st_db w) = role_pairs (st_db t)" "permission_pairs (st_db w) = permission_pairs (st_db t)"
    "set (rolePermissions (st_db w)) = set (rolePermissions (st_db t))"
proof -
  have d: "acl_ok (st_db s)" "[] \<notin> rol_id ` set (roles (st_db s))" using assms(2) by (simp_all add: access_ok_def)
  have "access_ok (st_db t)" using db_keepsD [OF access_seedAccess [OF assms(1)] assms(2)] assms(3) by simp
  then have t: "acl_ok (st_db t)" "[] \<notin> rol_id ` set (roles (st_db t))" by (simp_all add: access_ok_def)
  have "access_ok (st_db w)" using db_keepsD [OF access_seedAccess [OF assms(1)] \<open>access_ok (st_db t)\<close>] assms(4) by simp
  then have w: "acl_ok (st_db w)" by (simp add: access_ok_def)
  note one = seedAccess_tables [OF assms(1) d assms(3)] and two = seedAccess_tables [OF assms(1) t assms(4)]
  have "rol_key ` set (roles (st_db w)) = rol_key ` set (roles (st_db t))" unfolding two(1) one(1) by simp
  then have "\<exists>j. (j, k) \<in> role_pairs (st_db t)" if "(i, k) \<in> role_pairs (st_db w)" for i k using that pair_keys(1) by metis
  then have "(i, k) \<in> role_pairs (st_db w) \<longleftrightarrow> (i, k) \<in> role_pairs (st_db t)" for i k
    using two(3) pairs_unique(2) [OF w] by metis
  then show roles: "role_pairs (st_db w) = role_pairs (st_db t)" by auto
  have "prm_key ` set (permissions (st_db w)) = prm_key ` set (permissions (st_db t))" unfolding two(2) one(2) by simp
  then have "\<exists>j. (j, k) \<in> permission_pairs (st_db t)" if "(i, k) \<in> permission_pairs (st_db w)" for i k using that pair_keys(2) by metis
  then have "(i, k) \<in> permission_pairs (st_db w) \<longleftrightarrow> (i, k) \<in> permission_pairs (st_db t)" for i k
    using two(4) pairs_unique(4) [OF w] by metis
  then show perms: "permission_pairs (st_db w) = permission_pairs (st_db t)" by auto
  have "seeded_row (st_db w) rp \<longleftrightarrow> seeded_row (st_db t) rp" for rp unfolding seeded_row_pairs roles perms ..
  then show "set (rolePermissions (st_db w)) = set (rolePermissions (st_db t))" using one(8) two(8) by blast
qed

end
