(* ===== verification/UnitFacts.thy ===== *)
theory UnitFacts
  imports System
begin

text \<open>
  Facts about units: the amenities a unit is linked with are amenities of its building.
\<close>

section \<open>Links\<close>

definition links_ok :: "db \<Rightarrow> bool" where
  "links_ok d \<longleftrightarrow> distinct (map unt_id (units d)) \<and> distinct (map amn_id (amenities d)) \<and>
     (\<forall>l \<in> set (unitAmenities d). \<exists>u \<in> set (units d). \<exists>a \<in> set (amenities d).
        unt_id u = una_unitId l \<and> amn_id a = una_amenityId l \<and> amn_buildingId a = unt_buildingId u)"

text \<open>Operations on other tables.\<close>

locale property_tables =
  fixes I :: "db \<Rightarrow> bool"
  assumes property: "I d \<Longrightarrow> units e = units d \<Longrightarrow> amenities e = amenities d \<Longrightarrow> unitAmenities e = unitAmenities d \<Longrightarrow> I e"
begin

lemma property_writes [inv]:
  "db_keeps I (user_create x em n p h o1 a m)" "db_keeps I (user_update x i f)" "db_keeps I (building_create x oz bdata)"
  "db_keeps I (assignment_create x b u ty)" "db_keeps I (assignment_upsert x b u ty)" "db_keeps I (occupancy_insert x b i u)"
  "db_keeps I (end_others x u b i)" "db_keeps I (createRole x k rn desc sys)" "db_keeps I (createRolePermissions r ps)"
  "db_keeps I (createUserRoles u rs)" "db_keeps I (createUserPermissions u os)" "db_keeps I (user_role_create u r)"
  "db_keeps I (createRequest x dt)" "db_keeps I (updateById x i h2)" "db_keeps I (createAttachments x i oz u atts)"
  "db_keeps I (createComment x i oz u msg)" "db_keeps I (updateNotifications pr k2)" "db_keeps I (notification_create x inp)"
  unfolding user_create_def user_update_def building_create_def assignment_create_def assignment_upsert_def
    occupancy_insert_def end_others_def createRole_def createRolePermissions_def createUserRoles_def createUserPermissions_def
    user_role_create_def createRequest_def updateById_def createAttachments_def createComment_def updateNotifications_def
    notification_create_def Let_def
  by (intro inv db_keeps_write; auto elim: property)+

lemma property_deletes [inv]:
  "db_keeps I (replaceRolePermissions r ps)" "db_keeps I (replaceUserRoles u rs)" "db_keeps I (replaceUserPermissions u os)"
  unfolding replaceRolePermissions_def replaceUserRoles_def replaceUserPermissions_def
  by (intro inv db_keeps_write; auto elim: property)+

lemma property_access [inv]:
  "db_keeps I (roles_create x cdto)" "db_keeps I (setRolePermissions r ks mode)"
  "db_keeps I (assignRoles u rs mode)" "db_keeps I (setPermissionOverrides u os)"
  unfolding roles_create_def setRolePermissions_def assignRoles_def setPermissionOverrides_def
    addRolePermissions_def addUserRoles_def Let_def
  by (intro inv)+

lemma property_accounts [inv]:
  "db_keeps I (register x e rdto)" "db_keeps I (login x e ldto)" "db_keeps I (refresh x e i tok)"
  "db_keeps I (changePassword x i cur new)" "db_keeps I (users_updateProfile x i data)"
  "db_keeps I (createInOrg x user idto)" "db_keeps I (createOrgAdmin x oz adto)"
  unfolding register_def login_def refresh_def changePassword_def users_updateProfile_def createInOrg_def
    createOrgAdmin_def sign_in_def issueTokens_def saveRefreshToken_def updateRefreshTokenHash_def
    updatePasswordHash_def auth_createUser_def users_repo_updateProfile_def Let_def
  by (intro inv)+

lemma property_catalog [inv]:
  "db_keeps I (owners_create x user odto)" "db_keeps I (unit_types_create x user tdto)"
  "db_keeps I (org_updateProfile x oz pdto)" "db_keeps I (org_create x gdto)" "db_keeps I (buildings_create x user bdto)"
  unfolding owners_create_def owners_repo_create_def unit_types_create_def unit_types_repo_create_def
    org_updateProfile_def org_update_def org_create_def buildings_create_def Let_def
  by (intro inv db_keeps_write; auto elim: property)+

lemma property_people [inv]:
  "db_keeps I (assignments_create x user b asdto)" "db_keeps I (occupancies_create x user b ocdto)"
  "db_keeps I (onboard x user b rsdto)" "db_keeps I (provision x user pvdto)"
  unfolding assignments_create_def ensureAdminRoleForBuildingAdminAssignment_def occupancies_create_def
    createActiveIfVacant_def onboard_def onboard_tx_def provision_def provision_tx_def assertManagerProvisioningAllowed_def
    link_user_def new_user_def applyOrgRoles_def applyBuildingAssignments_def ensureAdminRoleForBuildingAdmins_def
    applyResidentGrant_def place_resident_def lockUnit_def Let_def
  by (intro inv)+

lemma property_requests [inv]:
  "db_keeps I (createResidentRequest x user rqdto)" "db_keeps I (updateResidentRequest x user i udto)"
  "db_keeps I (cancelResidentRequest x user i)" "db_keeps I (assignRequest x user b i staff)"
  "db_keeps I (updateRequestStatus x user b i st)" "db_keeps I (cancelBuildingRequest x user b i)"
  "db_keeps I (addResidentComment x user i m)" "db_keeps I (addBuildingComment x user b i m)"
  "db_keeps I (addBuildingAttachments x user b i as)"
  unfolding createResidentRequest_def updateResidentRequest_def cancelResidentRequest_def assignRequest_def
    updateRequestStatus_def cancelBuildingRequest_def createRequestWithAttachments_def createRequestWithAttachmentsInTx_def
    addResidentComment_def addBuildingComment_def addBuildingAttachments_def assertBuildingInOrg_def Let_def
  by (intro inv)+

lemma property_notifications [inv]:
  "db_keeps I (createForUsers x inp)" "db_keeps I (markRead x i u oz)" "db_keeps I (markAllRead x u oz)"
  "db_keeps I (dismiss x i u oz)" "db_keeps I (undismiss i u oz)"
  unfolding createForUsers_def createManyAndReturn_def markRead_def markAllRead_def dismiss_def
    undismiss_def repo_markRead_def repo_markAllRead_def repo_markDismissed_def repo_clearDismissed_def Let_def
  by (intro inv)+

lemma property_on_event [inv]: "db_keeps I (on_event x e p)"
proof -
  obtain title body where "on_event x e p = notify x p (\<lambda>d. event_recipients e d p) (event_type e) title body"
    using on_event_alt by blast
  then show ?thesis by (simp add: notify_def inv)
qed

end

interpretation links: property_tables links_ok
  by unfold_locales (simp add: links_ok_def)

text \<open>Amenities that were checked: all of them are amenities of the building.\<close>

definition of_building :: "id \<Rightarrow> id list \<Rightarrow> db \<Rightarrow> bool" where
  "of_building b ids d \<longleftrightarrow> (\<forall>i \<in> set ids. \<exists>a \<in> set (amenities d). amn_id a = i \<and> amn_buildingId a = b)"

lemma all_found:
  assumes "distinct (map k t)" "length (findMany (\<lambda>a. p a \<and> k a \<in> set ids) t) = length ids" "i \<in> set ids"
  shows "\<exists>a \<in> set t. k a = i \<and> p a"
proof -
  define fs where "fs = findMany (\<lambda>a. p a \<and> k a \<in> set ids) t"
  have fs: "a \<in> set fs \<longleftrightarrow> a \<in> set t \<and> p a \<and> k a \<in> set ids" for a by (simp add: fs_def)
  have "distinct (map k fs)" using assms(1) unfolding fs_def findMany_def by (rule distinct_map_filter)
  then have "card (k ` set fs) = length fs" by (metis distinct_card length_map set_map)
  moreover have "length fs = length ids" using assms(2) by (simp add: fs_def)
  ultimately have "card (set ids) \<le> card (k ` set fs)" using card_length [of ids] by linarith
  moreover have "k ` set fs \<subseteq> set ids" using fs by blast
  ultimately have "k ` set fs = set ids" by (intro card_seteq) simp_all
  then obtain a where "a \<in> set fs" "k a = i" using assms(3) by (metis imageE)
  then show ?thesis using fs by blast
qed

lemma hoare_assertAmenityIds:
  "hoare links_ok links_ok (assertAmenityIds b ids) (\<lambda>_ d. links_ok d \<and> of_building b ids d)"
proof -
  have "of_building b ids d"
    if "links_ok d" "length (findMany (\<lambda>a. amn_buildingId a = b \<and> amn_isActive a \<and> amn_id a \<in> set ids) (amenities d)) = length ids" for d
    unfolding of_building_def
  proof
    fix i assume i: "i \<in> set ids"
    have d: "distinct (map amn_id (amenities d))" using \<open>links_ok d\<close> by (simp add: links_ok_def)
    have "length (findMany (\<lambda>a. (amn_buildingId a = b \<and> amn_isActive a) \<and> amn_id a \<in> set ids) (amenities d)) = length ids"
      using that(2) by (simp only: conj_assoc)
    from all_found [OF d this i] show "\<exists>a \<in> set (amenities d). amn_id a = i \<and> amn_buildingId a = b" by blast
  qed
  then show ?thesis
    unfolding assertAmenityIds_def
    by (auto simp: hoare_def run of_building_def)
qed

definition unit_at :: "id \<Rightarrow> id \<Rightarrow> db \<Rightarrow> bool" where
  "unit_at b i d \<longleftrightarrow> (\<exists>u \<in> set (units d). unt_id u = i \<and> unt_buildingId u = b)"

lemma hoare_link_amenities:
  "hoare links_ok (\<lambda>d. links_ok d \<and> of_building b ids d \<and> unit_at b i d) (link_amenities x i ids) (\<lambda>_. links_ok)"
proof -
  have "links_ok (d\<lparr>unitAmenities := createMany_skip unit_amenity_key
        (map (\<lambda>j. \<lparr>una_unitId = i, una_amenityId = j, una_createdAt = now\<rparr>) ids) (unitAmenities d)\<rparr>)"
    if "links_ok d" "of_building b ids d" "unit_at b i d" for d now
  proof -
    let ?new = "map (\<lambda>j. \<lparr>una_unitId = i, una_amenityId = j, una_createdAt = now\<rparr>) ids"
    have "\<exists>u \<in> set (units d). \<exists>a \<in> set (amenities d). unt_id u = una_unitId l \<and> amn_id a = una_amenityId l \<and> amn_buildingId a = unt_buildingId u"
      if "l \<in> set ?new \<union> set (unitAmenities d)" for l
    proof (cases "l \<in> set (unitAmenities d)")
      case False
      then obtain j where "j \<in> set ids" "una_unitId l = i" "una_amenityId l = j" using \<open>l \<in> _\<close> by auto
      then show ?thesis using \<open>of_building b ids d\<close> \<open>unit_at b i d\<close> unfolding of_building_def unit_at_def by metis
    qed (use \<open>links_ok d\<close> in \<open>simp add: links_ok_def\<close>)
    then have "\<exists>u \<in> set (units d). \<exists>a \<in> set (amenities d). unt_id u = una_unitId l \<and> amn_id a = una_amenityId l \<and> amn_buildingId a = unt_buildingId u"
      if "l \<in> set (createMany_skip unit_amenity_key ?new (unitAmenities d))" for l
      using subsetD [OF createMany_skip_subset that] by blast
    then show ?thesis using \<open>links_ok d\<close> by (simp add: links_ok_def)
  qed
  then show ?thesis unfolding link_amenities_def by (intro hoare_rules hoare_write) auto
qed

lemma hoare_write_ret: "(\<And>d. P d \<Longrightarrow> Q v (f d)) \<Longrightarrow> hoare I P (bind (write_db f) (\<lambda>_. ret v)) Q"
  by (simp add: hoare_def run)

lemma hoare_unit_insert:
  assumes "unt_buildingId row = b"
  shows "hoare links_ok (\<lambda>d. links_ok d \<and> of_building b ids d) (unit_insert x row)
    (\<lambda>u d. links_ok d \<and> of_building b ids d \<and> unit_at b (unt_id u) d)"
proof -
  have add: "links_ok (d\<lparr>units := units d @ [u]\<rparr>) \<and> of_building b ids (d\<lparr>units := units d @ [u]\<rparr>) \<and> unit_at b (unt_id u) (d\<lparr>units := units d @ [u]\<rparr>)"
    if "links_ok d" "of_building b ids d" "unt_id u \<notin> set (map unt_id (units d))" "unt_buildingId u = b" for d u
    using that by (auto simp: links_ok_def of_building_def unit_at_def)
  show ?thesis
    unfolding unit_insert_def
    by (intro hoare_new_row_bind hoare_fit_unit_bind hoare_get_db_bind hoare_unique_bind hoare_foreign_bind hoare_write_ret)
      (use add assms in \<open>force+\<close>)
qed

lemma links_units_create [inv]: "db_keeps links_ok (units_create x user b dto)"
proof -
  have put: "hoare links_ok (\<lambda>d. (links_ok d \<and> of_building b ids d) \<and> unt_buildingId row = b)
      (bind (unit_insert x row) (\<lambda>u. bind (if ids \<noteq> [] then link_amenities x (unt_id u) ids else ret ()) (\<lambda>_. ret u))) (\<lambda>_. links_ok)" for ids row
  proof (cases "unt_buildingId row = b")
    case True
    then show ?thesis
      by (intro hoare_bind [OF hoare_pre [OF hoare_unit_insert [OF True, of ids]]] hoare_bind [where Q = "\<lambda>_. links_ok"]
          hoare_if hoare_pre [OF hoare_link_amenities [where b = b]] hoare_ret) auto
  qed (simp add: hoare_def)
  have tx: "hoare links_ok (\<lambda>d. links_ok d \<and> of_building b ids d)
      (transaction (bind (mapUnitData b dto) (\<lambda>row. bind (unit_insert x row) (\<lambda>u.
         bind (if ids \<noteq> [] then link_amenities x (unt_id u) ids else ret ()) (\<lambda>_. ret u))))) (\<lambda>_. links_ok)" for ids
  proof (rule hoare_transaction)
    have "hoare links_ok (\<lambda>d. links_ok d \<and> of_building b ids d) (mapUnitData b dto)
        (\<lambda>row d. (links_ok d \<and> of_building b ids d) \<and> unt_buildingId row = b)"
      unfolding mapUnitData_def by (intro hoare_require_bind hoare_ret) simp_all
    then show "hoare (\<lambda>_. True) (\<lambda>d. links_ok d \<and> of_building b ids d) (bind (mapUnitData b dto) (\<lambda>row. bind (unit_insert x row) (\<lambda>u.
         bind (if ids \<noteq> [] then link_amenities x (unt_id u) ids else ret ()) (\<lambda>_. ret u)))) (\<lambda>_. links_ok)"
      by (intro hoare_weaken_error [where I = links_ok] hoare_bind [OF _ put])
  qed simp
  show ?thesis
    unfolding db_keeps_hoare units_create_def
    by (intro hoare_scope_bind hoare_building_bind hoare_on_duplicate hoare_require_bind hoare_query_bind
        hoare_bind_readonly [OF readonly_unit_checks(1)] hoare_bind_readonly [OF readonly_unit_checks(2)]
        hoare_bind [OF hoare_pre [OF hoare_assertAmenityIds] tx]) auto
qed

text \<open>Rows that keep their ids and buildings keep the links right.\<close>

lemma links_update_units:
  assumes "links_ok d" "map (\<lambda>u. (unt_id u, unt_buildingId u)) us = map (\<lambda>u. (unt_id u, unt_buildingId u)) (units d)"
  shows "links_ok (d\<lparr>units := us\<rparr>)"
proof -
  have "map unt_id us = map unt_id (units d)" using arg_cong [OF assms(2), of "map fst"] by (simp add: comp_def)
  moreover have "\<exists>v \<in> set us. unt_id v = unt_id u \<and> unt_buildingId v = unt_buildingId u" if "u \<in> set (units d)" for u
  proof -
    have "(unt_id u, unt_buildingId u) \<in> set (map (\<lambda>u. (unt_id u, unt_buildingId u)) us)" unfolding assms(2) using that by auto
    then show ?thesis by auto
  qed
  ultimately show ?thesis using assms(1) unfolding links_ok_def by simp metis
qed

lemma links_update_amenities:
  assumes "links_ok d" "map (\<lambda>a. (amn_id a, amn_buildingId a)) as = map (\<lambda>a. (amn_id a, amn_buildingId a)) (amenities d)"
  shows "links_ok (d\<lparr>amenities := as\<rparr>)"
proof -
  have "map amn_id as = map amn_id (amenities d)" using arg_cong [OF assms(2), of "map fst"] by (simp add: comp_def)
  moreover have "\<exists>b \<in> set as. amn_id b = amn_id a \<and> amn_buildingId b = amn_buildingId a" if "a \<in> set (amenities d)" for a
  proof -
    have "(amn_id a, amn_buildingId a) \<in> set (map (\<lambda>a. (amn_id a, amn_buildingId a)) as)" unfolding assms(2) using that by auto
    then show ?thesis by auto
  qed
  ultimately show ?thesis using assms(1) unfolding links_ok_def by simp metis
qed

lemma links_unit_write:
  "hoare links_ok (\<lambda>d. links_ok d \<and> of_building b ids d \<and> unit_at b j d) (unit_write x i (mapUnitUpdate dto))
     (\<lambda>_ d. links_ok d \<and> of_building b ids d \<and> unit_at b j d)"
proof -
  let ?P = "\<lambda>d. links_ok d \<and> of_building b ids d \<and> unit_at b j d"
  have keep: "?P (d\<lparr>units := updateMany (\<lambda>r. unt_id r = i) (\<lambda>_. v) (units d)\<rparr>)"
    if d: "?P d" "findUnit d i = Some w" and v: "unt_id v = unt_id w" "unt_buildingId v = unt_buildingId w" for d v w
  proof -
    have w: "w \<in> set (units d)" "unt_id w = i" using findUnit_SomeD [OF d(2)] by auto
    have "distinct (map unt_id (units d))" using d(1) by (simp add: links_ok_def)
    then have "q = w" if "q \<in> set (units d)" "unt_id q = i" for q using that w by (metis distinct_map_eq)
    then have m: "map (\<lambda>u. (unt_id u, unt_buildingId u)) (updateMany (\<lambda>r. unt_id r = i) (\<lambda>_. v) (units d)) =
        map (\<lambda>u. (unt_id u, unt_buildingId u)) (units d)"
      using v w(2) by (auto simp: updateMany_def)
    have "unit_at b j (d\<lparr>units := updateMany (\<lambda>r. unt_id r = i) (\<lambda>_. v) (units d)\<rparr>)"
    proof -
      obtain q where "q \<in> set (units d)" "unt_id q = j" "unt_buildingId q = b" using d(1) unfolding unit_at_def by blast
      then have "(j, b) \<in> set (map (\<lambda>u. (unt_id u, unt_buildingId u)) (updateMany (\<lambda>r. unt_id r = i) (\<lambda>_. v) (units d)))"
        unfolding m by force
      then show ?thesis unfolding unit_at_def by auto
    qed
    moreover have "links_ok (d\<lparr>units := updateMany (\<lambda>r. unt_id r = i) (\<lambda>_. v) (units d)\<rparr>)"
      using d(1) m by (blast intro: links_update_units)
    ultimately show ?thesis using d(1) by (simp add: of_building_def)
  qed
  show ?thesis
    unfolding unit_write_def
    apply (intro hoare_draw_bind hoare_query_bind hoare_some_or_bind hoare_fit_unit_bind hoare_get_db_bind hoare_unique_bind
        hoare_require_bind hoare_write_ret)
         apply (rule keep, blast, force, simp_all)
    done
qed

lemma hoare_replace_amenities:
  "hoare links_ok (\<lambda>d. links_ok d \<and> of_building b (case v of Val ids \<Rightarrow> ids | _ \<Rightarrow> []) d \<and> unit_at b i d)
     (replace_amenities x i v) (\<lambda>_. links_ok)"
proof (cases v)
  case (Val ids)
  let ?P = "\<lambda>d. links_ok d \<and> of_building b ids d \<and> unit_at b i d"
  have "?P (d\<lparr>unitAmenities := deleteMany p (unitAmenities d)\<rparr>)" if "?P d" for d p
    using that by (auto simp: links_ok_def of_building_def unit_at_def)
  then show ?thesis
    unfolding replace_amenities_def Val js.case
    by (intro hoare_write_bind [where P' = ?P] hoare_if hoare_link_amenities hoare_ret) simp_all
qed (simp_all add: replace_amenities_def hoare_def run)

lemma links_units_update [inv]: "db_keeps links_ok (units_update_op x user b i dto)"
proof -
  let ?ids = "case udt_amenityIds dto of Val ids \<Rightarrow> ids | _ \<Rightarrow> []"
  let ?P = "\<lambda>j d. links_ok d \<and> of_building b ?ids d \<and> unit_at b j d"
  have checked: "hoare links_ok (\<lambda>d. links_ok d \<and> unit_at b j d) (case udt_amenityIds dto of
      Undefined \<Rightarrow> ret () | Null \<Rightarrow> throw (JsError ''TypeError'') | Val ids \<Rightarrow> assertAmenityIds b ids) (\<lambda>_. ?P j)" for j
  proof (cases "udt_amenityIds dto")
    case (Val ids)
    have "hoare links_ok (\<lambda>d. links_ok d \<and> unit_at b j d) (assertAmenityIds b ids) (\<lambda>_ d. ?P j d)"
    proof (rule hoareI)
      fix s v t assume s: "links_ok (st_db s) \<and> unit_at b j (st_db s)" "assertAmenityIds b ids s = (Inr v, t)"
      then have "st_db t = st_db s" using readonlyD [OF readonly_unit_checks(3)] by blast
      moreover have "of_building b ids (st_db t)" using hoareD(1) [OF hoare_assertAmenityIds _ s(2)] s(1) by blast
      ultimately show "?P j (st_db t)" using s(1) Val by simp
    next
      fix s e t assume "links_ok (st_db s) \<and> unit_at b j (st_db s)" "assertAmenityIds b ids s = (Inl e, t)"
      then show "links_ok (st_db t)" using readonlyD [OF readonly_unit_checks(3)] by metis
    qed
    then show ?thesis using Val by simp
  qed (auto simp: hoare_def run of_building_def)
  have tx: "hoare links_ok (?P j) (bind (if names_column dto then
             bind (require (not_null (uud_label dto)) er) (\<lambda>_. bind (unit_write x j (mapUnitUpdate dto)) (\<lambda>r. ret (Some r)))
           else query (\<lambda>d. findUnit d j)) (\<lambda>unitRecord. bind (require (unitRecord \<noteq> None) er2) (\<lambda>_.
             replace_amenities x j (udt_amenityIds dto)))) (\<lambda>_. links_ok)" for j er er2
    by (intro hoare_bind [where Q = "\<lambda>_. ?P j"] hoare_if hoare_require_bind hoare_bind [OF links_unit_write] hoare_replace_amenities
        hoare_ret) (auto simp: hoare_def run)
  have unit: "unit_at b (unt_id u) d" if "unit_findByIdForBuilding d b i = Some u" for d u
    using findFirst_SomeD [OF that [unfolded unit_findByIdForBuilding_def]] unfolding unit_at_def by blast
  show ?thesis
    unfolding db_keeps_hoare units_update_op_def
    apply (intro hoare_scope_bind hoare_building_bind hoare_query_bind hoare_some_or_bind hoare_on_duplicate)
        apply (rule hoare_pre [where P = "\<lambda>d. links_ok d \<and> unit_at b (unt_id w) d" for w])
         apply (rule hoare_bind_readonly [OF readonly_unit_checks(1)], blast)
         apply (rule hoare_bind_readonly [OF readonly_unit_checks(2)], blast)
         apply (rule hoare_bind [OF checked])
         apply (rule hoare_require_bind)
          apply (rule hoare_bind [OF hoare_transaction [OF hoare_weaken_error [OF tx]]], blast)
          apply (intro hoare_query_bind hoare_some_or)
           apply (auto intro: unit)
    done
qed

lemma links_amenities [inv]: "db_keeps links_ok (amenities_create x user b dto)" "db_keeps links_ok (amenities_update_op x user b i udto)"
proof -
  have "links_ok (d\<lparr>amenities := amenities d @ [a]\<rparr>)" if "links_ok d" "amn_id a \<notin> amn_id ` set (amenities d)" for d a
    using that unfolding links_ok_def by simp blast
  then show "db_keeps links_ok (amenities_create x user b dto)"
    unfolding db_keeps_hoare amenities_create_def amenity_create_def Let_def
    by (intro hoare_scope_bind hoare_building_bind hoare_on_duplicate hoare_new_row_bind hoare_get_db_bind hoare_unique_bind
        hoare_foreign_bind hoare_write_ret) auto
  have "links_ok (d\<lparr>amenities := updateMany p (amenity_apply data now) (amenities d)\<rparr>)" if "links_ok d" for d p data now
    by (rule links_update_amenities [OF that]) (simp add: updateMany_def amenity_apply_def)
  then show "db_keeps links_ok (amenities_update_op x user b i udto)"
    unfolding amenities_update_op_def amenity_update_def Let_def by (intro inv db_keeps_write)
qed

text \<open>Every operation of the machine keeps the links right.\<close>

lemma links_run_op: "db_keeps links_ok (run_op x e p)"
  by (cases p) (simp_all add: inv db_keeps_dispatch)

lemma links_run_ops: "links_ok (st_db s) \<Longrightarrow> links_ok (st_db (run_ops x e ops s))"
  by (induction ops arbitrary: s) (auto intro: db_keepsD [OF links_run_op])

end
