(* ===== verification/SessionFacts.thy ===== *)
theory SessionFacts
  imports Auth
begin

text \<open>
  From a sign-in to an authenticated request: the access token that \<open>login\<close> or \<open>refresh\<close> returns,
  sent back before it expires, passes the guard and stands for the user who signed in.
\<close>

definition identity_of :: "user \<Rightarrow> auth_user" where
  "identity_of u = \<lparr>aut_sub = usr_id u, aut_email = Some (usr_email u), aut_orgId = usr_orgId u\<rparr>"

lemma payload_matches_own: "payload_org_matches (jwt_orgId (access_payload u)) (usr_orgId u)"
  by (simp add: payload_org_matches_iff access_payload_def split: option.splits)

lemma validate_own_payload:
  assumes "findUser (st_db s) (usr_id u) = Some v" "usr_isActive v" "usr_orgId v = usr_orgId u"
  shows "validatePayload (access_payload u) None s = (Inr (identity_of v), s)"
  using assms payload_matches_own [of u] findUser_SomeD [OF assms(1)]
  by (simp add: validatePayload_def run identity_of_def access_payload_def)

text \<open>The token of a sign-in, at any later state where the user's row is still active and in the org.\<close>

lemma sign_in_authenticates:
  assumes "jwt_ok x" "findUser (st_db s) (usr_id u) = Some u" "sign_in x e u s = (Inr r, t)"
    and "x_extractJwt x (ctx_authorization ctx) = Some (tok_accessToken r)" "ctx_orgIdHeader ctx = None"
    and "x_clock x (st_tick w) div 1000 < x_clock x (st_tick s) div 1000 + JWT_ACCESS_TTL e"
    and "findUser (st_db w) (usr_id u) = Some v" "usr_isActive v" "usr_orgId v = usr_orgId u"
  shows "JwtAuthGuard x e ctx w = (Inr (ctx\<lparr>ctx_user := Some (identity_of v)\<rparr>), w\<lparr>st_tick := Suc (st_tick w)\<rparr>)"
proof -
  have mem: "usr_id u \<in> usr_id ` set (users (st_db s))" using findUser_SomeD [OF assms(2)] by blast
  have "tok_accessToken r = x_sign x (st_tick s) (JWT_ACCESS_SECRET e) (JWT_ACCESS_TTL e) (access_payload u)"
    using sign_in_run [OF mem] assms(3) by (metis Inr_inject Pair_inject)
  then have "x_jwtVerify x (st_tick w) (JWT_ACCESS_SECRET e) (tok_accessToken r) = Some (access_payload u)"
    using assms(1,6) by (simp add: jwt_ok_def)
  moreover have "validatePayload (access_payload u) None (w\<lparr>st_tick := Suc (st_tick w)\<rparr>) =
      (Inr (identity_of v), w\<lparr>st_tick := Suc (st_tick w)\<rparr>)"
    using assms(7-9) by (intro validate_own_payload) simp_all
  ultimately show ?thesis
    using assms(4,5) by (simp add: JwtAuthGuard_def jwt_validate_def getOrgIdOverride_def run bind_app [of "validatePayload p ov" for p ov])
qed

lemma login_authenticates:
  assumes "jwt_ok x" "users_ok (st_db s)" "login x e dto s = (Inr r, t)"
    and "x_extractJwt x (ctx_authorization ctx) = Some (tok_accessToken r)" "ctx_orgIdHeader ctx = None"
    and "x_clock x (st_tick t) div 1000 < x_clock x (st_tick s) div 1000 + JWT_ACCESS_TTL e"
  shows "\<exists>c w a. JwtAuthGuard x e ctx t = (Inr c, w) \<and> ctx_user c = Some a \<and> aut_email a = Some (lgn_email dto) \<and>
    aut_sub a = urs_id (ars_user r) \<and> aut_orgId a = urs_orgId (ars_user r)"
proof -
  obtain u where u: "findUserByEmail (st_db s) (lgn_email dto) = Some u" "usr_isActive u" "sign_in x e u s = (Inr r, t)"
    using assms(3) by (rule login_Inr)
  then have m: "u \<in> set (users (st_db s))" "usr_email u = lgn_email dto" by (auto dest: findUserByEmail_SomeD)
  have d: "distinct (map usr_id (users (st_db s)))" using assms(2) by (simp add: users_ok_def)
  then have f: "findUser (st_db s) (usr_id u) = Some u" using m(1) by (simp add: findUser_def findFirst_unique)
  obtain r0 t0 where r0: "sign_in x e u s = (Inr r0, t0)" "urs_id (ars_user r0) = usr_id u" "urs_orgId (ars_user r0) = usr_orgId u"
      "st_db t0 = (st_db s)\<lparr>users := updateMany (\<lambda>r. usr_id r = usr_id u)
       (signed_in x (Suc (Suc (st_tick s))) (tok_refreshToken r0)) (users (st_db s))\<rparr>"
    by (rule sign_in_run [of u s x e]) (use m(1) in auto)
  then have eq: "r0 = r" "t0 = t" using u(3) by simp_all
  let ?v = "signed_in x (Suc (Suc (st_tick s))) (tok_refreshToken r) u"
  have v: "findUser (st_db t) (usr_id u) = Some ?v"
    using f r0(4) eq unfolding findUser_def by (simp add: findFirst_updateMany)
  have "JwtAuthGuard x e ctx t = (Inr (ctx\<lparr>ctx_user := Some (identity_of ?v)\<rparr>), t\<lparr>st_tick := Suc (st_tick t)\<rparr>)"
    by (rule sign_in_authenticates [OF assms(1) f u(3) assms(4,5,6) v]) (use u(2) in simp_all)
  then show ?thesis using r0(2,3) eq m(2) by (simp add: identity_of_def)
qed

end
