(* ===== verification/Fixtures.thy ===== *)
theory Fixtures
  imports Controllers Gateway RequestRaces Infra Seed UnitFacts SessionFacts
begin

text \<open>
  A concrete world for the witnesses: an outside with a readable hash, tokens that carry their payload,
  and a small database with two orgs, five users, a building, its units and one row of most tables. The
  hypotheses the other theories make about the outside (\<open>jwt_ok\<close>, \<open>argon2_ok\<close>) are proved of it, so
  they can hold, and the invariants hold in the database.
\<close>

section \<open>Tokens that carry their payload\<close>

text \<open>A string with its length in front, in unary.\<close>

definition put_string :: "string \<Rightarrow> string" where
  "put_string s = replicate (length s) CHR ''1'' @ CHR ''0'' # s"

fun leading :: "char \<Rightarrow> string \<Rightarrow> nat" where
  "leading c [] = 0"
| "leading c (d # ds) = (if d = c then Suc (leading c ds) else 0)"

definition get_string :: "string \<Rightarrow> string \<times> string" where
  "get_string v = (let n = leading (CHR ''1'') v; w = drop (Suc n) v in (take n w, drop n w))"

lemma leading_replicate: "d \<noteq> c \<Longrightarrow> leading c (replicate n c @ d # ds) = n"
  by (induction n) simp_all

lemma get_put_string [simp]: "get_string (put_string s @ r) = (s, r)"
  by (simp add: get_string_def put_string_def leading_replicate Let_def)

definition put_email :: "string option \<Rightarrow> string" where
  "put_email e = (case e of None \<Rightarrow> ''n'' | Some v \<Rightarrow> CHR ''s'' # put_string v)"

definition put_org :: "id js \<Rightarrow> string" where
  "put_org v = (case v of Undefined \<Rightarrow> ''u'' | Null \<Rightarrow> ''n'' | Val w \<Rightarrow> CHR ''v'' # put_string w)"

definition sample_sign :: "nat \<Rightarrow> string \<Rightarrow> int \<Rightarrow> jwt_payload \<Rightarrow> string" where
  "sample_sign t secret ttl p =
     put_string secret @ put_string (jwt_sub p) @ put_string (put_email (jwt_email p)) @ put_string (put_org (jwt_orgId p))"

definition sample_verify :: "nat \<Rightarrow> string \<Rightarrow> string \<Rightarrow> jwt_payload option" where
  "sample_verify t secret token =
     (let (k, r1) = get_string token; (sub, r2) = get_string r1; (mail, r3) = get_string r2; (org, r4) = get_string r3
      in if k \<noteq> secret \<or> r4 \<noteq> [] then None
         else Some \<lparr>jwt_sub = sub,
           jwt_email = (if hd mail = CHR ''s'' then Some (fst (get_string (tl mail))) else None),
           jwt_orgId = (if hd org = CHR ''v'' then Val (fst (get_string (tl org))) else if hd org = CHR ''n'' then Null else Undefined)\<rparr>)"

lemma sample_verify_sign: "sample_verify t2 secret (sample_sign t1 secret ttl p) = Some p"
  using get_put_string [of _ "[]"]
  by (cases p) (auto simp: sample_verify_def sample_sign_def put_email_def put_org_def Let_def split: option.splits js.splits)

definition drop_bearer :: "string option \<Rightarrow> string option" where
  "drop_bearer h = (case h of None \<Rightarrow> None
     | Some v \<Rightarrow> if take 7 v = ''Bearer '' \<and> length v > 7 then Some (drop 7 v) else None)"

definition x0 :: ext where
  "x0 = \<lparr>x_uuid = (\<lambda>t. ''id'' @ replicate t CHR ''x''), x_clock = (\<lambda>t. 1767225600000 + int t),
     x_randomBytes = (\<lambda>t n. replicate n (t mod 256)), x_hash = (\<lambda>t p. CHR ''#'' # p),
     x_verify = (\<lambda>h p. h = CHR ''#'' # p), x_sign = sample_sign, x_jwtVerify = sample_verify,
     x_extractJwt = drop_bearer, x_parseDate = (\<lambda>v. None), x_decimal = (\<lambda>q. []), x_numeric = Some,
     x_isEmail = (\<lambda>v. CHR ''@'' \<in> set v), x_isUrl = (\<lambda>v. v \<noteq> [])\<rparr>"

lemma argon2_x0: "argon2_ok x0"
  by (simp add: argon2_ok_def x0_def)

lemma jwt_x0: "jwt_ok x0"
  by (simp add: jwt_ok_def x0_def sample_verify_sign)

lemma uuid_x0 [simp]: "x_uuid x0 t = ''id'' @ replicate t CHR ''x''"
  by (simp add: x0_def)

lemma clock_x0 [simp]: "x_clock x0 t = 1767225600000 + int t"
  by (simp add: x0_def)

section \<open>Settings\<close>

definition e0 :: env_data where
  "e0 = \<lparr>NODE_ENV = ENV_development, PORT = 3000, DATABASE_URL = ''db'', JWT_ACCESS_SECRET = ''access'',
     JWT_REFRESH_SECRET = ''refresh'', JWT_ACCESS_TTL = 900, JWT_REFRESH_TTL = 604800, PGOPTIONS = None,
     RAW_PRISMA_APPLY_SESSION_TIMEOUTS = None, HTTP_BODY_LIMIT = None, THROTTLE_TTL = None, THROTTLE_LIMIT = None,
     THROTTLE_AUTH_TTL = None, THROTTLE_AUTH_LIMIT = None, DEFAULT_PAGE_SIZE = None, MAX_PAGE_SIZE = None,
     RAW_REQUEST_METRICS_ENABLED = Some ''true'', REQUEST_METRICS_INTERVAL_MS = None,
     REQUEST_METRICS_SAMPLE_SIZE = Some 2, HTTP_SERVER_TIMEOUT_MS = None, HTTP_HEADERS_TIMEOUT_MS = None,
     HTTP_KEEP_ALIVE_TIMEOUT_MS = None, WS_CORS_ORIGINS = None, RAW_WS_LOG_CONNECTIONS = None,
     RAW_QUEUE_ENABLED = None, QUEUE_HOST = None, QUEUE_PORT = None, QUEUE_PASSWORD = None,
     STORAGE_ENDPOINT = None, STORAGE_REGION = None, STORAGE_BUCKET = None, STORAGE_ACCESS_KEY_ID = None,
     STORAGE_SECRET_ACCESS_KEY = None, PLATFORM_API_KEY = Some ''pk'', PLATFORM_SUPERADMIN_EMAIL = None,
     PLATFORM_SUPERADMIN_PASSWORD = None\<rparr>"

section \<open>The database\<close>

definition sample_user :: "id \<Rightarrow> id option \<Rightarrow> user" where
  "sample_user i org = \<lparr>usr_id = i, usr_email = i @ ''@x'', usr_passwordHash = ''#pw'', usr_refreshTokenHash = None,
     usr_name = Some i, usr_avatarUrl = None, usr_phone = None, usr_orgId = org, usr_mustChangePassword = False,
     usr_isActive = True, usr_createdAt = 0, usr_updatedAt = 0\<rparr>"

definition sample_org :: "id \<Rightarrow> org" where
  "sample_org i = \<lparr>org_id = i, org_name = i, org_logoUrl = None, org_businessName = None, org_businessType = None,
     org_tradeLicenseNumber = None, org_vatRegistrationNumber = None, org_registeredOfficeAddress = None,
     org_city = None, org_officePhoneNumber = None, org_businessEmailAddress = None, org_website = None,
     org_ownerName = None, org_createdAt = 0, org_updatedAt = 0\<rparr>"

definition sample_building :: "id \<Rightarrow> id \<Rightarrow> building" where
  "sample_building i org = \<lparr>bld_id = i, bld_orgId = org, bld_name = i, bld_city = ''Dubai'', bld_emirate = None,
     bld_country = ''ARE'', bld_timezone = ''Asia/Dubai'', bld_floors = None, bld_unitsCount = None,
     bld_createdAt = 0, bld_updatedAt = 0\<rparr>"

definition sample_unit :: "id \<Rightarrow> id \<Rightarrow> unit_row" where
  "sample_unit i b = \<lparr>unt_id = i, unt_buildingId = b, unt_label = i, unt_unitTypeId = None, unt_ownerId = None,
     unt_floor = None, unt_notes = None, unt_maintenancePayer = None, unt_unitSize = None, unt_unitSizeUnit = None,
     unt_bedrooms = None, unt_bathrooms = None, unt_balcony = None, unt_kitchenType = None, unt_furnishedStatus = None,
     unt_rentAnnual = None, unt_paymentFrequency = None, unt_securityDepositAmount = None,
     unt_serviceChargePerUnit = None, unt_vatApplicable = None, unt_electricityMeterNumber = None,
     unt_waterMeterNumber = None, unt_gasMeterNumber = None, unt_createdAt = 0, unt_updatedAt = 0\<rparr>"

definition sample_request :: "id \<Rightarrow> RequestStatus \<Rightarrow> id option \<Rightarrow> request" where
  "sample_request i status assignee = \<lparr>req_id = i, req_orgId = ''org1'', req_buildingId = ''b1'', req_unitId = Some ''u1'',
     req_createdByUserId = ''res'', req_title = ''Leak'', req_description = None, req_status = status, req_type = None,
     req_priority = None, req_assignedToUserId = assignee, req_assignedAt = map_option (\<lambda>a. 5) assignee,
     req_completedAt = None, req_canceledAt = None, req_createdAt = 1, req_updatedAt = 1\<rparr>"

definition sample_notification :: "id \<Rightarrow> date \<Rightarrow> notification" where
  "sample_notification i t = \<lparr>ntf_id = i, ntf_orgId = ''org1'', ntf_recipientUserId = ''mgr'', ntf_type = REQUEST_CREATED,
     ntf_title = ''New'', ntf_body = None, ntf_data = JNull, ntf_readAt = None, ntf_dismissedAt = None, ntf_createdAt = t\<rparr>"

definition sample_role :: "string \<Rightarrow> role" where
  "sample_role k = \<lparr>rol_id = CHR ''r'' # k, rol_key = k, rol_name = k, rol_description = None, rol_isSystem = True,
     rol_createdAt = 0, rol_updatedAt = 0\<rparr>"

definition sample_permission :: "string \<Rightarrow> permission" where
  "sample_permission k = \<lparr>prm_id = CHR ''p'' # k, prm_key = k, prm_name = k, prm_description = None,
     prm_createdAt = 0, prm_updatedAt = 0\<rparr>"

definition sample_assignment :: "id \<Rightarrow> BuildingAssignmentType \<Rightarrow> assignment" where
  "sample_assignment u ty = \<lparr>asg_id = CHR ''a'' # u, asg_buildingId = ''b1'', asg_userId = u, asg_type = ty,
     asg_createdAt = 0, asg_updatedAt = 0\<rparr>"

text \<open>
  \<open>adm\<close> is an org admin, \<open>mgr\<close> and \<open>stf\<close> are the manager and a staff member of \<open>b1\<close>, \<open>res\<close> lives in
  \<open>u1\<close>, \<open>plt\<close> is a platform user; \<open>u2\<close> is vacant.
\<close>

definition db0 :: db where
  "db0 = \<lparr>users = [sample_user ''adm'' (Some ''org1''), sample_user ''mgr'' (Some ''org1''),
       sample_user ''stf'' (Some ''org1''), sample_user ''res'' (Some ''org1''), sample_user ''plt'' None],
     orgs = [sample_org ''org1'', sample_org ''org2''], buildings = [sample_building ''b1'' ''org1'', sample_building ''b2'' ''org2''],
     units = [sample_unit ''u1'' ''b1'', sample_unit ''u2'' ''b1''],
     amenities = [], unitAmenities = [], unitTypes = [], owners = [],
     assignments = [sample_assignment ''mgr'' MANAGER, sample_assignment ''stf'' STAFF],
     occupancies = [\<lparr>occ_id = ''o1'', occ_buildingId = ''b1'', occ_unitId = ''u1'', occ_residentUserId = ''res'',
       occ_status = ACTIVE, occ_startAt = 0, occ_endAt = None, occ_createdAt = 0, occ_updatedAt = 0\<rparr>],
     requests = [sample_request ''q1'' OPEN None, sample_request ''q2'' IN_PROGRESS (Some ''stf'')],
     request_comments = [], attachments = [],
     notifications = [sample_notification ''n1'' 10, sample_notification ''n2'' 20, sample_notification ''n3'' 20],
     roles = map sample_role [''org_admin'', ''admin'', ''resident'', ''super_admin'', ''platform_superadmin''],
     permissions = map sample_permission [''users.read'', ''users.write'', ''requests.assign'', ''platform.org.create''],
     rolePermissions = [\<lparr>rpm_roleId = ''rorg_admin'', rpm_permissionId = ''pusers.read''\<rparr>,
       \<lparr>rpm_roleId = ''rorg_admin'', rpm_permissionId = ''pusers.write''\<rparr>,
       \<lparr>rpm_roleId = ''rplatform_superadmin'', rpm_permissionId = ''pplatform.org.create''\<rparr>],
     userRoles = [\<lparr>uro_userId = ''adm'', uro_roleId = ''rorg_admin''\<rparr>, \<lparr>uro_userId = ''res'', uro_roleId = ''rresident''\<rparr>,
       \<lparr>uro_userId = ''plt'', uro_roleId = ''rplatform_superadmin''\<rparr>],
     userPermissions = [\<lparr>upm_userId = ''adm'', upm_permissionId = ''pusers.write'', upm_effect = DENY\<rparr>]\<rparr>"

definition st0 :: st where
  "st0 = \<lparr>st_db = db0, st_tick = 0, st_events = [], st_sent = [], st_server = True\<rparr>"

definition as_user :: "id \<Rightarrow> auth_user option" where
  "as_user i = Some \<lparr>aut_sub = i, aut_email = None, aut_orgId = Some ''org1''\<rparr>"

lemmas sample_defs = sample_user_def sample_org_def sample_building_def sample_unit_def sample_request_def
  sample_notification_def sample_role_def sample_permission_def sample_assignment_def

lemma st0_db [simp]: "st_db st0 = db0"
  by (simp add: st0_def)

section \<open>The invariants hold\<close>

lemma tenant_db0: "tenant_ok db0"
  by code_simp

lemma acl_db0: "acl_ok db0"
  by code_simp

lemma users_db0: "users_ok db0"
  by (auto simp: users_ok_def db0_def sample_defs)

lemma requests_db0: "requests_ok db0"
  by code_simp

lemma links_db0: "links_ok db0"
  by code_simp

lemma notifications_db0: "notifications_ok db0"
  by code_simp

lemma access_db0: "access_ok db0"
  by code_simp

end
