(* ===== verification/RequestProperties.thy ===== *)
theory RequestProperties
  imports Fixtures
begin

text \<open>
  Properties of the maintenance requests: the life cycle over any run of the system, the outcome of
  the operations on every branch, that every open request can be completed, and that a failing operation
  leaves nothing behind.
\<close>

section \<open>Evaluating an action on the sample state\<close>

text \<open>An action that returns at a state, for the witnesses.\<close>

definition returns :: "'a op \<Rightarrow> st \<Rightarrow> bool" where
  "returns m s \<longleftrightarrow> (case fst (m s) of Inl e \<Rightarrow> False | Inr v \<Rightarrow> True)"

lemma returnsE:
  assumes "returns m s"
  obtains v t where "m s = (Inr v, t)"
  using assms by (cases "m s") (auto simp: returns_def split: sum.splits)

section \<open>Runs of the system\<close>

text \<open>
  C2. Over any sequence of operations of the system, requests are never lost, their identity, org,
  building, unit and creator never change, each stays consistent (dates agree with the status), its
  status moves only along the status machine, and a completed or canceled request stays so.
\<close>

theorem request_history:
  assumes "requests_ok (st_db s)"
  shows "requests_ok (st_db (run_ops x e ops s)) \<and>
    (\<forall>r \<in> set (requests (st_db s)). \<exists>q \<in> set (requests (st_db (run_ops x e ops s))).
       same_request r q \<and> status_step\<^sup>*\<^sup>* (req_status r) (req_status q) \<and>
       (req_status r \<in> {COMPLETED, CANCELED} \<longrightarrow> req_status q = req_status r))"
  using run_ops_requests [OF assms, of x e ops] steps_from_closed
  by (fastforce simp: request_moved_def)

lemma request_history_witness:
  "requests_ok (st_db (run_ops x0 e0 [SetRequestStatus (as_user ''stf'') ''b1'' ''q2'' COMPLETED,
     CancelBuildingRequest (as_user ''mgr'') ''b1'' ''q2''] st0))"
  using request_history [OF requests_db0 [folded st0_db]] by blast

section \<open>Assignment\<close>

text \<open>What the caller, the request and the staff member must be for an assignment to go through.\<close>

definition assign_allowed :: "db \<Rightarrow> auth_user option \<Rightarrow> id \<Rightarrow> id \<Rightarrow> id \<Rightarrow> bool" where
  "assign_allowed d user b i staffId \<longleftrightarrow> (case (scope_of user, sub_of user) of
       (Some orgId, Some userId) \<Rightarrow>
         buildingInOrg d b orgId \<noteq> None \<and> assigned_types d b userId \<noteq> {STAFF} \<and>
         (case findByIdForBuilding d orgId b i of None \<Rightarrow> False | Some w \<Rightarrow> req_status (rqv_row w) \<in> {OPEN, ASSIGNED}) \<and>
         (case findUser d staffId of None \<Rightarrow> False | Some u \<Rightarrow> usr_isActive u \<and> usr_orgId u = Some orgId) \<and>
         (b, staffId, STAFF) \<in> assignment_key ` set (assignments d)
     | _ \<Rightarrow> False)"

lemma staff_found: "findStaffAssignment d b u \<noteq> None \<longleftrightarrow> (b, u, STAFF) \<in> assignment_key ` set (assignments d)"
  by (auto simp: findStaffAssignment_def findFirst_None_iff assignment_key_def image_iff simp del: not_None_eq)

lemma assign_returns:
  assumes "assign_allowed (st_db s) user b i staffId"
  shows "\<exists>v t. assignRequest x user b i staffId s = (Inr v, t)"
proof -
  obtain orgId userId w u where a: "scope_of user = Some orgId" "sub_of user = Some userId"
    "buildingInOrg (st_db s) b orgId \<noteq> None" "getBuildingAssignmentType (st_db s) b userId \<noteq> Some STAFF"
    "findByIdForBuilding (st_db s) orgId b i = Some w" "req_status (rqv_row w) = OPEN \<or> req_status (rqv_row w) = ASSIGNED"
    "findUser (st_db s) staffId = Some u" "usr_isActive u" "usr_orgId u = Some orgId" "findStaffAssignment (st_db s) b staffId \<noteq> None"
    using assms by (auto simp: assign_allowed_def staff_found [symmetric] getBuildingAssignmentType_staff [symmetric] split: option.splits)
  have i: "findFirst (\<lambda>r. req_id r = req_id (rqv_row w)) (requests (st_db s)) \<noteq> None"
    using findByIdForBuilding_SomeD(2) [OF a(5)] by (auto simp: findFirst_None_key)
  have "usr_id u = staffId" using a(7) by (blast dest: findUser_SomeD)
  then show ?thesis
    using a i scope_nonempty [OF a(1)]
    by (auto simp: assignRequest_def caller_run assertBuildingInOrg_run query_run bind_some_or bind_require Let_def
        bind_transaction_Inr draw_run updateById_run emitEvent_run ret_run)
qed

text \<open>
  C6. Assigning a request to a staff member succeeds exactly when the caller has an org and is not
  plain staff of the building, the building is the caller's org's, the request is in it and is open or
  assigned, and the staff member is active, of the org and assigned to the building as staff. Then the
  one request gets the assignee, the time and the status \<open>ASSIGNED\<close>, and one event is emitted for it;
  otherwise the database is unchanged.
\<close>

theorem assign_request_outcome:
  "case assignRequest x user b i staffId s of
     (Inl e, t) \<Rightarrow> \<not> assign_allowed (st_db s) user b i staffId \<and> st_db t = st_db s
   | (Inr v, t) \<Rightarrow> assign_allowed (st_db s) user b i staffId \<and>
       (\<exists>k. st_db t = revise (x_clock x (Suc k)) i (\<lambda>r. r\<lparr>req_assignedToUserId := Some staffId,
          req_assignedAt := Some (x_clock x k), req_status := ASSIGNED\<rparr>) (st_db s)) \<and>
       (\<exists>userId. sub_of user = Some userId \<and> st_events t = st_events s @ [(EV_ASSIGNED, event_of v userId None None)])"
proof (cases "assignRequest x user b i staffId s")
  case (Pair r t)
  show ?thesis
  proof (cases r)
    case (Inl e)
    then have "st_db t = st_db s" using Pair by (auto intro: atomicD atomic_requests)
    moreover have "\<not> assign_allowed (st_db s) user b i staffId"
      using assign_returns [of s user b i staffId x] Pair Inl by auto
    ultimately show ?thesis using Pair Inl by simp
  next
    case (Inr v)
    then have "assignRequest x user b i staffId s = (Inr v, t)" using Pair by simp
    then show ?thesis
      by (elim assignRequest_Inr) (auto simp: Pair Inr assign_allowed_def staff_found [symmetric] getBuildingAssignmentType_staff [symmetric])
  qed
qed

section \<open>Status updates\<close>

definition status_update_allowed :: "db \<Rightarrow> auth_user option \<Rightarrow> id \<Rightarrow> id \<Rightarrow> RequestStatus \<Rightarrow> bool" where
  "status_update_allowed d user b i status \<longleftrightarrow> (case (scope_of user, sub_of user) of
       (Some orgId, Some userId) \<Rightarrow>
         buildingInOrg d b orgId \<noteq> None \<and>
         (case findByIdForBuilding d orgId b i of None \<Rightarrow> False | Some w \<Rightarrow>
            status \<in> set (MAINTENANCE_STATUS_TRANSITIONS (req_status (rqv_row w))) \<and>
            (getBuildingAssignmentType d b userId = Some STAFF \<longrightarrow> req_assignedToUserId (rqv_row w) = Some userId))
     | _ \<Rightarrow> False)"

lemma status_update_returns:
  assumes "status_update_allowed (st_db s) user b i status"
  shows "\<exists>v t. updateRequestStatus x user b i status s = (Inr v, t)"
proof -
  obtain orgId userId w where a: "scope_of user = Some orgId" "sub_of user = Some userId"
    "buildingInOrg (st_db s) b orgId \<noteq> None" "findByIdForBuilding (st_db s) orgId b i = Some w"
    "status \<in> set (MAINTENANCE_STATUS_TRANSITIONS (req_status (rqv_row w)))"
    "\<not> (getBuildingAssignmentType (st_db s) b userId = Some STAFF \<and> req_assignedToUserId (rqv_row w) \<noteq> Some userId)"
    using assms by (auto simp: status_update_allowed_def split: option.splits)
  have i: "findFirst (\<lambda>r. req_id r = req_id (rqv_row w)) (requests (st_db s)) \<noteq> None"
    using findByIdForBuilding_SomeD(2) [OF a(4)] by (auto simp: findFirst_None_key)
  show ?thesis
    using a(1-5) a(6) i scope_nonempty [OF a(1)]
    by (cases "status = COMPLETED") (auto simp: updateRequestStatus_def caller_run assertBuildingInOrg_run query_run
        bind_some_or bind_require Let_def bind_transaction_Inr bind_bind bind_ret draw_run updateById_run emitEvent_run ret_run)
qed

text \<open>
  C7. A status update succeeds exactly when the building is the caller's org's, the request is in it, the
  new status follows the current one in the transition table, and a staff member only moves a request
  assigned to them. Then the request gets the status, its completion date is set exactly on completion,
  and one event is emitted; otherwise the database is unchanged.
\<close>

theorem status_update_outcome:
  "case updateRequestStatus x user b i status s of
     (Inl e, t) \<Rightarrow> \<not> status_update_allowed (st_db s) user b i status \<and> st_db t = st_db s
   | (Inr v, t) \<Rightarrow> status_update_allowed (st_db s) user b i status \<and>
       (\<exists>k w completedAt. w \<in> set (requests (st_db s)) \<and> req_id w = i \<and>
          (if status = COMPLETED then completedAt \<noteq> None else completedAt = req_completedAt w) \<and>
          st_db t = revise (x_clock x k) i (\<lambda>r. r\<lparr>req_status := status, req_completedAt := completedAt\<rparr>) (st_db s)) \<and>
       (\<exists>userId. sub_of user = Some userId \<and> st_events t = st_events s @ [(EV_STATUS_CHANGED, event_of v userId None None)])"
proof (cases "updateRequestStatus x user b i status s")
  case (Pair r t)
  show ?thesis
  proof (cases r)
    case (Inl e)
    then have "st_db t = st_db s" using Pair by (auto intro: atomicD atomic_requests)
    moreover have "\<not> status_update_allowed (st_db s) user b i status"
      using status_update_returns [of s user b i status x] Pair Inl by auto
    ultimately show ?thesis using Pair Inl by simp
  next
    case (Inr v)
    then have run: "updateRequestStatus x user b i status s = (Inr v, t)" using Pair by simp
    from run show ?thesis
    proof (rule updateRequestStatus_Inr, goal_cases)
      case (1 orgId userId w completedAt k)
      have w: "rqv_row w \<in> set (requests (st_db s))" "req_id (rqv_row w) = i" using findByIdForBuilding_SomeD [OF 1(4)] by blast+
      have "status_update_allowed (st_db s) user b i status" using 1(1-6) by (auto simp: status_update_allowed_def)
      moreover have "\<exists>k w completedAt. w \<in> set (requests (st_db s)) \<and> req_id w = i \<and>
          (if status = COMPLETED then completedAt \<noteq> None else completedAt = req_completedAt w) \<and>
          st_db t = revise (x_clock x k) i (\<lambda>r. r\<lparr>req_status := status, req_completedAt := completedAt\<rparr>) (st_db s)"
        by (intro exI [of _ k] exI [of _ "rqv_row w"] exI [of _ completedAt] conjI) (use w 1(7-9) in simp_all)
      ultimately show ?case using 1(2,10) Pair Inr by simp
    qed
  qed
qed

section \<open>Progress\<close>

lemma void_state: "snd (void m s) = snd (m s)"
  by (simp add: void_def bind_app ret_run split: prod.split sum.split)

lemma row_found:
  assumes "requests_ok d" "r \<in> set (requests d)"
  shows "\<exists>w. findByIdForBuilding d (req_orgId r) (req_buildingId r) (req_id r) = Some w \<and> rqv_row w = r"
proof -
  obtain w where w: "findByIdForBuilding d (req_orgId r) (req_buildingId r) (req_id r) = Some w"
    using assms(2) by (cases "findByIdForBuilding d (req_orgId r) (req_buildingId r) (req_id r)")
      (auto simp: findByIdForBuilding_def findFirst_None_iff)
  have "rqv_row w = r"
    using findByIdForBuilding_SomeD(2,3) [OF w] assms by (auto simp: requests_ok_def intro: distinct_map_eq)
  with w show ?thesis by blast
qed

lemma row_revised: "r \<in> set (requests d) \<Longrightarrow> (f r)\<lparr>req_updatedAt := now\<rparr> \<in> set (requests (revise now (req_id r) f d))"
  by (auto simp: revise_def set_updateMany image_iff intro!: bexI [of _ r])

text \<open>
  The tables the checks read beside the requests are the same.
\<close>

definition same_property :: "db \<Rightarrow> db \<Rightarrow> bool" where
  "same_property d e \<longleftrightarrow> users e = users d \<and> buildings e = buildings d \<and> assignments e = assignments d"

lemma same_property_revise: "same_property d (revise now i f d)"
  by (simp add: same_property_def revise_def)

text \<open>The people of a building who can take a request through: a manager, a staff member and the one who moves it.\<close>

definition can_assign :: "db \<Rightarrow> auth_user option \<Rightarrow> id \<Rightarrow> id \<Rightarrow> bool" where
  "can_assign d user orgId b \<longleftrightarrow> scope_of user = Some orgId \<and>
     (case sub_of user of None \<Rightarrow> False | Some i \<Rightarrow> assigned_types d b i \<noteq> {STAFF})"

definition staff_of :: "db \<Rightarrow> id \<Rightarrow> id \<Rightarrow> id \<Rightarrow> bool" where
  "staff_of d orgId b u \<longleftrightarrow> (case findUser d u of None \<Rightarrow> False | Some v \<Rightarrow> usr_isActive v \<and> usr_orgId v = Some orgId) \<and>
     (b, u, STAFF) \<in> assignment_key ` set (assignments d)"

definition can_move :: "db \<Rightarrow> auth_user option \<Rightarrow> id \<Rightarrow> id \<Rightarrow> id option \<Rightarrow> bool" where
  "can_move d user orgId b assignee \<longleftrightarrow> scope_of user = Some orgId \<and>
     (case sub_of user of None \<Rightarrow> False | Some i \<Rightarrow> assigned_types d b i = {STAFF} \<longrightarrow> assignee = Some i)"

lemma same_property_checks:
  assumes "same_property d e"
  shows "can_assign e user o1 b \<longleftrightarrow> can_assign d user o1 b" "staff_of e o1 b u \<longleftrightarrow> staff_of d o1 b u"
    "can_move e user o1 b k \<longleftrightarrow> can_move d user o1 b k" "buildingInOrg e b o1 = buildingInOrg d b o1"
  using assms by (auto simp: same_property_def can_assign_def staff_of_def can_move_def assigned_types_def
      findUser_def buildingInOrg_def split: option.splits)

lemma assign_step:
  assumes "requests_ok (st_db s)" "r \<in> set (requests (st_db s))" "req_status r \<in> {OPEN, ASSIGNED}"
    and "buildingInOrg (st_db s) (req_buildingId r) (req_orgId r) \<noteq> None"
    and "can_assign (st_db s) user (req_orgId r) (req_buildingId r)" "staff_of (st_db s) (req_orgId r) (req_buildingId r) staff"
  obtains t q where "snd (run_op x e (AssignRequest user (req_buildingId r) (req_id r) staff) s) = t"
    "requests_ok (st_db t)" "same_property (st_db s) (st_db t)" "q \<in> set (requests (st_db t))" "same_request r q"
    "req_status q = ASSIGNED" "req_assignedToUserId q = Some staff"
proof -
  have "assign_allowed (st_db s) user (req_buildingId r) (req_id r) staff"
    using assms row_found [OF assms(1,2)] by (auto simp: assign_allowed_def can_assign_def staff_of_def split: option.splits)
  then obtain v t where run: "assignRequest x user (req_buildingId r) (req_id r) staff s = (Inr v, t)"
    using assign_returns by blast
  then obtain k where d: "st_db t = revise (x_clock x (Suc k)) (req_id r) (\<lambda>r. r\<lparr>req_assignedToUserId := Some staff,
         req_assignedAt := Some (x_clock x k), req_status := ASSIGNED\<rparr>) (st_db s)" (is "_ = revise ?n _ ?f _")
    by (rule assignRequest_Inr)
  have "requests_ok (st_db t)"
    using sound_run_op [of x e "AssignRequest user (req_buildingId r) (req_id r) staff"] assms(1) run
    by (auto simp: sound_def void_state dest: spec [of _ s])
  moreover have "same_property (st_db s) (st_db t)" unfolding d by (rule same_property_revise)
  ultimately show thesis
    using that [of t "(?f r)\<lparr>req_updatedAt := ?n\<rparr>"] row_revised [OF assms(2), of ?n ?f] run
    by (simp add: void_state d same_request_def)
qed

lemma move_step:
  assumes "requests_ok (st_db s)" "r \<in> set (requests (st_db s))" "status \<in> set (MAINTENANCE_STATUS_TRANSITIONS (req_status r))"
    and "buildingInOrg (st_db s) (req_buildingId r) (req_orgId r) \<noteq> None"
    and "can_move (st_db s) user (req_orgId r) (req_buildingId r) (req_assignedToUserId r)"
  obtains t q where "snd (run_op x e (SetRequestStatus user (req_buildingId r) (req_id r) status) s) = t"
    "requests_ok (st_db t)" "same_property (st_db s) (st_db t)" "q \<in> set (requests (st_db t))" "same_request r q"
    "req_status q = status" "req_assignedToUserId q = req_assignedToUserId r"
proof -
  have "status_update_allowed (st_db s) user (req_buildingId r) (req_id r) status"
    using assms row_found [OF assms(1,2)] by (auto simp: status_update_allowed_def can_move_def getBuildingAssignmentType_staff split: option.splits)
  then obtain v t where run: "updateRequestStatus x user (req_buildingId r) (req_id r) status s = (Inr v, t)"
    using status_update_returns by blast
  then obtain k c where d: "st_db t = revise (x_clock x k) (req_id r) (\<lambda>r. r\<lparr>req_status := status, req_completedAt := c\<rparr>) (st_db s)"
      (is "_ = revise ?n _ ?f _")
    by (rule updateRequestStatus_Inr)
  have "requests_ok (st_db t)"
    using sound_run_op [of x e "SetRequestStatus user (req_buildingId r) (req_id r) status"] assms(1) run
    by (auto simp: sound_def void_state dest: spec [of _ s])
  moreover have "same_property (st_db s) (st_db t)" unfolding d by (rule same_property_revise)
  ultimately show thesis
    using that [of t "(?f r)\<lparr>req_updatedAt := ?n\<rparr>"] row_revised [OF assms(2), of ?n ?f] run
    by (simp add: void_state d same_request_def)
qed

text \<open>
  C23. No open request gets stuck: as long as it is neither completed nor canceled, a caller who may assign, a
  staff member of its building and a caller who may move it bring it to \<open>COMPLETED\<close> with its completion
  date, by assigning it (also anew), starting it and completing it, whatever its status was.
\<close>

theorem request_can_complete:
  assumes "requests_ok (st_db s)" "r \<in> set (requests (st_db s))" "req_status r \<notin> {COMPLETED, CANCELED}"
    and "buildingInOrg (st_db s) (req_buildingId r) (req_orgId r) \<noteq> None"
    and "can_assign (st_db s) manager (req_orgId r) (req_buildingId r)"
    and "staff_of (st_db s) (req_orgId r) (req_buildingId r) staff"
    and "can_move (st_db s) mover (req_orgId r) (req_buildingId r)
      (if req_status r = IN_PROGRESS then req_assignedToUserId r else Some staff)"
  shows "\<exists>q \<in> set (requests (st_db (run_ops x e
      ((if req_status r = IN_PROGRESS then []
        else [AssignRequest manager (req_buildingId r) (req_id r) staff,
              SetRequestStatus mover (req_buildingId r) (req_id r) IN_PROGRESS]) @
       [SetRequestStatus mover (req_buildingId r) (req_id r) COMPLETED]) s))).
    same_request r q \<and> req_status q = COMPLETED \<and> req_completedAt q \<noteq> None"
proof -
  have finish: "\<exists>q \<in> set (requests (st_db (snd (run_op x e (SetRequestStatus mover (req_buildingId p) (req_id p) COMPLETED) w)))).
      same_request p q \<and> req_status q = COMPLETED \<and> req_completedAt q \<noteq> None"
    if "requests_ok (st_db w)" "p \<in> set (requests (st_db w))" "req_status p = IN_PROGRESS"
      "buildingInOrg (st_db w) (req_buildingId p) (req_orgId p) \<noteq> None"
      "can_move (st_db w) mover (req_orgId p) (req_buildingId p) (req_assignedToUserId p)" for w p
    by (rule move_step [OF that(1,2) _ that(4,5), of COMPLETED x e])
      (use that(3) in \<open>auto simp: requests_ok_def lifecycle_ok_def\<close>)
  show ?thesis
  proof (cases "req_status r = IN_PROGRESS")
    case True
    then show ?thesis using finish [OF assms(1,2) True assms(4)] assms(7) by simp
  next
    case False
    then have "req_status r \<in> {OPEN, ASSIGNED}" using assms(3) by (cases "req_status r") simp_all
    then obtain t p where t: "snd (run_op x e (AssignRequest manager (req_buildingId r) (req_id r) staff) s) = t"
      "requests_ok (st_db t)" "same_property (st_db s) (st_db t)" "p \<in> set (requests (st_db t))" "same_request r p"
      "req_status p = ASSIGNED" "req_assignedToUserId p = Some staff"
      by (rule assign_step [OF assms(1,2) _ assms(4-6)])
    have p: "req_id p = req_id r" "req_buildingId p = req_buildingId r" "req_orgId p = req_orgId r"
      using t(5) by (simp_all add: same_request_def)
    obtain w q where w: "snd (run_op x e (SetRequestStatus mover (req_buildingId p) (req_id p) IN_PROGRESS) t) = w"
      "requests_ok (st_db w)" "same_property (st_db t) (st_db w)" "q \<in> set (requests (st_db w))" "same_request p q"
      "req_status q = IN_PROGRESS" "req_assignedToUserId q = Some staff"
      by (rule move_step [OF t(2,4), of IN_PROGRESS mover x e])
        (use assms(4,7) False t(6,7) p same_property_checks [OF t(3)] in auto)
    have q: "req_id q = req_id r" "req_buildingId q = req_buildingId r" "req_orgId q = req_orgId r"
      using w(5) p by (simp_all add: same_request_def)
    have "buildingInOrg (st_db w) (req_buildingId q) (req_orgId q) \<noteq> None"
      "can_move (st_db w) mover (req_orgId q) (req_buildingId q) (req_assignedToUserId q)"
      using assms(4,7) False q w(7) same_property_checks [OF t(3)] same_property_checks [OF w(3)] by simp_all
    from finish [OF w(2,4,6) this] obtain z where z: "z \<in> set (requests (st_db (snd (run_op x e
        (SetRequestStatus mover (req_buildingId r) (req_id r) COMPLETED) w))))"
      "same_request q z" "req_status z = COMPLETED" "req_completedAt z \<noteq> None" unfolding q by blast
    have "same_request r z" using t(5) w(5) z(2) same_request_trans by blast
    with z False t(1) w(1) p show ?thesis by (intro bexI [of _ z]) simp_all
  qed
qed

lemma request_can_complete_witness:
  "\<exists>q \<in> set (requests (st_db (run_ops x0 e0 [AssignRequest (as_user ''mgr'') ''b1'' ''q1'' ''stf'',
      SetRequestStatus (as_user ''stf'') ''b1'' ''q1'' IN_PROGRESS, SetRequestStatus (as_user ''stf'') ''b1'' ''q1'' COMPLETED] st0))).
     req_id q = ''q1'' \<and> req_status q = COMPLETED \<and> req_completedAt q \<noteq> None"
proof -
  let ?r = "sample_request ''q1'' OPEN None"
  have "requests_ok (st_db st0)" using requests_db0 by simp
  moreover have "?r \<in> set (requests (st_db st0))" by (simp add: db0_def)
  moreover have "buildingInOrg (st_db st0) ''b1'' ''org1'' \<noteq> None" by code_simp
  moreover have "can_assign (st_db st0) (as_user ''mgr'') ''org1'' ''b1''" "staff_of (st_db st0) ''org1'' ''b1'' ''stf''"
    "can_move (st_db st0) (as_user ''stf'') ''org1'' ''b1'' (Some ''stf'')"
    by code_simp+
  ultimately show ?thesis
    using request_can_complete [of st0 ?r "as_user ''mgr''" "''stf''" "as_user ''stf''" x0 e0]
    by (simp add: sample_request_def same_request_def) blast
qed

section \<open>Interleaved updates\<close>

text \<open>
  C9. Whatever the order in which the reads and the writes of editing, assigning, moving and canceling
  operations interleave, with any other operations between them, no request is lost or changes its
  identity. When moreover no two of them overlap on one request, every request stays consistent, moves
  only along the status machine, and stays closed once it is closed.
\<close>

theorem interleaved_updates:
  assumes "requests_ok (st_db s)" "race_reach serial x e us (start_race s) w"
  shows "(\<forall>r \<in> set (requests (st_db s)). \<exists>q \<in> set (requests (st_db (rce_st w))). same_request r q) \<and>
    (serial \<longrightarrow> requests_ok (st_db (rce_st w)) \<and>
       (\<forall>r \<in> set (requests (st_db s)). \<exists>q \<in> set (requests (st_db (rce_st w))).
          same_request r q \<and> status_step\<^sup>*\<^sup>* (req_status r) (req_status q) \<and>
          (req_status r \<in> {COMPLETED, CANCELED} \<longrightarrow> req_status q = req_status r)))"
proof (intro conjI impI)
  show "\<forall>r \<in> set (requests (st_db s)). \<exists>q \<in> set (requests (st_db (rce_st w))). same_request r q"
    using race_remembers [OF assms(2)] by (simp add: remembers_def)
  assume serial
  then have "race_reach True x e us (start_race s) w" using assms(2) by simp
  note safe = serial_race_safe [OF assms(1) this]
  show "requests_ok (st_db (rce_st w))" using safe by (simp add: race_ok_def)
  show "\<forall>r \<in> set (requests (st_db s)). \<exists>q \<in> set (requests (st_db (rce_st w))).
      same_request r q \<and> status_step\<^sup>*\<^sup>* (req_status r) (req_status q) \<and>
      (req_status r \<in> {COMPLETED, CANCELED} \<longrightarrow> req_status q = req_status r)"
    using conjunct2 [OF safe] steps_from_closed by (fastforce simp: request_moved_def)
qed

definition finish_q2 :: "update list" where
  "finish_q2 = [MoveStatus (as_user ''stf'') ''b1'' ''q2'' COMPLETED, CancelOwn (as_user ''res'') ''q2'']"

lemma interleaved_updates_witness:
  "\<exists>w p. rce_stage w 0 = Planned p \<and> race_reach True x0 e0 finish_q2 (start_race st0) w \<and> requests_ok (st_db (rce_st w))"
proof -
  have "returns (plan (finish_q2 ! 0)) st0" by code_simp
  then obtain p t where p: "plan (finish_q2 ! 0) st0 = (Inr p, t)" by (rule returnsE)
  let ?w = "(start_race st0)\<lparr>rce_st := t, rce_stage := (rce_stage (start_race st0))(0 := Planned p)\<rparr>"
  have "race_step True x0 e0 finish_q2 (start_race st0) ?w"
    by (rule race_step.read) (use p in \<open>simp_all add: start_race_def finish_q2_def quiet_def\<close>)
  then have r: "race_reach True x0 e0 finish_q2 (start_race st0) ?w" by (simp add: race_reach_def)
  have "requests_ok (st_db st0)" using requests_db0 by (simp only: st0_db)
  from interleaved_updates [OF this r] r show ?thesis by (intro exI [of _ ?w] exI [of _ p]) simp
qed

lemma plan_completion:
  assumes "status_update_allowed (st_db s) staff b i COMPLETED"
  obtains w orgId p where "plan (MoveStatus staff b i COMPLETED) s = (Inr p, s)" "findByIdForBuilding (st_db s) orgId b i = Some w"
    "req_status (rqv_row w) = IN_PROGRESS" "pln_change p = MoveTo COMPLETED (req_completedAt (rqv_row w))"
proof -
  obtain orgId userId w where a: "scope_of staff = Some orgId" "sub_of staff = Some userId"
    "buildingInOrg (st_db s) b orgId \<noteq> None" "findByIdForBuilding (st_db s) orgId b i = Some w"
    "COMPLETED \<in> set (MAINTENANCE_STATUS_TRANSITIONS (req_status (rqv_row w)))"
    "\<not> (getBuildingAssignmentType (st_db s) b userId = Some STAFF \<and> req_assignedToUserId (rqv_row w) \<noteq> Some userId)"
    using assms by (auto simp: status_update_allowed_def split: option.splits)
  let ?p = "\<lparr>pln_id = req_id (rqv_row w), pln_change = MoveTo COMPLETED (req_completedAt (rqv_row w)), pln_actor = userId,
      pln_event = Some EV_STATUS_CHANGED\<rparr>"
  have "plan (MoveStatus staff b i COMPLETED) s = (Inr ?p, s)"
    using a(1-5) a(6) scope_nonempty [OF a(1)]
    by (auto simp: plan_status_def caller_run assertBuildingInOrg_run query_run bind_some_or bind_require Let_def ret_run)
  moreover have "req_status (rqv_row w) = IN_PROGRESS" using a(5) by (cases "req_status (rqv_row w)") simp_all
  ultimately show thesis using a(4) that [of ?p orgId w] by simp
qed

text \<open>
  C25. The operations do overlap, and then the machine breaks: while staff may complete a request, its
  creator's cancellation can read it before the completion commits and write after it. The request is
  then seen completed and later canceled, with the date of its completion still set.
\<close>

theorem cancel_overtakes_completion:
  assumes "requests_ok (st_db s)" "status_update_allowed (st_db s) staff b i COMPLETED"
    and "scope_of user = Some orgId" "sub_of user = Some userId" "findByIdForCreator (st_db s) orgId userId i \<noteq> None"
  shows "\<exists>w1 w2. race_reach False x e [MoveStatus staff b i COMPLETED, CancelOwn user i] (start_race s) w1 \<and>
    race_reach False x e [MoveStatus staff b i COMPLETED, CancelOwn user i] w1 w2 \<and>
    (\<exists>r \<in> set (requests (st_db (rce_st w1))). req_id r = i \<and> req_status r = COMPLETED) \<and>
    (\<exists>r \<in> set (requests (st_db (rce_st w2))). req_id r = i \<and> req_status r = CANCELED \<and> req_completedAt r \<noteq> None)"
proof -
  obtain w bo p where p: "plan (MoveStatus staff b i COMPLETED) s = (Inr p, s)" "findByIdForBuilding (st_db s) bo b i = Some w"
    "req_status (rqv_row w) = IN_PROGRESS" "pln_change p = MoveTo COMPLETED (req_completedAt (rqv_row w))"
    using assms(2) by (rule plan_completion)
  obtain v where v: "findByIdForCreator (st_db s) orgId userId i = Some v" using assms(5) by blast
  have "rqv_row v = rqv_row w"
    using found_row(1) [OF v] found_row(2) [OF p(2)] assms(1) by (auto simp: requests_ok_def intro: distinct_map_eq)
  then have "plan (CancelOwn user i) s = (Inr \<lparr>pln_id = req_id (rqv_row v), pln_change = CancelIt, pln_actor = userId,
      pln_event = Some EV_CANCELED\<rparr>, s)"
    using assms(3,4) v p(3) by (simp add: plan_cancel_own_def caller_run query_run bind_some_or bind_require Let_def ret_run)
  from stale_cancel [OF p(1) this p(4)] show ?thesis by simp
qed

lemma cancel_overtakes_completion_witness:
  "\<exists>w1 w2. race_reach False x0 e0 finish_q2 (start_race st0) w1 \<and> race_reach False x0 e0 finish_q2 w1 w2 \<and>
    (\<exists>r \<in> set (requests (st_db (rce_st w1))). req_id r = ''q2'' \<and> req_status r = COMPLETED) \<and>
    (\<exists>r \<in> set (requests (st_db (rce_st w2))). req_id r = ''q2'' \<and> req_status r = CANCELED \<and> req_completedAt r \<noteq> None)"
  unfolding finish_q2_def
proof (rule cancel_overtakes_completion)
  show "requests_ok (st_db st0)" using requests_db0 by (simp only: st0_db)
  show "status_update_allowed (st_db st0) (as_user ''stf'') ''b1'' ''q2'' COMPLETED" "scope_of (as_user ''res'') = Some ''org1''"
    "sub_of (as_user ''res'') = Some ''res''" "findByIdForCreator (st_db st0) ''org1'' ''res'' ''q2'' \<noteq> None"
    by code_simp+
qed

section \<open>Creation\<close>

text \<open>
  C26. A resident's new request belongs to the building and unit of their active occupancy, whose building is
  in the org of the caller's token; it is open and unassigned, its id is new, type and priority are the
  normalised ones, no other request changes, and one event announces it.
\<close>

theorem request_creation:
  assumes "createResidentRequest x user dto s = (Inr v, t)"
  shows "\<exists>orgId userId occ bld. scope_of user = Some orgId \<and> sub_of user = Some userId \<and>
    findAssignedActiveOccupancy (st_db s) userId = Some (occ, Some bld) \<and> bld_orgId bld = orgId \<and>
    requests (st_db t) = requests (st_db s) @ [rqv_row v] \<and> req_id (rqv_row v) \<notin> req_id ` set (requests (st_db s)) \<and>
    req_orgId (rqv_row v) = orgId \<and> req_createdByUserId (rqv_row v) = userId \<and>
    req_buildingId (rqv_row v) = occ_buildingId occ \<and> req_unitId (rqv_row v) = Some (occ_unitId occ) \<and>
    req_title (rqv_row v) = crr_title dto \<and> req_type (rqv_row v) = normalizeType (crr_type dto) \<and>
    req_priority (rqv_row v) = normalizePriority (crr_priority dto) \<and>
    req_status (rqv_row v) = OPEN \<and> lifecycle_ok (rqv_row v) \<and>
    st_events t = st_events s @ [(EV_CREATED, event_of v userId None None)]"
  using assms
proof (rule createResidentRequest_Inr, goal_cases)
  case (1 orgId userId occ bld)
  then show ?case
    by (intro exI [of _ orgId] exI [of _ userId] exI [of _ occ] exI [of _ bld]) (simp add: lifecycle_ok_def)
qed

definition dto0 :: create_resident_request_dto where
  "dto0 = \<lparr>crr_title = ''Broken tap'', crr_description = None, crr_type = Some ''PLUMBING_AC_HEATING'',
     crr_priority = Some ''HIGH'',
     crr_attachments = Some [\<lparr>atn_fileName = ''a.png'', atn_mimeType = ''image/png'', atn_sizeBytes = 3, atn_url = ''u''\<rparr>]\<rparr>"

lemma request_creation_witness:
  "\<exists>v t. createResidentRequest x0 (as_user ''res'') dto0 st0 = (Inr v, t) \<and> requests (st_db t) = requests db0 @ [rqv_row v]"
proof -
  have "returns (createResidentRequest x0 (as_user ''res'') dto0) st0" by code_simp
  then obtain v t where r: "createResidentRequest x0 (as_user ''res'') dto0 st0 = (Inr v, t)" by (rule returnsE)
  then show ?thesis using request_creation [OF r] by auto
qed

section \<open>Failures\<close>

lemma atomic_onboard: "atomic (onboard x user b dto)"
  unfolding onboard_def by (intro frame)

lemma atomic_provision: "atomic (provision x user pdto)"
  unfolding provision_def by (intro frame)

text \<open>
  C27. A request operation that fails leaves the database as it was, and so do the operations that write in
  several tables: creating a user in an org with roles, onboarding a resident, and provisioning.
\<close>

theorem failures_leave_database:
  "atomic (createResidentRequest x user cdto) \<and> atomic (updateResidentRequest x user i udto) \<and>
   atomic (cancelResidentRequest x user i) \<and> atomic (addResidentComment x user i m) \<and>
   atomic (assignRequest x user b i staff) \<and> atomic (updateRequestStatus x user b i st) \<and>
   atomic (cancelBuildingRequest x user b i) \<and> atomic (addBuildingComment x user b i m) \<and>
   atomic (addBuildingAttachments x user b i as) \<and> atomic (createInOrg x user odto) \<and>
   atomic (onboard x user b rdto) \<and> atomic (provision x user pdto)"
  by (intro conjI atomic_requests atomic_createInOrg atomic_onboard atomic_provision)

section \<open>Sharp edges\<close>

text \<open>
  The request a creation returns was read before its attachments were stored, so the response lists none; and
  the status endpoint accepts \<open>ASSIGNED\<close> for an open request, which leaves it assigned to nobody.
\<close>

lemma creation_omits_attachments:
  "case createResidentRequest x0 (as_user ''res'') dto0 st0 of
     (Inr v, t) \<Rightarrow> rqv_attachments v = Some [] \<and> request_attachments (st_db t) (rqv_row v) \<noteq> []
   | (Inl e, t) \<Rightarrow> False"
  by code_simp

lemma assigned_to_nobody:
  "case updateRequestStatus x0 (as_user ''mgr'') ''b1'' ''q1'' ASSIGNED st0 of
     (Inr v, t) \<Rightarrow> req_status (rqv_row v) = ASSIGNED \<and> req_assignedToUserId (rqv_row v) = None
   | (Inl e, t) \<Rightarrow> False"
  by code_simp

end
