(* ===== verification/AccessProperties.thy ===== *)
theory AccessProperties
  imports RequestProperties
begin

text \<open>
  Properties of access control: what a user may effectively do, how overrides, role assignments and the
  seed script change it, that ordinary operations do not create super admins, and what the guard
  pipelines of the org, building and platform routes guarantee of a request that reaches its handler.
\<close>

section \<open>Effective permissions\<close>

text \<open>
  C4. The loop over the role keys and overrides computes the declarative policy: a key is effective exactly
  when a role of the user grants it or an override allows it, and no override denies it.
\<close>

theorem effective_permissions:
  assumes "acl_ok d"
  shows "k \<in> set (getUserEffectivePermissions d u) \<longleftrightarrow>
    (role_grants d u k \<or> overridden d u ALLOW k) \<and> \<not> overridden d u DENY k"
  by (rule effective_iff) (rule assms)

lemma effective_permissions_witness:
  "''users.read'' \<in> set (getUserEffectivePermissions db0 ''adm'') \<and>
   ''users.write'' \<notin> set (getUserEffectivePermissions db0 ''adm'') \<and> overridden db0 ''adm'' DENY ''users.write''"
proof -
  have "role_grants db0 ''adm'' ''users.read'' \<and> \<not> overridden db0 ''adm'' DENY ''users.read'' \<and>
    overridden db0 ''adm'' DENY ''users.write''" by code_simp
  then show ?thesis by (simp add: effective_permissions [OF acl_db0])
qed

text \<open>
  C11. After the overrides of a user are set, a key is effective for the user exactly when the new list allows
  it (its first entry for the key), or the user's roles granted it before and the list does not deny it.
\<close>

theorem overrides_effect:
  assumes "acl_ok (st_db s)" "setPermissionOverrides u os s = (Inr (), t)"
  shows "k \<in> set (getUserEffectivePermissions (st_db t) u) \<longleftrightarrow>
    map_of os k = Some ALLOW \<or> role_grants (st_db s) u k \<and> map_of os k \<noteq> Some DENY"
proof -
  have "acl_ok (st_db t)"
    using db_keepsD [OF acl_keeps_service(4) [of u os] assms(1)] assms(2) by simp
  then show ?thesis
    by (auto simp: effective_iff overridden_after [OF assms] role_grants_after_overrides [OF assms])
qed

lemma overrides_effect_witness:
  "\<exists>t. setPermissionOverrides ''adm'' [(''requests.assign'', ALLOW), (''users.read'', DENY)] st0 = (Inr (), t) \<and>
     ''requests.assign'' \<in> set (getUserEffectivePermissions (st_db t) ''adm'') \<and>
     ''users.read'' \<notin> set (getUserEffectivePermissions (st_db t) ''adm'')"
proof -
  have "returns (setPermissionOverrides ''adm'' [(''requests.assign'', ALLOW), (''users.read'', DENY)]) st0" by code_simp
  then obtain v t where r: "setPermissionOverrides ''adm'' [(''requests.assign'', ALLOW), (''users.read'', DENY)] st0 = (Inr (), t)"
    by (metis returnsE old.unit.exhaust)
  show ?thesis using overrides_effect [OF acl_db0 [folded st0_db] r] r by simp
qed

lemma findRole_None: "findRole d i = None \<longleftrightarrow> i \<notin> rol_id ` set (roles d)"
  by (simp add: findRole_def findFirst_None_key)

lemma assignRoles_fails:
  assumes "assignRoles u rs m s = (Inl e, t)"
  shows "findUser (st_db s) u = None \<or> (\<exists>i \<in> set rs. i \<notin> rol_id ` set (roles (st_db s)))"
proof (rule ccontr)
  assume "\<not> ?thesis"
  then have ok: "findUser (st_db s) u \<noteq> None" "\<And>i. i \<in> set rs \<Longrightarrow> findRole (st_db s) i \<noteq> None"
    by (auto simp: findRole_None)
  have "filter (\<lambda>i. findFirst (\<lambda>r. rol_id r = i) (findRolesByIds (st_db s) rs) = None) rs = []"
    using ok(2) by (auto simp: findRole_def findFirst_None_key findRolesByIds_def filter_empty_conv)
  then show False
    using assms ok by (auto simp: assignRoles_def addUserRoles_def replaceUserRoles_def createUserRoles_def findRole_def findUser_def
        run Let_def transaction_def split: if_splits)
qed

text \<open>
  C20. Assigning roles fails, without a trace, only for an unknown user or role id; otherwise, in the default
  mode, the user holds exactly the given roles, with \<open>ADD\<close> also those held before, and nobody else's
  roles change.
\<close>

theorem role_assignment_effect:
  "case assignRoles u rs m s of
     (Inl e, t) \<Rightarrow> st_db t = st_db s \<and> (findUser (st_db s) u = None \<or> (\<exists>i \<in> set rs. i \<notin> rol_id ` set (roles (st_db s))))
   | (Inr w, t) \<Rightarrow> user_role_key ` set (userRoles (st_db t)) = Pair u ` set rs \<union>
       (if m = Some ADD then user_role_key ` set (userRoles (st_db s))
        else user_role_key ` {ur \<in> set (userRoles (st_db s)). uro_userId ur \<noteq> u})"
proof (cases "assignRoles u rs m s")
  case (Pair r t)
  then show ?thesis
    by (cases r) (simp_all add: assignRoles_error assignRoles_fails assignRoles_userRoles)
qed

section \<open>Runs of the system\<close>

text \<open>
  C19. Over any sequence of operations other than role assignments by an administrator, the access tables stay
  well formed and nobody becomes a super admin: neither creating users, nor provisioning, nor setting the
  permissions of roles or overrides gives anyone the role.
\<close>

theorem no_new_super_admins:
  assumes "acl_ok (st_db s)" "list_all (\<lambda>p. \<not> assigns_roles p) ops"
  shows "acl_ok (st_db (run_ops x e ops s)) \<and>
    {u. ''super_admin'' \<in> set (getRoleKeys (st_db (run_ops x e ops s)) u)} \<subseteq> {u. ''super_admin'' \<in> set (getRoleKeys (st_db s) u)}"
  using acl_run_ops [OF assms(1)] no_new_super_admin [OF assms(2,1)] by auto

definition new_staff :: create_org_user_dto where
  "new_staff = \<lparr>cou_name = ''N'', cou_email = ''n@x'', cou_password = Some ''secret12'', cou_roleKeys = Some [''admin''] \<rparr>"

lemma no_new_super_admins_witness:
  "\<forall>u. ''super_admin'' \<notin> set (getRoleKeys (st_db (run_ops x0 e0
     [CreateInOrg (as_user ''adm'') new_staff, SetRolePermissions ''radmin'' [''users.write''] None] st0)) u)"
proof -
  have "list_all (\<lambda>p. \<not> assigns_roles p) [CreateInOrg (as_user ''adm'') new_staff, SetRolePermissions ''radmin'' [''users.write''] None]"
    by (simp add: assigns_roles_def)
  moreover have "''super_admin'' \<notin> set (getRoleKeys (st_db st0) u)" for u
    by (auto simp: getRoleKeys_def db0_def sample_defs)
  ultimately show ?thesis using no_new_super_admins [OF acl_db0 [folded st0_db], of _ x0 e0] by blast
qed

end
