(* ===== verification/SessionProperties.thy ===== *)
theory SessionProperties
  imports AccessProperties
begin

text \<open>
  Properties of sessions and routes: who passes the guard pipelines, that a token cannot move its user
  into another org, and what logging in, refreshing and changing a password do.
\<close>

section \<open>Routes\<close>

text \<open>
  The assignment type the code reports for a user of a building is the highest of the types assigned,
  in the order staff, manager, building admin, and none without an assignment.
\<close>

lemma reported_assignment_type:
  "getBuildingAssignmentType d b u = (if assigned_types d b u = {} then None else Some (Max (assigned_types d b u)))"
  by (rule getBuildingAssignmentType_eq)

text \<open>
  C13. When a handler behind the org guards returns, the request carried an access token that verifies, and the
  handler ran for the token's user, who is active and acts in a non-empty org, their own where they have one,
  on the database the request found.
\<close>

theorem org_route_access:
  assumes "handle (org_guards x e) ctx h s = (Inr v, t)"
  shows "\<exists>a u orgId s1. findUser (st_db s) (aut_sub a) = Some u \<and> usr_isActive u \<and> aut_orgId a = Some orgId \<and> orgId \<noteq> [] \<and>
    (\<forall>o1. usr_orgId u = Some o1 \<longrightarrow> o1 \<noteq> [] \<longrightarrow> orgId = o1) \<and> h (Some a) s1 = (Inr v, t) \<and> st_db s1 = st_db s \<and>
    (\<exists>token p. x_extractJwt x (ctx_authorization ctx) = Some token \<and>
       x_jwtVerify x (st_tick s) (JWT_ACCESS_SECRET e) token = Some p \<and> jwt_sub p = aut_sub a)"
  using assms
proof (rule org_route_Inr, goal_cases)
  case (1 a userId orgId s1)
  then obtain u where u: "findUser (st_db s) (aut_sub a) = Some u" "usr_isActive u"
    "\<forall>o1. usr_orgId u = Some o1 \<longrightarrow> o1 \<noteq> [] \<longrightarrow> aut_orgId a = Some o1" by (auto simp: authentic_def)
  have "aut_orgId a = Some orgId" "orgId \<noteq> []" using 1(3) by (auto simp: scope_of_def truthy_Some_iff)
  with u 1(4,5) 1(6) [unfolded bears_token_def] show ?case by (intro exI [of _ a] exI [of _ u] exI [of _ orgId] exI [of _ s1]) auto
qed

definition ctx0 :: "id \<Rightarrow> request_context" where
  "ctx0 sub = \<lparr>ctx_requestId = None, ctx_user = None, ctx_refreshToken = None, ctx_effectivePermissions = None,
     ctx_buildingId = None,
     ctx_authorization = Some (''Bearer '' @ sample_sign 0 ''access'' 900 \<lparr>jwt_sub = sub, jwt_email = None, jwt_orgId = Undefined\<rparr>),
     ctx_platformKey = None, ctx_orgIdHeader = None, ctx_bodyRefreshToken = None\<rparr>"

lemma org_route_access_witness:
  "\<exists>v t. handle (org_guards x0 e0) (ctx0 ''res'') (\<lambda>u. createResidentRequest x0 u dto0) st0 = (Inr v, t) \<and>
     (\<exists>a s1. aut_orgId a \<noteq> None \<and> createResidentRequest x0 (Some a) dto0 s1 = (Inr v, t) \<and> st_db s1 = db0)"
proof -
  have "returns (handle (org_guards x0 e0) (ctx0 ''res'') (\<lambda>u. createResidentRequest x0 u dto0)) st0" by code_simp
  then obtain v t where r: "handle (org_guards x0 e0) (ctx0 ''res'') (\<lambda>u. createResidentRequest x0 u dto0) st0 = (Inr v, t)"
    by (rule returnsE)
  then show ?thesis using org_route_access [OF r] by auto
qed

text \<open>
  C5. When a handler behind the building guards of a read or write route returns, the request carried an access
  token that verifies, its user is active, the building is in the org they act in, and they may read or write it: by the route's
  permissions, by an assignment to it, or as a resident or manager where the route lets them.
\<close>

theorem building_route_access:
  assumes "handle (building_guards x e r) (at_building ctx b) h s = (Inr v, t)" "rt_accessLevel r = Some l"
  shows "\<exists>a orgId s1. authentic (st_db s) a \<and> scope_of (Some a) = Some orgId \<and> buildingInOrg (st_db s) b orgId \<noteq> None \<and>
    may_access l (st_db s) (aut_sub a) b (guard_options l r ctx) \<and> h (Some a) s1 = (Inr v, t) \<and> st_db s1 = st_db s \<and>
    (\<exists>token p. x_extractJwt x (ctx_authorization ctx) = Some token \<and>
       x_jwtVerify x (st_tick s) (JWT_ACCESS_SECRET e) token = Some p \<and> jwt_sub p = aut_sub a)"
  using assms
proof (rule building_route_Inr, goal_cases)
  case (1 a userId orgId bld s1)
  then have "userId = aut_sub a" by (auto simp: sub_of_def truthy_Some_iff)
  with 1 show ?case unfolding bears_token_def [symmetric] by (intro exI [of _ a] exI [of _ orgId] exI [of _ s1]) simp
qed

lemma building_route_access_witness:
  "\<exists>v t. handle (building_guards x0 e0 units_write) (at_building (ctx0 ''mgr'') ''b1'') (\<lambda>u. ret ()) st0 = (Inr v, t) \<and>
     (\<exists>a. authentic db0 a \<and> may_access WRITE db0 (aut_sub a) ''b1'' (guard_options WRITE units_write (ctx0 ''mgr'')))"
proof -
  have "returns (handle (building_guards x0 e0 units_write) (at_building (ctx0 ''mgr'') ''b1'') (\<lambda>u. ret ())) st0" by code_simp
  then obtain v t where r: "handle (building_guards x0 e0 units_write) (at_building (ctx0 ''mgr'') ''b1'') (\<lambda>u. ret ()) st0 = (Inr v, t)"
    by (rule returnsE)
  have "rt_accessLevel units_write = Some WRITE" by code_simp
  from building_route_access [OF r this] show ?thesis using r by auto
qed

text \<open>
  C12. A verified token only acts as its own active user and, where it names an org, only while that is still
  the user's org. The org it acts in is the user's own; another one can only be asked for by a platform
  superadmin without an org.
\<close>

theorem token_scope:
  assumes "validatePayload p ov s = (Inr a, t)"
  shows "t = s \<and> (\<exists>u. findUser (st_db s) (jwt_sub p) = Some u \<and> usr_isActive u \<and> aut_sub a = jwt_sub p \<and>
    (jwt_orgId p = Undefined \<or> js_option (jwt_orgId p) = usr_orgId u) \<and>
    (aut_orgId a = usr_orgId u \<or>
       truthy (usr_orgId u) = None \<and> ''platform_superadmin'' \<in> set (getRoleKeys (st_db s) (usr_id u)) \<and> aut_orgId a = ov))"
  using assms
proof (rule validatePayload_Inr, goal_cases)
  case (1 u)
  moreover have "usr_id u = jwt_sub p" using 1(1) by (blast dest: findUser_SomeD)
  ultimately show ?case by (auto simp: payload_org_matches_iff)
qed

lemma token_scope_witness:
  "\<exists>a t. validatePayload \<lparr>jwt_sub = ''plt'', jwt_email = None, jwt_orgId = Null\<rparr> (Some ''org2'') st0 = (Inr a, t) \<and>
     t = st0 \<and> aut_sub a = ''plt''"
proof -
  have "returns (validatePayload \<lparr>jwt_sub = ''plt'', jwt_email = None, jwt_orgId = Null\<rparr> (Some ''org2'')) st0" by code_simp
  then obtain a t where r: "validatePayload \<lparr>jwt_sub = ''plt'', jwt_email = None, jwt_orgId = Null\<rparr> (Some ''org2'') st0 = (Inr a, t)"
    by (rule returnsE)
  from token_scope [OF r] r show ?thesis by auto
qed

text \<open>
  C18. A platform route only opens to the configured platform key or to the bearer of an access token of an
  active user without an org who has every permission the route names, and the route names one.
\<close>

theorem platform_route_access:
  assumes "PlatformAuthGuard x e r ctx s = (Inr c, t)"
  shows "platform_key_given e ctx \<and> c = ctx \<and> t = s \<or>
    (\<exists>u p tok. bearer_token (coalesce (ctx_authorization ctx) []) = Some tok \<and>
       x_jwtVerify x (st_tick s) (JWT_ACCESS_SECRET e) tok = Some p \<and>
       findUser (st_db s) (jwt_sub p) = Some u \<and> usr_isActive u \<and> usr_orgId u = None \<and>
       coalesce (rt_permissions r) [] \<noteq> [] \<and>
       (\<forall>k \<in> set (coalesce (rt_permissions r) []).
          k \<in> set (coalesce (ctx_effectivePermissions ctx) (getUserEffectivePermissions (st_db s) (usr_id u)))))"
  by (rule PlatformAuthGuard_Inr) (rule assms)

lemma platform_route_access_witness:
  "\<exists>c t. PlatformAuthGuard x0 e0 (RequirePermissions [''platform.org.create''] plain_route) (ctx0 ''plt'') st0 = (Inr c, t) \<and>
     \<not> platform_key_given e0 (ctx0 ''plt'') \<and> ''platform.org.create'' \<in> set (getUserEffectivePermissions db0 ''plt'')"
proof -
  let ?r = "RequirePermissions [''platform.org.create''] plain_route"
  have "returns (PlatformAuthGuard x0 e0 ?r (ctx0 ''plt'')) st0" by code_simp
  then obtain c t where r: "PlatformAuthGuard x0 e0 ?r (ctx0 ''plt'') st0 = (Inr c, t)" by (rule returnsE)
  have key: "\<not> platform_key_given e0 (ctx0 ''plt'')" by code_simp
  have verify: "x_jwtVerify x0 = sample_verify" "JWT_ACCESS_SECRET e0 = ''access''" by (simp_all add: x0_def e0_def)
  have tok: "bearer_token (coalesce (ctx_authorization (ctx0 ''plt'')) []) =
    Some (sample_sign 0 ''access'' 900 \<lparr>jwt_sub = ''plt'', jwt_email = None, jwt_orgId = Undefined\<rparr>)" by code_simp
  have perms: "rt_permissions ?r = Some [''platform.org.create'']" "ctx_effectivePermissions (ctx0 ''plt'') = None" by code_simp+
  obtain u p tok where u: "bearer_token (coalesce (ctx_authorization (ctx0 ''plt'')) []) = Some tok"
    "sample_verify (st_tick st0) ''access'' tok = Some p" "findUser db0 (jwt_sub p) = Some u"
    "\<forall>k \<in> set [''platform.org.create'']. k \<in> set (getUserEffectivePermissions db0 (usr_id u))"
    using platform_route_access [OF r] key unfolding verify perms st0_db coalesce_def option.case by blast
  have "jwt_sub p = ''plt''" using u(1,2) tok by (auto simp: sample_verify_sign)
  then have "usr_id u = ''plt''" using u(3) by (metis findUser_SomeD)
  then show ?thesis using u(4) r key by auto
qed

section \<open>Sessions\<close>

text \<open>
  C17. Logging in succeeds exactly for a known e-mail whose user is active and with the password the stored
  hash verifies; then the e-mail's user is signed in.
\<close>

theorem login_decides:
  "(\<exists>r t. login x e dto s = (Inr r, t)) \<longleftrightarrow>
     (\<exists>u. findUserByEmail (st_db s) (lgn_email dto) = Some u \<and> usr_isActive u \<and>
        x_verify x (usr_passwordHash u) (lgn_password dto))"
proof (cases "findUserByEmail (st_db s) (lgn_email dto)")
  case None
  have "login x e dto s \<noteq> (Inr r, t)" for r t using None by (simp add: login_def run del: findUserByEmail_None)
  then show ?thesis using None by (simp del: findUserByEmail_None)
next
  case (Some u)
  then show ?thesis by (simp add: login_accepts)
qed

text \<open>
  C14. The access token a login returns passes the guard of the protected routes until it expires, as the user
  who logged in: same id, e-mail and org.
\<close>

theorem login_then_authenticate:
  assumes "jwt_ok x" "users_ok (st_db s)" "login x e dto s = (Inr r, t)"
    and "x_extractJwt x (ctx_authorization ctx) = Some (tok_accessToken r)" "ctx_orgIdHeader ctx = None"
    and "x_clock x (st_tick t) div 1000 < x_clock x (st_tick s) div 1000 + JWT_ACCESS_TTL e"
  shows "\<exists>c w a. JwtAuthGuard x e ctx t = (Inr c, w) \<and> ctx_user c = Some a \<and> aut_email a = Some (lgn_email dto) \<and>
    aut_sub a = urs_id (ars_user r) \<and> aut_orgId a = urs_orgId (ars_user r)"
  by (rule login_authenticates) (use assms in auto)

definition login0 :: login_dto where
  "login0 = \<lparr>lgn_email = ''mgr@x'', lgn_password = ''pw''\<rparr>"

lemma login_then_authenticate_witness:
  "\<exists>r t c w a. login x0 e0 login0 st0 = (Inr r, t) \<and>
     JwtAuthGuard x0 e0 ((ctx0 [])\<lparr>ctx_authorization := Some (''Bearer '' @ tok_accessToken r)\<rparr>) t = (Inr c, w) \<and>
     ctx_user c = Some a \<and> aut_email a = Some ''mgr@x''"
proof -
  have "returns (login x0 e0 login0) st0 \<and> (case login x0 e0 login0 st0 of (Inr r, t) \<Rightarrow>
      st_tick t < 100 \<and> tok_accessToken r \<noteq> [] | _ \<Rightarrow> False)" by code_simp
  then obtain r t where r: "login x0 e0 login0 st0 = (Inr r, t)" "st_tick t < 100" "tok_accessToken r \<noteq> []"
    by (auto elim!: returnsE split: prod.splits sum.splits)
  let ?ctx = "(ctx0 [])\<lparr>ctx_authorization := Some (''Bearer '' @ tok_accessToken r)\<rparr>"
  have "x_extractJwt x0 (ctx_authorization ?ctx) = Some (tok_accessToken r)" "ctx_orgIdHeader ?ctx = None"
    using r(3) by (simp_all add: x0_def drop_bearer_def ctx0_def)
  moreover have "x_clock x0 (st_tick t) div 1000 < x_clock x0 (st_tick st0) div 1000 + JWT_ACCESS_TTL e0"
    using r(2) by (simp add: e0_def st0_def)
  ultimately have "\<exists>c w a. JwtAuthGuard x0 e0 ?ctx t = (Inr c, w) \<and> ctx_user c = Some a \<and> aut_email a = Some (lgn_email login0) \<and>
      aut_sub a = urs_id (ars_user r) \<and> aut_orgId a = urs_orgId (ars_user r)"
    by (rule login_then_authenticate [OF jwt_x0 users_db0 [folded st0_db] r(1)])
  then show ?thesis using r(1) by (auto simp: login0_def)
qed

lemma refresh_only_last:
  assumes "argon2_ok x" "refresh x e i tok s = (Inr r, t)" "other \<noteq> tok_refreshToken r"
  shows "refresh x e i other t = (Inl (Unauthorized ''Refresh token invalid''), t)"
proof -
  obtain u where u: "findUser (st_db s) i = Some u" "sign_in x e u s = (Inr r, t)"
    using assms(2) by (rule refresh_Inr)
  then have i: "usr_id u = i" "usr_id u \<in> usr_id ` set (users (st_db s))" by (auto dest: findUser_SomeD)
  obtain v k where "findUser (st_db t) i = Some v" "usr_refreshTokenHash v = Some (x_hash x k (tok_refreshToken r))"
    using sign_in_token_stored(2) [OF i(2) u(2)] i(1) by auto
  then show ?thesis using refresh_accepts(2) [OF assms(1)] assms(3) by blast
qed

text \<open>
  C15. With a refresh token stored, refreshing succeeds exactly with that token; afterwards only the token just
  returned is accepted: every other one, the one just used among them, is refused and changes nothing.
\<close>

theorem refresh_rotates:
  assumes "argon2_ok x" "findUser (st_db s) i = Some u" "usr_refreshTokenHash u = Some (x_hash x k old)"
  shows "((\<exists>r t. refresh x e i tok s = (Inr r, t)) \<longleftrightarrow> tok = old) \<and>
    (\<forall>r t other. refresh x e i tok s = (Inr r, t) \<longrightarrow> other \<noteq> tok_refreshToken r \<longrightarrow>
       refresh x e i other t = (Inl (Unauthorized ''Refresh token invalid''), t))"
proof (intro conjI allI impI)
  show "(\<exists>r t. refresh x e i tok s = (Inr r, t)) \<longleftrightarrow> tok = old" by (rule refresh_accepts) (rule assms)+
  fix r t other assume "refresh x e i tok s = (Inr r, t)" "other \<noteq> tok_refreshToken r"
  then show "refresh x e i other t = (Inl (Unauthorized ''Refresh token invalid''), t)" by (rule refresh_only_last [OF assms(1)])
qed

definition st_refresh :: st where
  "st_refresh = st0\<lparr>st_db := db0\<lparr>users := map (\<lambda>u. u\<lparr>usr_refreshTokenHash := Some ''#tok''\<rparr>) (users db0)\<rparr>\<rparr>"

lemma refresh_rotates_witness:
  "(\<exists>r t. refresh x0 e0 ''mgr'' ''tok'' st_refresh = (Inr r, t)) \<and> (\<nexists>r t. refresh x0 e0 ''mgr'' ''old'' st_refresh = (Inr r, t))"
proof -
  have u: "findUser (st_db st_refresh) ''mgr'' = Some ((sample_user ''mgr'' (Some ''org1''))\<lparr>usr_refreshTokenHash := Some ''#tok''\<rparr>)"
    by code_simp
  have "usr_refreshTokenHash ((sample_user ''mgr'' (Some ''org1''))\<lparr>usr_refreshTokenHash := Some ''#tok''\<rparr>) = Some (x_hash x0 0 ''tok'')"
    by (simp add: x0_def)
  from refresh_rotates [OF argon2_x0 u this, of e0] show ?thesis by simp
qed

text \<open>
  C16. Changing a password needs the current one; from then on the user's e-mail and the new password log in,
  any other password does not, and the password is no longer marked as one to change.
\<close>

theorem password_change_effect:
  assumes "argon2_ok x" "users_ok (st_db s)" "changePassword x i cur new s = (Inr b, t)"
  shows "\<exists>u v. findUser (st_db s) i = Some u \<and> usr_isActive u \<and> x_verify x (usr_passwordHash u) cur \<and>
    findUserByEmail (st_db t) (usr_email u) = Some v \<and> \<not> usr_mustChangePassword v \<and>
    (\<forall>dto. lgn_email dto = usr_email u \<longrightarrow> ((\<exists>r w. login x e dto t = (Inr r, w)) \<longleftrightarrow> lgn_password dto = new))"
proof -
  obtain u0 where u0: "findUser (st_db s) i = Some u0" "usr_isActive u0" "x_verify x (usr_passwordHash u0) cur"
    using assms(3) by (rule changePassword_Inr)
  obtain u v where u: "findUser (st_db s) i = Some u" "findUserByEmail (st_db t) (usr_email u) = Some v"
    "usr_isActive v" "usr_passwordHash v = x_hash x (st_tick s) new" "\<not> usr_mustChangePassword v"
    using assms(2,3) by (rule password_after_change)
  have "(\<exists>r w. login x e dto t = (Inr r, w)) \<longleftrightarrow> lgn_password dto = new" if "lgn_email dto = usr_email u" for dto
    using login_accepts [of t dto v x e] that u(2-4) argon2_okD(1) [OF assms(1)] by auto
  then show ?thesis using u0 u by auto
qed

lemma password_change_effect_witness:
  "\<exists>b t. changePassword x0 ''mgr'' ''pw'' ''better-one'' st0 = (Inr b, t) \<and>
     (\<exists>v. findUserByEmail (st_db t) ''mgr@x'' = Some v \<and> \<not> usr_mustChangePassword v)"
proof -
  have "returns (changePassword x0 ''mgr'' ''pw'' ''better-one'') st0" by code_simp
  then obtain b t where r: "changePassword x0 ''mgr'' ''pw'' ''better-one'' st0 = (Inr b, t)" by (rule returnsE)
  have "findUser db0 ''mgr'' = Some (sample_user ''mgr'' (Some ''org1''))" by code_simp
  then show ?thesis
    using password_change_effect [OF argon2_x0 users_db0 [folded st0_db] r, of e0] r by (auto simp: sample_user_def)
qed

section \<open>Sharp edges\<close>

text \<open>A deactivated user cannot log in, but still refreshes: \<open>refresh\<close> does not look at \<open>isActive\<close>.\<close>

definition st_inactive :: st where
  "st_inactive = st0\<lparr>st_db := db0\<lparr>users := map (\<lambda>u. u\<lparr>usr_refreshTokenHash := Some ''#tok'', usr_isActive := False\<rparr>) (users db0)\<rparr>\<rparr>"

lemma refresh_inactive:
  "returns (refresh x0 e0 ''mgr'' ''tok'') st_inactive \<and> \<not> returns (login x0 e0 login0) st_inactive"
  by code_simp





end
