(* ===== verification/ResidencyProperties.thy ===== *)
theory ResidencyProperties
  imports SessionProperties
begin

text \<open>
  Properties of buildings, units, residents and staff: tenants stay apart over any run of the system,
  who lives where, what interleaved transactions can do to it, and what provisioning may grant.
\<close>

section \<open>Runs of the system\<close>

text \<open>
  C3. Over any sequence of operations, tenants stay apart: everyone assigned to a building or living in it
  belongs to the building's org, every occupied unit is in the occupancy's building, and no unit has two
  active occupancies.
\<close>

theorem tenants_stay_apart:
  assumes "tenant_ok (st_db s)"
  shows "tenant_ok (st_db (run_ops x e ops s)) \<and>
    (\<forall>a \<in> set (assignments (st_db (run_ops x e ops s))). same_org (st_db (run_ops x e ops s)) (asg_userId a) (asg_buildingId a)) \<and>
    single_occupancy (st_db (run_ops x e ops s))"
  using tenant_run_ops [OF assms, of x e ops] by (simp add: tenant_ok_def)

lemma tenants_stay_apart_witness:
  "single_occupancy (st_db (run_ops x0 e0 [CreateOccupancy (as_user ''adm'') ''b1'' \<lparr>cod_unitId = ''u2'', cod_residentUserId = ''stf''\<rparr>,
     CreateOccupancy (as_user ''adm'') ''b1'' \<lparr>cod_unitId = ''u2'', cod_residentUserId = ''mgr''\<rparr>] st0))"
  using tenants_stay_apart [OF tenant_db0 [folded st0_db]] by blast

text \<open>
  C39. Over any sequence of operations, a unit's amenities are amenities of the unit's own building, both rows
  are there, and ids stay unique.
\<close>

theorem amenities_stay_local:
  assumes "links_ok (st_db s)"
  shows "links_ok (st_db (run_ops x e ops s)) \<and>
    (\<forall>l \<in> set (unitAmenities (st_db (run_ops x e ops s))). \<exists>u \<in> set (units (st_db (run_ops x e ops s))).
       \<exists>a \<in> set (amenities (st_db (run_ops x e ops s))).
         unt_id u = una_unitId l \<and> amn_id a = una_amenityId l \<and> amn_buildingId a = unt_buildingId u)"
  using links_run_ops [OF assms, of x e ops] by (simp add: links_ok_def)

definition pool :: create_amenity_dto where
  "pool = \<lparr>cam_name = ''Pool'', cam_isDefault = Some True, cam_isActive = None\<rparr>"

lemma amenities_stay_local_witness:
  "links_ok (st_db (run_ops x0 e0 [CreateAmenity (as_user ''adm'') ''b1'' pool] st0))"
  using amenities_stay_local [OF links_db0 [folded st0_db]] by blast

section \<open>Interleaved transactions\<close>

text \<open>
  C8. Residents placed by provisioning, whose transactions lock the unit's row, never end up two in a unit,
  in whatever order the locks, reads and commits of the transactions interleave, and whatever other
  operations run between them.
\<close>

theorem locked_placings_exclusive:
  assumes "list_all takes_lock ps" "single_occupancy (st_db s)" "world_reach x e ps (start_world s) w"
  shows "single_occupancy (st_db (wld_st w))"
  by (rule locked_placings_safe) (rule assms)+

definition grant0 :: resident_grant where
  "grant0 = \<lparr>rgr_buildingId = ''b1'', rgr_unitId = ''u2'', rgr_mode = None\<rparr>"

lemma locked_placings_exclusive_witness:
  "\<exists>w. wld_phase w 0 = Locked \<and> world_reach x0 e0 [Grant ''stf'' ''u2'' grant0, Grant ''mgr'' ''u2'' grant0] (start_world st0) w \<and>
     single_occupancy (st_db (wld_st w))"
proof -
  let ?ps = "[Grant ''stf'' ''u2'' grant0, Grant ''mgr'' ''u2'' grant0]" and ?w = "start_world st0"
  let ?v = "?w\<lparr>wld_st := snd (lockUnit (placing_unit (?ps ! 0)) (wld_st ?w)), wld_lock := (wld_lock ?w)(placing_unit (?ps ! 0) := Some 0), wld_phase := (wld_phase ?w)(0 := Locked)\<rparr>"
  have "world_step x0 e0 ?ps ?w ?v" by (rule take_lock) (simp_all add: start_world_def)
  then have "world_reach x0 e0 ?ps ?w ?v" by (simp add: world_reach_def)
  moreover have "list_all takes_lock ?ps" "single_occupancy (st_db st0)" using tenant_db0 by (simp_all add: tenant_ok_def)
  ultimately show ?thesis using locked_placings_exclusive [of ?ps st0 x0 e0 ?v] by (intro exI [of _ ?v]) simp
qed

text \<open>
  C24. The direct creation of occupancies does not lock: two of them for one vacant unit have an interleaving
  after which the unit has two active occupancies.
\<close>

theorem unlocked_placings_race:
  assumes "active_in_unit (st_db s) i = None"
    and "findBuilding (st_db s) b \<noteq> None" "findUnit (st_db s) i \<noteq> None" "findUser (st_db s) u \<noteq> None" "findUser (st_db s) v \<noteq> None"
    and "x_uuid x (st_tick s) \<notin> occ_id ` set (occupancies (st_db s))"
      "x_uuid x (Suc (st_tick s)) \<notin> insert (x_uuid x (st_tick s)) (occ_id ` set (occupancies (st_db s)))"
  shows "\<exists>w. world_reach x e [MoveIn b i u, MoveIn b i v] (start_world s) w \<and> \<not> single_occupancy (st_db (wld_st w))"
  by (rule unlocked_race) (rule assms)+

lemma unlocked_placings_race_witness:
  "\<exists>w. world_reach x0 e0 [MoveIn ''b1'' ''u2'' ''stf'', MoveIn ''b1'' ''u2'' ''mgr''] (start_world st0) w \<and>
     \<not> single_occupancy (st_db (wld_st w))"
proof (rule unlocked_placings_race)
  show "active_in_unit (st_db st0) ''u2'' = None" "findBuilding (st_db st0) ''b1'' \<noteq> None" "findUnit (st_db st0) ''u2'' \<noteq> None"
    "findUser (st_db st0) ''stf'' \<noteq> None" "findUser (st_db st0) ''mgr'' \<noteq> None"
    "x_uuid x0 (st_tick st0) \<notin> occ_id ` set (occupancies (st_db st0))"
    "x_uuid x0 (Suc (st_tick st0)) \<notin> insert (x_uuid x0 (st_tick st0)) (occ_id ` set (occupancies (st_db st0)))"
    by code_simp+
qed

section \<open>Provisioning and assignments\<close>

text \<open>
  C21. A caller without \<open>users.write\<close> who provisions a user gives no roles, makes nobody building admin, and
  grants staff or manager assignments and residency only in buildings the caller manages.
\<close>

theorem manager_provisioning:
  assumes "provision x user dto s = (Inr r, t)" "sub_of user = Some actor"
    and "''users.write'' \<notin> set (getUserEffectivePermissions (st_db s) actor)"
  shows "userRoles (st_db t) = userRoles (st_db s) \<and>
    (\<forall>a \<in> set (assignments (st_db t)). assignment_key a \<in> assignment_key ` set (assignments (st_db s)) \<or>
       asg_type a \<in> {MANAGER, STAFF} \<and> runs (st_db s) actor (asg_buildingId a)) \<and>
    (case asked_resident dto of None \<Rightarrow> True | Some g \<Rightarrow> runs (st_db s) actor (rgr_buildingId g))"
  by (rule provision_manager) (rule assms)+

definition provision0 :: provision_dto where
  "provision0 = \<lparr>pdt_identity = \<lparr>pid_email = ''fresh@x'', pid_name = Some ''Fay'', pid_password = Some ''longenough'', pid_sendInvite = None\<rparr>,
     pdt_grants = Some \<lparr>pgr_orgRoleKeys = None, pgr_buildingAssignments = Some [\<lparr>agr_buildingId = ''b1'', agr_type = STAFF\<rparr>],
       pgr_resident = Some grant0\<rparr>, pdt_mode = None\<rparr>"

lemma manager_provisioning_witness:
  "\<exists>r t. provision x0 (as_user ''mgr'') provision0 st0 = (Inr r, t) \<and> userRoles (st_db t) = userRoles db0"
proof -
  have "returns (provision x0 (as_user ''mgr'') provision0) st0" by code_simp
  then obtain r t where r: "provision x0 (as_user ''mgr'') provision0 st0 = (Inr r, t)" by (rule returnsE)
  have "sub_of (as_user ''mgr'') = Some ''mgr''" "''users.write'' \<notin> set (getUserEffectivePermissions (st_db st0) ''mgr'')"
    by code_simp+
  from manager_provisioning [OF r this] r show ?thesis by auto
qed

text \<open>
  C22. A granted residency leaves the user with an active occupancy of the very unit asked for, and when the
  grant says to move, with no active occupancy of another unit of the building.
\<close>

theorem residency_granted:
  assumes "applyResidentGrant x o1 u (Some g) s = (Inr r, t)"
  shows "\<exists>p. r = Some p \<and> pvr_unitId p = rgr_unitId g \<and> lives_in (st_db t) u (rgr_unitId g) (pvr_occupancyId p) \<and>
    (rgr_mode g = Some MOVE_UNIT \<longrightarrow> only_unit_of (st_db t) u (rgr_buildingId g) (rgr_unitId g))"
  by (rule applyResidentGrant_Inr) (rule assms)

lemma residency_granted_witness:
  "\<exists>p t. applyResidentGrant x0 ''org1'' ''res'' (Some (grant0\<lparr>rgr_mode := Some MOVE_UNIT\<rparr>)) st0 = (Inr (Some p), t) \<and>
     lives_in (st_db t) ''res'' ''u2'' (pvr_occupancyId p) \<and> only_unit_of (st_db t) ''res'' ''b1'' ''u2''"
proof -
  let ?g = "grant0\<lparr>rgr_mode := Some MOVE_UNIT\<rparr>"
  have "returns (applyResidentGrant x0 ''org1'' ''res'' (Some ?g)) st0" by code_simp
  then obtain r t where r: "applyResidentGrant x0 ''org1'' ''res'' (Some ?g) st0 = (Inr r, t)" by (rule returnsE)
  from residency_granted [OF r] r show ?thesis by (auto simp: grant0_def)
qed

text \<open>
  C40. A building assignment is created for an active user of the caller's org in a building of that org, and it
  is the only row added; a building admin also gets the role \<open>admin\<close>.
\<close>

theorem assignment_created:
  assumes "assignments_create x user b dto s = (Inr (a, v), t)"
  shows "\<exists>orgId. scope_of user = Some orgId \<and> findUser (st_db s) (cba_userId dto) = Some v \<and> usr_isActive v \<and>
    usr_orgId v = Some orgId \<and> buildingInOrg (st_db s) b orgId \<noteq> None \<and>
    assignments (st_db t) = assignments (st_db s) @ [a] \<and> asg_buildingId a = b \<and> asg_userId a = usr_id v \<and>
    asg_type a = cba_type dto \<and>
    (cba_type dto = BUILDING_ADMIN \<longrightarrow> (\<exists>r. findRoleByKey (st_db s) ''admin'' = Some r \<and>
       (usr_id v, rol_id r) \<in> user_role_key ` set (userRoles (st_db t))))"
  using assms by (rule assignments_create_Inr) blast

lemma assignment_created_witness:
  "\<exists>a v t. assignments_create x0 (as_user ''adm'') ''b1'' \<lparr>cba_userId = ''stf'', cba_type = BUILDING_ADMIN\<rparr> st0 = (Inr (a, v), t) \<and>
     asg_type a = BUILDING_ADMIN \<and> asg_userId a = usr_id v"
proof -
  let ?dto = "\<lparr>cba_userId = ''stf'', cba_type = BUILDING_ADMIN\<rparr>"
  have "returns (assignments_create x0 (as_user ''adm'') ''b1'' ?dto) st0" by code_simp
  then obtain a v t where r: "assignments_create x0 (as_user ''adm'') ''b1'' ?dto st0 = (Inr (a, v), t)" by (metis returnsE surj_pair)
  from assignment_created [OF r] r show ?thesis by auto
qed

text \<open>
  Creating an org admin adds exactly one user, active, of that org, with a new e-mail and a password to
  change, and exactly one role row, giving the user \<open>org_admin\<close>.
\<close>

lemma org_admin_created:
  assumes "createOrgAdmin x o1 dto s = (Inr res, t)"
  shows "\<exists>u r. st_db t = (st_db s)\<lparr>users := users (st_db s) @ [u],
      userRoles := userRoles (st_db s) @ [\<lparr>uro_userId = usr_id u, uro_roleId = rol_id r\<rparr>]\<rparr> \<and>
    findRoleByKey (st_db s) ''org_admin'' = Some r \<and> usr_orgId u = Some o1 \<and> usr_email u = coa_email dto \<and>
    usr_isActive u \<and> usr_mustChangePassword u \<and> oar_userId res = usr_id u \<and>
    coa_email dto \<notin> usr_email ` set (users (st_db s)) \<and> usr_id u \<notin> usr_id ` set (users (st_db s))"
  using assms by (rule createOrgAdmin_Inr) blast

lemma org_admin_created_witness:
  "\<exists>res t u. createOrgAdmin x0 ''org2'' \<lparr>coa_name = ''A'', coa_email = ''a@x'', coa_password = Some ''secret12''\<rparr> st0 = (Inr res, t) \<and>
     users (st_db t) = users db0 @ [u] \<and> usr_orgId u = Some ''org2''"
proof -
  let ?dto = "\<lparr>coa_name = ''A'', coa_email = ''a@x'', coa_password = Some ''secret12''\<rparr>"
  have "returns (createOrgAdmin x0 ''org2'' ?dto) st0" by code_simp
  then obtain res t where r: "createOrgAdmin x0 ''org2'' ?dto st0 = (Inr res, t)" by (rule returnsE)
  obtain u and q :: role where u: "st_db t = (st_db st0)\<lparr>users := users (st_db st0) @ [u],
      userRoles := userRoles (st_db st0) @ [\<lparr>uro_userId = usr_id u, uro_roleId = rol_id q\<rparr>]\<rparr>" "usr_orgId u = Some ''org2''"
    using org_admin_created [OF r] by blast
  have "users (st_db t) = users db0 @ [u]" unfolding u(1) by simp
  with r u(2) show ?thesis by blast
qed

end
