(* ===== verification/NotificationProperties.thy ===== *)
theory NotificationProperties
  imports ResidencyProperties
begin

text \<open>
  Properties of notifications: whom an event reaches, what is stored and sent, how the feed is paged, how
  unread counts move, and which sockets of the gateway receive what.
\<close>

section \<open>Events\<close>

text \<open>
  C29. An event of a request notifies its audience without the one who caused it, and only that one when nobody
  else is left. The audience: the active managers and admins of the building in the request's org, or, when
  there is none, the org's active admins; the assignee, unless the request is new; and the creator, unless it
  is new or canceled. This is wider than README.md:262-264 says: managers and admins hear of assignments,
  status changes and comments too, and a comment does not only go to the other side.
\<close>

theorem event_recipients_policy:
  assumes "users_ok d"
  shows "u \<in> set (event_recipients ev d p) \<longleftrightarrow>
    (u \<noteq> evp_actorUserId p \<and> in_audience ev d (evp_request p) u) \<or>
    (u = evp_actorUserId p \<and> (\<forall>v. in_audience ev d (evp_request p) v \<longrightarrow> v = u))"
  using assms by (auto simp: users_ok_def event_recipients_member Let_def)

text \<open>
  C28. Handling an event stores one unread notification per recipient, none twice, in the request's org and of
  the event's type, changes nothing else in the database, and sends each to the recipient's own room.
\<close>

theorem event_delivery:
  assumes "on_event x ev p s = (Inr (), t)" "st_server s"
  shows "\<exists>ns. st_db t = (st_db s)\<lparr>notifications := notifications (st_db s) @ ns\<rparr> \<and>
    distinct (map ntf_recipientUserId ns) \<and>
    ntf_recipientUserId ` set ns = set (event_recipients ev (st_db s) p) - {[]} \<and>
    (\<forall>n \<in> set ns. ntf_orgId n = snp_orgId (evp_request p) \<and> ntf_type n = event_type ev \<and> ntf_readAt n = None \<and>
       ntf_dismissedAt n = None) \<and>
    st_sent t = st_sent s @
      map (\<lambda>n. (roomForUser (snp_orgId (evp_request p)) (ntf_recipientUserId n), WsNew (toNotificationResponse n))) ns"
  using assms(1)
proof (rule on_event_Inr, goal_cases)
  case (1 ns)
  then show ?case using assms(2) by (intro exI [of _ ns]) simp
qed

definition event0 :: event_payload where
  "event0 = \<lparr>evp_request = \<lparr>snp_id = ''q2'', snp_orgId = ''org1'', snp_buildingId = ''b1'', snp_unitId = Some ''u1'',
       snp_title = ''Leak'', snp_status = Some IN_PROGRESS, snp_createdByUserId = ''res'',
       snp_assignedToUserId = Some ''stf'', snp_unit = Some (''u1'', ''u1'')\<rparr>,
     evp_actorUserId = ''mgr'', evp_actorIsResident = None, evp_comment = None\<rparr>"

lemma event_delivery_witness:
  "\<exists>t ns. on_event x0 EV_STATUS_CHANGED event0 st0 = (Inr (), t) \<and> st_db t = db0\<lparr>notifications := notifications db0 @ ns\<rparr> \<and>
     ntf_recipientUserId ` set ns = {''res'', ''stf''}"
proof -
  have "returns (on_event x0 EV_STATUS_CHANGED event0) st0" by code_simp
  then obtain v t where r: "on_event x0 EV_STATUS_CHANGED event0 st0 = (Inr (), t)" by (metis returnsE old.unit.exhaust)
  have "set (event_recipients EV_STATUS_CHANGED (st_db st0) event0) - {[]} = {''res'', ''stf''}" by code_simp
  moreover have "st_server st0" by (simp add: st0_def)
  ultimately show ?thesis using event_delivery [OF r] r by auto
qed

lemma event_recipients_policy_witness:
  "in_audience EV_COMMENTED db0 (evp_request event0) ''stf'' \<and> in_audience EV_COMMENTED db0 (evp_request event0) ''res'' \<and>
   \<not> in_audience EV_CANCELED db0 (evp_request event0) ''res'' \<and>
   ''mgr'' \<notin> set (event_recipients EV_COMMENTED db0 event0)"
proof -
  have a: "''stf'' \<in> set (event_recipients EV_COMMENTED db0 event0)" "''res'' \<in> set (event_recipients EV_COMMENTED db0 event0)"
    "''res'' \<notin> set (event_recipients EV_CANCELED db0 event0)" "''mgr'' \<notin> set (event_recipients EV_COMMENTED db0 event0)"
    "evp_actorUserId event0 = ''mgr''" by code_simp+
  then show ?thesis
    using event_recipients_policy [OF users_db0, of "''stf''" EV_COMMENTED event0]
      event_recipients_policy [OF users_db0, of "''res''" EV_COMMENTED event0]
      event_recipients_policy [OF users_db0, of "''res''" EV_CANCELED event0] by auto
qed

section \<open>The feed\<close>

text \<open>
  C30. A cursor decodes to the position it was made from: the creation time and id of the notification, for
  ASCII ids without the separator and years of four digits.
\<close>

theorem cursor_roundtrip:
  assumes "cursor_ok (feed_key n)"
  shows "decodeCursor x (encodeCursor n) s = (Inr (feed_key n), s)"
  by (rule decode_encode_cursor) (rule assms)

lemma cursor_roundtrip_witness:
  "decodeCursor x0 (encodeCursor (sample_notification ''n1'' 1767225600123)) st0 = (Inr (1767225600123, ''n1''), st0)"
proof -
  have "cursor_ok (feed_key (sample_notification ''n1'' 1767225600123))" by code_simp
  from cursor_roundtrip [OF this, of x0 st0] show ?thesis by (simp add: feed_key_def sample_notification_def)
qed

text \<open>
  C10. Following the next cursors from the first page to the last ends, after fewer requests than there are
  notifications plus one, and returns the user's whole feed, in order, nothing skipped and nothing twice,
  whatever the page size.
\<close>

theorem feed_walk_complete:
  assumes "distinct (map ntf_id (notifications (st_db s)))"
    and "\<forall>n \<in> set (options_feed (st_db s) u o1 opts). cursor_ok (feed_key n)"
    and "lop_cursor opts = None" "length (options_feed (st_db s) u o1 opts) < fuel"
  shows "walk_feed x u o1 opts fuel s = Some (options_feed (st_db s) u o1 opts)"
  by (rule walk_feed_all) (rule assms)+

lemma feed_walk_complete_witness:
  "walk_feed x0 ''mgr'' ''org1'' \<lparr>lop_unreadOnly = None, lop_includeDismissed = None, lop_cursor = None, lop_limit = Some 1\<rparr> 4 st0 =
     Some [sample_notification ''n3'' 20, sample_notification ''n2'' 20, sample_notification ''n1'' 10]"
proof -
  let ?o = "\<lparr>lop_unreadOnly = None, lop_includeDismissed = None, lop_cursor = None, lop_limit = Some 1\<rparr>"
  have f: "options_feed (st_db st0) ''mgr'' ''org1'' ?o =
      [sample_notification ''n3'' 20, sample_notification ''n2'' 20, sample_notification ''n1'' 10]" by code_simp
  have "\<forall>n \<in> set (options_feed (st_db st0) ''mgr'' ''org1'' ?o). cursor_ok (feed_key n)" unfolding f by code_simp
  moreover have "distinct (map ntf_id (notifications (st_db st0)))" by code_simp
  moreover have "length (options_feed (st_db st0) ''mgr'' ''org1'' ?o) < 4" unfolding f by simp
  ultimately show ?thesis using feed_walk_complete [of st0 "''mgr''" "''org1''" ?o 4 x0] unfolding f by simp
qed

text \<open>
  C31. Marking one notification of the user read lowers the unread count by one if it counted as unread and
  otherwise leaves it; marking all read brings the count to zero and leaves every other user's and org's
  notifications as they are.
\<close>

theorem unread_counts:
  assumes "distinct (map ntf_id (notifications (st_db s)))" "findByIdForUser (st_db s) i u o1 = Some n"
  shows "(\<exists>t. markRead x i u o1 s = (Inr (), t) \<and>
      repo_countUnread (st_db s) u o1 = repo_countUnread (st_db t) u o1 + (if unread_of u o1 n then 1 else 0)) \<and>
    (\<exists>t. markAllRead x u o1 s = (Inr (), t) \<and> repo_countUnread (st_db t) u o1 = 0 \<and>
      (\<forall>v o2. (v, o2) \<noteq> (u, o1) \<longrightarrow>
         filter (\<lambda>n. ntf_recipientUserId n = v \<and> ntf_orgId n = o2) (notifications (st_db t)) =
         filter (\<lambda>n. ntf_recipientUserId n = v \<and> ntf_orgId n = o2) (notifications (st_db s))))"
proof
  show "\<exists>t. markRead x i u o1 s = (Inr (), t) \<and>
      repo_countUnread (st_db s) u o1 = repo_countUnread (st_db t) u o1 + (if unread_of u o1 n then 1 else 0)"
    using markRead_run [OF assms, of x] by auto
qed (rule markAllRead_run)

lemma unread_counts_witness:
  "\<exists>t. markRead x0 ''n2'' ''mgr'' ''org1'' st0 = (Inr (), t) \<and> repo_countUnread (st_db t) ''mgr'' ''org1'' = 2"
proof -
  have "distinct (map ntf_id (notifications (st_db st0)))"
    and n: "findByIdForUser (st_db st0) ''n2'' ''mgr'' ''org1'' = Some (sample_notification ''n2'' 20)"
    and "unread_of ''mgr'' ''org1'' (sample_notification ''n2'' 20)" "repo_countUnread (st_db st0) ''mgr'' ''org1'' = 3"
    by code_simp+
  with unread_counts [of st0 "''n2''" "''mgr''" "''org1''" "sample_notification ''n2'' 20" x0] show ?thesis by auto
qed

section \<open>The gateway\<close>

text \<open>
  C32. In every reachable state of the gateway, with connections, authentications and disconnects interleaved in
  any order, a message to a user's room only reaches sockets of that very user in that very org.
\<close>

theorem room_is_private:
  assumes "gw_reach x e s0 g" "CHR '':'' \<notin> set o1" "i \<in> set (delivered_to g (roomForUser o1 u))"
  shows "\<exists>k. socket_of g i = Some k \<and> sck_userId k = Some u \<and> sck_orgId k = Some o1"
  by (rule delivered_to_session) (rule assms)+

definition hello0 :: "id \<Rightarrow> handshake" where
  "hello0 u = \<lparr>hs_authorization = ctx_authorization (ctx0 u), hs_authToken = None, hs_authOrgId = None,
     hs_queryToken = None, hs_queryOrgId = None\<rparr>"

definition gw0 :: gw where
  "gw0 = \<lparr>gw_st = st0, gw_connectedCount = 0, gw_sockets = [], gw_pending = [], gw_logger = Some (\<lambda>v. v), gw_log = []\<rparr>"

lemma gw0_reach: "gw_reach x0 e0 st0 gw0"
proof -
  have "plain_ids (st_db st0)" by code_simp
  then show ?thesis unfolding gw0_def by (rule gw_init)
qed

definition started0 :: gw where
  "started0 = handleConnection_start 7 (hello0 ''mgr'') gw0"

definition token0 :: "id \<Rightarrow> string" where
  "token0 u = sample_sign 0 ''access'' 900 \<lparr>jwt_sub = u, jwt_email = None, jwt_orgId = Undefined\<rparr>"

lemma started0_reach: "gw_reach x0 e0 st0 started0"
  unfolding started0_def by (rule gw_more [OF gw0_reach gw_connect]) (simp add: gw0_def)

lemma room_is_private_witness:
  "\<exists>g k. gw_reach x0 e0 st0 g \<and> 7 \<in> set (delivered_to g (roomForUser ''org1'' ''mgr'')) \<and>
     socket_of g 7 = Some k \<and> sck_userId k = Some ''mgr'' \<and> sck_orgId k = Some ''org1''"
proof -
  let ?g = "handleConnection_finish x0 e0 7 (hello0 ''mgr'') (token0 ''mgr'') started0"
  have "(7, hello0 ''mgr'', token0 ''mgr'') \<in> set (gw_pending started0)" by code_simp
  then have r: "gw_reach x0 e0 st0 ?g" by (rule gw_more [OF started0_reach gw_authenticated])
  have "7 \<in> set (delivered_to ?g (roomForUser ''org1'' ''mgr''))" "CHR '':'' \<notin> set ''org1''" by code_simp+
  with room_is_private [OF r] r show ?thesis by blast
qed

text \<open>
  C33. A connection attempt registers the socket in the room of the user its token names, greets it with the
  user's unread count and counts it exactly when it authenticates with an org; otherwise the socket ends
  disconnected, without user, org and room, and is not counted.
\<close>

theorem connection_outcome:
  assumes "i \<notin> fst ` set (gw_sockets g)"
  shows "case (case truthy (extractToken h) of None \<Rightarrow> None | Some token \<Rightarrow>
        (case authenticate x e h token (gw_st g) of (Inl err, s) \<Rightarrow> None
         | (Inr a, s) \<Rightarrow> map_option (\<lambda>o1. (aut_sub a, o1)) (truthy (aut_orgId a)))) of
      Some (u, o1) \<Rightarrow> socket_of (handleConnection x e i h g) i = Some \<lparr>sck_connected = True, sck_userId = Some u,
          sck_orgId = Some o1, sck_rooms = [roomForUser o1 u], sck_hello = [repo_countUnread (st_db (gw_st g)) u o1]\<rparr> \<and>
        gw_connectedCount (handleConnection x e i h g) = gw_connectedCount g + 1
    | None \<Rightarrow> socket_of (handleConnection x e i h g) i = Some (dead_socket fresh_socket) \<and>
        gw_connectedCount (handleConnection x e i h g) = gw_connectedCount g"
proof (cases "truthy (extractToken h)")
  case None
  then show ?thesis using handleConnection_rejects [OF assms, of h x e] by simp
next
  case (Some token)
  obtain r s where a: "authenticate x e h token (gw_st g) = (r, s)" by fastforce
  show ?thesis
  proof (cases r)
    case (Inl err)
    then show ?thesis using Some a handleConnection_rejects [OF assms, of h x e] by simp
  next
    case (Inr v)
    show ?thesis
    proof (cases "truthy (aut_orgId v)")
      case None
      then show ?thesis using Some a Inr handleConnection_rejects [OF assms, of h x e] by simp
    next
      case (Some o1)
      then show ?thesis
        using \<open>truthy (extractToken h) = Some token\<close> a Inr handleConnection_accepts [OF assms, of h token x e v s o1] by simp
    qed
  qed
qed

lemma connection_outcome_witness:
  "gw_connectedCount (handleConnection x0 e0 7 (hello0 ''mgr'') gw0) = 1 \<and>
   gw_connectedCount (handleConnection x0 e0 7 (hello0 ''plt'') gw0) = 0"
proof -
  have new: "7 \<notin> fst ` set (gw_sockets gw0)" by (simp add: gw0_def)
  let ?who = "\<lambda>h. case truthy (extractToken h) of None \<Rightarrow> None | Some token \<Rightarrow>
        (case authenticate x0 e0 h token (gw_st gw0) of (Inl err, s) \<Rightarrow> None
         | (Inr a, s) \<Rightarrow> map_option (\<lambda>o1. (aut_sub a, o1)) (truthy (aut_orgId a)))"
  have "?who (hello0 ''mgr'') = Some (''mgr'', ''org1'')" "?who (hello0 ''plt'') = None" by code_simp+
  moreover have "gw_connectedCount gw0 = 0" by (simp add: gw0_def)
  ultimately show ?thesis
    using connection_outcome [OF new, where h = "hello0 ''mgr''" and x = x0 and e = e0]
      connection_outcome [OF new, where h = "hello0 ''plt''" and x = x0 and e = e0] by simp
qed

text \<open>
  C34. A client that disconnects while its token is being verified is still counted afterwards: the gateway
  reaches a state with one counted connection and no connected socket.
\<close>

theorem late_disconnect_leaks:
  "\<exists>g. gw_reach x0 e0 st0 g \<and> gw_connectedCount g = 1 \<and> list_all (\<lambda>(i, k). \<not> sck_connected k) (gw_sockets g)"
proof -
  let ?c = "disconnect 7 started0"
  let ?g = "handleConnection_finish x0 e0 7 (hello0 ''mgr'') (token0 ''mgr'') ?c"
  have k: "socket_of started0 7 = Some fresh_socket" "sck_connected fresh_socket" by code_simp+
  have "gw_reach x0 e0 st0 ?c" by (rule gw_more [OF started0_reach gw_close]) (rule k)+
  moreover have "(7, hello0 ''mgr'', token0 ''mgr'') \<in> set (gw_pending ?c)" by code_simp
  ultimately have "gw_reach x0 e0 st0 ?g" by (rule gw_more [OF _ gw_authenticated])
  moreover have "gw_connectedCount ?g = 1" "list_all (\<lambda>(i, k). \<not> sck_connected k) (gw_sockets ?g)" by code_simp+
  ultimately show ?thesis by blast
qed

end
