(* ===== verification/DataProperties.thy ===== *)
theory DataProperties
  imports NotificationProperties
begin

text \<open>
  Properties of the data around the modules: the windows and percentiles of the request metrics and the
  access tables the seed script leaves.
\<close>

section \<open>Request metrics\<close>

text \<open>
  C36. The sample map of the metrics refines the history of recordings: whatever was recorded, in whatever order
  of routes, the bucket of a route holds exactly the last \<open>REQUEST_METRICS_SAMPLE_SIZE\<close> durations of that
  route, in order.
\<close>

theorem metrics_window:
  assumes "REQUEST_METRICS_ENABLED e" "envSchema_ok (env_data.truncate e)"
  shows "coalesce (map_of (record_all e rs []) k) [] = window (nat (max_samples e)) (of_route k rs)"
proof -
  have "coalesce (map_of (record_all e rs []) k) [] = window (nat (max_samples e)) ([] @ of_route k rs)"
    by (rule record_all_window) (use assms max_samples_pos in \<open>auto simp: window_def\<close>)
  then show ?thesis by simp
qed

definition env0 :: env where
  "env0 = (case load_env e0 of Some e \<Rightarrow> e | None \<Rightarrow> env_data.extend e0 (env.fields False False False False))"

lemma metrics_window_witness:
  "coalesce (map_of (record_all env0 [(''GET /a'', 1), (''GET /a'', 2), (''GET /b'', 9), (''GET /a'', 3)] []) ''GET /a'') [] = [2, 3]"
proof -
  have a: "REQUEST_METRICS_ENABLED env0" and b: "envSchema_ok (env_data.truncate env0)"
    and c: "window (nat (max_samples env0)) (of_route ''GET /a'' [(''GET /a'', 1), (''GET /a'', 2), (''GET /b'', 9), (''GET /a'', 3)]) = [2, 3]"
    by code_simp+
  show ?thesis using metrics_window [OF a b] c by (rule trans)
qed

text \<open>
  C37. A flush logs one line per route recorded since the last one, and for each: how many durations its window
  holds, never none and never more than \<open>REQUEST_METRICS_SAMPLE_SIZE\<close>, and three percentiles of that window,
  in ascending order, each the rounded nearest rank: a duration of the window such that at least the asked share
  of the window is not larger and less than it is smaller. After the flush the samples are gone.
\<close>

theorem metrics_percentiles:
  assumes "REQUEST_METRICS_ENABLED e" "envSchema_ok (env_data.truncate e)" "product_ok mul"
    and "flush mul (record_all e rs []) = (lines, m)"
  shows "m = [] \<and> distinct (map mlg_route lines) \<and> mlg_route ` set lines = fst ` set rs \<and>
    (\<forall>l \<in> set lines. let vs = window (nat (max_samples e)) (of_route (mlg_route l) rs); n = length vs in
       mlg_count l = n \<and> 0 < n \<and> int n \<le> max_samples e \<and> mlg_p50 l \<le> mlg_p95 l \<and> mlg_p95 l \<le> mlg_p99 l \<and>
       (\<exists>v. mlg_p50 l = math_round v \<and> nearest_rank vs (mul n (1 / 2)) v) \<and>
       (\<exists>v. mlg_p95 l = math_round v \<and> nearest_rank vs (mul n (95 / 100)) v) \<and>
       (\<exists>v. mlg_p99 l = math_round v \<and> nearest_rank vs (mul n (99 / 100)) v))"
  by (rule flush_percentiles) (rule assms)+

lemma metrics_percentiles_witness:
  "\<exists>l. fst (flush (\<lambda>n q. of_nat n * q) (record_all env0 [(''GET /a'', 7), (''GET /a'', 4), (''GET /a'', 9)] [])) = [l] \<and>
     mlg_count l = 2 \<and> mlg_p50 l = 4 \<and> mlg_p99 l = 9"
proof -
  let ?mul = "\<lambda>n q :: rat. of_nat n * q" and ?rs = "[(''GET /a'', 7), (''GET /a'', 4), (''GET /a'', 9 :: rat)]"
  have p: "product_ok ?mul"
    by (auto simp: product_ok_def intro: mult_left_mono mult_left_le)
  have a: "REQUEST_METRICS_ENABLED env0" and b: "envSchema_ok (env_data.truncate env0)"
    and w: "window (nat (max_samples env0)) (of_route ''GET /a'' ?rs) = [4, 9]"
    by code_simp+
  obtain ls m where f: "flush ?mul (record_all env0 ?rs []) = (ls, m)" by fastforce
  note c = metrics_percentiles [OF a b p f]
  have "mlg_route ` set ls = {''GET /a''}" "distinct (map mlg_route ls)" using c by simp_all
  then have "length (map mlg_route ls) = 1" by (metis distinct_card card_1_singleton_iff set_map One_nat_def)
  then obtain l where l: "ls = [l]" by (cases ls) auto
  have route: "mlg_route l = ''GET /a''" using \<open>mlg_route ` set ls = {''GET /a''}\<close> l by simp
  have "l \<in> set ls" using l by simp
  note line = bspec [OF c [THEN conjunct2, THEN conjunct2, THEN conjunct2] this, unfolded Let_def route w]
  have n: "mlg_count l = 2" and "\<exists>v. mlg_p50 l = math_round v \<and> nearest_rank [4, 9] 1 v"
    and "\<exists>v. mlg_p99 l = math_round v \<and> nearest_rank [4, 9] (198 / 100) v"
    using line by simp_all
  then obtain v w where "mlg_p50 l = math_round v" "nearest_rank [4, 9] 1 v" "mlg_p99 l = math_round w"
    "nearest_rank [4, 9] (198 / 100) w" by blast
  moreover have "v = 4" if "nearest_rank [4, 9] 1 v" for v using that by (auto simp: nearest_rank_def)
  moreover have "v = 9" if "nearest_rank [4, 9] (198 / 100) v" for v using that by (auto simp: nearest_rank_def)
  ultimately have "mlg_p50 l = math_round 4" "mlg_p99 l = math_round 9" by blast+
  moreover have "math_round 4 = 4" "math_round 9 = 9" by code_simp+
  ultimately have "mlg_p50 l = 4" "mlg_p99 l = 9" by simp_all
  moreover have "fst (flush ?mul (record_all env0 ?rs [])) = [l]" unfolding f l by (rule fst_conv)
  ultimately show ?thesis using n by blast
qed

section \<open>The seed script\<close>









end
