(* ===== verification/Spec2Isabelle.thy ===== *)
theory Spec2Isabelle
  imports DataProperties
begin

text \<open>
  Towerdesk backend (a NestJS service over Prisma and PostgreSQL): a model of its modules, guards, gateway,
  configuration and seed script, with the properties that make them correct.

  \<^bold>\<open>The program.\<close> A request passes the logger and the interceptors, then the guards of its route (token,
  org scope, permissions or building access, or the platform guard), the validation of its body, and a
  controller, which calls a service; services query and write the database through repositories or
  Prisma, some in transactions, and emit events. The listener of the notifications handles the events:
  it resolves recipients, stores notifications and publishes them to the rooms of the WebSocket gateway.

  \<^bold>\<open>The state.\<close> Schema has one record per model of \<open>prisma/schema.prisma\<close> and the database as one record of
  tables (lists of rows in insertion order) with the queries and writes Prisma does on them. State adds
  the queue of emitted events, the messages sent to rooms, and a counter of draws from outside. An operation
  is an action \<open>st \<Rightarrow> (error + 'a) \<times> st\<close> (Prelude): every thrown exception is an \<open>Inl\<close> with its class and
  message, a transaction restores the tables on a throw, unique and foreign keys fail with Prisma's code.
  What the source takes from packages (ids, clock, random bytes, argon2, JSON web tokens, date parsing by the
  engine, what a decimal column stores of a number, e-mail and URL tests) is the record \<open>ext\<close>, an
  argument; \<open>argon2_ok\<close> and \<open>jwt_ok\<close> say what a theorem needs of it.

  \<^bold>\<open>The theories, in import order.\<close>
    \<^item> Prelude, Schema, State, Config, Hoare: JavaScript values and strings, actions and their laws, the tables, the
      environment schema and pagination, invariants and the rules for database actions.
    \<^item> AccessControl, BuildingAccess, Guards, Routing: permissions, roles and overrides, building access, the guards
      and the pipelines of the routes (\<open>modules/access-control\<close>, \<open>common\<close>).
    \<^item> Users, Auth, SessionFacts: users, registration, login, refresh, passwords, tokens.
    \<^item> Requests, RequestFacts: maintenance requests and their life cycle.
    \<^item> Codec, DateTime, Notifications, NotificationFacts, Gateway: base64 and UTF-8, ISO dates, the cursor feed, the
      recipients and the listener, the WebSocket gateway as a step relation.
    \<^item> Buildings, OrgCatalog, Assignments, Units, UnitFacts, Occupancies, Provision, ProvisionFacts, Platform: buildings and
      amenities, owners, unit types and org profile, building assignments, units,
      occupancies and residents, provisioning, platform administration.
    \<^item> Controllers, System, Tenancy, Escalation, Interleaving, RequestRaces: the routes, the operations of the whole
      system as one datatype with its runs, the tenancy and access invariants over runs, the transactions that place
      residents split into interleaved steps with row locks, and the operations that change a request split between
      read and write.
    \<^item> Infra, Seed: metrics, exception filter, interceptors, storage, queue, server settings, what \<open>main.ts\<close> puts
      around every route; the seed script.
    \<^item> Fixtures: a concrete outside and database for the witnesses; RequestProperties, AccessProperties,
      SessionProperties, ResidencyProperties, NotificationProperties, DataProperties and this theory: the properties.

  \<^bold>\<open>Interfaces.\<close> \<open>codec\<close> (base64, base64url, cursors), \<open>permission_source\<close> (effective permissions), \<open>building_policy\<close>
  (building access), \<open>side_tables\<close> with \<open>core_invariant\<close> and \<open>request_invariant\<close> (what operations must keep of an
  invariant), \<open>access_tables\<close> and \<open>property_tables\<close> are locales, each interpreted on the model's definitions.

  \<^bold>\<open>What the lemmas show.\<close> For each operation: what it does when it returns (\<open>..._Inr\<close>), that it keeps the invariants
  (\<open>..._keeps\<close>, \<open>tenant_...\<close>, \<open>links_...\<close>, \<open>sound_...\<close>), and where the code has a transaction, that a failure
  writes nothing (\<open>atomic\<close>). Runs of the system refine the abstract status machine of requests and keep
  the tenants apart, and every open request can be brought to completion; the sample buckets with their
  percentiles, the feed, the recipients of an event, the seeded roles and the permission loop are proved equal to
  declarative specifications; every interleaving of the placing transactions and of the request updates is covered by
  induction on the steps, and where the code needs a lock or a condition it does not have, the interleaving that
  breaks the promise is exhibited.

  \<^bold>\<open>Fuel.\<close> Only \<open>walk_feed\<close>, the client that follows the cursors, takes fuel; one unit more than the feed has
  rows is enough, and that is what its theorem says.

  \<^bold>\<open>Abstractions.\<close> A database query without an order returns rows in insertion order. Numbers of request bodies
  are rationals or integers, so rounding of binary fractions is not modelled; the product in the percentile is an
  argument (\<open>product_ok\<close> says it is monotone). Integer columns are unbounded, so Prisma's error for a number beyond
  32 bits does not occur, and \<open>envSchema_ok\<close> leaves out the URL test of \<open>DATABASE_URL\<close>. Ids are ordered by
  character code where the database uses its collation. Strings are character lists
  over the 8-bit characters of Isabelle, so case conversion and trimming are the ASCII ones. An operation runs without interruption, except the placing transactions
  (Interleaving), the updates of a request (RequestRaces) and the connections of the gateway (Gateway), where the order
  of steps matters; these take the reads of a transaction as one step that sees what is committed (the default
  isolation of PostgreSQL), and \<open>SELECT ... FOR UPDATE\<close> as a lock held to the end of the transaction; the gateway
  greets a socket in the step that registers it; notification handling
  is a step of its own, as the events are emitted after the commit.

  \<^bold>\<open>Not modelled.\<close> The wiring of the NestJS modules and the Swagger decorators have no behaviour of their own; the
  generated Prisma client, argon2, JWT, S3 and Redis clients are outside the repository; the load test
  and WebSocket smoke-test scripts and the tests only exercise the service; the throttler's counting is in its package.
\<close>

section \<open>Properties\<close>

text \<open>
  C1. Whatever a maintenance-request operation does, every stored request keeps a consistent life
  cycle (assignment, completion and cancellation dates agree with the status) and only moves along
  the status machine.
\<close>

theorem request_operations_sound:
  "sound (createResidentRequest x user cdto) \<and> sound (updateResidentRequest x user i udto) \<and>
   sound (cancelResidentRequest x user i) \<and> sound (assignRequest x user b i staff) \<and>
   sound (updateRequestStatus x user b i st) \<and> sound (cancelBuildingRequest x user b i)"
  by (intro conjI sound_request_ops)

end
